(* ===== verification/Portix_Prelude.thy ===== *)
theory Portix_Prelude
  imports Main "HOL-Library.Word" "HOL-Library.Sublist"
begin

text \<open>
  Shared vocabulary of the development: the machine integer types of the Rust code, its
  \<open>Result\<close> type as a sum, computations over an explicit world state, the event loops that
  \<^verbatim>\<open>tokio::select!\<close> runs, and the interfaces (locales) that several components implement:
  a registry keyed by an identifier, and a state machine with an invariant.
\<close>

unbundle bit_operations_syntax

named_theorems portix_simps

section \<open>Machine integers\<close>

type_synonym u8 = "8 word"
type_synonym u16 = "16 word"
type_synonym u32 = "32 word"
type_synonym u64 = "64 word"
type_synonym i16 = "16 word"
type_synonym bytes = "u8 list"

section \<open>Results\<close>

text \<open>\<^verbatim>\<open>Result<T, E>\<close>: \<open>Inl\<close> is \<^verbatim>\<open>Err\<close>, \<open>Inr\<close> is \<^verbatim>\<open>Ok\<close>.\<close>

type_synonym ('e, 'a) result = "'e + 'a"

abbreviation Ok :: "'a \<Rightarrow> ('e, 'a) result" where
  "Ok \<equiv> Inr"

abbreviation Err :: "'e \<Rightarrow> ('e, 'a) result" where
  "Err \<equiv> Inl"

definition is_ok :: "('e, 'a) result \<Rightarrow> bool" where
  "is_ok r = (case r of Err _ \<Rightarrow> False | Ok _ \<Rightarrow> True)"

definition is_err :: "('e, 'a) result \<Rightarrow> bool" where
  "is_err r = (\<not> is_ok r)"

definition ok :: "('e, 'a) result \<Rightarrow> 'a option" where
  "ok r = (case r of Err _ \<Rightarrow> None | Ok x \<Rightarrow> Some x)"

text \<open>The \<^verbatim>\<open>?\<close> operator.\<close>

definition and_then :: "('e, 'a) result \<Rightarrow> ('a \<Rightarrow> ('e, 'b) result) \<Rightarrow> ('e, 'b) result" where
  "and_then r f = (case r of Err e \<Rightarrow> Err e | Ok x \<Rightarrow> f x)"

definition map_err :: "('e \<Rightarrow> 'f) \<Rightarrow> ('e, 'a) result \<Rightarrow> ('f, 'a) result" where
  "map_err f r = (case r of Err e \<Rightarrow> Err (f e) | Ok x \<Rightarrow> Ok x)"

definition ok_or :: "'e \<Rightarrow> 'a option \<Rightarrow> ('e, 'a) result" where
  "ok_or e x = (case x of None \<Rightarrow> Err e | Some y \<Rightarrow> Ok y)"

definition unwrap_or :: "'a \<Rightarrow> 'a option \<Rightarrow> 'a" where
  "unwrap_or d x = (case x of None \<Rightarrow> d | Some y \<Rightarrow> y)"

section \<open>Computations over a world state\<close>

text \<open>
  An \<^verbatim>\<open>async fn\<close> that talks to a library or the operating system maps the state of its
  surroundings to a result and the state it leaves.
\<close>

type_synonym ('w, 'e, 'a) io = "'w \<Rightarrow> ('e, 'a) result \<times> 'w"

definition io_ok :: "'a \<Rightarrow> ('w, 'e, 'a) io" where
  "io_ok x = (\<lambda>w. (Ok x, w))"

definition io_err :: "'e \<Rightarrow> ('w, 'e, 'a) io" where
  "io_err e = (\<lambda>w. (Err e, w))"

definition io_bind :: "('w, 'e, 'a) io \<Rightarrow> ('a \<Rightarrow> ('w, 'e, 'b) io) \<Rightarrow> ('w, 'e, 'b) io" where
  "io_bind m f = (\<lambda>w. case m w of (Err e, w') \<Rightarrow> (Err e, w') | (Ok x, w') \<Rightarrow> f x w')"

definition io_map_err :: "('e \<Rightarrow> 'f) \<Rightarrow> ('w, 'e, 'a) io \<Rightarrow> ('w, 'f, 'a) io" where
  "io_map_err f m = (\<lambda>w. case m w of (r, w') \<Rightarrow> (map_err f r, w'))"

text \<open>\<^verbatim>\<open>.ok()\<close> and \<^verbatim>\<open>let _ =\<close>: the call is made, its failure is dropped.\<close>

definition io_try :: "('w, 'e, 'a) io \<Rightarrow> ('w, 'f, 'a option) io" where
  "io_try m = (\<lambda>w. case m w of (r, w') \<Rightarrow> (Ok (ok r), w'))"

definition io_of :: "('e, 'a) result \<Rightarrow> ('w, 'e, 'a) io" where
  "io_of r = (\<lambda>w. (r, w))"

text \<open>A \<^verbatim>\<open>for\<close> loop whose body may leave with \<^verbatim>\<open>?\<close>.\<close>

fun for_each :: "('a \<Rightarrow> ('w, 'e, unit) io) \<Rightarrow> 'a list \<Rightarrow> ('w, 'e, unit) io" where
  "for_each f [] = io_ok ()"
| "for_each f (x # xs) = io_bind (f x) (\<lambda>_. for_each f xs)"

section \<open>Lemmas\<close>

lemma is_ok_simps [simp]: "is_ok (Ok x)" "\<not> is_ok (Err e)"
  by (simp_all add: is_ok_def)

lemma is_err_simps [simp]: "is_err (Err e)" "\<not> is_err (Ok x)"
  by (simp_all add: is_err_def)

lemma ok_simps [simp]: "ok (Ok x) = Some x" "ok (Err e) = None"
  by (simp_all add: ok_def)

lemma and_then_simps [simp]: "and_then (Ok x) f = f x" "and_then (Err e) f = Err e"
  by (simp_all add: and_then_def)

lemma and_then_eq_Ok: "and_then r f = Ok y \<longleftrightarrow> (\<exists>x. r = Ok x \<and> f x = Ok y)"
  by (cases r) simp_all

lemma map_err_simps [simp]: "map_err f (Ok x) = Ok x" "map_err f (Err e) = Err (f e)"
  by (simp_all add: map_err_def)

lemma map_err_eq_Ok [simp]: "map_err f r = Ok x \<longleftrightarrow> r = Ok x"
  by (cases r) simp_all

lemma is_ok_map_err [simp]: "is_ok (map_err f r) = is_ok r"
  by (cases r) simp_all

lemma ok_or_simps [simp]: "ok_or e (Some x) = Ok x" "ok_or e None = Err e"
  by (simp_all add: ok_or_def)

lemma unwrap_or_simps [simp]: "unwrap_or d (Some x) = x" "unwrap_or d None = d"
  by (simp_all add: unwrap_or_def)

lemma io_ok_apply [simp]: "io_ok x w = (Ok x, w)"
  by (simp add: io_ok_def)

lemma io_err_apply [simp]: "io_err e w = (Err e, w)"
  by (simp add: io_err_def)

lemma io_of_apply [simp]: "io_of r w = (r, w)"
  by (simp add: io_of_def)

lemma io_bind_Ok: "m w = (Ok x, w') \<Longrightarrow> io_bind m f w = f x w'"
  by (simp add: io_bind_def)

lemma io_bind_eqI: "m w = (Ok x, w') \<Longrightarrow> f x w' = y \<Longrightarrow> io_bind m f w = y"
  by (simp add: io_bind_def)

lemma io_bind_Err: "m w = (Err e, w') \<Longrightarrow> io_bind m f w = (Err e, w')"
  by (simp add: io_bind_def)

lemma io_bind_eq_Ok:
  "io_bind m f w = (Ok y, w'') \<longleftrightarrow> (\<exists>x w'. m w = (Ok x, w') \<and> f x w' = (Ok y, w''))"
  by (auto simp: io_bind_def split: prod.splits sum.splits)

lemma io_map_err_eq_Ok [simp]: "io_map_err f m w = (Ok x, w') \<longleftrightarrow> m w = (Ok x, w')"
  by (auto simp: io_map_err_def split: prod.splits)

lemma io_map_err_snd [simp]: "snd (io_map_err f m w) = snd (m w)"
  by (simp add: io_map_err_def split: prod.splits)

lemma io_bind_assoc: "io_bind (io_bind m f) g = io_bind m (\<lambda>x. io_bind (f x) g)"
  by (rule ext) (simp add: io_bind_def split: prod.splits sum.splits)

text \<open>
  A property of the world that every primitive call keeps is kept by a sequence of calls: the
  frame argument used for the recursive file operations.
\<close>

definition keeps :: "('w \<Rightarrow> bool) \<Rightarrow> ('w, 'e, 'a) io \<Rightarrow> bool" where
  "keeps I m \<longleftrightarrow> (\<forall>w. I w \<longrightarrow> I (snd (m w)))"

lemma keepsI: "(\<And>w. I w \<Longrightarrow> I (snd (m w))) \<Longrightarrow> keeps I m"
  by (simp add: keeps_def)

lemma keepsD: "keeps I m \<Longrightarrow> I w \<Longrightarrow> I (snd (m w))"
  by (simp add: keeps_def)

lemma keeps_ok [intro, simp]: "keeps I (io_ok x)"
  by (simp add: keeps_def)

lemma keeps_err [intro, simp]: "keeps I (io_err e)"
  by (simp add: keeps_def)

lemma keeps_of [intro, simp]: "keeps I (io_of r)"
  by (simp add: keeps_def)

lemma keeps_Pair [intro, simp]: "keeps I (Pair r)"
  by (simp add: keeps_def)

lemma keeps_bind [intro]: "keeps I m \<Longrightarrow> (\<And>x. keeps I (f x)) \<Longrightarrow> keeps I (io_bind m f)"
  by (force simp: keeps_def io_bind_def split: prod.splits sum.splits)

lemma keeps_for_each [intro]: "(\<And>x. x \<in> set xs \<Longrightarrow> keeps I (f x)) \<Longrightarrow> keeps I (for_each f xs)"
  by (induction xs) auto

lemma keeps_map_err [simp]: "keeps I (io_map_err f m) = keeps I m"
  by (simp add: keeps_def)

lemma keeps_try [simp]: "keeps I (io_try m) = keeps I m"
  by (simp add: keeps_def io_try_def case_prod_beta)

section \<open>Event loops\<close>

text \<open>
  \<^verbatim>\<open>loop { tokio::select! { ... } }\<close>: the environment decides which branch is ready, so a run
  is driven by the list of events in the order the loop takes them. A step either goes on with
  a new state or leaves the loop (\<^verbatim>\<open>break\<close>, \<^verbatim>\<open>return\<close>, \<^verbatim>\<open>?\<close>); events after that are not taken.
\<close>

datatype ('s, 'r) flow = Continue 's | Stop 's 'r

fun run_loop :: "('s \<Rightarrow> 'e \<Rightarrow> ('s, 'r) flow) \<Rightarrow> 's \<Rightarrow> 'e list \<Rightarrow> ('s, 'r) flow" where
  "run_loop step s [] = Continue s"
| "run_loop step s (e # es) =
     (case step s e of Continue s' \<Rightarrow> run_loop step s' es | Stop s' r \<Rightarrow> Stop s' r)"

fun flow_state :: "('s, 'r) flow \<Rightarrow> 's" where
  "flow_state (Continue s) = s"
| "flow_state (Stop s r) = s"

lemma run_loop_append:
  "run_loop step s (es @ fs) =
     (case run_loop step s es of Continue s' \<Rightarrow> run_loop step s' fs | Stop s' r \<Rightarrow> Stop s' r)"
  by (induction es arbitrary: s) (auto split: flow.splits)

lemma run_loop_stop_prefix: "run_loop step s es = Stop s' r \<Longrightarrow> run_loop step s (es @ fs) = Stop s' r"
  by (simp add: run_loop_append)

text \<open>The events a run takes: all of them, or those up to and including the one that stops it.\<close>

fun taken :: "('s \<Rightarrow> 'e \<Rightarrow> ('s, 'r) flow) \<Rightarrow> 's \<Rightarrow> 'e list \<Rightarrow> 'e list" where
  "taken step s [] = []"
| "taken step s (e # es) = e # (case step s e of Continue s' \<Rightarrow> taken step s' es | Stop s' r \<Rightarrow> [])"

lemma prefix_taken: "prefix (taken step s es) es"
  by (induction es arbitrary: s) (auto split: flow.splits)

lemma taken_all: "run_loop step s es = Continue s' \<Longrightarrow> taken step s es = es"
  by (induction es arbitrary: s) (auto split: flow.splits)

section \<open>Interfaces\<close>

text \<open>
  A loop with an invariant on its state. The client lemma lifts one step to a whole run.
\<close>

locale loop_invariant =
  fixes step :: "'s \<Rightarrow> 'e \<Rightarrow> ('s, 'r) flow"
    and inv :: "'s \<Rightarrow> bool"
  assumes step_inv: "inv s \<Longrightarrow> inv (flow_state (step s e))"
begin

lemma run_inv: "inv s \<Longrightarrow> inv (flow_state (run_loop step s es))"
proof (induction es arbitrary: s)
  case Nil
  then show ?case by simp
next
  case (Cons e es)
  from Cons.prems have "inv (flow_state (step s e))" by (rule step_inv)
  then show ?case by (cases "step s e") (auto dest: Cons.IH)
qed

end

text \<open>
  A machine of labelled steps with an invariant: the invariant holds in every state a run
  reaches from a state that satisfies it.
\<close>

inductive steps :: "('s \<Rightarrow> 'l \<Rightarrow> 's \<Rightarrow> bool) \<Rightarrow> 's \<Rightarrow> 'l list \<Rightarrow> 's \<Rightarrow> bool"
  for R :: "'s \<Rightarrow> 'l \<Rightarrow> 's \<Rightarrow> bool" where
  steps_Nil: "steps R s [] s"
| steps_Cons: "R s l t \<Longrightarrow> steps R t ls u \<Longrightarrow> steps R s (l # ls) u"

inductive_simps steps_Nil_iff [simp]: "steps R s [] t"
inductive_simps steps_Cons_iff [simp]: "steps R s (l # ls) t"

lemma steps_append:
  "steps R s (ls @ ms) u \<longleftrightarrow> (\<exists>t. steps R s ls t \<and> steps R t ms u)"
  by (induction ls arbitrary: s) auto

locale machine_invariant =
  fixes R :: "'s \<Rightarrow> 'l \<Rightarrow> 's \<Rightarrow> bool"
    and inv :: "'s \<Rightarrow> bool"
  assumes machine_step: "R s l t \<Longrightarrow> inv s \<Longrightarrow> inv t"
begin

lemma steps_inv: "steps R s ls t \<Longrightarrow> inv s \<Longrightarrow> inv t"
  by (induction rule: steps.induct) (auto intro: machine_step)

end

text \<open>
  A registry keyed by an identifier: what the global \<^verbatim>\<open>HashMap\<close>s behind a lock promise their
  users. The client lemmas follow from the four laws alone.
\<close>

datatype ('k, 'v) reg_op = Put 'k 'v | Del 'k

fun op_key :: "('k, 'v) reg_op \<Rightarrow> 'k" where
  "op_key (Put k v) = k"
| "op_key (Del k) = k"

fun apply_op :: "('k \<Rightarrow> 'v \<Rightarrow> 's \<Rightarrow> 's) \<Rightarrow> ('k \<Rightarrow> 's \<Rightarrow> 's) \<Rightarrow> ('k, 'v) reg_op \<Rightarrow> 's \<Rightarrow> 's" where
  "apply_op put del (Put k v) s = put k v s"
| "apply_op put del (Del k) s = del k s"

locale registry =
  fixes get :: "'s \<Rightarrow> 'k \<Rightarrow> 'v option"
    and put :: "'k \<Rightarrow> 'v \<Rightarrow> 's \<Rightarrow> 's"
    and del :: "'k \<Rightarrow> 's \<Rightarrow> 's"
  assumes get_put: "get (put k v s) k' = (if k' = k then Some v else get s k')"
    and get_del: "get (del k s) k' = (if k' = k then None else get s k')"
begin

lemma get_other: "op_key x \<noteq> k \<Longrightarrow> get (apply_op put del x s) k = get s k"
  by (cases x) (auto simp: get_put get_del)

lemma get_run_other:
  "(\<And>x. x \<in> set xs \<Longrightarrow> op_key x \<noteq> k) \<Longrightarrow> get (fold (apply_op put del) xs s) k = get s k"
  by (induction xs arbitrary: s) (auto simp: get_other)

lemma last_put_wins:
  assumes "\<And>x. x \<in> set ys \<Longrightarrow> op_key x \<noteq> k"
  shows "get (fold (apply_op put del) (xs @ Put k v # ys) s) k = Some v"
  using get_run_other [of ys k, OF assms] by (simp add: get_put)

lemma last_del_wins:
  assumes "\<And>x. x \<in> set ys \<Longrightarrow> op_key x \<noteq> k"
  shows "get (fold (apply_op put del) (xs @ Del k # ys) s) k = None"
  using get_run_other [of ys k, OF assms] by (simp add: get_del)

lemma get_del_put: "get (del k (put k v s)) k' = (if k' = k then None else get s k')"
  by (simp add: get_put get_del)

end

end
