(* ===== verification/Rust_Str.thy ===== *)
theory Rust_Str
  imports Portix_Prelude "HOL-Library.Char_ord" "HOL-Library.List_Lexorder"
begin

text \<open>
  The parts of Rust's standard library that the code uses on text and integers. A Rust
  \<^verbatim>\<open>str\<close> is its UTF-8 byte sequence, a list of \<open>char\<close> (one byte each), so \<open>length\<close> is
  \<^verbatim>\<open>str::len\<close> and the order on strings is the byte order \<^verbatim>\<open>str::cmp\<close> uses. Searching for ASCII
  needles is exact on the bytes because no ASCII byte occurs inside a multi-byte character.
  Case mapping beyond ASCII is Unicode's table: it is the parameter \<open>uni\<close> of
  \<open>to_lowercase\<close>, used only for strings with a byte above 127.
\<close>

section \<open>Trimming\<close>

definition ascii_ws :: "char \<Rightarrow> bool" where
  "ascii_ws c \<longleftrightarrow> c \<in> {CHR 0x09, CHR 0x0A, CHR 0x0B, CHR 0x0C, CHR 0x0D, CHR 0x20}"

text \<open>The other characters with Unicode's \<open>White_Space\<close> property, two or three bytes long.\<close>

definition ws2 :: "char \<Rightarrow> char \<Rightarrow> bool" where
  "ws2 a b \<longleftrightarrow> a = CHR 0xC2 \<and> b \<in> {CHR 0x85, CHR 0xA0}"

definition ws3 :: "char \<Rightarrow> char \<Rightarrow> char \<Rightarrow> bool" where
  "ws3 a b c \<longleftrightarrow>
     a = CHR 0xE1 \<and> b = CHR 0x9A \<and> c = CHR 0x80
   \<or> a = CHR 0xE2 \<and> b = CHR 0x80 \<and>
       c \<in> {CHR 0x80, CHR 0x81, CHR 0x82, CHR 0x83, CHR 0x84, CHR 0x85, CHR 0x86, CHR 0x87,
            CHR 0x88, CHR 0x89, CHR 0x8A, CHR 0xA8, CHR 0xA9, CHR 0xAF}
   \<or> a = CHR 0xE2 \<and> b = CHR 0x81 \<and> c = CHR 0x9F
   \<or> a = CHR 0xE3 \<and> b = CHR 0x80 \<and> c = CHR 0x80"

fun trim_start :: "string \<Rightarrow> string" where
  "trim_start [] = []"
| "trim_start (a # s) =
     (if ascii_ws a then trim_start s
      else case s of
        b # c # t \<Rightarrow> if ws2 a b then trim_start (c # t)
                      else if ws3 a b c then trim_start t else a # s
      | [b] \<Rightarrow> if ws2 a b then [] else a # s
      | [] \<Rightarrow> a # s)"

text \<open>The same from the end: the argument is the reversed string.\<close>

fun trim_back :: "string \<Rightarrow> string" where
  "trim_back [] = []"
| "trim_back (a # s) =
     (if ascii_ws a then trim_back s
      else case s of
        b # c # t \<Rightarrow> if ws2 b a then trim_back (c # t)
                      else if ws3 c b a then trim_back t else a # s
      | [b] \<Rightarrow> if ws2 b a then [] else a # s
      | [] \<Rightarrow> a # s)"

definition trim_end :: "string \<Rightarrow> string" where
  "trim_end s = rev (trim_back (rev s))"

definition trim :: "string \<Rightarrow> string" where
  "trim s = trim_end (trim_start s)"

definition trim_end_matches :: "char \<Rightarrow> string \<Rightarrow> string" where
  "trim_end_matches c s = rev (dropWhile (\<lambda>d. d = c) (rev s))"

section \<open>Lines, searching, splitting\<close>

definition LF :: char where "LF = CHR 0x0A"
definition CR :: char where "CR = CHR 0x0D"

text \<open>
  \<^verbatim>\<open>str::lines\<close>: split after every line feed, drop it and a carriage return just before it; no
  empty last line. The first argument is the current line, reversed.
\<close>

definition drop_cr :: "string \<Rightarrow> string" where
  "drop_cr acc = (case acc of [] \<Rightarrow> [] | c # r \<Rightarrow> if c = CR then r else acc)"

fun lines_from :: "string \<Rightarrow> string \<Rightarrow> string list" where
  "lines_from acc [] = (if acc = [] then [] else [rev acc])"
| "lines_from acc (c # cs) =
     (if c = LF then rev (drop_cr acc) # lines_from [] cs else lines_from (c # acc) cs)"

definition lines :: "string \<Rightarrow> string list" where
  "lines s = lines_from [] s"

fun strip_prefix :: "string \<Rightarrow> string \<Rightarrow> string option" where
  "strip_prefix [] s = Some s"
| "strip_prefix (p # ps) [] = None"
| "strip_prefix (p # ps) (c # cs) = (if p = c then strip_prefix ps cs else None)"

definition starts_with :: "string \<Rightarrow> string \<Rightarrow> bool" where
  "starts_with p s = (strip_prefix p s \<noteq> None)"

fun contains :: "string \<Rightarrow> string \<Rightarrow> bool" where
  "contains n [] = (n = [])"
| "contains n (c # cs) = (starts_with n (c # cs) \<or> contains n cs)"

definition find_char :: "char \<Rightarrow> string \<Rightarrow> nat option" where
  "find_char c s = (if c \<in> set s then Some (length (takeWhile (\<lambda>d. d \<noteq> c) s)) else None)"

text \<open>\<^verbatim>\<open>splitn(2, c)\<close>: one piece, or what is before and after the first \<open>c\<close>.\<close>

definition splitn2 :: "char \<Rightarrow> string \<Rightarrow> string list" where
  "splitn2 c s =
     (if c \<in> set s then [takeWhile (\<lambda>d. d \<noteq> c) s, tl (dropWhile (\<lambda>d. d \<noteq> c) s)] else [s])"

definition find_map :: "('a \<Rightarrow> 'b option) \<Rightarrow> 'a list \<Rightarrow> 'b option" where
  "find_map f xs = (case List.find (\<lambda>x. f x \<noteq> None) xs of None \<Rightarrow> None | Some x \<Rightarrow> f x)"

section \<open>Case mapping\<close>

definition is_ascii :: "string \<Rightarrow> bool" where
  "is_ascii s = (\<forall>c \<in> set s. of_char c < (128 :: nat))"

definition ascii_lower :: "char \<Rightarrow> char" where
  "ascii_lower c =
     (if (65 :: nat) \<le> of_char c \<and> (of_char c :: nat) \<le> 90 then char_of (of_char c + 32 :: nat) else c)"

definition to_lowercase :: "(string \<Rightarrow> string) \<Rightarrow> string \<Rightarrow> string" where
  "to_lowercase uni s = (if is_ascii s then map ascii_lower s else uni s)"

section \<open>Integers in text\<close>

definition digit_char :: "nat \<Rightarrow> char" where
  "digit_char d = char_of (if d < 10 then 48 + d else 87 + d)"

fun dec :: "nat \<Rightarrow> string" where
  "dec n = (if n < 10 then [digit_char n] else dec (n div 10) @ [digit_char (n mod 10)])"

fun hex :: "nat \<Rightarrow> string" where
  "hex n = (if n < 16 then [digit_char n] else hex (n div 16) @ [digit_char (n mod 16)])"

declare dec.simps [simp del] hex.simps [simp del]

fun digits_from :: "nat \<Rightarrow> string \<Rightarrow> nat option" where
  "digits_from acc [] = Some acc"
| "digits_from acc (c # cs) =
     (if (48 :: nat) \<le> of_char c \<and> (of_char c :: nat) \<le> 57
      then digits_from (10 * acc + (of_char c - 48)) cs else None)"

text \<open>
  \<^verbatim>\<open>str::parse\<close> for an unsigned type with largest value \<open>m\<close> and for a signed type of \<open>b\<close> bits.
\<close>

definition parse_unsigned :: "nat \<Rightarrow> string \<Rightarrow> nat option" where
  "parse_unsigned m s =
     (if s = [] \<or> s = ''+'' \<or> s = ''-'' then None
      else case digits_from 0 (if hd s = CHR ''+'' then tl s else s) of
        None \<Rightarrow> None
      | Some n \<Rightarrow> if n \<le> m then Some n else None)"

definition parse_signed :: "nat \<Rightarrow> string \<Rightarrow> int option" where
  "parse_signed b s =
     (if s = [] \<or> s = ''+'' \<or> s = ''-'' then None
      else if hd s = CHR ''-'' then
        (case digits_from 0 (tl s) of None \<Rightarrow> None
         | Some n \<Rightarrow> if n \<le> 2 ^ (b - 1) then Some (- int n) else None)
      else case digits_from 0 (if hd s = CHR ''+'' then tl s else s) of
        None \<Rightarrow> None
      | Some n \<Rightarrow> if n < 2 ^ (b - 1) then Some (int n) else None)"

definition parse_u16 :: "string \<Rightarrow> u16 option" where
  "parse_u16 s = map_option of_nat (parse_unsigned 65535 s)"

definition parse_u64 :: "string \<Rightarrow> u64 option" where
  "parse_u64 s = map_option of_nat (parse_unsigned 18446744073709551615 s)"

definition parse_i32 :: "string \<Rightarrow> int option" where
  "parse_i32 s = parse_signed 32 s"

definition show_word :: "'a::len word \<Rightarrow> string" where
  "show_word w = dec (unat w)"

section \<open>UTF-8\<close>

definition byte_char :: "u8 \<Rightarrow> char" where
  "byte_char b = char_of (unat b)"

definition char_byte :: "char \<Rightarrow> u8" where
  "char_byte c = of_nat (of_char c)"

definition str_bytes :: "string \<Rightarrow> bytes" where
  "str_bytes s = map char_byte s"

definition within :: "u8 \<Rightarrow> u8 \<Rightarrow> u8 \<Rightarrow> bool" where
  "within lo hi b \<longleftrightarrow> lo \<le> b \<and> b \<le> hi"

definition nth_in :: "(u8 \<Rightarrow> bool) \<Rightarrow> bytes \<Rightarrow> nat \<Rightarrow> bool" where
  "nth_in P bs i \<longleftrightarrow> i < length bs \<and> P (bs ! i)"

text \<open>
  What a non-empty byte sequence starts with: \<open>Inr n\<close>, a character of \<open>n\<close> bytes; \<open>Inl n\<close>, an
  ill-formed piece of \<open>n\<close> bytes (the unit \<^verbatim>\<open>from_utf8_lossy\<close> replaces).
\<close>

definition utf8_second :: "u8 \<Rightarrow> u8 \<Rightarrow> bool" where
  "utf8_second b =
     (if b = 0xE0 then within 0xA0 0xBF else if b = 0xED then within 0x80 0x9F
      else if b = 0xF0 then within 0x90 0xBF else if b = 0xF4 then within 0x80 0x8F
      else within 0x80 0xBF)"

definition utf8_head :: "bytes \<Rightarrow> nat + nat" where
  "utf8_head bs =
     (let b = hd bs; cont = nth_in (within 0x80 0xBF) bs in
      if b < 0x80 then Inr 1
      else if within 0xC2 0xDF b then (if cont 1 then Inr 2 else Inl 1)
      else if within 0xE0 0xEF b then
        (if \<not> nth_in (utf8_second b) bs 1 then Inl 1 else if cont 2 then Inr 3 else Inl 2)
      else if within 0xF0 0xF4 b then
        (if \<not> nth_in (utf8_second b) bs 1 then Inl 1 else if \<not> cont 2 then Inl 2
         else if cont 3 then Inr 4 else Inl 3)
      else Inl 1)"

lemma utf8_head_pos: "utf8_head bs = Inr n \<Longrightarrow> 0 < n" "utf8_head bs = Inl n \<Longrightarrow> 0 < n"
  by (auto simp: utf8_head_def Let_def split: if_splits)

function utf8_valid :: "bytes \<Rightarrow> bool" where
  "utf8_valid bs =
     (if bs = [] then True
      else case utf8_head bs of Inr n \<Rightarrow> utf8_valid (drop n bs) | Inl n \<Rightarrow> False)"
  by pat_completeness auto
termination
  by (relation "measure length") (auto dest: utf8_head_pos)

function utf8_lossy :: "bytes \<Rightarrow> bytes" where
  "utf8_lossy bs =
     (if bs = [] then []
      else case utf8_head bs of
        Inr n \<Rightarrow> take n bs @ utf8_lossy (drop n bs)
      | Inl n \<Rightarrow> [0xEF, 0xBF, 0xBD] @ utf8_lossy (drop n bs))"
  by pat_completeness auto
termination
  by (relation "measure length") (auto dest: utf8_head_pos)

declare utf8_valid.simps [simp del] utf8_lossy.simps [simp del]

definition from_utf8 :: "bytes \<Rightarrow> string option" where
  "from_utf8 bs = (if utf8_valid bs then Some (map byte_char bs) else None)"

definition from_utf8_lossy :: "bytes \<Rightarrow> string" where
  "from_utf8_lossy bs = map byte_char (utf8_lossy bs)"

text \<open>\<^verbatim>\<open>str::encode_utf16\<close>: the characters of a (well-formed) string, then their UTF-16 units.\<close>

fun code_point :: "bytes \<Rightarrow> nat" where
  "code_point [a] = unat a"
| "code_point [a, b] = (unat a - 0xC0) * 64 + (unat b - 0x80)"
| "code_point [a, b, c] = (unat a - 0xE0) * 4096 + (unat b - 0x80) * 64 + (unat c - 0x80)"
| "code_point (a # b # c # d # _) =
     (unat a - 0xF0) * 262144 + (unat b - 0x80) * 4096 + (unat c - 0x80) * 64 + (unat d - 0x80)"
| "code_point [] = 0"

function code_points :: "bytes \<Rightarrow> nat list" where
  "code_points bs =
     (if bs = [] then []
      else case utf8_head bs of
        Inr n \<Rightarrow> code_point (take n bs) # code_points (drop n bs)
      | Inl n \<Rightarrow> code_points (drop n bs))"
  by pat_completeness auto
termination
  by (relation "measure length") (auto dest: utf8_head_pos)

declare code_points.simps [simp del]

definition utf16_units :: "nat \<Rightarrow> u16 list" where
  "utf16_units c =
     (if c < 0x10000 then [of_nat c]
      else [of_nat (0xD800 + (c - 0x10000) div 0x400), of_nat (0xDC00 + (c - 0x10000) mod 0x400)])"

definition encode_utf16 :: "string \<Rightarrow> u16 list" where
  "encode_utf16 s = concat (map utf16_units (code_points (str_bytes s)))"

section \<open>Paths\<close>

text \<open>\<^verbatim>\<open>PathBuf::join\<close> on a Unix system: an absolute second path replaces the first.\<close>

definition path_join :: "string \<Rightarrow> string \<Rightarrow> string" where
  "path_join a b =
     (if b \<noteq> [] \<and> hd b = CHR ''/'' then b
      else if a = [] \<or> last a = CHR ''/'' then a @ b
      else a @ ''/'' @ b)"

section \<open>Lemmas on text\<close>

lemma strip_prefix_Some: "strip_prefix p s = Some r \<longleftrightarrow> s = p @ r"
  by (induction p s rule: strip_prefix.induct) auto

lemma strip_prefix_append [simp]: "strip_prefix p (p @ r) = Some r"
  by (simp add: strip_prefix_Some)

lemma starts_with_prefix: "starts_with p s \<longleftrightarrow> prefix p s"
  by (auto simp: starts_with_def strip_prefix_Some prefix_def)

lemma contains_sublist: "contains n s \<longleftrightarrow> sublist n s"
  by (induction s) (auto simp: starts_with_prefix sublist_Cons_right)

lemma find_char_None: "find_char c s = None \<longleftrightarrow> c \<notin> set s"
  by (simp add: find_char_def)

lemma find_char_append:
  "c \<notin> set k \<Longrightarrow> find_char c (k @ c # r) = Some (length k)"
  by (auto simp: find_char_def takeWhile_append)

lemma splitn2_absent: "c \<notin> set s \<Longrightarrow> splitn2 c s = [s]"
  by (simp add: splitn2_def)

lemma splitn2_append: "c \<notin> set k \<Longrightarrow> splitn2 c (k @ c # r) = [k, r]"
  by (auto simp: splitn2_def takeWhile_append dropWhile_append)

text \<open>Trimming a string that neither starts nor ends with white space changes nothing.\<close>

definition trimmed :: "string \<Rightarrow> bool" where
  "trimmed s \<longleftrightarrow> trim_start s = s \<and> trim_back (rev s) = rev s"

lemma trim_trimmed [simp]: "trimmed s \<Longrightarrow> trim s = s"
  by (simp add: trimmed_def trim_def trim_end_def)

lemma trim_Nil [simp]: "trim [] = []"
  by (simp add: trim_def trim_end_def)

lemma suffix_trim_start: "suffix (trim_start s) s"
proof (induction s rule: trim_start.induct)
  case 1
  then show ?case by simp
next
  case (2 a s)
  then show ?case by (auto simp: suffix_Cons split: list.splits)
qed

lemma suffix_trim_back: "suffix (trim_back s) s"
proof (induction s rule: trim_back.induct)
  case 1
  then show ?case by simp
next
  case (2 a s)
  then show ?case by (auto simp: suffix_Cons split: list.splits)
qed

lemma set_trim_subset: "set (trim s) \<subseteq> set s"
  using suffix_trim_start [of s] suffix_trim_back [of "rev (trim_start s)"]
  by (fastforce simp: trim_def trim_end_def dest: set_mono_suffix)

lemma trim_start_idem: "trim_start (trim_start s) = trim_start s"
  by (induction s rule: trim_start.induct) (auto split: list.splits)

lemma trim_back_idem: "trim_back (trim_back s) = trim_back s"
  by (induction s rule: trim_back.induct) (auto split: list.splits)

lemma trim_end_matches_suffix: "\<exists>z. s = trim_end_matches c s @ replicate z c"
proof -
  have "rev s = takeWhile (\<lambda>d. d = c) (rev s) @ dropWhile (\<lambda>d. d = c) (rev s)" by simp
  then have "s = trim_end_matches c s @ rev (takeWhile (\<lambda>d. d = c) (rev s))"
    by (metis rev_append rev_rev_ident trim_end_matches_def)
  moreover have "takeWhile (\<lambda>d. d = c) (rev s) = replicate (length (takeWhile (\<lambda>d. d = c) (rev s))) c"
    by (rule replicate_eqI [symmetric, THEN sym]) (auto dest: set_takeWhileD)
  ultimately show ?thesis by (metis rev_replicate)
qed

lemma trim_end_matches_id: "s = [] \<or> last s \<noteq> c \<Longrightarrow> trim_end_matches c s = s"
  by (cases s rule: rev_cases) (auto simp: trim_end_matches_def)

lemma trim_end_matches_snoc [simp]: "trim_end_matches c (s @ [c]) = trim_end_matches c s"
  by (simp add: trim_end_matches_def)

text \<open>Splitting a text into lines gives back the lines it was printed from.\<close>

definition unlines :: "string list \<Rightarrow> string" where
  "unlines ls = concat (map (\<lambda>l. l @ [LF]) ls)"

lemma lines_from_no_LF:
  "LF \<notin> set l \<Longrightarrow> lines_from acc (l @ LF # rest) = rev (drop_cr (rev l @ acc)) # lines_from [] rest"
  by (induction l arbitrary: acc) auto

lemma lines_unlines:
  "(\<And>l. l \<in> set ls \<Longrightarrow> LF \<notin> set l \<and> (l = [] \<or> last l \<noteq> CR)) \<Longrightarrow> lines (unlines ls) = ls"
proof (induction ls)
  case Nil
  then show ?case by (simp add: lines_def unlines_def)
next
  case (Cons l ls)
  have l: "LF \<notin> set l" "l = [] \<or> last l \<noteq> CR" using Cons.prems [of l] by auto
  have cr: "drop_cr (rev l) = rev l"
    using l(2) by (cases l rule: rev_cases) (auto simp: drop_cr_def)
  have "lines (unlines (l # ls)) = rev (drop_cr (rev l)) # lines (unlines ls)"
    using lines_from_no_LF [OF l(1), of "[]"] by (simp add: lines_def unlines_def)
  with cr Cons show ?case by simp
qed

lemma find_map_Cons: "find_map f (x # xs) = (case f x of None \<Rightarrow> find_map f xs | Some y \<Rightarrow> Some y)"
  by (auto simp: find_map_def split: option.splits)

lemma find_map_Nil [simp]: "find_map f [] = None"
  by (simp add: find_map_def)

lemma find_map_None: "find_map f xs = None \<longleftrightarrow> (\<forall>x \<in> set xs. f x = None)"
  by (induction xs) (auto simp: find_map_Cons split: option.splits)

section \<open>Lemmas on numbers\<close>

lemma of_char_digit: "d < 10 \<Longrightarrow> of_char (digit_char d) = 48 + d"
  by (simp add: digit_char_def)

lemma digits_from_append:
  "digits_from a (xs @ ys) = (case digits_from a xs of None \<Rightarrow> None | Some b \<Rightarrow> digits_from b ys)"
  by (induction xs arbitrary: a) auto

lemma dec_not_Nil [simp]: "dec n \<noteq> []"
  by (subst dec.simps) simp

lemma digits_from_dec: "digits_from 0 (dec n) = Some n"
proof (induction n rule: dec.induct)
  case (1 n)
  show ?case
  proof (cases "n < 10")
    case True
    then show ?thesis by (subst dec.simps) (simp add: of_char_digit)
  next
    case False
    then have "digits_from 0 (dec (n div 10)) = Some (n div 10)" by (rule "1.IH")
    with False show ?thesis
      by (subst dec.simps) (simp add: digits_from_append of_char_digit)
  qed
qed

lemma dec_digits: "c \<in> set (dec n) \<Longrightarrow> 48 \<le> (of_char c :: nat) \<and> (of_char c :: nat) \<le> 57"
proof (induction n rule: dec.induct)
  case (1 n)
  from "1.prems" have "c \<in> set (if n < 10 then [digit_char n] else dec (n div 10) @ [digit_char (n mod 10)])"
    by (simp only: dec.simps [of n])
  then show ?case
    by (auto simp: of_char_digit split: if_splits dest: "1.IH")
qed

lemma dec_inject [simp]: "dec m = dec n \<longleftrightarrow> m = n"
  by (metis digits_from_dec option.inject)

lemma parse_unsigned_dec [simp]: "n \<le> m \<Longrightarrow> parse_unsigned m (dec n) = Some n"
proof -
  assume n: "n \<le> m"
  have hd_dec: "hd (dec n) \<in> set (dec n)" by simp
  from dec_digits [OF this] have "hd (dec n) \<noteq> CHR ''+''" "hd (dec n) \<noteq> CHR ''-''" by auto
  then have "dec n \<noteq> ''+''" "dec n \<noteq> ''-''" by auto
  with n \<open>hd (dec n) \<noteq> CHR ''+''\<close> show ?thesis
    by (simp add: parse_unsigned_def digits_from_dec)
qed

lemma parse_unsigned_le: "parse_unsigned m s = Some n \<Longrightarrow> n \<le> m"
  by (auto simp: parse_unsigned_def split: if_splits option.splits)

lemma parse_u16_show [simp]: "parse_u16 (show_word w) = Some w"
proof -
  have "unat w \<le> 65535" using unsigned_less [of w, where ?'a = nat] by simp
  then show ?thesis by (simp add: parse_u16_def show_word_def)
qed

lemma parse_u64_show [simp]: "parse_u64 (show_word w) = Some w"
proof -
  have "unat w \<le> 18446744073709551615" using unsigned_less [of w, where ?'a = nat] by simp
  then show ?thesis by (simp add: parse_u64_def show_word_def)
qed

lemma show_word_inject [simp]: "show_word v = show_word w \<longleftrightarrow> v = w"
  by (simp add: show_word_def word_unat_eq_iff)

section \<open>Lemmas on UTF-8\<close>

lemma char_byte_inverse [simp]: "char_byte (byte_char b) = b"
proof -
  have "unat b < 256" using unsigned_less [of b, where ?'a = nat] by simp
  then show ?thesis by (simp add: char_byte_def byte_char_def)
qed

lemma byte_char_inverse [simp]: "byte_char (char_byte c) = c"
proof -
  have "(of_char c :: nat) < 256" by simp
  then have "unat (of_nat (of_char c) :: u8) = of_char c" by (simp add: unsigned_of_nat take_bit_nat_eq_self)
  then show ?thesis by (simp add: char_byte_def byte_char_def)
qed

lemma utf8_lossy_valid_id: "utf8_valid bs \<Longrightarrow> utf8_lossy bs = bs"
proof (induction bs rule: utf8_valid.induct)
  case (1 bs)
  then show ?case
    by (subst utf8_lossy.simps) (auto simp: utf8_valid.simps [of bs] split: sum.splits if_splits)
qed

lemma utf8_head_ascii: "bs \<noteq> [] \<Longrightarrow> hd bs < 0x80 \<Longrightarrow> utf8_head bs = Inr 1"
  by (simp add: utf8_head_def)

lemma utf8_valid_ascii: "(\<And>b. b \<in> set bs \<Longrightarrow> b < 0x80) \<Longrightarrow> utf8_valid bs"
proof (induction bs)
  case Nil
  then show ?case by (simp add: utf8_valid.simps)
next
  case (Cons b bs)
  then show ?case by (simp add: utf8_valid.simps [of "b # bs"] utf8_head_ascii)
qed

end
