(* ===== verification/Ssh_Domain.thy ===== *)
theory Ssh_Domain
  imports Rust_Str
begin

text \<open>
  \<^verbatim>\<open>portix_serv/src/domain\<close>: the errors of the SSH backend and the messages the user sees, the
  connection profile with its validation, session and event data, and the SFTP data types.
\<close>

section \<open>errors.rs\<close>

text \<open>
  The errors of \<^verbatim>\<open>russh\<close>, \<^verbatim>\<open>std::io\<close> and \<^verbatim>\<open>anyhow\<close> are only ever printed, so each is carried as
  the text it prints.
\<close>

datatype portix_error =
    InvalidProfile string
  | InvalidRequest string
  | SessionNotFound string
  | AuthenticationFailed
  | Sftp string
  | TransferCancelled
  | SshAgent string
  | KeyPassphraseRequired string
  | KeyPassphraseIncorrect string
  | ConnectionTimeout
  | AuthenticationTimeout
  | CommandTimeout
  | HostKeyChanged string u16 nat string
  | HostKeyUnknown string u16 string
  | KeyboardInteractiveRequired string u16
  | KnownHosts string
  | Russh string
  | Io string
  | Anyhow string

definition host_port :: "string \<Rightarrow> u16 \<Rightarrow> string" where
  "host_port h p = h @ '':'' @ show_word p"

fun portix_error_to_string :: "portix_error \<Rightarrow> string" where
  "portix_error_to_string (InvalidProfile s) = ''invalid profile: '' @ s"
| "portix_error_to_string (InvalidRequest s) = ''invalid request: '' @ s"
| "portix_error_to_string (SessionNotFound s) = ''session not found: '' @ s"
| "portix_error_to_string AuthenticationFailed = ''authentication failed''"
| "portix_error_to_string (Sftp s) = ''SFTP: '' @ s"
| "portix_error_to_string TransferCancelled = ''transfer cancelled''"
| "portix_error_to_string (SshAgent s) = ''SSH agent: '' @ s"
| "portix_error_to_string (KeyPassphraseRequired s) =
     ''SSH key '' @ s @ '' is encrypted; a passphrase is required''"
| "portix_error_to_string (KeyPassphraseIncorrect s) = ''wrong passphrase for SSH key '' @ s"
| "portix_error_to_string ConnectionTimeout = ''connection timed out''"
| "portix_error_to_string AuthenticationTimeout = ''authentication timed out''"
| "portix_error_to_string CommandTimeout = ''remote command timed out''"
| "portix_error_to_string (HostKeyChanged h p line fp) =
     ''host key for '' @ host_port h p @ '' does not match known_hosts line '' @ dec line @
     '' ('' @ fp @ ''); possible man-in-the-middle attack. If the server key changed '' @
     ''legitimately, remove the old entry with `ssh-keygen -R '' @ h @ ''`''"
| "portix_error_to_string (HostKeyUnknown h p fp) =
     ''host key for '' @ host_port h p @ '' is not in known_hosts ('' @ fp @ '')''"
| "portix_error_to_string (KeyboardInteractiveRequired h p) =
     ''server '' @ host_port h p @ '' asks for keyboard-interactive input (e.g. a one-time code)''"
| "portix_error_to_string (KnownHosts s) = ''cannot use known_hosts file: '' @ s"
| "portix_error_to_string (Russh s) = s"
| "portix_error_to_string (Io s) = s"
| "portix_error_to_string (Anyhow s) = s"

section \<open>profile.rs\<close>

text \<open>A profile may name a jump host that is itself a profile, so it is a recursive datatype.\<close>

datatype ssh_profile = SshProfile
  (ssh_id: string)
  (ssh_name: string)
  (ssh_host: string)
  (ssh_port: u16)
  (ssh_username: string)
  (ssh_password: "string option")
  (ssh_private_key_path: "string option")
  (ssh_key_passphrase: "string option")
  (ssh_jump_host: "ssh_profile option")
  (ssh_forward_agent: bool)
  (ssh_command: "string option")

definition socket_addr :: "ssh_profile \<Rightarrow> string \<times> u16" where
  "socket_addr p = (ssh_host p, ssh_port p)"

definition validate :: "ssh_profile \<Rightarrow> (portix_error, unit) result" where
  "validate p =
     (if trim (ssh_id p) = [] then Err (InvalidProfile ''profile id is required'')
      else if trim (ssh_host p) = [] then Err (InvalidProfile ''host is required'')
      else if trim (ssh_username p) = [] then Err (InvalidProfile ''username is required'')
      else if ssh_port p = 0 then Err (InvalidProfile ''port must be greater than 0'')
      else Ok ())"

text \<open>The chain of servers a connection to a profile passes through, the target last.\<close>

fun hops :: "ssh_profile \<Rightarrow> ssh_profile list" where
  "hops (SshProfile i n h p u pw pk kp j fa c) =
     (case j of None \<Rightarrow> [] | Some q \<Rightarrow> hops q) @ [SshProfile i n h p u pw pk kp j fa c]"

section \<open>session.rs, events.rs, sftp.rs\<close>

datatype connection_status = Disconnected | Connecting | Connected | Error_status

record session_info =
  si_id :: string
  si_profile_id :: string
  si_status :: connection_status

record remote_system_snapshot =
  rs_os :: string
  rs_hostname :: string
  rs_uptime :: string
  rs_memory :: string
  rs_disk :: string
  rs_memory_used_bytes :: u64
  rs_memory_free_bytes :: u64
  rs_memory_total_bytes :: u64
  rs_disk_used_bytes :: u64
  rs_disk_free_bytes :: u64
  rs_disk_total_bytes :: u64

record terminal_output_event =
  to_session_id :: string
  to_data :: bytes

record connection_status_event =
  cs_session_id :: string
  cs_status :: connection_status
  cs_message :: "string option"

record error_event =
  ee_session_id :: "string option"
  ee_message :: string

record remote_file_entry =
  fe_name :: string
  fe_path :: string
  fe_is_directory :: bool
  fe_size_bytes :: u64
  fe_modified_unix_seconds :: int
  fe_mode :: u32

record transfer_progress =
  tp_done :: u64
  tp_total :: u64

section \<open>Lemmas\<close>

lemma validate_iff:
  "validate p = Ok () \<longleftrightarrow>
     trim (ssh_id p) \<noteq> [] \<and> trim (ssh_host p) \<noteq> [] \<and> trim (ssh_username p) \<noteq> [] \<and> ssh_port p \<noteq> 0"
  by (auto simp: validate_def)

lemma validate_cases:
  "validate p = Ok () \<or>
   (\<exists>m \<in> {''profile id is required'', ''host is required'', ''username is required'',
           ''port must be greater than 0''}. validate p = Err (InvalidProfile m))"
  by (simp add: validate_def)

text \<open>Validation looks at nothing else: password, keys, jump host and command are free.\<close>

lemma validate_frame:
  assumes "ssh_id p = ssh_id q" "ssh_host p = ssh_host q" "ssh_username p = ssh_username q"
    and "ssh_port p = ssh_port q"
  shows "validate p = validate q"
  using assms by (simp add: validate_def)

lemma hops_last: "hops p \<noteq> [] \<and> last (hops p) = p"
  by (cases p) (simp split: option.splits)

lemma hops_unfold: "hops p = (case ssh_jump_host p of None \<Rightarrow> [] | Some q \<Rightarrow> hops q) @ [p]"
  by (cases p) (simp split: option.splits)

end
