(* ===== verification/Host_Keys.thy ===== *)
theory Host_Keys
  imports Ssh_Domain
begin

text \<open>
  \<^verbatim>\<open>portix_serv/src/infrastructure/host_keys.rs\<close>: the server key check against
  \<^verbatim>\<open>known_hosts\<close>, the memory of refused keys and the user's decision to trust one.

  \<^verbatim>\<open>russh\<close> supplies public keys and the \<^verbatim>\<open>known_hosts\<close> file format; they are the parameter
  \<open>keys_lib\<close>: \<open>'k\<close> is a public key, \<open>'d\<close> its key data, \<open>'f\<close> the content of the file at the
  path the caller passes. The global \<^verbatim>\<open>PENDING\<close> map is passed explicitly.
\<close>

section \<open>State\<close>

record ('k, 'd, 'f) keys_lib =
  key_data :: "'k \<Rightarrow> 'd"
  key_algorithm :: "'k \<Rightarrow> string"
  key_fingerprint :: "'k \<Rightarrow> string"
  known_host_keys_path :: "string \<Rightarrow> u16 \<Rightarrow> 'f \<Rightarrow> (string, (nat \<times> 'k) list) result"
  learn_known_hosts_path :: "string \<Rightarrow> u16 \<Rightarrow> 'k \<Rightarrow> ('f, string, unit) io"

record 'k host_key_offer =
  ph_algorithm :: string
  ph_fingerprint :: string
  ph_changed_line :: "nat option"
  ph_key :: 'k

type_synonym 'k pending_keys = "(string \<times> u16) \<rightharpoonup> 'k host_key_offer"

section \<open>Operations\<close>

definition default_known_hosts_path :: "string option \<Rightarrow> (portix_error, string) result" where
  "default_known_hosts_path home =
     ok_or (KnownHosts ''home directory not found'')
       (map_option (\<lambda>h. path_join (path_join h ''.ssh'') ''known_hosts'') home)"

definition offered_key :: "('k, 'd, 'f) keys_lib \<Rightarrow> 'k \<Rightarrow> nat option \<Rightarrow> 'k host_key_offer" where
  "offered_key lib k line =
     \<lparr>ph_algorithm = key_algorithm lib k, ph_fingerprint = key_fingerprint lib k,
      ph_changed_line = line, ph_key = k\<rparr>"

definition remember_offered_key ::
  "('k, 'd, 'f) keys_lib \<Rightarrow> string \<Rightarrow> u16 \<Rightarrow> 'k \<Rightarrow> nat option \<Rightarrow> 'k pending_keys \<Rightarrow> 'k pending_keys" where
  "remember_offered_key lib h p k line pend = pend((h, p) \<mapsto> offered_key lib k line)"

definition verify_host_key ::
  "('k, 'd, 'f) keys_lib \<Rightarrow> string \<Rightarrow> u16 \<Rightarrow> 'k \<Rightarrow> 'f \<Rightarrow> ('k pending_keys, portix_error, unit) io" where
  "verify_host_key lib h p k file pend =
     (case known_host_keys_path lib h p file of
        Err e \<Rightarrow> (Err (KnownHosts e), pend)
      | Ok recorded \<Rightarrow>
          if \<exists>r \<in> set recorded. key_data lib (snd r) = key_data lib k then (Ok (), pend)
          else
            let fingerprint = key_fingerprint lib k;
                changed_line = (case recorded of [] \<Rightarrow> None | r # _ \<Rightarrow> Some (fst r))
            in (Err (case changed_line of
                       Some line \<Rightarrow> HostKeyChanged h p line fingerprint
                     | None \<Rightarrow> HostKeyUnknown h p fingerprint),
                remember_offered_key lib h p k changed_line pend))"

definition forget_pending_host_key :: "string \<Rightarrow> u16 \<Rightarrow> 'k pending_keys \<Rightarrow> 'k pending_keys" where
  "forget_pending_host_key h p pend = pend((h, p) := None)"

definition pending_host_key :: "string \<Rightarrow> u16 \<Rightarrow> 'k pending_keys \<Rightarrow> 'k host_key_offer option" where
  "pending_host_key h p pend = pend (h, p)"

definition trust_pending_host_key ::
  "('k, 'd, 'f) keys_lib \<Rightarrow> string \<Rightarrow> u16 \<Rightarrow> string \<Rightarrow> ('f \<times> 'k pending_keys, portix_error, unit) io" where
  "trust_pending_host_key lib h p fp = (\<lambda>(file, pend).
     case pend (h, p) of
       None \<Rightarrow> (Err (KnownHosts (''no pending host key for '' @ host_port h p)), file, pend)
     | Some e \<Rightarrow>
         if ph_changed_line e \<noteq> None then
           (Err (KnownHosts (''host key for '' @ host_port h p @
              '' changed; remove the old entry with `ssh-keygen -R '' @ h @ ''`'')), file, pend)
         else if ph_fingerprint e \<noteq> fp then
           (Err (KnownHosts (''fingerprint for '' @ host_port h p @
              '' no longer matches the key that was shown'')), file, pend)
         else case learn_known_hosts_path lib h p (ph_key e) file of
           (Err m, file') \<Rightarrow> (Err (KnownHosts m), file', pend)
         | (Ok _, file') \<Rightarrow> (Ok (), file', pend((h, p) := None)))"

text \<open>
  The component as a machine: a connection attempt forgets the pending key and verifies the
  offered one, the user may trust a pending key; the file and the pending keys are its state.
\<close>

datatype 'k hk_op =
    Verify string u16 'k
  | Trust string u16 string
  | Forget string u16

fun hk_step :: "('k, 'd, 'f) keys_lib \<Rightarrow> ('f \<times> 'k pending_keys) \<Rightarrow> 'k hk_op \<Rightarrow> ('f \<times> 'k pending_keys) \<Rightarrow> bool"
where
  "hk_step lib (file, pend) (Verify h p k) t \<longleftrightarrow> t = (file, snd (verify_host_key lib h p k file pend))"
| "hk_step lib s (Trust h p fp) t \<longleftrightarrow> t = snd (trust_pending_host_key lib h p fp s)"
| "hk_step lib (file, pend) (Forget h p) t \<longleftrightarrow> t = (file, forget_pending_host_key h p pend)"

section \<open>The pending keys are a registry\<close>

interpretation pending_keys: registry
  "\<lambda>pend hp. pending_host_key (fst hp) (snd hp) pend"
  "\<lambda>hp e pend. pend(hp \<mapsto> e)"
  "\<lambda>hp. forget_pending_host_key (fst hp) (snd hp)"
  by unfold_locales (auto simp: pending_host_key_def forget_pending_host_key_def)

section \<open>Lemmas\<close>

lemma verify_unrecorded:
  assumes "known_host_keys_path lib h p file = Ok recorded"
    and "\<And>r. r \<in> set recorded \<Longrightarrow> key_data lib (snd r) \<noteq> key_data lib k"
  shows "verify_host_key lib h p k file pend =
    (Err (case recorded of r # _ \<Rightarrow> HostKeyChanged h p (fst r) (key_fingerprint lib k)
                        | [] \<Rightarrow> HostKeyUnknown h p (key_fingerprint lib k)),
     pend((h, p) \<mapsto> offered_key lib k (case recorded of [] \<Rightarrow> None | r # _ \<Rightarrow> Some (fst r))))"
  using assms by (auto simp: verify_host_key_def remember_offered_key_def split: list.splits)

lemma verify_Ok_iff:
  "fst (verify_host_key lib h p k file pend) = Ok () \<longleftrightarrow>
     (\<exists>recorded r. known_host_keys_path lib h p file = Ok recorded \<and> r \<in> set recorded \<and>
        key_data lib (snd r) = key_data lib k)"
  by (force simp: verify_host_key_def Let_def split: sum.splits)

lemma verify_Ok_state: "verify_host_key lib h p k file pend = (Ok (), pend') \<Longrightarrow> pend' = pend"
  by (auto simp: verify_host_key_def Let_def split: sum.splits if_splits)

lemma verify_pending:
  assumes "snd (verify_host_key lib h p k file pend) hp = Some e" and "pend hp \<noteq> Some e"
  shows "hp = (h, p) \<and> ph_key e = k \<and> ph_fingerprint e = key_fingerprint lib k"
  using assms
  by (auto simp: verify_host_key_def remember_offered_key_def offered_key_def Let_def
           split: sum.splits if_splits)

lemma verify_changed_pending:
  assumes "verify_host_key lib h p k file pend = (Err (HostKeyChanged h' p' line fp), pend')"
  shows "\<exists>e. pend' (h, p) = Some e \<and> ph_changed_line e = Some line"
  using assms
  by (auto simp: verify_host_key_def remember_offered_key_def offered_key_def Let_def
           split: sum.splits if_splits option.splits list.splits)

lemma verify_unknown_pending:
  assumes "verify_host_key lib h p k file pend = (Err (HostKeyUnknown h' p' fp), pend')"
  shows "pend' = pend((h, p) \<mapsto> offered_key lib k None) \<and> fp = key_fingerprint lib k"
  using assms
  by (auto simp: verify_host_key_def remember_offered_key_def Let_def
           split: sum.splits if_splits option.splits list.splits)

lemma trust_Ok:
  "trust_pending_host_key lib h p fp (file, pend) = (Ok (), file', pend') \<longleftrightarrow>
     (\<exists>e. pend (h, p) = Some e \<and> ph_changed_line e = None \<and> ph_fingerprint e = fp \<and>
        learn_known_hosts_path lib h p (ph_key e) file = (Ok (), file') \<and> pend' = pend((h, p) := None))"
  by (auto simp: trust_pending_host_key_def split: option.splits prod.splits sum.splits if_splits)

lemma trust_file_changed:
  assumes "snd (trust_pending_host_key lib h p fp (file, pend)) = (file', pend')" and "file' \<noteq> file"
  shows "\<exists>e. pend (h, p) = Some e \<and> ph_changed_line e = None \<and> ph_fingerprint e = fp \<and>
    snd (learn_known_hosts_path lib h p (ph_key e) file) = file'"
  using assms
  by (auto simp: trust_pending_host_key_def split: option.splits prod.splits sum.splits if_splits)

lemma trust_pending_subset:
  "snd (snd (trust_pending_host_key lib h p fp (file, pend))) hp = Some e \<Longrightarrow> pend hp = Some e"
  by (auto simp: trust_pending_host_key_def split: option.splits prod.splits sum.splits if_splits)

text \<open>
  The invariant of the machine: a pending key was offered for its host and port, and shows the
  fingerprint of that very key. \<open>A\<close> is the set of offers made so far.
\<close>

definition pending_offered ::
  "('k, 'd, 'f) keys_lib \<Rightarrow> (string \<times> u16 \<times> 'k) set \<Rightarrow> 'k pending_keys \<Rightarrow> bool" where
  "pending_offered lib A pend \<longleftrightarrow>
     (\<forall>h p e. pend (h, p) = Some e \<longrightarrow>
        (h, p, ph_key e) \<in> A \<and> ph_fingerprint e = key_fingerprint lib (ph_key e))"

definition offers :: "'k hk_op list \<Rightarrow> (string \<times> u16 \<times> 'k) set" where
  "offers ls = {(h, p, k). Verify h p k \<in> set ls}"

lemma hk_step_offered:
  assumes "hk_step lib s l t" and "pending_offered lib A (snd s)"
  shows "pending_offered lib (A \<union> offers [l]) (snd t)"
proof (cases l)
  case (Verify h p k)
  obtain f pend where s: "s = (f, pend)" by (cases s)
  show ?thesis
  proof (unfold pending_offered_def, intro allI impI)
    fix h' p' e
    assume e: "snd t (h', p') = Some e"
    with assms Verify s have "snd (verify_host_key lib h p k f pend) (h', p') = Some e" by simp
    then show "(h', p', ph_key e) \<in> A \<union> offers [l] \<and> ph_fingerprint e = key_fingerprint lib (ph_key e)"
      using assms(2) Verify s verify_pending [of lib h p k f pend "(h', p')" e]
      by (cases "pend (h', p') = Some e") (auto simp: pending_offered_def offers_def)
  qed
next
  case (Trust h p fp)
  with assms show ?thesis
    by (cases s) (auto simp: pending_offered_def dest: trust_pending_subset)
next
  case (Forget h p)
  with assms show ?thesis
    by (cases s) (auto simp: pending_offered_def forget_pending_host_key_def split: if_splits)
qed

lemma hk_steps_offered:
  "steps (hk_step lib) s ls t \<Longrightarrow> pending_offered lib A (snd s) \<Longrightarrow>
   pending_offered lib (A \<union> offers ls) (snd t)"
proof (induction arbitrary: A rule: steps.induct)
  case (steps_Nil s)
  then show ?case by (auto simp: offers_def pending_offered_def)
next
  case (steps_Cons s l t ls u)
  then have "pending_offered lib (A \<union> offers [l]) (snd t)" by (blast intro: hk_step_offered)
  from steps_Cons.IH [OF this] show ?case
    by (auto simp: offers_def pending_offered_def)
qed

section \<open>Properties\<close>

text \<open>
  C3: A server key is accepted exactly when \<^verbatim>\<open>known_hosts\<close> can be read and records a key with the
  same key data for this host and port; whatever is pending plays no part.
\<close>

theorem verify_accepts_iff_recorded:
  "is_ok (fst (verify_host_key lib h p k file pend)) \<longleftrightarrow>
     (\<exists>recorded r. known_host_keys_path lib h p file = Ok recorded \<and> r \<in> set recorded \<and>
        key_data lib (snd r) = key_data lib k)"
  using verify_Ok_iff [of lib h p k "file" pend]
  by (cases "fst (verify_host_key lib h p k file pend)") auto

text \<open>
  C4: Whatever sequence of connection attempts and user decisions came before, when a trust
  request changes \<^verbatim>\<open>known_hosts\<close>, it records one key: a key that a server offered for this host
  and port, that was refused as unknown (not as changed), and whose fingerprint is the one the
  user confirmed.
\<close>

theorem only_confirmed_keys_are_recorded:
  assumes "steps (hk_step lib) (file0, Map.empty) ls (file, pend)"
    and "hk_step lib (file, pend) (Trust h p fp) (file', pend')"
    and "file' \<noteq> file"
  shows "\<exists>k. Verify h p k \<in> set ls \<and> key_fingerprint lib k = fp \<and>
    (\<exists>e. pend (h, p) = Some e \<and> ph_key e = k \<and> ph_changed_line e = None) \<and>
    file' = snd (learn_known_hosts_path lib h p k file)"
proof -
  have "pending_offered lib ({} \<union> offers ls) (snd (file, pend))"
    using assms(1) by (rule hk_steps_offered) (simp add: pending_offered_def)
  moreover obtain e where e: "pend (h, p) = Some e" "ph_changed_line e = None" "ph_fingerprint e = fp"
      "snd (learn_known_hosts_path lib h p (ph_key e) file) = file'"
    using trust_file_changed [of lib h p fp "file" pend file' pend'] assms(2,3) by auto
  ultimately show ?thesis by (auto simp: pending_offered_def offers_def)
qed

text \<open>
  C5: A changed key is never trusted: after a check that reported a changed key, a trust
  request for that host fails with any fingerprint and leaves \<^verbatim>\<open>known_hosts\<close> as it is.
\<close>

theorem changed_key_cannot_be_trusted:
  assumes "verify_host_key lib h p k file pend = (Err (HostKeyChanged h' p' line fp), pend')"
  shows "is_err (fst (trust_pending_host_key lib h p fp2 (file2, pend'))) \<and>
    fst (snd (trust_pending_host_key lib h p fp2 (file2, pend'))) = file2"
  using verify_changed_pending [OF assms] by (auto simp: trust_pending_host_key_def)

text \<open>
  C6: The confirmation cycle works: after an unknown host was refused, trusting the fingerprint
  the error shows succeeds, clears the pending key, and the same key is accepted from then on
  (given that the library reads back a key it has written).
\<close>

theorem trusting_the_shown_key_admits_the_host:
  assumes refused: "verify_host_key lib h p k file pend = (Err (HostKeyUnknown h p fp), pend')"
    and writes: "learn_known_hosts_path lib h p k file = (Ok (), file')"
    and reads_back: "\<exists>recorded r. known_host_keys_path lib h p file' = Ok recorded \<and>
      r \<in> set recorded \<and> key_data lib (snd r) = key_data lib k"
  shows "trust_pending_host_key lib h p fp (file, pend') = (Ok (), file', pend'((h, p) := None)) \<and>
    verify_host_key lib h p k file' (pend'((h, p) := None)) = (Ok (), pend'((h, p) := None))"
proof -
  have "pend' (h, p) = Some (offered_key lib k None)" "fp = key_fingerprint lib k"
    using verify_unknown_pending [OF refused] by auto
  then have "trust_pending_host_key lib h p fp (file, pend') = (Ok (), file', pend'((h, p) := None))"
    using writes by (simp add: trust_Ok offered_key_def)
  moreover have "fst (verify_host_key lib h p k file' (pend'((h, p) := None))) = Ok ()"
    using reads_back by (auto simp: verify_Ok_iff)
  ultimately show ?thesis
    by (metis prod.collapse verify_Ok_state)
qed

section \<open>Witnesses\<close>

text \<open>A \<^verbatim>\<open>known_hosts\<close> file as a list of entries, numbered from line 1; a key is its own data.\<close>

definition list_lib :: "(string, string, (string \<times> u16 \<times> string) list) keys_lib" where
  "list_lib =
     \<lparr>key_data = (\<lambda>k. k), key_algorithm = (\<lambda>k. ''ssh-ed25519''),
      key_fingerprint = (\<lambda>k. ''SHA256:'' @ k),
      known_host_keys_path = (\<lambda>h p f. Ok (map (\<lambda>(i, e). (i, snd (snd e)))
         (filter (\<lambda>(i, e). fst e = h \<and> fst (snd e) = p) (List.enumerate 1 f)))),
      learn_known_hosts_path = (\<lambda>h p k f. (Ok (), f @ [(h, p, k)]))\<rparr>"

lemma list_lib_steps:
  "steps (hk_step list_lib) ([], Map.empty) [Verify ''db'' 22 ''K'']
     ([], [(''db'', 22) \<mapsto> offered_key list_lib ''K'' None])"
  by (simp add: verify_host_key_def list_lib_def remember_offered_key_def)

lemma list_lib_trust:
  "hk_step list_lib ([], [(''db'', 22) \<mapsto> offered_key list_lib ''K'' None])
     (Trust ''db'' 22 ''SHA256:K'') ([(''db'', 22, ''K'')], Map.empty)"
  by (simp add: trust_pending_host_key_def list_lib_def offered_key_def)

theorem only_confirmed_keys_are_recorded_witness:
  "\<exists>k. Verify ''db'' 22 k \<in> set [Verify ''db'' 22 ''K''] \<and> key_fingerprint list_lib k = ''SHA256:K''"
  using only_confirmed_keys_are_recorded [OF list_lib_steps list_lib_trust] by auto

theorem changed_key_cannot_be_trusted_witness:
  "is_err (fst (trust_pending_host_key list_lib ''db'' 22 ''SHA256:M''
     ([(''db'', 22, ''K'')], [(''db'', 22) \<mapsto> offered_key list_lib ''M'' (Some 1)])))"
proof -
  have "verify_host_key list_lib ''db'' 22 ''M'' [(''db'', 22, ''K'')] Map.empty =
     (Err (HostKeyChanged ''db'' 22 1 ''SHA256:M''), [(''db'', 22) \<mapsto> offered_key list_lib ''M'' (Some 1)])"
    by (simp add: verify_host_key_def list_lib_def remember_offered_key_def)
  from changed_key_cannot_be_trusted [OF this] show ?thesis by simp
qed

theorem trusting_the_shown_key_admits_the_host_witness:
  "fst (verify_host_key list_lib ''db'' 22 ''K'' [(''db'', 22, ''K'')] Map.empty) = Ok ()"
proof -
  have r: "verify_host_key list_lib ''db'' 22 ''K'' [] Map.empty =
     (Err (HostKeyUnknown ''db'' 22 ''SHA256:K''), [(''db'', 22) \<mapsto> offered_key list_lib ''K'' None])"
    by (simp add: verify_host_key_def list_lib_def remember_offered_key_def)
  have w: "learn_known_hosts_path list_lib ''db'' 22 ''K'' [] = (Ok (), [(''db'', 22, ''K'')])"
    by (simp add: list_lib_def)
  have "\<exists>recorded r. known_host_keys_path list_lib ''db'' 22 [(''db'', 22, ''K'')] = Ok recorded \<and>
      r \<in> set recorded \<and> key_data list_lib (snd r) = key_data list_lib ''K''"
    by (simp add: list_lib_def)
  from trusting_the_shown_key_admits_the_host [OF r w this] show ?thesis by simp
qed

end
