(* ===== verification/Keyboard_Interactive.thy ===== *)
theory Keyboard_Interactive
  imports Ssh_Domain
begin

text \<open>
  \<^verbatim>\<open>portix_serv/src/infrastructure/keyboard_interactive.rs\<close>: one-time codes and PAM prompts
  without a callback into the user interface. A connect that meets prompts it cannot answer
  stores them and fails; the user answers; the next connect replays the earlier answers.

  The server's side of one connection is the parameter \<open>srv\<close>: what the next call returns after
  the replies sent so far. A server may ask for ever, so the loop has fuel, one unit per round;
  \<open>None\<close> as a result means the rounds given are used up while the exchange still goes on.
\<close>

section \<open>State\<close>

record pending_prompts =
  pp_name :: string
  pp_instructions :: string
  pp_prompts :: "(string \<times> bool) list"

record kbd_state =
  kb_pending :: "(string \<times> u16) \<rightharpoonup> (pending_prompts \<times> string list list)"
  kb_answers :: "(string \<times> u16) \<rightharpoonup> string list list"

datatype kbd_response =
    Success
  | Failure
  | InfoRequest string string "(string \<times> bool) list"

text \<open>A call to the library answers, fails, or passes the step timeout.\<close>

datatype kbd_event =
    Responded kbd_response
  | CallFailed string
  | TimedOut

section \<open>Operations\<close>

definition pending_prompts_for :: "string \<Rightarrow> u16 \<Rightarrow> kbd_state \<Rightarrow> pending_prompts option" where
  "pending_prompts_for h p st = map_option fst (kb_pending st (h, p))"

definition answer_pending :: "string \<Rightarrow> u16 \<Rightarrow> string list \<Rightarrow> kbd_state \<Rightarrow> kbd_state" where
  "answer_pending h p answers st =
     (let rounds = unwrap_or [] (map_option snd (kb_pending st (h, p)))
      in st\<lparr>kb_pending := (kb_pending st)((h, p) := None),
            kb_answers := (kb_answers st)((h, p) \<mapsto> rounds @ [answers])\<rparr>)"

definition take_answers :: "string \<Rightarrow> u16 \<Rightarrow> kbd_state \<Rightarrow> string list list \<times> kbd_state" where
  "take_answers h p st =
     (unwrap_or [] (kb_answers st (h, p)),
      st\<lparr>kb_pending := (kb_pending st)((h, p) := None),
         kb_answers := (kb_answers st)((h, p) := None)\<rparr>)"

definition is_password_prompt :: "(string \<Rightarrow> string) \<Rightarrow> (string \<times> bool) list \<Rightarrow> bool" where
  "is_password_prompt uni prompts =
     (case prompts of
        [(text, echo)] \<Rightarrow> \<not> echo \<and> contains ''password'' (to_lowercase uni text)
      | _ \<Rightarrow> False)"

text \<open>\<open>sent\<close> are the replies given to the server, oldest first.\<close>

fun kbd_loop ::
  "(string \<Rightarrow> string) \<Rightarrow> (string list list \<Rightarrow> kbd_event) \<Rightarrow> ssh_profile \<Rightarrow> nat \<Rightarrow>
   string list list \<Rightarrow> string list list \<Rightarrow> string list list \<Rightarrow> kbd_state \<Rightarrow>
   (portix_error, bool) result option \<times> kbd_state \<times> string list list" where
  "kbd_loop uni srv prof 0 sent answers answered st = (None, st, sent)"
| "kbd_loop uni srv prof (Suc n) sent answers answered st =
     (case srv sent of
        TimedOut \<Rightarrow> (Some (Err AuthenticationTimeout), st, sent)
      | CallFailed e \<Rightarrow> (Some (Err (Russh e)), st, sent)
      | Responded Success \<Rightarrow> (Some (Ok True), st, sent)
      | Responded Failure \<Rightarrow> (Some (Ok False), st, sent)
      | Responded (InfoRequest name instructions prompts) \<Rightarrow>
          if prompts = [] then kbd_loop uni srv prof n (sent @ [[]]) answers answered st
          else if ssh_password prof \<noteq> None \<and> is_password_prompt uni prompts then
            kbd_loop uni srv prof n (sent @ [[the (ssh_password prof)]]) answers answered st
          else (case answers of
              reply # rest \<Rightarrow> kbd_loop uni srv prof n (sent @ [reply]) rest (answered @ [reply]) st
            | [] \<Rightarrow>
                (Some (Err (KeyboardInteractiveRequired (ssh_host prof) (ssh_port prof))),
                 st\<lparr>kb_pending := (kb_pending st)((ssh_host prof, ssh_port prof) \<mapsto>
                      (\<lparr>pp_name = name, pp_instructions = instructions, pp_prompts = prompts\<rparr>, answered))\<rparr>,
                 sent)))"

definition authenticate ::
  "(string \<Rightarrow> string) \<Rightarrow> (string list list \<Rightarrow> kbd_event) \<Rightarrow> ssh_profile \<Rightarrow> nat \<Rightarrow> kbd_state \<Rightarrow>
   (portix_error, bool) result option \<times> kbd_state \<times> string list list" where
  "authenticate uni srv prof fuel st =
     (case take_answers (ssh_host prof) (ssh_port prof) st of
        (answers, st') \<Rightarrow> kbd_loop uni srv prof fuel [] answers [] st')"

section \<open>Lemmas\<close>

lemma take_after_answer:
  "take_answers h p (answer_pending h p a st) =
     (unwrap_or [] (map_option snd (kb_pending st (h, p))) @ [a],
      st\<lparr>kb_pending := (kb_pending st)((h, p) := None), kb_answers := (kb_answers st)((h, p) := None)\<rparr>)"
  by (simp add: take_answers_def answer_pending_def Let_def)

lemma take_answers_once: "fst (take_answers h p (snd (take_answers h p st))) = []"
  by (simp add: take_answers_def)

lemma take_answers_other:
  "(h', p') \<noteq> (h, p) \<Longrightarrow>
   kb_pending (snd (take_answers h p st)) (h', p') = kb_pending st (h', p') \<and>
   kb_answers (snd (take_answers h p st)) (h', p') = kb_answers st (h', p')"
  by (auto simp: take_answers_def)

lemma is_password_prompt_iff:
  "is_password_prompt uni ps \<longleftrightarrow>
     (\<exists>text. ps = [(text, False)] \<and> contains ''password'' (to_lowercase uni text))"
proof (cases ps)
  case (Cons a qs)
  then show ?thesis by (cases a; cases qs) (auto simp: is_password_prompt_def)
qed (simp add: is_password_prompt_def)

text \<open>What may be sent for a set of prompts: nothing, the saved password, or a user's answer.\<close>

definition reply_ok ::
  "(string \<Rightarrow> string) \<Rightarrow> ssh_profile \<Rightarrow> string list set \<Rightarrow> (string \<times> bool) list \<Rightarrow> string list \<Rightarrow> bool" where
  "reply_ok uni prof A prompts reply \<longleftrightarrow>
     (prompts = [] \<and> reply = []) \<or>
     (is_password_prompt uni prompts \<and> (\<exists>w. ssh_password prof = Some w \<and> reply = [w])) \<or>
     (prompts \<noteq> [] \<and> reply \<in> A)"

definition sent_ok ::
  "(string \<Rightarrow> string) \<Rightarrow> (string list list \<Rightarrow> kbd_event) \<Rightarrow> ssh_profile \<Rightarrow> string list set \<Rightarrow>
   string list list \<Rightarrow> bool" where
  "sent_ok uni srv prof A sent \<longleftrightarrow>
     (\<forall>i < length sent. \<exists>n ins ps. srv (take i sent) = Responded (InfoRequest n ins ps) \<and>
        reply_ok uni prof A ps (sent ! i))"

lemma sent_ok_snoc:
  assumes "sent_ok uni srv prof A sent" and "srv sent = Responded (InfoRequest n ins ps)"
    and "reply_ok uni prof A ps r"
  shows "sent_ok uni srv prof A (sent @ [r])"
  using assms by (auto simp: sent_ok_def nth_append less_Suc_eq)

lemma kbd_loop_sent_ok:
  "sent_ok uni srv prof A sent \<Longrightarrow> set answers \<subseteq> A \<Longrightarrow>
   sent_ok uni srv prof A (snd (snd (kbd_loop uni srv prof n sent answers answered st)))"
proof (induction n arbitrary: sent answers answered)
  case 0
  then show ?case by simp
next
  case (Suc n)
  show ?case
  proof (cases "\<exists>name ins ps. srv sent = Responded (InfoRequest name ins ps)")
    case False
    with Suc.prems show ?thesis by (auto split: kbd_event.splits kbd_response.splits)
  next
    case True
    then obtain name ins ps where srv: "srv sent = Responded (InfoRequest name ins ps)" by blast
    have go: "sent_ok uni srv prof A (snd (snd (kbd_loop uni srv prof n (sent @ [r]) as ad st)))"
      if "reply_ok uni prof A ps r" "set as \<subseteq> A" for r as ad
      using Suc.IH [OF sent_ok_snoc [OF Suc.prems(1) srv that(1)] that(2)] .
    show ?thesis
      using Suc.prems srv
      by (auto simp: reply_ok_def intro!: go split: list.splits)
  qed
qed

lemma kbd_loop_required:
  assumes "kbd_loop uni srv prof n sent answers answered st =
      (Some (Err (KeyboardInteractiveRequired h p)), st1, sent1)"
  shows "h = ssh_host prof \<and> p = ssh_port prof \<and>
    (\<exists>pp. kb_pending st1 (h, p) = Some (pp, answered @ answers)) \<and>
    (\<exists>k. \<forall>m a st'. kbd_loop uni srv prof (k + m) sent (answers @ [a]) answered st' =
       kbd_loop uni srv prof m (sent1 @ [a]) [] (answered @ answers @ [a]) st')"
  using assms
proof (induction n arbitrary: sent answers answered)
  case 0
  then show ?case by simp
next
  case (Suc n)
  then obtain name ins ps where srv: "srv sent = Responded (InfoRequest name ins ps)"
    by (auto split: kbd_event.splits kbd_response.splits)
  show ?case
  proof (cases "ps = [] \<or> (ssh_password prof \<noteq> None \<and> is_password_prompt uni ps)")
    case True
    define r where "r = (if ps = [] then [] else [the (ssh_password prof)])"
    have step: "kbd_loop uni srv prof (Suc i) sent as ad s = kbd_loop uni srv prof i (sent @ [r]) as ad s"
      for i as ad s using True srv by (auto simp: r_def)
    from Suc.prems have "kbd_loop uni srv prof n (sent @ [r]) answers answered st =
      (Some (Err (KeyboardInteractiveRequired h p)), st1, sent1)" by (simp only: step)
    from Suc.IH [OF this] obtain k where
      "\<forall>m a st'. kbd_loop uni srv prof (k + m) (sent @ [r]) (answers @ [a]) answered st' =
         kbd_loop uni srv prof m (sent1 @ [a]) [] (answered @ answers @ [a]) st'"
      and rest: "h = ssh_host prof" "p = ssh_port prof"
        "\<exists>pp. kb_pending st1 (h, p) = Some (pp, answered @ answers)"
      by blast
    then have "\<forall>m a st'. kbd_loop uni srv prof (Suc k + m) sent (answers @ [a]) answered st' =
         kbd_loop uni srv prof m (sent1 @ [a]) [] (answered @ answers @ [a]) st'"
      by (simp add: step del: kbd_loop.simps)
    with rest show ?thesis by blast
  next
    case False
    have step: "kbd_loop uni srv prof (Suc i) sent (r # as) ad s =
        kbd_loop uni srv prof i (sent @ [r]) as (ad @ [r]) s" for i r as ad s
      using False srv by auto
    show ?thesis
    proof (cases answers)
      case Nil
      with Suc.prems False srv have "sent1 = sent" "h = ssh_host prof" "p = ssh_port prof"
          "\<exists>pp. kb_pending st1 (h, p) = Some (pp, answered @ answers)"
        by (auto split: if_splits)
      moreover have "\<forall>m a st'. kbd_loop uni srv prof (Suc 0 + m) sent (answers @ [a]) answered st' =
         kbd_loop uni srv prof m (sent @ [a]) [] (answered @ answers @ [a]) st'"
        using Nil by (simp only: add_Suc add_0 append_Nil step) simp
      ultimately show ?thesis by blast
    next
      case (Cons r as)
      with Suc.prems have "kbd_loop uni srv prof n (sent @ [r]) as (answered @ [r]) st =
        (Some (Err (KeyboardInteractiveRequired h p)), st1, sent1)" by (simp only: step)
      from Suc.IH [OF this] obtain k where
        "\<forall>m a st'. kbd_loop uni srv prof (k + m) (sent @ [r]) (as @ [a]) (answered @ [r]) st' =
           kbd_loop uni srv prof m (sent1 @ [a]) [] ((answered @ [r]) @ as @ [a]) st'"
        and rest: "h = ssh_host prof" "p = ssh_port prof"
          "\<exists>pp. kb_pending st1 (h, p) = Some (pp, (answered @ [r]) @ as)"
        by blast
      then have "\<forall>m a st'. kbd_loop uni srv prof (Suc k + m) sent (answers @ [a]) answered st' =
           kbd_loop uni srv prof m (sent1 @ [a]) [] (answered @ answers @ [a]) st'"
        using Cons by (simp only: append_Cons add_Suc step append_assoc append_Nil) simp
      moreover have "\<exists>pp. kb_pending st1 (h, p) = Some (pp, answered @ answers)"
        using rest(3) Cons by simp
      ultimately show ?thesis using rest(1,2) by blast
    qed
  qed
qed

text \<open>Only the entry of the profile's own host and port is touched.\<close>

lemma kbd_loop_frame:
  "(h, p) \<noteq> (ssh_host prof, ssh_port prof) \<Longrightarrow>
   kb_pending (fst (snd (kbd_loop uni srv prof n sent answers answered st))) (h, p) = kb_pending st (h, p)"
  by (induction n arbitrary: sent answers answered)
     (auto split: kbd_event.splits kbd_response.splits list.splits)

lemma kbd_loop_answers:
  "kb_answers (fst (snd (kbd_loop uni srv prof n sent answers answered st))) = kb_answers st"
  by (induction n arbitrary: sent answers answered)
     (auto split: kbd_event.splits kbd_response.splits list.splits)

section \<open>Properties\<close>

text \<open>
  C7: At every moment of a login, each reply that went to the server answered a request that
  the server had made, and is empty for a request without prompts, the saved password only for
  a single hidden prompt that mentions ``password'', or one of the answers the user gave for this
  host and port.
\<close>

theorem replies_never_leak_the_password:
  assumes "authenticate uni srv prof fuel st = (r, st', sent)" and "i < length sent"
  shows "\<exists>n ins ps. srv (take i sent) = Responded (InfoRequest n ins ps) \<and>
    ((ps = [] \<and> sent ! i = []) \<or>
     ((\<exists>text. ps = [(text, False)] \<and> contains ''password'' (to_lowercase uni text)) \<and>
        (\<exists>w. ssh_password prof = Some w \<and> sent ! i = [w])) \<or>
     (ps \<noteq> [] \<and> sent ! i \<in> set (unwrap_or [] (kb_answers st (ssh_host prof, ssh_port prof)))))"
proof -
  let ?A = "set (unwrap_or [] (kb_answers st (ssh_host prof, ssh_port prof)))"
  have "sent_ok uni srv prof ?A sent"
    using kbd_loop_sent_ok [of uni srv prof ?A "[]" "unwrap_or [] (kb_answers st (ssh_host prof, ssh_port prof))"
        fuel "[]" "snd (take_answers (ssh_host prof) (ssh_port prof) st)"] assms(1)
    by (simp add: authenticate_def take_answers_def sent_ok_def)
  then obtain n ins ps where "srv (take i sent) = Responded (InfoRequest n ins ps)"
      "reply_ok uni prof ?A ps (sent ! i)"
    using assms(2) by (auto simp: sent_ok_def)
  then show ?thesis
    unfolding reply_ok_def is_password_prompt_iff by blast
qed

text \<open>
  C8: Answering a round makes progress: if a connect fails because prompts are open and the
  user answers them, the next connect to the same server repeats the replies of the failed one,
  sends the answer as the reply after them, and goes on from there.
\<close>

theorem answering_resumes_the_login:
  assumes "authenticate uni srv prof fuel st =
      (Some (Err (KeyboardInteractiveRequired h p)), st1, sent1)"
  shows "\<exists>k st2. \<forall>m. authenticate uni srv prof (k + m) (answer_pending h p a st1) =
    kbd_loop uni srv prof m (sent1 @ [a]) []
      (unwrap_or [] (kb_answers st (h, p)) @ [a]) st2"
proof -
  let ?as = "unwrap_or [] (kb_answers st (ssh_host prof, ssh_port prof))"
  let ?s0 = "snd (take_answers (ssh_host prof) (ssh_port prof) st)"
  have "kbd_loop uni srv prof fuel [] ?as [] ?s0 =
      (Some (Err (KeyboardInteractiveRequired h p)), st1, sent1)"
    using assms by (simp add: authenticate_def take_answers_def)
  from kbd_loop_required [OF this] obtain pp k where hp: "h = ssh_host prof" "p = ssh_port prof"
    and pend: "kb_pending st1 (h, p) = Some (pp, ?as)"
    and replay: "\<forall>m b st'. kbd_loop uni srv prof (k + m) [] (?as @ [b]) [] st' =
       kbd_loop uni srv prof m (sent1 @ [b]) [] (?as @ [b]) st'"
    by auto
  have "authenticate uni srv prof (k + m) (answer_pending h p a st1) =
    kbd_loop uni srv prof m (sent1 @ [a]) [] (?as @ [a])
      (st1\<lparr>kb_pending := (kb_pending st1)((h, p) := None), kb_answers := (kb_answers st1)((h, p) := None)\<rparr>)"
    for m
    using pend hp replay by (simp add: authenticate_def take_after_answer)
  with hp show ?thesis by blast
qed

text \<open>
  Nothing is kept for a login that has ended: after any connect the answers stored for its
  host and port are gone, the prompts stored for it are gone too unless this connect itself
  failed for lack of an answer, and other hosts' entries are untouched.
\<close>

theorem login_state_is_consumed:
  assumes "authenticate uni srv prof fuel st = (r, st', sent)"
  shows "kb_answers st' (ssh_host prof, ssh_port prof) = None \<and>
    (pending_prompts_for (ssh_host prof) (ssh_port prof) st' = None \<or>
       r = Some (Err (KeyboardInteractiveRequired (ssh_host prof) (ssh_port prof)))) \<and>
    (\<forall>h p. (h, p) = (ssh_host prof, ssh_port prof) \<or>
       kb_pending st' (h, p) = kb_pending st (h, p) \<and> kb_answers st' (h, p) = kb_answers st (h, p))"
proof -
  let ?s0 = "snd (take_answers (ssh_host prof) (ssh_port prof) st)"
  let ?as = "unwrap_or [] (kb_answers st (ssh_host prof, ssh_port prof))"
  have run: "kbd_loop uni srv prof fuel [] ?as [] ?s0 = (r, st', sent)"
    using assms by (simp add: authenticate_def take_answers_def)
  have pend: "kb_pending s (ssh_host prof, ssh_port prof) = None \<Longrightarrow>
      kbd_loop uni srv prof n sn as ad s = (r, st', sent) \<Longrightarrow>
      kb_pending st' (ssh_host prof, ssh_port prof) = None \<or>
      r = Some (Err (KeyboardInteractiveRequired (ssh_host prof) (ssh_port prof)))" for n sn as ad s
    by (induction n arbitrary: sn as ad)
       (auto split: kbd_event.splits kbd_response.splits list.splits if_splits)
  have "kb_pending ?s0 (ssh_host prof, ssh_port prof) = None"
    by (simp add: take_answers_def)
  from pend [OF this run] show ?thesis
    using kbd_loop_frame [of _ _ prof uni srv fuel "[]" ?as "[]" ?s0]
      kbd_loop_answers [of uni srv prof fuel "[]" ?as "[]" ?s0] run
    by (auto simp: take_answers_def pending_prompts_for_def)
qed

section \<open>Witnesses\<close>

definition otp_profile :: ssh_profile where
  "otp_profile = SshProfile ''p'' ''n'' ''h'' 22 ''u'' (Some ''pw'') None None None False None"

text \<open>A PAM server: asks for the password, then for a code, then lets the user in.\<close>

definition otp_server :: "string list list \<Rightarrow> kbd_event" where
  "otp_server sent =
     (if sent = [] then Responded (InfoRequest '''' '''' [(''Password: '', False)])
      else if sent = [[''pw'']] then Responded (InfoRequest '''' '''' [(''Code: '', False)])
      else if sent = [[''pw''], [''123'']] then Responded Success else Responded Failure)"

definition otp_start :: kbd_state where
  "otp_start = \<lparr>kb_pending = Map.empty, kb_answers = Map.empty\<rparr>"

lemma otp_prompts:
  "is_password_prompt id [(''Password: '', False)]" "\<not> is_password_prompt id [(''Code: '', False)]"
  by code_simp+

lemma otp_first_attempt:
  "authenticate id otp_server otp_profile (Suc (Suc 0)) otp_start =
     (Some (Err (KeyboardInteractiveRequired ''h'' 22)),
      otp_start\<lparr>kb_pending := [(''h'', 22) \<mapsto>
        (\<lparr>pp_name = '''', pp_instructions = '''', pp_prompts = [(''Code: '', False)]\<rparr>, [])]\<rparr>,
      [[''pw'']])"
  by (simp add: authenticate_def take_answers_def otp_start_def otp_profile_def otp_server_def
      otp_prompts)

theorem replies_never_leak_the_password_witness:
  "\<exists>n ins ps. otp_server (take 0 [[''pw'']]) = Responded (InfoRequest n ins ps)"
  using replies_never_leak_the_password [OF otp_first_attempt, of 0] by auto

theorem answering_resumes_the_login_witness:
  "\<exists>k st2. \<forall>m. authenticate id otp_server otp_profile (k + m)
     (answer_pending ''h'' 22 [''123''] (otp_start\<lparr>kb_pending := [(''h'', 22) \<mapsto>
        (\<lparr>pp_name = '''', pp_instructions = '''', pp_prompts = [(''Code: '', False)]\<rparr>, [])]\<rparr>)) =
    kbd_loop id otp_server otp_profile m [[''pw''], [''123'']] [] [[''123'']] st2"
  using answering_resumes_the_login [OF otp_first_attempt, of "[''123'']"]
  by (simp add: otp_start_def)

theorem login_state_is_consumed_witness:
  "kb_answers (fst (snd (authenticate id otp_server otp_profile (Suc (Suc 0)) otp_start))) (''h'', 22) = None"
  using login_state_is_consumed [OF otp_first_attempt]
  by (simp add: otp_first_attempt) (simp add: otp_profile_def)

end
