(* ===== verification/Ssh_Connect.thy ===== *)
theory Ssh_Connect
  imports Host_Keys Keyboard_Interactive
begin

text \<open>
  \<^verbatim>\<open>portix_serv/src/infrastructure/ssh_client.rs\<close>, part one: terminal sizes, local paths and
  keys, the connection handler, and how a connection is opened and authenticated, through jump
  hosts or directly. The definitions model the Unix build (\<^verbatim>\<open>cfg!(windows)\<close> is false).

  \<^verbatim>\<open>russh\<close>, the operating system and the ssh-agent are the parameter \<open>ssh_lib\<close>, functions on
  a state \<open>'n\<close> of the outside world: \<open>'k\<close> is a public key, \<open>'s\<close> a session handle, \<open>'pk\<close> a
  private key. Every call may be done, fail with a printed error, or still be waiting when the
  surrounding timeout elapses.
\<close>

section \<open>Terminal size, paths, keys\<close>

definition MIN_COLS :: u32 where "MIN_COLS = 20"
definition MIN_ROWS :: u32 where "MIN_ROWS = 5"
definition MAX_COLS :: u32 where "MAX_COLS = 512"
definition MAX_ROWS :: u32 where "MAX_ROWS = 256"

definition clamp :: "u32 \<Rightarrow> u32 \<Rightarrow> u32 \<Rightarrow> u32" where
  "clamp x lo hi = (if x < lo then lo else if hi < x then hi else x)"

definition normalize_terminal_size :: "u32 \<Rightarrow> u32 \<Rightarrow> u32 \<times> u32" where
  "normalize_terminal_size cols rows = (clamp cols MIN_COLS MAX_COLS, clamp rows MIN_ROWS MAX_ROWS)"

definition home_dir :: "(string \<Rightarrow> string option) \<Rightarrow> string option" where
  "home_dir env = (case env ''HOME'' of Some h \<Rightarrow> Some h | None \<Rightarrow> env ''USERPROFILE'')"

definition expand_user_path :: "(string \<Rightarrow> string option) \<Rightarrow> string \<Rightarrow> string" where
  "expand_user_path env path =
     (case home_dir env of
        None \<Rightarrow> path
      | Some home \<Rightarrow>
          if path = ''~'' \<or> path = ''~'' @ [CHR 0x5C] then home
          else case strip_prefix ''~/'' path of
            Some rest \<Rightarrow> path_join home rest
          | None \<Rightarrow> (case strip_prefix (''~'' @ [CHR 0x5C]) path of
                Some rest \<Rightarrow> path_join home rest
              | None \<Rightarrow> path))"

datatype keys_error = KeyIsEncrypted | SshKeyCrypto | OtherKeyError string

definition load_private_key :: "string \<Rightarrow> (keys_error, 'pk) result \<Rightarrow> (portix_error, 'pk) result" where
  "load_private_key shown loaded =
     map_err (\<lambda>e. case e of
        KeyIsEncrypted \<Rightarrow> KeyPassphraseRequired shown
      | SshKeyCrypto \<Rightarrow> KeyPassphraseIncorrect shown
      | OtherKeyError m \<Rightarrow> Russh m) loaded"

section \<open>The libraries and the world\<close>

datatype 'a lib_result = Done 'a | LibErr string | Elapsed

record ('n, 'k, 's, 'pk) ssh_lib =
  lib_env :: "string \<Rightarrow> string option"
  lib_lower :: "string \<Rightarrow> string"
  channel_open_direct_tcpip :: "'s \<Rightarrow> string \<Rightarrow> u16 \<Rightarrow> 'n \<Rightarrow> unit lib_result \<times> 'n"
  key_exchange :: "'s option \<Rightarrow> string \<times> u16 \<Rightarrow> 'n \<Rightarrow> 'k lib_result \<times> 'n"
  finish_connect :: "'n \<Rightarrow> 's lib_result \<times> 'n"
  load_secret_key :: "string \<Rightarrow> string option \<Rightarrow> 'n \<Rightarrow> (keys_error, 'pk) result"
  best_supported_rsa_hash :: "'s \<Rightarrow> 'n \<Rightarrow> string option lib_result \<times> 'n"
  authenticate_publickey :: "'s \<Rightarrow> string \<Rightarrow> 'pk \<Rightarrow> string option \<Rightarrow> 'n \<Rightarrow> bool lib_result \<times> 'n"
  authenticate_password :: "'s \<Rightarrow> string \<Rightarrow> string \<Rightarrow> 'n \<Rightarrow> bool lib_result \<times> 'n"
  connect_agent :: "'n \<Rightarrow> unit lib_result \<times> 'n"
  request_identities :: "'n \<Rightarrow> 'k list lib_result \<times> 'n"
  authenticate_publickey_with :: "'s \<Rightarrow> string \<Rightarrow> 'k \<Rightarrow> string option \<Rightarrow> 'n \<Rightarrow> bool lib_result \<times> 'n"
  kbd_server :: "'s \<Rightarrow> 'n \<Rightarrow> string list list \<Rightarrow> kbd_event"
  kbd_after :: "'s \<Rightarrow> string list list \<Rightarrow> 'n \<Rightarrow> 'n"

record ('n, 'k, 'f) ssh_world =
  sw_net :: 'n
  sw_known_hosts :: 'f
  sw_pending :: "'k pending_keys"
  sw_kbd :: kbd_state

text \<open>
  An error \<open>None\<close> means: not returned, the keyboard-interactive exchange still goes on after the
  rounds of fuel given.
\<close>

type_synonym ('n, 'k, 'f, 'a) conn = "(('n, 'k, 'f) ssh_world, portix_error option, 'a) io"

definition lib_call ::
  "portix_error \<Rightarrow> (string \<Rightarrow> portix_error) \<Rightarrow> ('n \<Rightarrow> 'a lib_result \<times> 'n) \<Rightarrow> ('n, 'k, 'f, 'a) conn" where
  "lib_call elapsed conv f = (\<lambda>w.
     case f (sw_net w) of (r, n) \<Rightarrow>
       ((case r of Done a \<Rightarrow> Ok a | LibErr e \<Rightarrow> Err (Some (conv e)) | Elapsed \<Rightarrow> Err (Some elapsed)),
        w\<lparr>sw_net := n\<rparr>))"

section \<open>The connection handler\<close>

record 's client =
  cl_host :: string
  cl_port :: u16
  cl_jump :: "'s option"
  cl_forward_to :: "(string \<times> u16) option"
  cl_forward_agent :: bool

definition check_server_key ::
  "('k, 'd, 'f) keys_lib \<Rightarrow> 's client \<Rightarrow> 'k \<Rightarrow> ('n, 'k, 'f, bool) conn" where
  "check_server_key kl c k = (\<lambda>w.
     case verify_host_key kl (cl_host c) (cl_port c) k (sw_known_hosts w) (sw_pending w) of
       (Err e, pend) \<Rightarrow> (Err (Some e), w\<lparr>sw_pending := pend\<rparr>)
     | (Ok _, pend) \<Rightarrow> (Ok True, w\<lparr>sw_pending := pend\<rparr>))"

text \<open>
  Channels the server opens: \<open>None\<close> refuses the channel (the reply is dropped), \<open>Some\<close> accepts
  it and says what it is joined to.
\<close>

definition server_channel_open_forwarded_tcpip :: "'s client \<Rightarrow> (string \<times> u16) option" where
  "server_channel_open_forwarded_tcpip c = cl_forward_to c"

definition agent_socket :: "(string \<Rightarrow> string option) \<Rightarrow> (portix_error, string) result" where
  "agent_socket env = ok_or (Io ''SSH_AUTH_SOCK'') (env ''SSH_AUTH_SOCK'')"

definition server_channel_open_agent_forward ::
  "(string \<Rightarrow> string option) \<Rightarrow> 's client \<Rightarrow> (portix_error, string) result option" where
  "server_channel_open_agent_forward env c =
     (if \<not> cl_forward_agent c then None else Some (agent_socket env))"

section \<open>Opening the transport\<close>

definition open_transport ::
  "('k, 'd, 'f) keys_lib \<Rightarrow> ('n, 'k, 's, 'pk) ssh_lib \<Rightarrow> 's client \<Rightarrow> ssh_profile \<Rightarrow>
   ('n, 'k, 'f, 's) conn" where
  "open_transport kl lib handler p =
     io_bind
       (case cl_jump handler of
          Some j \<Rightarrow> lib_call ConnectionTimeout Russh (channel_open_direct_tcpip lib j (ssh_host p) (ssh_port p))
        | None \<Rightarrow> io_ok ())
     (\<lambda>_. io_bind (lib_call ConnectionTimeout Russh (key_exchange lib (cl_jump handler) (socket_addr p)))
     (\<lambda>k. io_bind (check_server_key kl handler k)
     (\<lambda>_. lib_call ConnectionTimeout Russh (finish_connect lib))))"

section \<open>Authentication\<close>

definition agent_error :: "string \<Rightarrow> portix_error" where
  "agent_error e = SshAgent e"

fun try_identities ::
  "('n, 'k, 's, 'pk) ssh_lib \<Rightarrow> 's \<Rightarrow> string \<Rightarrow> 'k list \<Rightarrow> ('n, 'k, 'f, bool) conn" where
  "try_identities lib s user [] = io_ok False"
| "try_identities lib s user (k # ks) =
     io_bind (lib_call AuthenticationTimeout Russh (best_supported_rsa_hash lib s))
     (\<lambda>hash_alg. io_bind (lib_call AuthenticationTimeout SshAgent
                            (authenticate_publickey_with lib s user k hash_alg))
     (\<lambda>success. if success then io_ok True else try_identities lib s user ks))"

definition authenticate_with_agent ::
  "('n, 'k, 's, 'pk) ssh_lib \<Rightarrow> 's \<Rightarrow> string \<Rightarrow> ('n, 'k, 'f, bool) conn" where
  "authenticate_with_agent lib s user =
     io_bind (lib_call AuthenticationTimeout agent_error (request_identities lib))
     (\<lambda>ids. if ids = [] then io_err (Some (SshAgent ''no keys loaded (add one with ssh-add)''))
             else try_identities lib s user ids)"

definition load_profile_key ::
  "('n, 'k, 's, 'pk) ssh_lib \<Rightarrow> ssh_profile \<Rightarrow> ('n, 'k, 'f, 'pk option) conn" where
  "load_profile_key lib p =
     (case ssh_private_key_path p of
        None \<Rightarrow> io_ok None
      | Some path \<Rightarrow> (\<lambda>w.
          let full = expand_user_path (lib_env lib) path in
          (case load_private_key full (load_secret_key lib full (ssh_key_passphrase p) (sw_net w)) of
             Err e \<Rightarrow> (Err (Some e), w)
           | Ok k \<Rightarrow> (Ok (Some k), w))))"

definition primary_auth ::
  "('n, 'k, 's, 'pk) ssh_lib \<Rightarrow> ssh_profile \<Rightarrow> 's \<Rightarrow> 'pk option \<Rightarrow> ('n, 'k, 'f, bool) conn" where
  "primary_auth lib p s key_pair =
     (case key_pair of
        Some k \<Rightarrow>
          io_bind (lib_call AuthenticationTimeout Russh (best_supported_rsa_hash lib s))
          (\<lambda>hash_alg. lib_call AuthenticationTimeout Russh
             (authenticate_publickey lib s (ssh_username p) k hash_alg))
      | None \<Rightarrow> (case ssh_password p of
          Some pw \<Rightarrow> lib_call AuthenticationTimeout Russh (authenticate_password lib s (ssh_username p) pw)
        | None \<Rightarrow>
            io_bind (lib_call AuthenticationTimeout agent_error (connect_agent lib))
            (\<lambda>_. authenticate_with_agent lib s (ssh_username p))))"

definition keyboard_auth ::
  "('n, 'k, 's, 'pk) ssh_lib \<Rightarrow> nat \<Rightarrow> ssh_profile \<Rightarrow> 's \<Rightarrow> ('n, 'k, 'f, bool) conn" where
  "keyboard_auth lib fuel p s = (\<lambda>w.
     case authenticate (lib_lower lib) (kbd_server lib s (sw_net w)) p fuel (sw_kbd w) of
       (r, kbd, sent) \<Rightarrow>
         ((case r of None \<Rightarrow> Err None | Some (Err e) \<Rightarrow> Err (Some e) | Some (Ok b) \<Rightarrow> Ok b),
          w\<lparr>sw_net := kbd_after lib s sent (sw_net w), sw_kbd := kbd\<rparr>))"

definition is_agent_error :: "portix_error \<Rightarrow> bool" where
  "is_agent_error e = (case e of SshAgent _ \<Rightarrow> True | _ \<Rightarrow> False)"

text \<open>
  From the primary method to the verdict: a refused or partial login, or an agent that has no
  usable key, may still pass with keyboard-interactive; any other failure ends the attempt.
\<close>

definition finish_auth ::
  "('n, 'k, 'f, bool) conn \<Rightarrow> ('n, 'k, 'f, bool) conn \<Rightarrow> ('n, 'k, 'f, bool) conn" where
  "finish_auth primary keyboard = (\<lambda>w.
     case primary w of
       (Ok True, w') \<Rightarrow> (Ok True, w')
     | (Ok False, w') \<Rightarrow> keyboard w'
     | (Err None, w') \<Rightarrow> (Err None, w')
     | (Err (Some e), w') \<Rightarrow>
         if is_agent_error e then
           (case keyboard w' of
              (Err e', w'') \<Rightarrow> (Err e', w'')
            | (Ok False, w'') \<Rightarrow> (Err (Some e), w'')
            | (Ok True, w'') \<Rightarrow> (Ok True, w''))
         else (Err (Some e), w'))"

definition login ::
  "('n, 'k, 's, 'pk) ssh_lib \<Rightarrow> nat \<Rightarrow> ssh_profile \<Rightarrow> 's \<Rightarrow> ('n, 'k, 'f, 's) conn" where
  "login lib fuel p s =
     io_bind (load_profile_key lib p)
     (\<lambda>key_pair. io_bind (finish_auth (primary_auth lib p s key_pair) (keyboard_auth lib fuel p s))
     (\<lambda>authenticated. if authenticated then io_ok s else io_err (Some AuthenticationFailed)))"

section \<open>Connecting\<close>

lemma size_jump_host [termination_simp]: "ssh_jump_host p = Some j \<Longrightarrow> size j < size p"
  by (cases p) auto

definition forget_pending :: "ssh_profile \<Rightarrow> ('n, 'k, 'f, unit) conn" where
  "forget_pending p = (\<lambda>w.
     (Ok (), w\<lparr>sw_pending := forget_pending_host_key (ssh_host p) (ssh_port p) (sw_pending w)\<rparr>))"

fun connect_forwarding_to ::
  "('k, 'd, 'f) keys_lib \<Rightarrow> ('n, 'k, 's, 'pk) ssh_lib \<Rightarrow> nat \<Rightarrow> (string \<times> u16) option \<Rightarrow>
   ssh_profile \<Rightarrow> ('n, 'k, 'f, 's) conn" where
  "connect_forwarding_to kl lib fuel forward_to p =
     io_bind (forget_pending p)
     (\<lambda>_. io_bind
        (case ssh_jump_host p of
           Some j \<Rightarrow> io_bind (connect_forwarding_to kl lib fuel None j) (\<lambda>s. io_ok (Some s))
         | None \<Rightarrow> io_ok None)
     (\<lambda>jump.
        let handler = \<lparr>cl_host = ssh_host p, cl_port = ssh_port p, cl_jump = jump,
                       cl_forward_to = forward_to, cl_forward_agent = ssh_forward_agent p\<rparr>
        in io_bind (open_transport kl lib handler p) (\<lambda>s. login lib fuel p s)))"

declare connect_forwarding_to.simps [simp del]

definition connect_with_known_hosts ::
  "('k, 'd, 'f) keys_lib \<Rightarrow> ('n, 'k, 's, 'pk) ssh_lib \<Rightarrow> nat \<Rightarrow> ssh_profile \<Rightarrow> ('n, 'k, 'f, 's) conn" where
  "connect_with_known_hosts kl lib fuel p = connect_forwarding_to kl lib fuel None p"

definition with_default_known_hosts ::
  "('n, 'k, 's, 'pk) ssh_lib \<Rightarrow> ('n, 'k, 'f, 's) conn \<Rightarrow> ('n, 'k, 'f, 's) conn" where
  "with_default_known_hosts lib m =
     io_bind (io_of (map_err Some (default_known_hosts_path (home_dir (lib_env lib))))) (\<lambda>_. m)"

definition connect_and_authenticate_profile ::
  "('k, 'd, 'f) keys_lib \<Rightarrow> ('n, 'k, 's, 'pk) ssh_lib \<Rightarrow> nat \<Rightarrow> ssh_profile \<Rightarrow> ('n, 'k, 'f, 's) conn" where
  "connect_and_authenticate_profile kl lib fuel p =
     with_default_known_hosts lib (connect_with_known_hosts kl lib fuel p)"

definition connect_for_remote_forward ::
  "('k, 'd, 'f) keys_lib \<Rightarrow> ('n, 'k, 's, 'pk) ssh_lib \<Rightarrow> nat \<Rightarrow> ssh_profile \<Rightarrow> string \<times> u16 \<Rightarrow>
   ('n, 'k, 'f, 's) conn" where
  "connect_for_remote_forward kl lib fuel p target =
     with_default_known_hosts lib (connect_forwarding_to kl lib fuel (Some target) p)"

section \<open>Lemmas\<close>

lemma normalize_idem:
  "normalize_terminal_size cols rows = (c, r) \<Longrightarrow> normalize_terminal_size c r = (c, r)"
  by (auto simp: normalize_terminal_size_def clamp_def MIN_COLS_def MIN_ROWS_def MAX_COLS_def MAX_ROWS_def
      split: if_splits)

lemma lib_call_eq_Ok:
  "lib_call el conv f w = (Ok a, w') \<longleftrightarrow> (\<exists>n. f (sw_net w) = (Done a, n) \<and> w' = w\<lparr>sw_net := n\<rparr>)"
  by (auto simp: lib_call_def split: prod.splits lib_result.splits)

lemma lib_call_Done: "f (sw_net w) = (Done a, n) \<Longrightarrow> lib_call el conv f w = (Ok a, w\<lparr>sw_net := n\<rparr>)"
  by (simp add: lib_call_def)

lemma check_server_key_eq_Ok:
  "check_server_key kl c k w = (Ok b, w') \<longleftrightarrow>
     b \<and> w' = w \<and> fst (verify_host_key kl (cl_host c) (cl_port c) k (sw_known_hosts w) (sw_pending w)) = Ok ()"
  by (auto simp: check_server_key_def split: prod.splits sum.splits dest: verify_Ok_state)

text \<open>Connecting never writes \<^verbatim>\<open>known_hosts\<close>: the file is the same after every step.\<close>

abbreviation same_file :: "'f \<Rightarrow> ('n, 'k, 'f) ssh_world \<Rightarrow> bool" where
  "same_file f \<equiv> (\<lambda>w. sw_known_hosts w = f)"

lemma keeps_lib_call [intro, simp]: "keeps (same_file f) (lib_call el conv g)"
  by (rule keepsI) (simp add: lib_call_def split: prod.splits)

lemma keeps_check_server_key [intro, simp]: "keeps (same_file f) (check_server_key kl c k)"
  by (rule keepsI) (simp add: check_server_key_def split: prod.splits sum.splits)

lemma keeps_open_transport [intro, simp]: "keeps (same_file f) (open_transport kl lib c p)"
  unfolding open_transport_def by (intro keeps_bind) (auto split: option.splits)

lemma keeps_try_identities [intro, simp]: "keeps (same_file f) (try_identities lib s user ks)"
  by (induction ks) (auto intro!: keeps_bind)

lemma keeps_primary_auth [intro, simp]: "keeps (same_file f) (primary_auth lib p s kp)"
  unfolding primary_auth_def authenticate_with_agent_def
  by (auto intro!: keeps_bind split: option.splits)

lemma keeps_keyboard_auth [intro, simp]: "keeps (same_file f) (keyboard_auth lib fuel p s)"
  by (rule keepsI) (simp add: keyboard_auth_def split: prod.splits)

lemma keeps_finish_auth [intro]:
  "keeps I m \<Longrightarrow> keeps I m' \<Longrightarrow> keeps I (finish_auth m m')"
  by (auto simp: keeps_def finish_auth_def split: prod.splits sum.splits option.splits bool.splits)

lemma keeps_load_profile_key [intro, simp]: "keeps (same_file f) (load_profile_key lib p)"
  by (rule keepsI) (simp add: load_profile_key_def Let_def split: option.splits sum.splits)

lemma keeps_login [intro, simp]: "keeps (same_file f) (login lib fuel p s)"
  unfolding login_def by (auto intro!: keeps_bind keeps_finish_auth)

lemma keeps_forget_pending [intro, simp]: "keeps (same_file f) (forget_pending p)"
  by (rule keepsI) (simp add: forget_pending_def)

lemma keeps_connect [intro, simp]: "keeps (same_file f) (connect_forwarding_to kl lib fuel fwd p)"
proof (induction p arbitrary: fwd rule: measure_induct_rule [where f = size])
  case (less p)
  show ?case
    by (subst connect_forwarding_to.simps)
       (auto intro!: keeps_bind less simp: Let_def size_jump_host split: option.splits)
qed

text \<open>A key that is accepted is recorded for the server it was offered by.\<close>

definition recorded_key :: "('k, 'd, 'f) keys_lib \<Rightarrow> 'f \<Rightarrow> ssh_profile \<Rightarrow> 'k \<Rightarrow> bool" where
  "recorded_key kl f q k \<longleftrightarrow>
     (\<exists>recorded r. known_host_keys_path kl (ssh_host q) (ssh_port q) f = Ok recorded \<and>
        r \<in> set recorded \<and> key_data kl (snd r) = key_data kl k)"

lemma open_transport_recorded:
  assumes "open_transport kl lib c p w = (Ok s, w')"
    and "cl_host c = ssh_host p" "cl_port c = ssh_port p"
  shows "\<exists>k n n'. key_exchange lib (cl_jump c) (socket_addr p) n = (Done k, n') \<and>
    recorded_key kl (sw_known_hosts w) p k"
proof -
  from assms(1) obtain w1 k w2 where
    w1: "(case cl_jump c of
          Some j \<Rightarrow> lib_call ConnectionTimeout Russh (channel_open_direct_tcpip lib j (ssh_host p) (ssh_port p))
        | None \<Rightarrow> io_ok ()) w = (Ok (), w1)"
    and k: "lib_call ConnectionTimeout Russh (key_exchange lib (cl_jump c) (socket_addr p)) w1 = (Ok k, w2)"
    and check: "\<exists>w3. check_server_key kl c k w2 = (Ok True, w3)"
    by (auto simp: open_transport_def io_bind_eq_Ok check_server_key_eq_Ok)
  have "sw_known_hosts w1 = sw_known_hosts w"
    using w1 by (auto simp: lib_call_eq_Ok split: option.splits)
  then have "sw_known_hosts w2 = sw_known_hosts w"
    using k by (auto simp: lib_call_eq_Ok)
  with check assms(2,3) have "recorded_key kl (sw_known_hosts w) p k"
    by (auto simp: check_server_key_eq_Ok verify_Ok_iff recorded_key_def)
  with k show ?thesis by (auto simp: lib_call_eq_Ok)
qed

lemma connect_Ok_stages:
  assumes "connect_forwarding_to kl lib fuel fwd p w = (Ok s, w')"
  shows "\<exists>jump c w1 w2 s2.
    sw_known_hosts w1 = sw_known_hosts w \<and>
    (\<forall>j. ssh_jump_host p = Some j \<longrightarrow>
      (\<exists>wa sj. connect_forwarding_to kl lib fuel None j wa = (Ok sj, w1) \<and>
        sw_known_hosts wa = sw_known_hosts w)) \<and>
    cl_host c = ssh_host p \<and> cl_port c = ssh_port p \<and> cl_jump c = jump \<and>
    open_transport kl lib c p w1 = (Ok s2, w2) \<and> login lib fuel p s2 w2 = (Ok s, w')"
proof -
  from assms obtain w0 jump w1 s2 w2 where w0: "forget_pending p w = (Ok (), w0)"
    and jump: "(case ssh_jump_host p of
           Some j \<Rightarrow> io_bind (connect_forwarding_to kl lib fuel None j) (\<lambda>s. io_ok (Some s))
         | None \<Rightarrow> io_ok None) w0 = (Ok jump, w1)"
    and rest: "open_transport kl lib \<lparr>cl_host = ssh_host p, cl_port = ssh_port p, cl_jump = jump,
                       cl_forward_to = fwd, cl_forward_agent = ssh_forward_agent p\<rparr> p w1 = (Ok s2, w2)"
      "login lib fuel p s2 w2 = (Ok s, w')"
    by (subst (asm) connect_forwarding_to.simps) (auto simp: io_bind_eq_Ok Let_def)
  have f0: "sw_known_hosts w0 = sw_known_hosts w"
    using w0 by (auto simp: forget_pending_def)
  have "keeps (same_file (sw_known_hosts w)) (case ssh_jump_host p of
           Some j \<Rightarrow> io_bind (connect_forwarding_to kl lib fuel None j) (\<lambda>s. io_ok (Some s))
         | None \<Rightarrow> io_ok None)"
    by (auto intro!: keeps_bind split: option.splits)
  then have f1: "sw_known_hosts w1 = sw_known_hosts w"
    using keepsD [of _ _ w0] f0 jump by fastforce
  have "\<exists>wa sj. connect_forwarding_to kl lib fuel None j wa = (Ok sj, w1) \<and>
        sw_known_hosts wa = sw_known_hosts w" if "ssh_jump_host p = Some j" for j
    using jump that f0 by (auto simp: io_bind_eq_Ok)
  with rest f1 show ?thesis
    by (intro exI [of _ jump] exI [of _ "\<lparr>cl_host = ssh_host p, cl_port = ssh_port p, cl_jump = jump,
                       cl_forward_to = fwd, cl_forward_agent = ssh_forward_agent p\<rparr>"]
              exI [of _ w1] exI [of _ w2] exI [of _ s2]) auto
qed

lemma hops_recorded:
  assumes "connect_forwarding_to kl lib fuel fwd p w = (Ok s, w')" and "q \<in> set (hops p)"
  shows "\<exists>via k n n'. key_exchange lib via (socket_addr q) n = (Done k, n') \<and>
    recorded_key kl (sw_known_hosts w) q k"
  using assms
proof (induction p arbitrary: fwd w s w' rule: measure_induct_rule [where f = size])
  case (less p)
  from connect_Ok_stages [OF less.prems(1)] obtain jump c w1 w2 s2 where
    f1: "sw_known_hosts w1 = sw_known_hosts w"
    and via: "\<And>j. ssh_jump_host p = Some j \<Longrightarrow>
      \<exists>wa sj. connect_forwarding_to kl lib fuel None j wa = (Ok sj, w1) \<and> sw_known_hosts wa = sw_known_hosts w"
    and tr: "open_transport kl lib c p w1 = (Ok s2, w2)" "cl_host c = ssh_host p" "cl_port c = ssh_port p"
    by blast
  show ?case
  proof (cases "q = p")
    case True
    with open_transport_recorded [OF tr] f1 show ?thesis by auto
  next
    case False
    with less.prems(2) obtain j where j: "ssh_jump_host p = Some j" "q \<in> set (hops j)"
      by (cases "ssh_jump_host p") (auto simp: hops_unfold [of p])
    from via [OF j(1)] obtain wa sj where
      a: "connect_forwarding_to kl lib fuel None j wa = (Ok sj, w1)" "sw_known_hosts wa = sw_known_hosts w"
      by blast
    from less.IH [OF size_jump_host [OF j(1)] a(1) j(2)] a(2) show ?thesis by simp
  qed
qed

section \<open>Properties\<close>

text \<open>
  C1: A connection comes up only if every server on the way, each jump host and the target,
  presented a key that \<^verbatim>\<open>known_hosts\<close> records for its own host and port; a jump host cannot vouch
  for the servers behind it.
\<close>

theorem every_hop_is_verified:
  assumes "connect_forwarding_to kl lib fuel fwd p w = (Ok s, w')" and "q \<in> set (hops p)"
  shows "\<exists>via k n n' recorded r. key_exchange lib via (socket_addr q) n = (Done k, n') \<and>
    known_host_keys_path kl (ssh_host q) (ssh_port q) (sw_known_hosts w) = Ok recorded \<and>
    r \<in> set recorded \<and> key_data kl (snd r) = key_data kl k"
  using hops_recorded [OF assms] by (auto simp: recorded_key_def)

text \<open>
  A refused host key ends the attempt: nothing more is exchanged with the server (so no
  credential is sent), the error is the one of the check, and the offered key is pending.
\<close>

theorem refused_key_stops_the_connection:
  assumes direct: "ssh_jump_host p = None"
    and offered: "key_exchange lib None (socket_addr p) (sw_net w) = (Done k, n)"
    and refused: "verify_host_key kl (ssh_host p) (ssh_port p) k (sw_known_hosts w)
        (forget_pending_host_key (ssh_host p) (ssh_port p) (sw_pending w)) = (Err e, pend)"
  shows "connect_forwarding_to kl lib fuel fwd p w = (Err (Some e), w\<lparr>sw_net := n, sw_pending := pend\<rparr>)"
proof -
  have "lib_call ConnectionTimeout Russh (key_exchange lib None (socket_addr p))
      (w\<lparr>sw_pending := forget_pending_host_key (ssh_host p) (ssh_port p) (sw_pending w)\<rparr>) =
    (Ok k, w\<lparr>sw_net := n, sw_pending := forget_pending_host_key (ssh_host p) (ssh_port p) (sw_pending w)\<rparr>)"
    using offered by (simp add: lib_call_def)
  then show ?thesis
    using direct refused
    by (subst connect_forwarding_to.simps)
       (simp add: forget_pending_def io_bind_def Let_def open_transport_def check_server_key_def)
qed

text \<open>
  With a private key configured, a login uses neither password authentication nor the
  ssh-agent: replacing those library calls by anything changes nothing.
\<close>

theorem key_login_ignores_password_and_agent:
  assumes "ssh_private_key_path p = Some path"
  shows "login (lib\<lparr>authenticate_password := f1, connect_agent := f2, request_identities := f3,
      authenticate_publickey_with := f4\<rparr>) fuel p s = login lib fuel p s"
proof (rule ext)
  fix w
  let ?lib = "lib\<lparr>authenticate_password := f1, connect_agent := f2, request_identities := f3,
      authenticate_publickey_with := f4\<rparr>"
  have key: "load_profile_key ?lib p = load_profile_key lib p"
    using assms by (simp add: load_profile_key_def)
  have kbd: "keyboard_auth ?lib fuel p s = keyboard_auth lib fuel p s"
    by (simp add: keyboard_auth_def)
  have prim: "primary_auth ?lib p s (Some k) = primary_auth lib p s (Some k)" for k
    by (simp add: primary_auth_def)
  have some: "\<exists>k. x = Some k" if "load_profile_key lib p w = (Ok x, w')" for x w'
    using that assms by (auto simp: load_profile_key_def Let_def split: sum.splits)
  show "login ?lib fuel p s w = login lib fuel p s w"
  proof (cases "load_profile_key lib p w")
    case (Pair r w')
    show ?thesis
    proof (cases r)
      case (Inl e)
      with Pair show ?thesis by (simp add: login_def key io_bind_def)
    next
      case (Inr x)
      with Pair some obtain k where "x = Some k" by blast
      with Pair Inr show ?thesis by (simp add: login_def key io_bind_def prim kbd)
    qed
  qed
qed

text \<open>
  Whatever size a terminal asks for, the size sent to the server is between 20x5 and
  512x256, is the requested one when that is in range, and normalizing again changes nothing.
\<close>

lemma terminal_size_is_bounded:
  "\<exists>c r. normalize_terminal_size cols rows = (c, r) \<and>
     20 \<le> c \<and> c \<le> 512 \<and> 5 \<le> r \<and> r \<le> 256 \<and>
     (c = cols) = (20 \<le> cols \<and> cols \<le> 512) \<and> (r = rows) = (5 \<le> rows \<and> rows \<le> 256) \<and>
     normalize_terminal_size c r = (c, r)"
  by (auto simp: normalize_terminal_size_def clamp_def MIN_COLS_def MIN_ROWS_def MAX_COLS_def MAX_ROWS_def
      word_less_nat_alt word_le_nat_alt)

section \<open>Witnesses\<close>

text \<open>A server that always presents the key \<open>K\<close> and accepts every login.\<close>

definition demo_lib :: "(nat, string, unit, unit) ssh_lib" where
  "demo_lib =
     \<lparr>lib_env = [''HOME'' \<mapsto> ''/home/u''], lib_lower = id,
      channel_open_direct_tcpip = (\<lambda>_ _ _ n. (Done (), n)),
      key_exchange = (\<lambda>_ _ n. (Done ''K'', Suc n)),
      finish_connect = (\<lambda>n. (Done (), n)),
      load_secret_key = (\<lambda>_ _ _. Ok ()),
      best_supported_rsa_hash = (\<lambda>_ n. (Done None, n)),
      authenticate_publickey = (\<lambda>_ _ _ _ n. (Done True, n)),
      authenticate_password = (\<lambda>_ _ _ n. (Done True, n)),
      connect_agent = (\<lambda>n. (LibErr ''no agent'', n)),
      request_identities = (\<lambda>n. (Done [], n)),
      authenticate_publickey_with = (\<lambda>_ _ _ _ n. (Done False, n)),
      kbd_server = (\<lambda>_ _ _. Responded Failure),
      kbd_after = (\<lambda>_ _ n. n)\<rparr>"

definition gate_profile :: ssh_profile where
  "gate_profile = SshProfile ''g'' ''gate'' ''gate'' 22 ''u'' (Some ''pw'') None None None False None"

definition inner_profile :: ssh_profile where
  "inner_profile = SshProfile ''i'' ''inner'' ''inner'' 22 ''u'' None (Some ''~/k'') None (Some gate_profile) False None"

definition demo_world :: "(nat, string, (string \<times> u16 \<times> string) list) ssh_world" where
  "demo_world =
     \<lparr>sw_net = 0, sw_known_hosts = [(''gate'', 22, ''K''), (''inner'', 22, ''K'')],
      sw_pending = Map.empty, sw_kbd = \<lparr>kb_pending = Map.empty, kb_answers = Map.empty\<rparr>\<rparr>"

lemmas demo_defs = forget_pending_def forget_pending_host_key_def io_bind_def Let_def open_transport_def
  check_server_key_def lib_call_def socket_addr_def verify_host_key_def list_lib_def demo_lib_def
  login_def load_profile_key_def load_private_key_def primary_auth_def finish_auth_def

lemma demo_connect:
  "connect_forwarding_to list_lib demo_lib 1 None inner_profile demo_world =
     (Ok (), demo_world\<lparr>sw_net := 2, sw_pending := Map.empty\<rparr>)"
  by (simp add: connect_forwarding_to.simps demo_defs inner_profile_def gate_profile_def demo_world_def
      numeral_2_eq_2)

theorem every_hop_is_verified_witness:
  "\<exists>via k n n' recorded r. key_exchange demo_lib via (socket_addr gate_profile) n = (Done k, n') \<and>
    known_host_keys_path list_lib ''gate'' 22 (sw_known_hosts demo_world) = Ok recorded \<and>
    r \<in> set recorded \<and> key_data list_lib (snd r) = key_data list_lib k"
proof -
  have "gate_profile \<in> set (hops inner_profile)"
    by (simp add: inner_profile_def gate_profile_def)
  from every_hop_is_verified [OF demo_connect this] show ?thesis
    by (simp add: gate_profile_def)
qed

theorem refused_key_stops_the_connection_witness:
  "fst (connect_forwarding_to list_lib demo_lib 1 None gate_profile (demo_world\<lparr>sw_known_hosts := []\<rparr>)) =
     Err (Some (HostKeyUnknown ''gate'' 22 ''SHA256:K''))"
proof -
  let ?w = "demo_world\<lparr>sw_known_hosts := []\<rparr>"
  have d: "ssh_jump_host gate_profile = None" by (simp add: gate_profile_def)
  have o: "key_exchange demo_lib None (socket_addr gate_profile) (sw_net ?w) = (Done ''K'', 1)"
    by (simp add: demo_lib_def demo_world_def)
  have "verify_host_key list_lib (ssh_host gate_profile) (ssh_port gate_profile) ''K'' (sw_known_hosts ?w)
        (forget_pending_host_key (ssh_host gate_profile) (ssh_port gate_profile) (sw_pending ?w)) =
      (Err (HostKeyUnknown ''gate'' 22 ''SHA256:K''), [(''gate'', 22) \<mapsto> offered_key list_lib ''K'' None])"
    by (simp add: verify_host_key_def list_lib_def remember_offered_key_def gate_profile_def
        forget_pending_host_key_def demo_world_def)
  from refused_key_stops_the_connection [OF d o this] show ?thesis by simp
qed

theorem key_login_ignores_password_and_agent_witness:
  "login (demo_lib\<lparr>authenticate_password := (\<lambda>_ _ _ n. (Elapsed, n)), connect_agent := (\<lambda>n. (Elapsed, n)),
      request_identities := (\<lambda>n. (Elapsed, n)), authenticate_publickey_with := (\<lambda>_ _ _ _ n. (Elapsed, n))\<rparr>)
      1 inner_profile () demo_world = login demo_lib 1 inner_profile () demo_world"
proof -
  have "ssh_private_key_path inner_profile = Some ''~/k''" by (simp add: inner_profile_def)
  then show ?thesis by (rule fun_cong [OF key_login_ignores_password_and_agent])
qed

end
