(* ===== verification/Ssh_Runtime.thy ===== *)
theory Ssh_Runtime
  imports Ssh_Connect
begin

text \<open>
  \<^verbatim>\<open>portix_serv/src/infrastructure/ssh_client.rs\<close>, part two: running a command on an open
  connection (\<^verbatim>\<open>run_exec\<close>), the background workers that keep a connection for commands
  (\<^verbatim>\<open>run_exec_worker\<close>, \<^verbatim>\<open>exec_on_profile\<close>) and the loop of a terminal session
  (\<^verbatim>\<open>SshRuntime::run\<close>).
\<close>

section \<open>Running one command\<close>

datatype channel_msg =
    Data bytes
  | ExtendedData bytes
  | Eof
  | Close
  | ExitStatus u32
  | OtherMsg

text \<open>
  What the library does for one command: the results of opening the channel, of the exec
  request, of sending the input and its end, and the messages \<^verbatim>\<open>channel.wait()\<close> delivers before
  it returns \<open>None\<close>.
\<close>

record exec_script =
  xs_open :: "(string, unit) result"
  xs_exec :: "(string, unit) result"
  xs_data :: "(string, unit) result"
  xs_eof :: "(string, unit) result"
  xs_msgs :: "channel_msg list"

fun collect_output :: "channel_msg list \<Rightarrow> bytes \<Rightarrow> u32 option \<Rightarrow> bytes \<times> u32 option" where
  "collect_output [] out status = (out, status)"
| "collect_output (Data d # ms) out status = collect_output ms (out @ d) status"
| "collect_output (ExtendedData d # ms) out status = collect_output ms (out @ d) status"
| "collect_output (Eof # ms) out status = (out, status)"
| "collect_output (Close # ms) out status = (out, status)"
| "collect_output (ExitStatus s # ms) out status = collect_output ms out (Some s)"
| "collect_output (OtherMsg # ms) out status = collect_output ms out status"

definition failure_detail :: "string \<Rightarrow> string" where
  "failure_detail output =
     (case List.find (\<lambda>line. trim line \<noteq> []) (rev (lines output)) of
        Some line \<Rightarrow> trim line
      | None \<Rightarrow> ''remote command failed'')"

definition exec_result :: "bytes \<times> u32 option \<Rightarrow> (portix_error, string) result" where
  "exec_result collected =
     (case collected of (out, exit_status) \<Rightarrow>
        let output = from_utf8_lossy out in
        case exit_status of
          Some status \<Rightarrow>
            if status \<noteq> 0
            then Err (InvalidRequest (''remote command exited with '' @ show_word status @ '': '' @
                   failure_detail output))
            else Ok output
        | None \<Rightarrow> Ok output)"

definition run_exec :: "exec_script \<Rightarrow> string option \<Rightarrow> (portix_error, string) result" where
  "run_exec xs input =
     and_then (map_err Russh (xs_open xs)) (\<lambda>_.
     and_then (map_err Russh (xs_exec xs)) (\<lambda>_.
     and_then (case input of
                 None \<Rightarrow> Ok ()
               | Some _ \<Rightarrow> and_then (map_err Russh (xs_data xs)) (\<lambda>_. map_err Russh (xs_eof xs))) (\<lambda>_.
     exec_result (collect_output (xs_msgs xs) [] None))))"

section \<open>The background worker\<close>

text \<open>
  \<open>'h\<close> is a session handle, \<open>'w\<close> the world: how connecting and running a command go, and
  what a keepalive and the final disconnect leave behind (their results are ignored).
\<close>

record ('w, 'h) exec_env =
  ex_connect :: "('w, portix_error, 'h) io"
  ex_exec :: "'h \<Rightarrow> string \<Rightarrow> string option \<Rightarrow> 'w \<Rightarrow> exec_script \<times> 'w"
  ex_keepalive :: "'h \<Rightarrow> 'w \<Rightarrow> 'w"
  ex_disconnect :: "'h \<Rightarrow> 'w \<Rightarrow> 'w"

definition exec_on ::
  "('w, 'h) exec_env \<Rightarrow> 'h \<Rightarrow> string \<Rightarrow> string option \<Rightarrow> ('w, portix_error, string) io" where
  "exec_on env h cmd input w =
     (case ex_exec env h cmd input w of (xs, w') \<Rightarrow> (run_exec xs input, w'))"

definition worker_connect ::
  "('w, 'h) exec_env \<Rightarrow> 'h option \<Rightarrow> 'w \<Rightarrow> 'h option \<times> portix_error option \<times> 'w" where
  "worker_connect env session w =
     (case session of
        Some h \<Rightarrow> (Some h, None, w)
      | None \<Rightarrow> (case ex_connect env w of
          (Ok h, w1) \<Rightarrow> (Some h, None, w1)
        | (Err _, w1) \<Rightarrow> (case ex_connect env w1 of
            (Ok h, w2) \<Rightarrow> (Some h, None, w2)
          | (Err e, w2) \<Rightarrow> (None, Some e, w2))))"

definition is_answer :: "(portix_error, string) result \<Rightarrow> bool" where
  "is_answer r = (case r of Ok _ \<Rightarrow> True | Err (InvalidRequest _) \<Rightarrow> True | Err _ \<Rightarrow> False)"

definition answer_request ::
  "('w, 'h) exec_env \<Rightarrow> 'h option \<Rightarrow> string \<Rightarrow> string option \<Rightarrow> 'w \<Rightarrow>
   (portix_error, string) result \<times> 'h option \<times> 'w" where
  "answer_request env session cmd input w =
     (case worker_connect env session w of
        (None, connect_error, w1) \<Rightarrow> (Err (unwrap_or ConnectionTimeout connect_error), None, w1)
      | (Some h, _, w1) \<Rightarrow>
          (case exec_on env h cmd input w1 of (r, w2) \<Rightarrow>
             if is_answer r then (r, Some h, w2)
             else case ex_connect env w2 of
               (Ok h', w3) \<Rightarrow> (case exec_on env h' cmd input w3 of (r', w4) \<Rightarrow> (r', Some h', w4))
             | (Err e, w3) \<Rightarrow> (Err e, None, w3)))"

datatype exec_event =
    ExecRequest string "string option"
  | ExecClosed
  | ExecKeepalive

record ('w, 'h) worker =
  wk_session :: "'h option"
  wk_world :: 'w
  wk_responses :: "(portix_error, string) result list"

fun worker_step :: "('w, 'h) exec_env \<Rightarrow> ('w, 'h) worker \<Rightarrow> exec_event \<Rightarrow> (('w, 'h) worker, unit) flow" where
  "worker_step env s (ExecRequest cmd input) =
     (case answer_request env (wk_session s) cmd input (wk_world s) of
        (r, session, w) \<Rightarrow>
          Continue \<lparr>wk_session = session, wk_world = w, wk_responses = wk_responses s @ [r]\<rparr>)"
| "worker_step env s ExecClosed =
     Stop (case wk_session s of
             None \<Rightarrow> s
           | Some h \<Rightarrow> s\<lparr>wk_world := ex_disconnect env h (wk_world s)\<rparr>) ()"
| "worker_step env s ExecKeepalive =
     Continue (case wk_session s of
                 None \<Rightarrow> s
               | Some h \<Rightarrow> s\<lparr>wk_world := ex_keepalive env h (wk_world s)\<rparr>)"

definition run_exec_worker ::
  "('w, 'h) exec_env \<Rightarrow> 'w \<Rightarrow> exec_event list \<Rightarrow> (('w, 'h) worker, unit) flow" where
  "run_exec_worker env w events =
     (case ex_connect env w of (r, w') \<Rightarrow>
        run_loop (worker_step env) \<lparr>wk_session = ok r, wk_world = w', wk_responses = []\<rparr> events)"

section \<open>One worker per profile\<close>

text \<open>
  The derived \<^verbatim>\<open>Debug\<close> of \<^verbatim>\<open>SshProfile\<close>, as \<^verbatim>\<open>{:?}\<close> prints it: every field by name, in order. \<open>q\<close> is the
  \<^verbatim>\<open>Debug\<close> of a string, a quoted literal whose escapes depend on Unicode tables.
\<close>

definition debug_option :: "('a \<Rightarrow> string) \<Rightarrow> 'a option \<Rightarrow> string" where
  "debug_option f x = (case x of None \<Rightarrow> ''None'' | Some y \<Rightarrow> ''Some('' @ f y @ '')'')"

definition debug_bool :: "bool \<Rightarrow> string" where
  "debug_bool b = (if b then ''true'' else ''false'')"

fun debug_profile :: "(string \<Rightarrow> string) \<Rightarrow> ssh_profile \<Rightarrow> string" where
  "debug_profile q (SshProfile ident name host port username password private_key_path key_passphrase
     jump_host forward_agent command) =
     ''SshProfile { id: '' @ q ident @ '', name: '' @ q name @ '', host: '' @ q host @
     '', port: '' @ show_word port @ '', username: '' @ q username @
     '', password: '' @ debug_option q password @
     '', private_key_path: '' @ debug_option q private_key_path @
     '', key_passphrase: '' @ debug_option q key_passphrase @
     '', jump_host: '' @
       (case jump_host of None \<Rightarrow> ''None'' | Some jump \<Rightarrow> ''Some('' @ debug_profile q jump @ '')'') @
     '', forward_agent: '' @ debug_bool forward_agent @
     '', command: '' @ debug_option q command @ '' }''"

text \<open>
  \<^verbatim>\<open>PROFILE_EXEC\<close> maps the debug print of a profile to the sender of its worker; workers are
  numbered in the order they are spawned.
\<close>

record profile_exec =
  pe_workers :: "string \<rightharpoonup> nat"
  pe_spawned :: "ssh_profile list"

datatype exec_reply = SendFailed | ResponseDropped | Response "(portix_error, string) result"

definition worker_for :: "(string \<Rightarrow> string) \<Rightarrow> ssh_profile \<Rightarrow> profile_exec \<Rightarrow> nat \<times> profile_exec" where
  "worker_for q p st =
     (case pe_workers st (debug_profile q p) of
        Some i \<Rightarrow> (i, st)
      | None \<Rightarrow>
          let i = length (pe_spawned st) in
          (i, st\<lparr>pe_workers := (pe_workers st)(debug_profile q p \<mapsto> i), pe_spawned := pe_spawned st @ [p]\<rparr>))"

definition exec_on_profile ::
  "(string \<Rightarrow> string) \<Rightarrow> (nat \<Rightarrow> string \<Rightarrow> string option \<Rightarrow> exec_reply) \<Rightarrow>
   ssh_profile \<Rightarrow> string \<Rightarrow> string option \<Rightarrow> (profile_exec, portix_error, string) io" where
  "exec_on_profile q ask p cmd input st =
     (case worker_for q p st of (i, st') \<Rightarrow>
        ((case ask i cmd input of
            SendFailed \<Rightarrow> Err ConnectionTimeout
          | ResponseDropped \<Rightarrow> Err ConnectionTimeout
          | Response r \<Rightarrow> r), st'))"

section \<open>A terminal session\<close>

datatype 'r ssh_command =
    Input bytes
  | Resize u32 u32
  | Exec string 'r
  | Disconnect

datatype 'r term_event =
    Command "'r ssh_command option"
  | Message "channel_msg option"
  | KeepaliveTick

record 'n chan_ops =
  co_open :: "('n, string, unit) io"
  co_request_pty :: "u32 \<Rightarrow> u32 \<Rightarrow> ('n, string, unit) io"
  co_agent_forward :: "('n, string, unit) io"
  co_exec :: "string \<Rightarrow> ('n, string, unit) io"
  co_request_shell :: "('n, string, unit) io"
  co_data :: "bytes \<Rightarrow> ('n, string, unit) io"
  co_window_change :: "u32 \<Rightarrow> u32 \<Rightarrow> ('n, string, unit) io"
  co_eof :: "('n, string, unit) io"
  co_close :: "('n, string, unit) io"
  co_disconnect :: "('n, string, unit) io"
  co_keepalive :: "('n, string, unit) io"
  co_exec_open :: "'n \<Rightarrow> bool"

record ('n, 'r) term_state =
  ts_net :: 'n
  ts_output :: "terminal_output_event list"
  ts_status :: "connection_status_event list"
  ts_exec :: "(string \<times> 'r) list"

definition term_call ::
  "('n, string, unit) io \<Rightarrow> ('n, 'r) term_state \<Rightarrow> (('n, 'r) term_state, (portix_error, unit) result) flow" where
  "term_call f s =
     (case f (ts_net s) of
        (Err e, n) \<Rightarrow> Stop (s\<lparr>ts_net := n\<rparr>) (Err (Russh e))
      | (Ok _, n) \<Rightarrow> Continue (s\<lparr>ts_net := n\<rparr>))"

definition emit_output :: "string \<Rightarrow> bytes \<Rightarrow> ('n, 'r) term_state \<Rightarrow> ('n, 'r) term_state" where
  "emit_output sid d s = s\<lparr>ts_output := ts_output s @ [\<lparr>to_session_id = sid, to_data = d\<rparr>]\<rparr>"

definition emit_status ::
  "string \<Rightarrow> connection_status \<Rightarrow> string option \<Rightarrow> ('n, 'r) term_state \<Rightarrow> ('n, 'r) term_state" where
  "emit_status sid status msg s =
     s\<lparr>ts_status := ts_status s @ [\<lparr>cs_session_id = sid, cs_status = status, cs_message = msg\<rparr>]\<rparr>"

definition close_session :: "'n chan_ops \<Rightarrow> 'n \<Rightarrow> 'n" where
  "close_session ops n = snd (co_disconnect ops (snd (co_close ops (snd (co_eof ops n)))))"

fun term_step ::
  "'n chan_ops \<Rightarrow> string \<Rightarrow> ('n, 'r) term_state \<Rightarrow> 'r term_event \<Rightarrow>
   (('n, 'r) term_state, (portix_error, unit) result) flow" where
  "term_step ops sid s (Command (Some (Input d))) = term_call (co_data ops d) s"
| "term_step ops sid s (Command (Some (Resize cols rows))) =
     (case normalize_terminal_size cols rows of (c, r) \<Rightarrow> term_call (co_window_change ops c r) s)"
| "term_step ops sid s (Command (Some (Exec cmd rid))) =
     (if co_exec_open ops (ts_net s) then Continue (s\<lparr>ts_exec := ts_exec s @ [(cmd, rid)]\<rparr>)
      else Stop s (Err (SessionNotFound sid)))"
| "term_step ops sid s (Command (Some Disconnect)) =
     Stop (s\<lparr>ts_net := close_session ops (ts_net s)\<rparr>) (Ok ())"
| "term_step ops sid s (Command None) =
     Stop (s\<lparr>ts_net := close_session ops (ts_net s)\<rparr>) (Ok ())"
| "term_step ops sid s (Message (Some (Data d))) = Continue (emit_output sid d s)"
| "term_step ops sid s (Message (Some (ExtendedData d))) = Continue (emit_output sid d s)"
| "term_step ops sid s (Message (Some Eof)) = Stop s (Ok ())"
| "term_step ops sid s (Message (Some Close)) = Stop s (Ok ())"
| "term_step ops sid s (Message None) = Stop s (Ok ())"
| "term_step ops sid s (Message (Some (ExitStatus st))) = Stop s (Ok ())"
| "term_step ops sid s (Message (Some OtherMsg)) = Continue s"
| "term_step ops sid s KeepaliveTick = Continue (s\<lparr>ts_net := snd (co_keepalive ops (ts_net s))\<rparr>)"

definition open_terminal :: "'n chan_ops \<Rightarrow> ssh_profile \<Rightarrow> u32 \<Rightarrow> u32 \<Rightarrow> ('n, string, unit) io" where
  "open_terminal ops p cols rows =
     io_bind (co_open ops) (\<lambda>_.
     io_bind (case normalize_terminal_size cols rows of (c, r) \<Rightarrow> co_request_pty ops c r) (\<lambda>_.
     io_bind (if ssh_forward_agent p then co_agent_forward ops else io_ok ()) (\<lambda>_.
     (case ssh_command p of Some command \<Rightarrow> co_exec ops command | None \<Rightarrow> co_request_shell ops))))"

text \<open>
  \<^verbatim>\<open>run\<close> up to its loop, and with it: \<open>connected\<close> is the outcome of \<^verbatim>\<open>connect_and_authenticate\<close>.
\<close>

definition runtime_start ::
  "'n chan_ops \<Rightarrow> ssh_profile \<Rightarrow> string \<Rightarrow> (portix_error, unit) result \<Rightarrow> u32 \<Rightarrow> u32 \<Rightarrow>
   ('n, 'r) term_state \<Rightarrow> (('n, 'r) term_state, (portix_error, unit) result) flow" where
  "runtime_start ops p sid connected cols rows s =
     (case connected of
        Err e \<Rightarrow> Stop s (Err e)
      | Ok _ \<Rightarrow> (case term_call (open_terminal ops p cols rows) s of
          Stop s' r \<Rightarrow> Stop s' r
        | Continue s' \<Rightarrow> Continue (emit_status sid Connected (Some ''connected'') s')))"

definition runtime_run ::
  "'n chan_ops \<Rightarrow> ssh_profile \<Rightarrow> string \<Rightarrow> (portix_error, unit) result \<Rightarrow> u32 \<Rightarrow> u32 \<Rightarrow> 'r term_event list \<Rightarrow>
   ('n, 'r) term_state \<Rightarrow> (('n, 'r) term_state, (portix_error, unit) result) flow" where
  "runtime_run ops p sid connected cols rows events s =
     (case runtime_start ops p sid connected cols rows s of
        Stop s' r \<Rightarrow> Stop s' r
      | Continue s' \<Rightarrow> run_loop (term_step ops sid) s' events)"

section \<open>Lemmas\<close>

lemma collect_output_eof: "collect_output (ms @ Eof # rest) out status = collect_output ms out status"
  by (induction ms out status rule: collect_output.induct) auto

lemma collect_output_no_status:
  "(\<And>s. ExitStatus s \<notin> set ms) \<Longrightarrow> snd (collect_output ms out status) = status"
  by (induction ms out status rule: collect_output.induct) auto

lemma term_call_state:
  "ts_output (flow_state (term_call f s)) = ts_output s"
  "ts_status (flow_state (term_call f s)) = ts_status s"
  "ts_exec (flow_state (term_call f s)) = ts_exec s"
  by (simp_all add: term_call_def split: prod.splits sum.splits)

lemma emit_output_simps [simp]:
  "ts_output (emit_output sid d s) = ts_output s @ [\<lparr>to_session_id = sid, to_data = d\<rparr>]"
  "ts_status (emit_output sid d s) = ts_status s" "ts_exec (emit_output sid d s) = ts_exec s"
  "ts_net (emit_output sid d s) = ts_net s"
  by (simp_all add: emit_output_def)

lemma emit_status_simps [simp]:
  "ts_status (emit_status sid st m s) =
     ts_status s @ [\<lparr>cs_session_id = sid, cs_status = st, cs_message = m\<rparr>]"
  "ts_output (emit_status sid st m s) = ts_output s"
  by (simp_all add: emit_status_def)

text \<open>The data a message of the server carries, and the events that end a session by themselves.\<close>

fun server_data :: "'r term_event \<Rightarrow> bytes list" where
  "server_data (Message (Some (Data d))) = [d]"
| "server_data (Message (Some (ExtendedData d))) = [d]"
| "server_data _ = []"

fun ends_session :: "'r term_event \<Rightarrow> bool" where
  "ends_session (Message None) = True"
| "ends_session (Message (Some m)) \<longleftrightarrow> m = Eof \<or> m = Close \<or> (\<exists>st. m = ExitStatus st)"
| "ends_session (Command None) = True"
| "ends_session (Command (Some Disconnect)) = True"
| "ends_session _ = False"

text \<open>No call of the library fails, and the worker for commands is there.\<close>

definition channel_works :: "'n chan_ops \<Rightarrow> bool" where
  "channel_works ops \<longleftrightarrow>
     (\<forall>d n. is_ok (fst (co_data ops d n))) \<and> (\<forall>c r n. is_ok (fst (co_window_change ops c r n))) \<and>
     (\<forall>n. co_exec_open ops n)"

lemma term_step_output:
  "ts_output (flow_state (term_step ops sid s e)) =
     ts_output s @ map (\<lambda>d. \<lparr>to_session_id = sid, to_data = d\<rparr>) (server_data e)"
  by (cases "(ops, sid, s, e)" rule: term_step.cases) (auto simp: term_call_state split: prod.splits)

lemma term_step_status: "ts_status (flow_state (term_step ops sid s e)) = ts_status s"
  by (cases "(ops, sid, s, e)" rule: term_step.cases) (auto simp: term_call_state split: prod.splits)

interpretation term_status: loop_invariant "term_step ops sid" "\<lambda>s. ts_status s = X"
  for ops :: "'n chan_ops" and sid and X
  by unfold_locales (simp add: term_step_status)

lemma ending_step: "ends_session e \<Longrightarrow> server_data e = [] \<and> (\<exists>s'. term_step ops sid s e = Stop s' (Ok ()))"
  by (cases "(ops, sid, s, e)" rule: term_step.cases) auto

lemma term_call_works: "(\<And>n. is_ok (fst (f n))) \<Longrightarrow> \<exists>s'. term_call f s = Continue s'"
  by (cases "f (ts_net s)") (auto simp: term_call_def is_ok_def split: sum.splits, metis fst_conv is_ok_def sum.case(1))

lemma going_step:
  assumes "channel_works ops" "\<not> ends_session e"
  shows "\<exists>s'. term_step ops sid s e = Continue s'"
  using assms
  by (cases "(ops, sid, s, e)" rule: term_step.cases)
     (auto simp: channel_works_def term_call_works split: prod.splits)

lemma run_until_end:
  assumes "channel_works ops"
  shows "ts_output (flow_state (run_loop (term_step ops sid) s es)) = ts_output s @
      map (\<lambda>d. \<lparr>to_session_id = sid, to_data = d\<rparr>) (concat (map server_data (takeWhile (\<lambda>e. \<not> ends_session e) es))) \<and>
    (if \<exists>e \<in> set es. ends_session e then \<exists>s'. run_loop (term_step ops sid) s es = Stop s' (Ok ())
     else \<exists>s'. run_loop (term_step ops sid) s es = Continue s')"
proof (induction es arbitrary: s)
  case Nil
  then show ?case by simp
next
  case (Cons e es)
  show ?case
  proof (cases "ends_session e")
    case True
    from ending_step [OF this, of ops sid s] term_step_output [of ops sid s e] True show ?thesis by auto
  next
    case False
    from going_step [OF assms False, of sid s] obtain s' where "term_step ops sid s e = Continue s'" by blast
    with Cons.IH [of s'] term_step_output [of ops sid s e] False show ?thesis by simp
  qed
qed

text \<open>
  Prints that tell their values apart also when something follows them; the print of a profile
  is one when that of strings is.
\<close>

definition self_delimiting :: "('a \<Rightarrow> string) \<Rightarrow> bool" where
  "self_delimiting f \<longleftrightarrow> (\<forall>a b x y. f a @ x = f b @ y \<longrightarrow> a = b \<and> x = y)"

lemma self_delimitingD: "self_delimiting f \<Longrightarrow> f a @ x = f b @ y \<longleftrightarrow> a = b \<and> x = y"
  by (auto simp: self_delimiting_def)

lemma self_delimiting_option: "self_delimiting f \<Longrightarrow> self_delimiting (debug_option f)"
  by (auto simp: self_delimiting_def [of "debug_option f"] debug_option_def self_delimitingD split: option.splits)

lemma self_delimiting_bool: "self_delimiting debug_bool"
  by (auto simp: self_delimiting_def debug_bool_def)

lemma append_delimited:
  assumes "c \<notin> set a" "c \<notin> set b" "a @ c # x = b @ c # y"
  shows "a = b \<and> x = y"
  using assms
proof (induction a arbitrary: b)
  case Nil
  then show ?case by (cases b) auto
next
  case (Cons d a)
  then show ?case by (cases b) auto
qed

lemma port_delimited:
  "show_word v @ (CHR '','' # l) @ x = show_word w @ (CHR '','' # l) @ y \<longleftrightarrow> v = w \<and> x = y"
proof -
  have "CHR '','' \<notin> set (show_word u)" for u :: "'b::len word"
    using dec_digits [of "CHR '',''" "unat u"] by (auto simp: show_word_def)
  then show ?thesis using append_delimited [of "CHR '',''" "show_word v" "show_word w" "l @ x" "l @ y"] by auto
qed

lemma option_prints_differ: "''None'' @ x \<noteq> ''Some('' @ y" "''Some('' @ y \<noteq> ''None'' @ x"
  by simp_all

lemma self_delimiting_profile:
  assumes "self_delimiting q"
  shows "self_delimiting (debug_profile q)"
proof -
  note delim = self_delimitingD [OF assms] self_delimitingD [OF self_delimiting_option [OF assms]]
    self_delimitingD [OF self_delimiting_bool] port_delimited option_prints_differ append_assoc same_append_eq
  have "debug_profile q p @ x = debug_profile q p' @ y \<longrightarrow> p = p' \<and> x = y" for p p' x y
  proof (induction p arbitrary: p' x y)
    case (SshProfile i n h po u pw pk kp j fa cm)
    have jump: "debug_profile q jp @ x = debug_profile q jp' @ y \<longleftrightarrow> jp = jp' \<and> x = y" if "j = Some jp" for jp jp' x y
    proof -
      have "jp \<in> set_option j" using that by simp
      from SshProfile.IH [OF this] show ?thesis by blast
    qed
    obtain i' n' h' po' u' pw' pk' kp' j' fa' cm' where "p' = SshProfile i' n' h' po' u' pw' pk' kp' j' fa' cm'"
      by (cases p')
    then show ?case
      by (cases j; cases j') (simp_all only: debug_profile.simps option.case delim jump ssh_profile.inject, simp_all)
  qed
  then show ?thesis by (simp add: self_delimiting_def)
qed

lemma debug_profile_inject: "self_delimiting q \<Longrightarrow> debug_profile q p = debug_profile q p' \<longleftrightarrow> p = p'"
  using self_delimitingD [OF self_delimiting_profile, of q p "[]" p' "[]"] by simp

text \<open>The profiles' workers: an entry names a spawned worker, spawned for a profile with that print.\<close>

definition workers_ok :: "(string \<Rightarrow> string) \<Rightarrow> profile_exec \<Rightarrow> bool" where
  "workers_ok q st \<longleftrightarrow>
     (\<forall>k i. pe_workers st k = Some i \<longrightarrow> i < length (pe_spawned st) \<and> debug_profile q (pe_spawned st ! i) = k)"

lemma worker_for_ok:
  assumes "workers_ok q st" and "worker_for q p st = (i, st')"
  shows "workers_ok q st' \<and> i < length (pe_spawned st') \<and> debug_profile q (pe_spawned st' ! i) = debug_profile q p \<and>
    pe_workers st' (debug_profile q p) = Some i"
  using assms
  by (fastforce simp: workers_ok_def worker_for_def Let_def nth_append split: option.splits if_splits)

lemma worker_step_continues:
  "e \<noteq> ExecClosed \<Longrightarrow> \<exists>s'. worker_step env s e = Continue s' \<and>
     length (wk_responses s') = length (wk_responses s) + (if e = ExecKeepalive then 0 else 1)"
  by (cases e) (auto simp: case_prod_beta split: option.splits)

lemma worker_connect_session:
  "worker_connect env session w = (Some h, ce, w1) \<Longrightarrow> session = Some h \<and> w1 = w \<or>
     session = None \<and> (ex_connect env w = (Ok h, w1) \<or>
       (\<exists>e w0. ex_connect env w = (Err e, w0) \<and> ex_connect env w0 = (Ok h, w1)))"
  by (auto simp: worker_connect_def split: option.splits prod.splits sum.splits)

section \<open>Properties\<close>

text \<open>
  C12: the terminal shows what the server sent. A session whose terminal is open publishes, under
  its id, the data of every data and extended-data message, unchanged and in order, up to the
  first event that ends a session: the end of the channel, end of file, a close or exit status
  message, or the user's disconnect. It stops, with success, exactly when there is such an event.
  (Data after an exit status is not shown.)
\<close>

theorem terminal_output_is_faithful:
  assumes "channel_works ops" "runtime_start ops p sid connected cols rows s = Continue s0"
  shows "ts_output (flow_state (runtime_run ops p sid connected cols rows es s)) = ts_output s @
      map (\<lambda>d. \<lparr>to_session_id = sid, to_data = d\<rparr>) (concat (map server_data (takeWhile (\<lambda>e. \<not> ends_session e) es))) \<and>
    (if \<exists>e \<in> set es. ends_session e then \<exists>s'. runtime_run ops p sid connected cols rows es s = Stop s' (Ok ())
     else \<exists>s'. runtime_run ops p sid connected cols rows es s = Continue s')"
proof -
  have "ts_output s0 = ts_output s"
    using assms(2) term_call_state(1) [of "open_terminal ops p cols rows" s]
    by (auto simp: runtime_start_def split: sum.splits flow.splits)
  with run_until_end [OF assms(1), of sid s0 es] show ?thesis by (simp add: runtime_run_def assms(2))
qed

text \<open>
  A session reports ``connected'' once, and only when the connection is authenticated, the
  terminal is allocated and the shell or command is started; its own loop publishes no other status.
\<close>

theorem connected_is_reported_once:
  "ts_status (flow_state (runtime_run ops p sid connected cols rows es s)) =
     ts_status s @
       (if is_ok connected \<and> is_ok (fst (open_terminal ops p cols rows (ts_net s)))
        then [\<lparr>cs_session_id = sid, cs_status = Connected, cs_message = Some ''connected''\<rparr>] else [])"
proof (cases connected)
  case (Inl e)
  then show ?thesis by (simp add: runtime_run_def runtime_start_def)
next
  case (Inr u)
  show ?thesis
  proof (cases "open_terminal ops p cols rows (ts_net s)")
    case (Pair r n)
    show ?thesis
      using Inr Pair term_status.run_inv [of _ "ts_status s @
          [\<lparr>cs_session_id = sid, cs_status = Connected, cs_message = Some ''connected''\<rparr>]" ops sid es]
      by (cases r) (simp_all add: runtime_run_def runtime_start_def term_call_def)
  qed
qed

text \<open>
  A request to disconnect, or the end of the command channel, closes the session with
  success whatever the library reports, and events after it are not handled.
\<close>

theorem disconnect_always_succeeds:
  assumes "run_loop (term_step ops sid) s es = Continue s'" and "c = Some Disconnect \<or> c = None"
  shows "run_loop (term_step ops sid) s (es @ Command c # rest) =
    Stop (s'\<lparr>ts_net := close_session ops (ts_net s')\<rparr>) (Ok ())"
  using assms by (auto simp: run_loop_append)

text \<open>
  C13: The background worker outlives every failure and answers every request exactly once:
  until its channel is closed it never stops, and it has as many responses as requests.
\<close>

theorem worker_answers_every_request:
  assumes "ExecClosed \<notin> set es"
  shows "\<exists>s. run_exec_worker env w es = Continue s \<and>
    length (wk_responses s) = length (filter (\<lambda>e. e \<noteq> ExecKeepalive) es)"
proof -
  have "\<exists>s'. run_loop (worker_step env) s es = Continue s' \<and>
    length (wk_responses s') = length (wk_responses s) + length (filter (\<lambda>e. e \<noteq> ExecKeepalive) es)"
    for s using assms
  proof (induction es arbitrary: s)
    case Nil
    then show ?case by simp
  next
    case (Cons e es)
    obtain s1 where "worker_step env s e = Continue s1"
      "length (wk_responses s1) = length (wk_responses s) + (if e = ExecKeepalive then 0 else 1)"
      using Cons.prems worker_step_continues [of e env s] by auto
    with Cons.IH [of s1] Cons.prems show ?case by auto
  qed
  then show ?thesis
    by (fastforce simp: run_exec_worker_def split: prod.splits)
qed

text \<open>
  C14: A command is run at most twice, and only once when its first run produced an answer (it
  succeeded or exited with a failure status): whatever counts the runs (it grows by one per run
  and connecting does not change it) grows by no more.
\<close>

theorem commands_run_at_most_twice:
  assumes connect: "\<And>v. runs (snd (ex_connect env v)) = runs v"
    and exec: "\<And>h v. runs (snd (ex_exec env h cmd input v)) = Suc (runs v)"
    and answer: "answer_request env session cmd input w = (r, session', w')"
  shows "runs w' \<le> runs w + 2 \<and>
    (\<forall>h ce w1. worker_connect env session w = (Some h, ce, w1) \<and>
       (is_ok (fst (exec_on env h cmd input w1)) \<or>
        (\<exists>msg. fst (exec_on env h cmd input w1) = Err (InvalidRequest msg))) \<longrightarrow>
       runs w' = runs w + 1 \<and> r = fst (exec_on env h cmd input w1) \<and> session' = Some h)"
proof -
  have conn: "runs v' = runs v" if "ex_connect env v = (x, v')" for v x v'
    using connect [of v] that by simp
  have run: "runs v' = Suc (runs v)" if "exec_on env h cmd input v = (x, v')" for h v x v'
    using exec [of h v] that by (auto simp: exec_on_def split: prod.splits)
  obtain so ce w1 where wc: "worker_connect env session w = (so, ce, w1)" by (cases "worker_connect env session w")
  have w1: "runs w1 = runs w"
    using wc by (auto simp: worker_connect_def split: option.splits prod.splits sum.splits dest!: conn)
  show ?thesis
  proof (cases so)
    case None
    with wc answer w1 show ?thesis by (auto simp: answer_request_def)
  next
    case (Some h)
    obtain r1 w2 where e1: "exec_on env h cmd input w1 = (r1, w2)" by (cases "exec_on env h cmd input w1")
    have "is_answer r1" if "is_ok r1 \<or> (\<exists>msg. r1 = Err (InvalidRequest msg))"
      using that by (cases r1) (auto simp: is_answer_def)
    then show ?thesis
      using answer wc Some e1 w1 run [OF e1]
      by (auto simp: answer_request_def split: if_splits prod.splits sum.splits dest!: conn run)
  qed
qed

text \<open>
  C15: commands never cross profiles: after any sequence of uses, the worker that answers a
  request was spawned for exactly the profile of the request, every field of it and of its jump
  hosts included, and asking again for that profile reaches the same worker. (The debug print
  of a string is a literal that shows where it ends.)
\<close>

theorem commands_stay_on_their_profile:
  assumes "self_delimiting q"
    and "st = fold (\<lambda>p st. snd (worker_for q p st)) ps \<lparr>pe_workers = Map.empty, pe_spawned = []\<rparr>"
    and "worker_for q p st = (i, st')"
  shows "i < length (pe_spawned st') \<and> pe_spawned st' ! i = p \<and> worker_for q p st' = (i, st')"
proof -
  have "workers_ok q (fold (\<lambda>p st. snd (worker_for q p st)) ps s)" if "workers_ok q s" for s
    using that by (induction ps arbitrary: s) (auto dest: worker_for_ok [OF _ surjective_pairing])
  then have "workers_ok q st" using assms(2) by (simp add: workers_ok_def)
  from worker_for_ok [OF this assms(3)] show ?thesis
    by (simp add: worker_for_def debug_profile_inject [OF assms(1)])
qed

text \<open>
  C40: An exit status that arrives after the end-of-file message is never seen: a command that
  failed is reported as successful, with its output, whatever follows \<^verbatim>\<open>Eof\<close>.
\<close>

theorem exit_status_after_eof_is_lost:
  assumes "\<And>s. ExitStatus s \<notin> set ms"
  shows "run_exec \<lparr>xs_open = Ok (), xs_exec = Ok (), xs_data = Ok (), xs_eof = Ok (),
      xs_msgs = ms @ Eof # ExitStatus code # rest\<rparr> input =
    Ok (from_utf8_lossy (fst (collect_output ms [] None)))"
  using collect_output_no_status [of ms "[]" None, OF assms]
  by (cases "collect_output ms [] None")
     (simp add: run_exec_def exec_result_def collect_output_eof split: option.splits)

section \<open>Witnesses\<close>

definition idle_ops :: "unit chan_ops" where
  "idle_ops =
     \<lparr>co_open = io_ok (), co_request_pty = (\<lambda>_ _. io_ok ()), co_agent_forward = io_ok (),
      co_exec = (\<lambda>_. io_ok ()), co_request_shell = io_ok (), co_data = (\<lambda>_. io_ok ()),
      co_window_change = (\<lambda>_ _. io_ok ()), co_eof = io_err ''broken'', co_close = io_err ''broken'',
      co_disconnect = io_err ''broken'', co_keepalive = io_ok (), co_exec_open = (\<lambda>_. True)\<rparr>"

definition fresh_term :: "(unit, unit) term_state" where
  "fresh_term = \<lparr>ts_net = (), ts_output = [], ts_status = [], ts_exec = []\<rparr>"

theorem terminal_output_is_faithful_witness:
  "ts_output (flow_state (runtime_run idle_ops gate_profile ''s'' (Ok ()) 80 24
     [Message (Some (Data [65])), KeepaliveTick, Command (Some (Input [66])), Message (Some (ExtendedData [67])),
      Message (Some (ExitStatus 0)), Message (Some (Data [68]))] fresh_term)) =
   [\<lparr>to_session_id = ''s'', to_data = [65]\<rparr>, \<lparr>to_session_id = ''s'', to_data = [67]\<rparr>]"
proof -
  have works: "channel_works idle_ops" by (simp add: channel_works_def idle_ops_def)
  obtain s0 where "runtime_start idle_ops gate_profile ''s'' (Ok ()) 80 24 fresh_term = Continue s0"
    by (auto simp: runtime_start_def term_call_def open_terminal_def io_bind_def idle_ops_def gate_profile_def case_prod_beta)
  from terminal_output_is_faithful [OF works this] show ?thesis by (simp add: fresh_term_def)
qed

theorem disconnect_always_succeeds_witness:
  "\<exists>s. run_loop (term_step idle_ops ''s'') fresh_term
     [Message (Some (Data [65])), Command (Some Disconnect), KeepaliveTick] = Stop s (Ok ())"
proof -
  have "run_loop (term_step idle_ops ''s'') fresh_term [Message (Some (Data [65]))] =
      Continue (emit_output ''s'' [65] fresh_term)" by simp
  from disconnect_always_succeeds [OF this, of "Some Disconnect" "[KeepaliveTick]"] show ?thesis by simp
qed

text \<open>A worker's world that counts runs; every command exits with status 3.\<close>

definition count_env :: "(nat, unit) exec_env" where
  "count_env =
     \<lparr>ex_connect = io_ok (),
      ex_exec = (\<lambda>_ _ _ n. (\<lparr>xs_open = Ok (), xs_exec = Ok (), xs_data = Ok (), xs_eof = Ok (),
         xs_msgs = [ExitStatus 3, Close]\<rparr>, Suc n)),
      ex_keepalive = (\<lambda>_ n. n), ex_disconnect = (\<lambda>_ n. n)\<rparr>"

theorem worker_answers_every_request_witness:
  "\<exists>s. run_exec_worker count_env 0 [ExecRequest ''ls'' None, ExecKeepalive] = Continue s \<and>
     length (wk_responses s) = 1"
  using worker_answers_every_request [of "[ExecRequest ''ls'' None, ExecKeepalive]" count_env 0] by simp

theorem commands_run_at_most_twice_witness:
  "snd (snd (answer_request count_env None ''ls'' None 0)) \<le> 2"
proof -
  have c: "id (snd (ex_connect count_env v)) = id v" for v
    by (simp add: count_env_def)
  have x: "id (snd (ex_exec count_env h ''ls'' None v)) = Suc (id v)" for h v
    by (simp add: count_env_def)
  obtain r session' w' where a: "answer_request count_env None ''ls'' None 0 = (r, session', w')"
    by (cases "answer_request count_env None ''ls'' None 0")
  from commands_run_at_most_twice [of id count_env "''ls''" None, OF c x a] a show ?thesis by simp
qed

text \<open>A string in quotes, quotes and backslashes escaped.\<close>

fun escaped :: "string \<Rightarrow> string" where
  "escaped [] = []"
| "escaped (c # cs) = (if c = CHR 0x22 \<or> c = CHR 0x5C then [CHR 0x5C, c] else [c]) @ escaped cs"

definition quoted :: "string \<Rightarrow> string" where
  "quoted s = CHR 0x22 # escaped s @ [CHR 0x22]"

lemma escaped_delimits: "escaped a @ CHR 0x22 # x = escaped b @ CHR 0x22 # y \<Longrightarrow> a = b \<and> x = y"
proof (induction a arbitrary: b)
  case Nil
  then show ?case by (cases b) (auto split: if_splits)
next
  case (Cons c a)
  then show ?case by (cases b) (auto split: if_splits)
qed

lemma quoted_delimits: "self_delimiting quoted"
  unfolding self_delimiting_def quoted_def
proof (intro allI impI)
  fix a b x y assume "(CHR 0x22 # escaped a @ [CHR 0x22]) @ x = (CHR 0x22 # escaped b @ [CHR 0x22]) @ y"
  then have "escaped a @ CHR 0x22 # x = escaped b @ CHR 0x22 # y" by simp
  then show "a = b \<and> x = y" by (rule escaped_delimits)
qed

text \<open>Two profiles of the same id, one with another password, are served by different workers.\<close>

theorem commands_stay_on_their_profile_witness:
  "\<exists>other. ssh_id other = ssh_id gate_profile \<and>
     pe_spawned (snd (worker_for quoted other (snd (worker_for quoted gate_profile
       \<lparr>pe_workers = Map.empty, pe_spawned = []\<rparr>)))) = [gate_profile, other]"
proof -
  let ?none = "\<lparr>pe_workers = Map.empty, pe_spawned = []\<rparr> :: profile_exec"
  let ?other = "SshProfile ''g'' ''gate'' ''gate'' 22 ''u'' (Some ''new'') None None None False None"
  let ?st = "snd (worker_for quoted gate_profile ?none)"
  have ne: "?other \<noteq> gate_profile" by (simp add: gate_profile_def)
  have st: "?st = fold (\<lambda>p st. snd (worker_for quoted p st)) [gate_profile] ?none" by simp
  obtain i st' where w: "worker_for quoted ?other ?st = (i, st')" by fastforce
  from commands_stay_on_their_profile [OF quoted_delimits st w]
  have "i < length (pe_spawned st')" "pe_spawned st' ! i = ?other" by simp_all
  moreover have "pe_spawned st' = [gate_profile] \<or> pe_spawned st' = [gate_profile, ?other]"
    using w by (auto simp: worker_for_def Let_def split: option.splits)
  ultimately have "pe_spawned st' = [gate_profile, ?other]" using ne by auto
  with w show ?thesis by (intro exI [of _ ?other]) (simp add: gate_profile_def)
qed

theorem exit_status_after_eof_is_lost_witness:
  "run_exec \<lparr>xs_open = Ok (), xs_exec = Ok (), xs_data = Ok (), xs_eof = Ok (),
      xs_msgs = [] @ Eof # ExitStatus 1 # [Close]\<rparr> None = Ok []"
proof -
  have "ExitStatus s \<notin> set ([] :: channel_msg list)" for s by simp
  from exit_status_after_eof_is_lost [OF this, of 1 "[Close]" None] show ?thesis
    by (simp add: from_utf8_lossy_def utf8_lossy.simps)
qed

end
