(* ===== verification/Session_Spec.thy ===== *)
theory Session_Spec
  imports Portix_Prelude
begin

text \<open>
  What a session manager promises to whoever listens to its status stream, SSH and RDP alike: a
  session that was started reports progress any number of times and then its end once, after which
  it is silent. The interface \<open>session_refinement\<close> says when a concrete machine implements this.
\<close>

datatype life = Unstarted | Live | Over

datatype session_report = Working | Ended_well | Ended_badly

datatype life_event = Begins string | Reports string session_report

inductive life_step :: "(string \<Rightarrow> life) \<Rightarrow> life_event \<Rightarrow> (string \<Rightarrow> life) \<Rightarrow> bool" where
  life_start: "\<sigma> s = Unstarted \<Longrightarrow> life_step \<sigma> (Begins s) (\<sigma>(s := Live))"
| life_working: "\<sigma> s = Live \<Longrightarrow> life_step \<sigma> (Reports s Working) \<sigma>"
| life_end: "\<sigma> s = Live \<Longrightarrow> r \<noteq> Working \<Longrightarrow> life_step \<sigma> (Reports s r) (\<sigma>(s := Over))"

inductive_cases life_stepE: "life_step \<sigma> e \<sigma>'"

text \<open>Starting a session is silent, its reports are seen.\<close>

fun visible :: "life_event \<Rightarrow> (string \<times> session_report) list" where
  "visible (Begins s) = []"
| "visible (Reports s r) = [(s, r)]"

definition reports_of :: "string \<Rightarrow> (string \<times> session_report) list \<Rightarrow> session_report list" where
  "reports_of s es = map snd (filter (\<lambda>e. fst e = s) es)"

lemma reports_of_simps [simp]:
  "reports_of s [] = []" "reports_of s (es @ fs) = reports_of s es @ reports_of s fs"
  "reports_of s (e # es) = (if fst e = s then [snd e] else []) @ reports_of s es"
  by (simp_all add: reports_of_def)

text \<open>What a listener has seen of a session in a given state of it.\<close>

fun seen :: "life \<Rightarrow> session_report list \<Rightarrow> bool" where
  "seen Unstarted rs \<longleftrightarrow> rs = []"
| "seen Live rs \<longleftrightarrow> set rs \<subseteq> {Working}"
| "seen Over rs \<longleftrightarrow> (\<exists>ws r. rs = ws @ [r] \<and> set ws \<subseteq> {Working} \<and> r \<noteq> Working)"

lemma seen_step:
  assumes "life_step \<sigma> e \<sigma>'" "seen (\<sigma> s) rs"
  shows "seen (\<sigma>' s) (rs @ reports_of s (visible e))"
  using assms by (fastforce elim!: life_stepE)

lemma seen_steps:
  "steps life_step \<sigma> es \<sigma>' \<Longrightarrow> seen (\<sigma> s) rs \<Longrightarrow> seen (\<sigma>' s) (rs @ reports_of s (concat (map visible es)))"
proof (induction arbitrary: rs rule: steps.induct)
  case (steps_Nil \<sigma>)
  then show ?case by simp
next
  case (steps_Cons \<sigma> e \<tau> es \<upsilon>)
  from steps_Cons.IH [OF seen_step [OF steps_Cons(1,4)]] show ?case by simp
qed

text \<open>
  A machine implements the promise when each of its steps is a run of the specification between
  the abstractions of its states that shows what the step puts on the status stream.
\<close>

locale session_refinement =
  fixes R :: "'s \<Rightarrow> 'l \<Rightarrow> 's \<Rightarrow> bool"
    and life_of :: "'s \<Rightarrow> string \<Rightarrow> life"
    and reports :: "'s \<Rightarrow> (string \<times> session_report) list"
  assumes refines_step: "R m l m' \<Longrightarrow>
    \<exists>es. steps life_step (life_of m) es (life_of m') \<and> reports m' = reports m @ concat (map visible es)"
begin

lemma refines:
  "steps R m ls m' \<Longrightarrow>
    \<exists>es. steps life_step (life_of m) es (life_of m') \<and> reports m' = reports m @ concat (map visible es)"
proof (induction rule: steps.induct)
  case (steps_Nil m)
  then show ?case by (intro exI [of _ "[]"]) simp
next
  case (steps_Cons m l m1 ls m')
  from refines_step [OF steps_Cons(1)] obtain es where
    "steps life_step (life_of m) es (life_of m1)" "reports m1 = reports m @ concat (map visible es)" by blast
  moreover from steps_Cons.IH obtain fs where
    "steps life_step (life_of m1) fs (life_of m')" "reports m' = reports m1 @ concat (map visible fs)" by blast
  ultimately show ?case by (intro exI [of _ "es @ fs"]) (auto simp: steps_append)
qed

lemma reports_seen:
  assumes "steps R m ls m'" "life_of m s = Unstarted" "reports m = []"
  shows "seen (life_of m' s) (reports_of s (reports m'))"
proof -
  from refines [OF assms(1)] obtain es where
    "steps life_step (life_of m) es (life_of m')" "reports m' = concat (map visible es)" using assms(3) by auto
  from seen_steps [OF this(1), of s "[]"] this(2) assms(2) show ?thesis by simp
qed

end

end
