(* ===== verification/Ssh_Sessions.thy ===== *)
theory Ssh_Sessions
  imports Ssh_Runtime Session_Spec
begin

text \<open>
  \<^verbatim>\<open>portix_serv/src/application/session_manager.rs\<close>: the terminal sessions. A session is a
  registered id, the queue of commands its runtime reads, and a task that runs the runtime and
  cleans up when it ends. The tasks and the callers interleave freely, so the manager is a
  machine whose steps are the operations and the points where a task acts on shared state.
  Identifiers come from \<^verbatim>\<open>Uuid::new_v4\<close>: a step takes one that was never used.

  The second part is the remote system snapshot: platform detection, the two scripts and the
  parser of what they print. The base64 encoder of the \<^verbatim>\<open>base64\<close> crate is a parameter.
\<close>

section \<open>State\<close>

datatype remote_platform = Unix | WindowsCmd | WindowsPowerShell

text \<open>Where the task of a session is: running, ended with a result, out of the map, reported.\<close>

datatype task_phase =
    Running
  | Ended "(portix_error, unit) result"
  | Unregistered "(portix_error, unit) result"
  | Reported "(portix_error, unit) result"

record ssh_task =
  tk_profile :: ssh_profile
  tk_size :: "u32 \<times> u32"
  tk_phase :: task_phase
  tk_queue :: "nat ssh_command list"
  tk_platform :: "remote_platform option"

record ssh_manager =
  sm_sessions :: "string set"
  sm_tasks :: "string \<rightharpoonup> ssh_task"
  sm_status :: "connection_status_event list"
  sm_errors :: "error_event list"

definition new_manager :: ssh_manager where
  "new_manager = \<lparr>sm_sessions = {}, sm_tasks = Map.empty, sm_status = [], sm_errors = []\<rparr>"

section \<open>Operations\<close>

definition manager_emit_status ::
  "string \<Rightarrow> connection_status \<Rightarrow> string option \<Rightarrow> ssh_manager \<Rightarrow> ssh_manager" where
  "manager_emit_status sid status msg m =
     m\<lparr>sm_status := sm_status m @ [\<lparr>cs_session_id = sid, cs_status = status, cs_message = msg\<rparr>]\<rparr>"

definition connect ::
  "string \<Rightarrow> ssh_profile \<Rightarrow> u32 \<Rightarrow> u32 \<Rightarrow> (ssh_manager, portix_error, session_info) io" where
  "connect sid p cols rows m =
     (case validate p of
        Err e \<Rightarrow> (Err e, m)
      | Ok _ \<Rightarrow>
          (Ok \<lparr>si_id = sid, si_profile_id = ssh_id p, si_status = Connecting\<rparr>,
           manager_emit_status sid Connecting (Some ''connecting'')
             (m\<lparr>sm_sessions := insert sid (sm_sessions m),
                sm_tasks := (sm_tasks m)(sid \<mapsto>
                  \<lparr>tk_profile = p, tk_size = (cols, rows), tk_phase = Running,
                   tk_queue = [], tk_platform = None\<rparr>)\<rparr>)))"

text \<open>The registered session: its sender and platform cell are those of its task.\<close>

definition session :: "ssh_manager \<Rightarrow> string \<Rightarrow> (portix_error, ssh_task) result" where
  "session m sid =
     (if sid \<in> sm_sessions m then ok_or (SessionNotFound sid) (sm_tasks m sid)
      else Err (SessionNotFound sid))"

text \<open>\<^verbatim>\<open>command_tx.send\<close> fails once the runtime has dropped its receiver.\<close>

definition send_command :: "string \<Rightarrow> nat ssh_command \<Rightarrow> (ssh_manager, portix_error, unit) io" where
  "send_command sid cmd m =
     (case session m sid of
        Err e \<Rightarrow> (Err e, m)
      | Ok t \<Rightarrow>
          if tk_phase t = Running
          then (Ok (), m\<lparr>sm_tasks := (sm_tasks m)(sid \<mapsto> t\<lparr>tk_queue := tk_queue t @ [cmd]\<rparr>)\<rparr>)
          else (Err (SessionNotFound sid), m))"

definition disconnect :: "string \<Rightarrow> (ssh_manager, portix_error, unit) io" where
  "disconnect sid = send_command sid Disconnect"

definition send_terminal_input :: "string \<Rightarrow> bytes \<Rightarrow> (ssh_manager, portix_error, unit) io" where
  "send_terminal_input sid data =
     (if data = [] then io_ok () else send_command sid (Input data))"

definition resize_terminal :: "string \<Rightarrow> u32 \<Rightarrow> u32 \<Rightarrow> (ssh_manager, portix_error, unit) io" where
  "resize_terminal sid cols rows = send_command sid (Resize cols rows)"

text \<open>\<open>rid\<close> names the response channel; \<open>wait\<close> is what arrives on it, and what happens meanwhile.\<close>

definition exec ::
  "(ssh_manager \<Rightarrow> exec_reply \<times> ssh_manager) \<Rightarrow> nat \<Rightarrow> string \<Rightarrow> string \<Rightarrow>
   (ssh_manager, portix_error, string) io" where
  "exec wait rid sid command =
     io_bind (send_command sid (Exec command rid)) (\<lambda>_ m.
       case wait m of
         (Response r, m') \<Rightarrow> (r, m')
       | (_, m') \<Rightarrow> (Err (SessionNotFound sid), m'))"

section \<open>The task of a session\<close>

fun final_status :: "(portix_error, unit) result \<Rightarrow> connection_status \<times> string option" where
  "final_status (Ok _) = (Disconnected, None)"
| "final_status (Err e) = (Error_status, Some (portix_error_to_string e))"

definition task_end :: "string \<Rightarrow> (portix_error, unit) result \<Rightarrow> ssh_manager \<Rightarrow> ssh_manager" where
  "task_end sid r m =
     (case sm_tasks m sid of
        None \<Rightarrow> m
      | Some t \<Rightarrow>
          m\<lparr>sm_tasks := (sm_tasks m)(sid \<mapsto> t\<lparr>tk_phase := Ended r\<rparr>),
            sm_errors := sm_errors m @
              (case r of Ok _ \<Rightarrow> []
               | Err e \<Rightarrow> [\<lparr>ee_session_id = Some sid, ee_message = portix_error_to_string e\<rparr>])\<rparr>)"

definition task_unregister :: "string \<Rightarrow> (portix_error, unit) result \<Rightarrow> ssh_manager \<Rightarrow> ssh_manager" where
  "task_unregister sid r m =
     (case sm_tasks m sid of
        None \<Rightarrow> m
      | Some t \<Rightarrow>
          m\<lparr>sm_sessions := sm_sessions m - {sid},
            sm_tasks := (sm_tasks m)(sid \<mapsto> t\<lparr>tk_phase := Unregistered r\<rparr>)\<rparr>)"

definition task_report :: "string \<Rightarrow> (portix_error, unit) result \<Rightarrow> ssh_manager \<Rightarrow> ssh_manager" where
  "task_report sid r m =
     (case sm_tasks m sid of
        None \<Rightarrow> m
      | Some t \<Rightarrow>
          manager_emit_status sid (fst (final_status r)) (snd (final_status r))
            (m\<lparr>sm_tasks := (sm_tasks m)(sid \<mapsto> t\<lparr>tk_phase := Reported r\<rparr>)\<rparr>))"

section \<open>The machine\<close>

text \<open>
  Next to the manager, the machine has the runtime of every session whose terminal is open, with the
  network state of its channel; \<open>ops\<close> are the library's calls on a channel and \<open>net0\<close> says in what
  state a session finds the network. A runtime publishes on the manager's status stream.
\<close>

type_synonym 'n runtimes = "string \<rightharpoonup> ('n, nat) term_state"
type_synonym 'n ssh_machine = "ssh_manager \<times> 'n runtimes"

definition sees :: "ssh_manager \<Rightarrow> ('n, nat) term_state \<Rightarrow> ('n, nat) term_state" where
  "sees m s = s\<lparr>ts_status := sm_status m\<rparr>"

definition publish :: "('n, nat) term_state \<Rightarrow> ssh_manager \<Rightarrow> ssh_manager" where
  "publish s m = m\<lparr>sm_status := ts_status s\<rparr>"

definition new_runtime :: "'n \<Rightarrow> ('n, nat) term_state" where
  "new_runtime n = \<lparr>ts_net = n, ts_output = [], ts_status = [], ts_exec = []\<rparr>"

text \<open>The calls that reach a running session; of \<open>exec\<close> the part that sends the command.\<close>

datatype manager_call =
    CallInput (call_sid: string) bytes
  | CallResize (call_sid: string) u32 u32
  | CallExec (call_sid: string) string nat
  | CallDisconnect (call_sid: string)

fun perform_call :: "manager_call \<Rightarrow> (ssh_manager, portix_error, unit) io" where
  "perform_call (CallInput sid data) = send_terminal_input sid data"
| "perform_call (CallResize sid cols rows) = resize_terminal sid cols rows"
| "perform_call (CallExec sid command rid) = send_command sid (Exec command rid)"
| "perform_call (CallDisconnect sid) = disconnect sid"

text \<open>
  What the task has left when its loop takes an event: a command comes from its queue. The channel
  of commands does not end while the session is in the map, and only its own task takes it out.
\<close>

fun take_event :: "nat term_event \<Rightarrow> ssh_task \<Rightarrow> ssh_task option" where
  "take_event (Command (Some c)) t =
     (case tk_queue t of [] \<Rightarrow> None | c' # q \<Rightarrow> if c' = c then Some (t\<lparr>tk_queue := q\<rparr>) else None)"
| "take_event (Command None) t = None"
| "take_event (Message msg) t = Some t"
| "take_event KeepaliveTick t = Some t"

datatype sm_label =
    LConnect string ssh_profile u32 u32
  | LCall manager_call "(portix_error, unit) result"
  | LStart string
  | LEvent string "nat term_event"
  | LUnregister string
  | LReport string

inductive sm_step :: "'n chan_ops \<Rightarrow> (string \<Rightarrow> 'n) \<Rightarrow> 'n ssh_machine \<Rightarrow> sm_label \<Rightarrow> 'n ssh_machine \<Rightarrow> bool"
  for ops net0 where
  sm_connect: "sm_tasks m sid = None \<Longrightarrow> sid \<notin> sm_sessions m \<Longrightarrow>
     sm_step ops net0 (m, rt) (LConnect sid p cols rows) (snd (connect sid p cols rows m), rt)"
| sm_call: "perform_call c m = (r, m') \<Longrightarrow> sm_step ops net0 (m, rt) (LCall c r) (m', rt)"
| sm_start: "sm_tasks m sid = Some t \<Longrightarrow> tk_phase t = Running \<Longrightarrow> rt sid = None \<Longrightarrow>
     runtime_start ops (tk_profile t) sid connected (fst (tk_size t)) (snd (tk_size t))
       (sees m (new_runtime (net0 sid))) = Continue s \<Longrightarrow>
     sm_step ops net0 (m, rt) (LStart sid) (publish s m, rt(sid \<mapsto> s))"
| sm_start_failed: "sm_tasks m sid = Some t \<Longrightarrow> tk_phase t = Running \<Longrightarrow> rt sid = None \<Longrightarrow>
     runtime_start ops (tk_profile t) sid connected (fst (tk_size t)) (snd (tk_size t))
       (sees m (new_runtime (net0 sid))) = Stop s r \<Longrightarrow>
     sm_step ops net0 (m, rt) (LStart sid) (task_end sid r (publish s m), rt)"
| sm_event: "sm_tasks m sid = Some t \<Longrightarrow> tk_phase t = Running \<Longrightarrow> rt sid = Some s \<Longrightarrow>
     take_event e t = Some t' \<Longrightarrow> term_step ops sid (sees m s) e = Continue s' \<Longrightarrow>
     sm_step ops net0 (m, rt) (LEvent sid e)
       (publish s' (m\<lparr>sm_tasks := (sm_tasks m)(sid \<mapsto> t')\<rparr>), rt(sid \<mapsto> s'))"
| sm_stop: "sm_tasks m sid = Some t \<Longrightarrow> tk_phase t = Running \<Longrightarrow> rt sid = Some s \<Longrightarrow>
     take_event e t = Some t' \<Longrightarrow> term_step ops sid (sees m s) e = Stop s' r \<Longrightarrow>
     sm_step ops net0 (m, rt) (LEvent sid e)
       (task_end sid r (publish s' (m\<lparr>sm_tasks := (sm_tasks m)(sid \<mapsto> t')\<rparr>)), rt(sid \<mapsto> s'))"
| sm_unregister: "sm_tasks m sid = Some t \<Longrightarrow> tk_phase t = Ended r \<Longrightarrow>
     sm_step ops net0 (m, rt) (LUnregister sid) (task_unregister sid r m, rt)"
| sm_report: "sm_tasks m sid = Some t \<Longrightarrow> tk_phase t = Unregistered r \<Longrightarrow>
     sm_step ops net0 (m, rt) (LReport sid) (task_report sid r m, rt)"

definition new_machine :: "'n ssh_machine" where
  "new_machine = (new_manager, Map.empty)"

section \<open>Platform detection and the system snapshot\<close>

definition classify_platform :: "(portix_error, string) result \<Rightarrow> remote_platform" where
  "classify_platform result =
     (case result of
        Ok output \<Rightarrow>
          let ls = map trim (lines output);
              has_windows_nt = (\<exists>line \<in> set ls. contains ''Windows_NT'' line);
              has_unexpanded_percent = (\<exists>line \<in> set ls. line = ''%OS%'')
          in if has_windows_nt \<and> \<not> has_unexpanded_percent then WindowsCmd
             else if has_windows_nt \<and> has_unexpanded_percent then WindowsPowerShell
             else Unix
      | Err _ \<Rightarrow> Unix)"

definition detect_command :: string where
  "detect_command = ''echo PORTIX_DETECT && echo %OS% && echo $env:OS''"

text \<open>\<open>run sid command\<close> stands for the call of \<open>exec\<close>.\<close>

definition detect_remote_platform ::
  "(string \<Rightarrow> string \<Rightarrow> (ssh_manager, portix_error, string) io) \<Rightarrow> string \<Rightarrow> ssh_manager \<Rightarrow>
   remote_platform \<times> ssh_manager" where
  "detect_remote_platform run sid m =
     (case and_then (session m sid) (\<lambda>t. ok_or (SessionNotFound sid) (tk_platform t)) of
        Ok platform \<Rightarrow> (platform, m)
      | Err _ \<Rightarrow>
          (case run sid detect_command m of (r, m') \<Rightarrow>
             let platform = classify_platform r in
             (platform,
              case session m' sid of
                Ok t \<Rightarrow> m'\<lparr>sm_tasks := (sm_tasks m')(sid \<mapsto> t\<lparr>tk_platform := Some platform\<rparr>)\<rparr>
              | Err _ \<Rightarrow> m')))"

definition is_remote_windows ::
  "(string \<Rightarrow> string \<Rightarrow> (ssh_manager, portix_error, string) io) \<Rightarrow> string \<Rightarrow> ssh_manager \<Rightarrow>
   bool \<times> ssh_manager" where
  "is_remote_windows run sid m =
     (case detect_remote_platform run sid m of (p, m') \<Rightarrow> (p = WindowsCmd \<or> p = WindowsPowerShell, m'))"

definition unix_script_lines :: "string list" where
  \<open>unix_script_lines =
     [''if [ -r /etc/redhat-release ]; then'',
      ''  os="$(cat /etc/redhat-release 2>/dev/null)"'',
      ''else'',
      ''  os="$(uname -srm 2>/dev/null)"'',
      ''fi'',
      ''printf 'OS=%s'' @ [CHR 0x5C] @ ''n' "$os"'',
      ''printf 'HOST=%s'' @ [CHR 0x5C] @ ''n' "$(hostname 2>/dev/null)"'',
      ''printf 'UPTIME=%s'' @ [CHR 0x5C] @ ''n' "$(uptime 2>/dev/null)"'',
      ''if [ "$(uname -s 2>/dev/null)" = "Darwin" ]; then'',
      ''  _mem_total=$(sysctl -n hw.memsize 2>/dev/null)'',
      ''  _page_size=$(sysctl -n hw.pagesize 2>/dev/null || echo 4096)'',
      ''  _vm_stat=$(vm_stat 2>/dev/null)'',
      ''  _pages_free=$(echo "$_vm_stat" | awk '/Pages free:/ {gsub(/'' @ [CHR 0x5C] @ ''./,"",$3); print $3}')'',
      ''  _pages_inactive=$(echo "$_vm_stat" | awk '/Pages inactive:/ {gsub(/'' @ [CHR 0x5C] @ ''./,"",$3); print $3}')'',
      ''  _pages_purgeable=$(echo "$_vm_stat" | awk '/Pages purgeable:/ {gsub(/'' @ [CHR 0x5C] @ ''./,"",$3); print $3}')'',
      ''  _mem_free=$(( (_pages_free + _pages_inactive + _pages_purgeable) * _page_size ))'',
      ''  _mem_used=$(( _mem_total - _mem_free ))'',
      ''  if [ "$_mem_used" -lt 0 ] 2>/dev/null; then _mem_used=0; fi'',
      ''  printf "MEM_USED_BYTES=%s'' @ [CHR 0x5C] @ ''nMEM_FREE_BYTES=%s'' @ [CHR 0x5C] @ ''nMEM_TOTAL_BYTES=%s'' @ [CHR 0x5C] @ ''n" "$_mem_used" "$_mem_free" "$_mem_total"'',
      ''else'',
      ''  awk '' @ [CHR 0x27],
      ''    /MemTotal:/ {total=$2 * 1024}'',
      ''    /MemFree:/ {mem_free=$2 * 1024}'',
      ''    /Buffers:/ {buffers=$2 * 1024}'',
      ''    /^Cached:/ {cached=$2 * 1024}'',
      ''    /MemAvailable:/ {available=$2 * 1024}'',
      ''    END {'',
      ''      if (available == 0) available = mem_free + buffers + cached'',
      ''      used = total - available'',
      ''      if (used < 0) used = 0'',
      ''      printf "MEM_USED_BYTES=%.0f'' @ [CHR 0x5C] @ ''nMEM_FREE_BYTES=%.0f'' @ [CHR 0x5C] @ ''nMEM_TOTAL_BYTES=%.0f'' @ [CHR 0x5C] @ ''n", used, available, total'',
      ''    }'',
      ''  ' /proc/meminfo 2>/dev/null'',
      ''fi'',
      ''df -P -k / 2>/dev/null | awk '' @ [CHR 0x27],
      ''  NR==2 {'',
      ''    total=$2 * 1024'',
      ''    used=$3 * 1024'',
      ''    free=$4 * 1024'',
      ''    printf "DISK_USED_BYTES=%.0f'' @ [CHR 0x5C] @ ''nDISK_FREE_BYTES=%.0f'' @ [CHR 0x5C] @ ''nDISK_TOTAL_BYTES=%.0f'' @ [CHR 0x5C] @ ''n", used, free, total'',
      ''  }'',
      [CHR 0x27],
      ''true'']\<close>

definition windows_script_lines :: "string list" where
  \<open>windows_script_lines =
     [[],
      ''$os = (Get-CimInstance Win32_OperatingSystem).Caption'',
      ''$host_ = $env:COMPUTERNAME'',
      ''$upObj = (Get-CimInstance Win32_OperatingSystem).LastBootUpTime'',
      ''$up = (New-TimeSpan -Start $upObj -End (Get-Date))'',
      ''$upStr = '{0}d {1}h {2}m' -f $up.Days, $up.Hours, $up.Minutes'',
      ''$mem = Get-CimInstance Win32_OperatingSystem'',
      ''$memTotal = $mem.TotalVisibleMemorySize * 1024'',
      ''$memFree = $mem.FreePhysicalMemory * 1024'',
      ''$memUsed = $memTotal - $memFree'',
      ''$disk = Get-CimInstance Win32_LogicalDisk -Filter "DeviceID='C:'"'',
      ''$diskTotal = $disk.Size'',
      ''$diskFree = $disk.FreeSpace'',
      ''$diskUsed = $diskTotal - $diskFree'',
      ''Write-Output "OS=$os"'',
      ''Write-Output "HOST=$host_"'',
      ''Write-Output "UPTIME=$upStr"'',
      ''Write-Output "MEM_USED_BYTES=$([math]::Max(0, $memUsed))"'',
      ''Write-Output "MEM_FREE_BYTES=$([math]::Max(0, $memFree))"'',
      ''Write-Output "MEM_TOTAL_BYTES=$([math]::Max(0, $memTotal))"'',
      ''Write-Output "DISK_USED_BYTES=$([math]::Max(0, $diskUsed))"'',
      ''Write-Output "DISK_FREE_BYTES=$([math]::Max(0, $diskFree))"'',
      ''Write-Output "DISK_TOTAL_BYTES=$([math]::Max(0, $diskTotal))"'']\<close>

definition remote_system_command :: string where
  "remote_system_command = unlines unix_script_lines"

definition encode_powershell_command :: "(bytes \<Rightarrow> string) \<Rightarrow> string \<Rightarrow> string" where
  "encode_powershell_command base64 script =
     ''powershell -NoProfile -EncodedCommand '' @
     base64 (concat (map (\<lambda>u. [ucast u, ucast (drop_bit 8 u)]) (encode_utf16 script)))"

definition remote_system_command_windows :: "(bytes \<Rightarrow> string) \<Rightarrow> string" where
  "remote_system_command_windows base64 = encode_powershell_command base64 (unlines windows_script_lines)"

definition snapshot_value :: "string \<Rightarrow> string \<Rightarrow> string" where
  "snapshot_value output key = trim (unwrap_or [] (find_map (strip_prefix key) (lines output)))"

definition snapshot_number :: "string \<Rightarrow> string \<Rightarrow> u64" where
  "snapshot_number output key = unwrap_or 0 (parse_u64 (snapshot_value output key))"

definition parse_remote_system_snapshot :: "string \<Rightarrow> remote_system_snapshot" where
  "parse_remote_system_snapshot output =
     \<lparr>rs_os = snapshot_value output ''OS='',
      rs_hostname = snapshot_value output ''HOST='',
      rs_uptime = snapshot_value output ''UPTIME='',
      rs_memory = snapshot_value output ''MEM='',
      rs_disk = snapshot_value output ''DISK='',
      rs_memory_used_bytes = snapshot_number output ''MEM_USED_BYTES='',
      rs_memory_free_bytes = snapshot_number output ''MEM_FREE_BYTES='',
      rs_memory_total_bytes = snapshot_number output ''MEM_TOTAL_BYTES='',
      rs_disk_used_bytes = snapshot_number output ''DISK_USED_BYTES='',
      rs_disk_free_bytes = snapshot_number output ''DISK_FREE_BYTES='',
      rs_disk_total_bytes = snapshot_number output ''DISK_TOTAL_BYTES=''\<rparr>"

definition remote_system_snapshot ::
  "(bytes \<Rightarrow> string) \<Rightarrow> (string \<Rightarrow> string \<Rightarrow> (ssh_manager, portix_error, string) io) \<Rightarrow> string \<Rightarrow>
   (ssh_manager, portix_error, remote_system_snapshot) io" where
  "remote_system_snapshot base64 run sid m =
     (case is_remote_windows run sid m of (windows, m') \<Rightarrow>
        io_bind (run sid (if windows then remote_system_command_windows base64 else remote_system_command))
          (\<lambda>output. io_ok (parse_remote_system_snapshot output)) m')"

section \<open>The life of a session\<close>

definition history :: "string \<Rightarrow> ssh_manager \<Rightarrow> connection_status list" where
  "history sid m = map cs_status (filter (\<lambda>e. cs_session_id e = sid) (sm_status m))"

definition failures :: "string \<Rightarrow> ssh_manager \<Rightarrow> string list" where
  "failures sid m = map ee_message (filter (\<lambda>e. ee_session_id e = Some sid) (sm_errors m))"

definition failure_of :: "(portix_error, unit) result \<Rightarrow> string list" where
  "failure_of r = (case r of Ok _ \<Rightarrow> [] | Err e \<Rightarrow> [portix_error_to_string e])"

text \<open>The status events of a session before its end: the second once its terminal is open.\<close>

definition progress :: "'n ssh_machine \<Rightarrow> string \<Rightarrow> connection_status list" where
  "progress w sid = Connecting # (case snd w sid of None \<Rightarrow> [] | Some _ \<Rightarrow> [Connected])"

text \<open>What holds of one session, by the phase of its task.\<close>

definition life_cycle :: "'n ssh_machine \<Rightarrow> string \<Rightarrow> bool" where
  "life_cycle w sid \<longleftrightarrow> (let m = fst w in
     case sm_tasks m sid of
        None \<Rightarrow> sid \<notin> sm_sessions m \<and> snd w sid = None \<and> history sid m = [] \<and> failures sid m = []
      | Some t \<Rightarrow>
          (case tk_phase t of
             Running \<Rightarrow> sid \<in> sm_sessions m \<and> history sid m = progress w sid \<and> failures sid m = []
           | Ended r \<Rightarrow> sid \<in> sm_sessions m \<and> history sid m = progress w sid \<and> failures sid m = failure_of r
           | Unregistered r \<Rightarrow>
               sid \<notin> sm_sessions m \<and> history sid m = progress w sid \<and> failures sid m = failure_of r
           | Reported r \<Rightarrow>
               sid \<notin> sm_sessions m \<and> failures sid m = failure_of r \<and>
               history sid m = progress w sid @ [fst (final_status r)]))"

lemmas sm_op_defs =
  connect_def session_def send_command_def manager_emit_status_def task_end_def
  task_unregister_def task_report_def ok_or_def

inductive_cases sm_stepE: "sm_step ops net0 w l w'"

lemma life_cycle_new: "life_cycle new_machine sid"
  by (simp add: life_cycle_def new_machine_def new_manager_def history_def failures_def)

lemma emit_status_effect [simp]:
  "history sid (manager_emit_status sid' st msg m) = history sid m @ (if sid' = sid then [st] else [])"
  "failures sid (manager_emit_status sid' st msg m) = failures sid m"
  "sm_tasks (manager_emit_status sid' st msg m) = sm_tasks m"
  "sm_sessions (manager_emit_status sid' st msg m) = sm_sessions m"
  by (simp_all add: history_def failures_def manager_emit_status_def)

text \<open>What the runtime puts on the status stream: \<open>Connected\<close> when its terminal opens, nothing in its loop.\<close>

lemma runtime_start_status:
  "runtime_start ops p sid connected cols rows s = Continue s' \<Longrightarrow>
     ts_status s' = ts_status s @ [\<lparr>cs_session_id = sid, cs_status = Connected, cs_message = Some ''connected''\<rparr>]"
  "runtime_start ops p sid connected cols rows s = Stop s' r \<Longrightarrow> ts_status s' = ts_status s"
  using term_call_state(2) [of "open_terminal ops p cols rows" s]
  by (auto simp: runtime_start_def split: sum.splits flow.splits)

lemma start_publishes:
  "runtime_start ops p sid connected cols rows (sees m s) = Continue s' \<Longrightarrow>
     publish s' m = manager_emit_status sid Connected (Some ''connected'') m"
  "runtime_start ops p sid connected cols rows (sees m s) = Stop s' r \<Longrightarrow> publish s' m = m"
  by (auto simp: publish_def sees_def manager_emit_status_def dest: runtime_start_status)

lemma step_publishes:
  assumes "term_step ops sid (sees m s) e = f"
  shows "publish (flow_state f) (m\<lparr>sm_tasks := x\<rparr>) = m\<lparr>sm_tasks := x\<rparr>"
  using term_step_status [of ops sid "sees m s" e] assms by (simp add: publish_def sees_def)

lemmas event_publishes = step_publishes [of _ _ _ _ _ "Continue s'" for s', simplified]
  step_publishes [of _ _ _ _ _ "Stop s' r" for s' r, simplified]

text \<open>The machine with these facts applied: what each step does to the manager.\<close>

lemma sm_step_manager:
  assumes "sm_step ops net0 (m, rt) l (m', rt')"
  shows "(\<exists>sid p cols rows. l = LConnect sid p cols rows \<and> sm_tasks m sid = None \<and> sid \<notin> sm_sessions m \<and>
      m' = snd (connect sid p cols rows m) \<and> rt' = rt) \<or>
    (\<exists>c r. l = LCall c r \<and> perform_call c m = (r, m') \<and> rt' = rt) \<or>
    (\<exists>sid t s. l = LStart sid \<and> sm_tasks m sid = Some t \<and> tk_phase t = Running \<and> rt sid = None \<and>
      m' = manager_emit_status sid Connected (Some ''connected'') m \<and> rt' = rt(sid \<mapsto> s)) \<or>
    (\<exists>sid t r. l = LStart sid \<and> sm_tasks m sid = Some t \<and> tk_phase t = Running \<and> rt sid = None \<and>
      m' = task_end sid r m \<and> rt' = rt) \<or>
    (\<exists>sid e t t' s s'. l = LEvent sid e \<and> sm_tasks m sid = Some t \<and> tk_phase t = Running \<and> rt sid = Some s \<and>
      take_event e t = Some t' \<and> m' = m\<lparr>sm_tasks := (sm_tasks m)(sid \<mapsto> t')\<rparr> \<and> rt' = rt(sid \<mapsto> s')) \<or>
    (\<exists>sid e t t' s s' r. l = LEvent sid e \<and> sm_tasks m sid = Some t \<and> tk_phase t = Running \<and> rt sid = Some s \<and>
      take_event e t = Some t' \<and> m' = task_end sid r (m\<lparr>sm_tasks := (sm_tasks m)(sid \<mapsto> t')\<rparr>) \<and> rt' = rt(sid \<mapsto> s')) \<or>
    (\<exists>sid t r. l = LUnregister sid \<and> sm_tasks m sid = Some t \<and> tk_phase t = Ended r \<and>
      m' = task_unregister sid r m \<and> rt' = rt) \<or>
    (\<exists>sid t r. l = LReport sid \<and> sm_tasks m sid = Some t \<and> tk_phase t = Unregistered r \<and>
      m' = task_report sid r m \<and> rt' = rt)"
  using assms by cases (simp_all add: start_publishes event_publishes, blast+)

text \<open>A step on another session changes nothing a session can see.\<close>

fun label_sid :: "sm_label \<Rightarrow> string" where
  "label_sid (LConnect sid p c r) = sid"
| "label_sid (LCall c r) = call_sid c"
| "label_sid (LStart sid) = sid"
| "label_sid (LEvent sid e) = sid"
| "label_sid (LUnregister sid) = sid"
| "label_sid (LReport sid) = sid"

lemma history_frame [simp]:
  "history sid (m\<lparr>sm_tasks := x\<rparr>) = history sid m" "history sid (m\<lparr>sm_sessions := y\<rparr>) = history sid m"
  "history sid (m\<lparr>sm_errors := z\<rparr>) = history sid m" "failures sid (m\<lparr>sm_tasks := x\<rparr>) = failures sid m"
  "failures sid (m\<lparr>sm_sessions := y\<rparr>) = failures sid m"
  by (simp_all add: history_def failures_def)

lemma failures_task_end:
  "sm_tasks m sid = Some t \<Longrightarrow> failures sid (task_end sid r m) = failures sid m @ failure_of r"
  by (cases r) (simp_all add: task_end_def failures_def failure_of_def)

lemma task_end_effect:
  "sm_tasks m sid = Some t \<Longrightarrow> sm_tasks (task_end sid r m) sid = Some (t\<lparr>tk_phase := Ended r\<rparr>)"
  "sm_tasks m sid = Some t \<Longrightarrow> history sid' (task_end sid r m) = history sid' m"
  "sm_tasks m sid = Some t \<Longrightarrow> sm_sessions (task_end sid r m) = sm_sessions m"
  by (simp_all add: task_end_def)

lemma send_command_effect:
  obtains (failed) e where "send_command sid cmd m = (Err e, m)"
  | (queued) t where "sm_tasks m sid = Some t" "tk_phase t = Running" "sid \<in> sm_sessions m"
      "send_command sid cmd m = (Ok (), m\<lparr>sm_tasks := (sm_tasks m)(sid \<mapsto> t\<lparr>tk_queue := tk_queue t @ [cmd]\<rparr>)\<rparr>)"
proof (cases "session m sid")
  case (Inl e)
  then have "send_command sid cmd m = (Err e, m)" by (simp add: send_command_def)
  then show ?thesis by (rule failed)
next
  case (Inr t)
  then have t: "sm_tasks m sid = Some t" "sid \<in> sm_sessions m"
    by (auto simp: session_def ok_or_def split: if_splits option.splits)
  show ?thesis
  proof (cases "tk_phase t = Running")
    case True
    with Inr show ?thesis by (intro queued [OF t(1) _ t(2)]) (simp_all add: send_command_def)
  next
    case False
    with Inr show ?thesis by (intro failed) (simp add: send_command_def)
  qed
qed

text \<open>What a call asks the runtime to do.\<close>

fun call_command :: "manager_call \<Rightarrow> nat ssh_command" where
  "call_command (CallInput sid data) = Input data"
| "call_command (CallResize sid cols rows) = Resize cols rows"
| "call_command (CallExec sid command rid) = Exec command rid"
| "call_command (CallDisconnect sid) = Disconnect"

lemma perform_call_effect:
  obtains (nothing) r where "perform_call c m = (r, m)" "r = Ok () \<longrightarrow> call_command c = Input []"
  | (queued) t where "sm_tasks m (call_sid c) = Some t" "tk_phase t = Running" "call_sid c \<in> sm_sessions m"
      "perform_call c m = (Ok (), m\<lparr>sm_tasks := (sm_tasks m)(call_sid c \<mapsto> t\<lparr>tk_queue := tk_queue t @ [call_command c]\<rparr>)\<rparr>)"
proof (cases "call_command c = Input []")
  case True
  then have done_: "perform_call c m = (Ok (), m)" by (cases c) (simp_all add: send_terminal_input_def)
  show ?thesis by (rule that(1) [OF done_]) (simp add: True)
next
  case False
  then have c: "perform_call c m = send_command (call_sid c) (call_command c) m"
    by (cases c) (simp_all add: send_terminal_input_def resize_terminal_def disconnect_def)
  show ?thesis
  proof (cases rule: send_command_effect [of "call_sid c" "call_command c" m])
    case (failed e)
    with c have "perform_call c m = (Err e, m)" by simp
    then show ?thesis by (rule that(1)) simp
  next
    case (queued t)
    with c show ?thesis using that(2) by simp
  qed
qed

lemma take_event_keeps:
  "take_event e t = Some t' \<Longrightarrow> tk_phase t' = tk_phase t \<and> tk_profile t' = tk_profile t \<and> tk_size t' = tk_size t"
  by (cases "(e, t)" rule: take_event.cases) (auto split: list.splits if_splits)

lemma step_frame:
  assumes "sm_step ops net0 (m, rt) l (m', rt')" "label_sid l \<noteq> sid"
  shows "sm_tasks m' sid = sm_tasks m sid" "sid \<in> sm_sessions m' \<longleftrightarrow> sid \<in> sm_sessions m"
    "history sid m' = history sid m" "failures sid m' = failures sid m" "rt' sid = rt sid"
proof -
  have call: "sm_tasks m1 sid = sm_tasks m sid \<and> sm_sessions m1 = sm_sessions m \<and> history sid m1 = history sid m \<and>
      failures sid m1 = failures sid m" if "perform_call c m = (r, m1)" "call_sid c \<noteq> sid" for c r m1
    by (cases rule: perform_call_effect [of c m]) (use that in auto)
  show "sm_tasks m' sid = sm_tasks m sid" "sid \<in> sm_sessions m' \<longleftrightarrow> sid \<in> sm_sessions m"
    "history sid m' = history sid m" "failures sid m' = failures sid m" "rt' sid = rt sid"
    using sm_step_manager [OF assms(1)] assms(2)
    by (auto dest: call simp: sm_op_defs history_def failures_def split: option.splits sum.splits if_splits)
qed

lemma life_cycle_step:
  assumes step: "sm_step ops net0 (m, rt) l (m', rt')" and inv: "life_cycle (m, rt) sid"
  shows "life_cycle (m', rt') sid"
proof (cases "label_sid l = sid")
  case False
  note same = step_frame [OF step False]
  from inv show ?thesis unfolding life_cycle_def progress_def Let_def by (simp only: same fst_conv snd_conv)
next
  case True
  note defs = life_cycle_def progress_def Let_def
  from step show ?thesis
  proof cases
    case (sm_connect sid' p cols rows)
    with True inv show ?thesis by (cases "validate p") (simp_all add: defs connect_def)
  next
    case (sm_call c r)
    then show ?thesis
      by (cases rule: perform_call_effect [of c m]) (use sm_call True inv in \<open>auto simp: defs\<close>)
  next
    case (sm_start sid' t connected s)
    with True inv show ?thesis by (simp add: defs start_publishes(1) [OF sm_start(7)])
  next
    case (sm_start_failed sid' t connected s r)
    with True inv show ?thesis
      by (simp add: defs start_publishes(2) [OF sm_start_failed(7)] task_end_effect failures_task_end)
  next
    case (sm_event sid' t s e t' s')
    with True inv show ?thesis
      by (simp add: defs event_publishes(1) [OF sm_event(8)] take_event_keeps [OF sm_event(7)])
  next
    case (sm_stop sid' t s e t' s' r)
    with True inv show ?thesis
      by (simp add: defs event_publishes(2) [OF sm_stop(8)] task_end_effect failures_task_end)
  qed (use True inv in \<open>auto simp: defs task_unregister_def task_report_def\<close>)
qed

interpretation session_machine: machine_invariant "sm_step ops net0" "\<lambda>w. life_cycle w sid" for ops net0 sid
  by unfold_locales (metis life_cycle_step prod.collapse)

lemma reachable_life_cycle: "steps (sm_step ops net0) new_machine ls w \<Longrightarrow> life_cycle w sid"
  using session_machine.steps_inv life_cycle_new by blast

section \<open>What is typed reaches the server\<close>

text \<open>What can be seen on the wire of a channel, and what a command and an accepted call are to put there.\<close>

datatype wire = Typed u8 | Sized u32 u32

fun wire_of :: "nat ssh_command \<Rightarrow> wire list" where
  "wire_of (Input d) = map Typed d"
| "wire_of (Resize cols rows) = [case normalize_terminal_size cols rows of (c, r) \<Rightarrow> Sized c r]"
| "wire_of _ = []"

fun call_wire :: "manager_call \<Rightarrow> wire list" where
  "call_wire (CallInput sid data) = map Typed data"
| "call_wire (CallResize sid cols rows) = [case normalize_terminal_size cols rows of (c, r) \<Rightarrow> Sized c r]"
| "call_wire _ = []"

fun requested :: "string \<Rightarrow> sm_label list \<Rightarrow> wire list" where
  "requested sid [] = []"
| "requested sid (l # ls) =
     (case l of LCall c (Ok _) \<Rightarrow> if call_sid c = sid then call_wire c else [] | _ \<Rightarrow> []) @ requested sid ls"

text \<open>\<open>wire\<close> reads off a network state what was written to the channel: only a successful write adds to it.\<close>

definition records_wire :: "'n chan_ops \<Rightarrow> ('n \<Rightarrow> wire list) \<Rightarrow> bool" where
  "records_wire ops wire \<longleftrightarrow>
     (\<forall>d n. wire (snd (co_data ops d n)) = wire n @ (if is_ok (fst (co_data ops d n)) then map Typed d else [])) \<and>
     (\<forall>c r n. wire (snd (co_window_change ops c r n)) =
        wire n @ (if is_ok (fst (co_window_change ops c r n)) then [Sized c r] else [])) \<and>
     (\<forall>n. wire (snd (co_open ops n)) = wire n \<and> wire (snd (co_agent_forward ops n)) = wire n \<and>
        wire (snd (co_request_shell ops n)) = wire n \<and> wire (snd (co_eof ops n)) = wire n \<and>
        wire (snd (co_close ops n)) = wire n \<and> wire (snd (co_disconnect ops n)) = wire n \<and>
        wire (snd (co_keepalive ops n)) = wire n) \<and>
     (\<forall>c r n. wire (snd (co_request_pty ops c r n)) = wire n) \<and> (\<forall>cmd n. wire (snd (co_exec ops cmd n)) = wire n)"

definition written :: "('n \<Rightarrow> wire list) \<Rightarrow> 'n runtimes \<Rightarrow> string \<Rightarrow> wire list" where
  "written wire rt sid = (case rt sid of None \<Rightarrow> [] | Some s \<Rightarrow> wire (ts_net s))"

definition queued_wire :: "ssh_manager \<Rightarrow> string \<Rightarrow> wire list" where
  "queued_wire m sid = (case sm_tasks m sid of None \<Rightarrow> [] | Some t \<Rightarrow> concat (map wire_of (tk_queue t)))"

text \<open>
  The requests up to now are what was written, what a failed write lost (it ends the session), and
  what is queued.
\<close>

definition delivered :: "('n \<Rightarrow> wire list) \<Rightarrow> 'n ssh_machine \<Rightarrow> string \<Rightarrow> wire list \<Rightarrow> bool" where
  "delivered wire w sid reqs \<longleftrightarrow>
     (\<exists>lost. reqs = written wire (snd w) sid @ lost @ queued_wire (fst w) sid \<and>
        ((\<forall>t. sm_tasks (fst w) sid = Some t \<longrightarrow> tk_phase t = Running) \<longrightarrow> lost = []))"

lemma open_terminal_wire:
  assumes "records_wire ops wire"
  shows "wire (snd (open_terminal ops p cols rows n)) = wire n"
proof -
  have "keeps (\<lambda>n'. wire n' = wire n) (open_terminal ops p cols rows)"
    using assms unfolding open_terminal_def
    by (intro keeps_bind) (auto simp: keeps_def records_wire_def split: prod.splits option.splits)
  then show ?thesis by (simp add: keeps_def)
qed

lemma runtime_start_wire:
  assumes "records_wire ops wire" "runtime_start ops p sid connected cols rows s = Continue s'"
  shows "wire (ts_net s') = wire (ts_net s)"
  using open_terminal_wire [OF assms(1), of p cols rows "ts_net s"] assms(2)
  by (auto simp: runtime_start_def term_call_def emit_status_def split: sum.splits flow.splits prod.splits)

fun event_wire :: "nat term_event \<Rightarrow> wire list" where
  "event_wire (Command (Some c)) = wire_of c"
| "event_wire _ = []"

lemma term_call_wire:
  assumes "\<And>n. wire (snd (f n)) = wire n @ (if is_ok (fst (f n)) then x else [])"
  shows "term_call f s = Continue s' \<Longrightarrow> wire (ts_net s') = wire (ts_net s) @ x"
    "term_call f s = Stop s' r \<Longrightarrow> wire (ts_net s') = wire (ts_net s)"
  using assms [of "ts_net s"] by (auto simp: term_call_def split: sum.splits prod.splits)

lemma term_step_wire:
  assumes "records_wire ops wire"
  shows "term_step ops sid s e = Continue s' \<Longrightarrow> wire (ts_net s') = wire (ts_net s) @ event_wire e"
    "term_step ops sid s e = Stop s' r \<Longrightarrow> wire (ts_net s') = wire (ts_net s)"
proof -
  have data: "wire (snd (co_data ops d n)) = wire n @ (if is_ok (fst (co_data ops d n)) then map Typed d else [])"
    and size: "wire (snd (co_window_change ops c r' n)) =
        wire n @ (if is_ok (fst (co_window_change ops c r' n)) then [Sized c r'] else [])"
    and close: "wire (close_session ops n) = wire n" and alive: "wire (snd (co_keepalive ops n)) = wire n" for d c r' n
    using assms by (simp_all add: records_wire_def close_session_def)
  show "term_step ops sid s e = Continue s' \<Longrightarrow> wire (ts_net s') = wire (ts_net s) @ event_wire e"
    by (cases "(ops, sid, s, e)" rule: term_step.cases)
       (auto simp: alive split: prod.splits if_splits dest!: term_call_wire(1) [of wire, OF data] term_call_wire(1) [of wire, OF size])
  show "term_step ops sid s e = Stop s' r \<Longrightarrow> wire (ts_net s') = wire (ts_net s)"
    by (cases "(ops, sid, s, e)" rule: term_step.cases)
       (auto simp: close split: prod.splits if_splits dest!: term_call_wire(2) [of wire, OF data] term_call_wire(2) [of wire, OF size])
qed

lemma take_event_wire:
  "take_event e t = Some t' \<Longrightarrow> concat (map wire_of (tk_queue t)) = event_wire e @ concat (map wire_of (tk_queue t'))"
  by (cases "(e, t)" rule: take_event.cases) (auto split: list.splits if_splits)

lemma call_wire_command: "call_wire c = wire_of (call_command c)"
  by (cases c) simp_all

lemma delivered_frame:
  assumes "sm_step ops net0 (m, rt) l (m', rt')" "label_sid l \<noteq> sid"
  shows "delivered wire (m', rt') sid reqs \<longleftrightarrow> delivered wire (m, rt) sid reqs" "requested sid [l] = []"
  using step_frame [OF assms] assms(2)
  by (auto simp: delivered_def written_def queued_wire_def split: sm_label.splits sum.splits)

lemma delivered_step:
  assumes step: "sm_step ops net0 (m, rt) l (m', rt')" and life: "life_cycle (m, rt) sid"
    and ops: "records_wire ops wire" "wire (net0 sid) = []" and inv: "delivered wire (m, rt) sid reqs"
  shows "delivered wire (m', rt') sid (reqs @ requested sid [l])"
proof (cases "label_sid l = sid")
  case False
  with delivered_frame [OF step False] inv show ?thesis by simp
next
  case True
  note defs = delivered_def written_def queued_wire_def
  from step show ?thesis
  proof cases
    case (sm_connect sid' p cols rows)
    with True inv show ?thesis by (cases "validate p") (auto simp: defs connect_def)
  next
    case (sm_call c r)
    then show ?thesis
    proof (cases rule: perform_call_effect [of c m])
      case (nothing r')
      with sm_call inv True show ?thesis by (auto simp: call_wire_command split: sum.splits)
    next
      case (queued t)
      with sm_call inv True show ?thesis by (auto simp: defs call_wire_command)
    qed
  next
    case (sm_start sid' t connected s)
    have "wire (ts_net s) = []"
      using runtime_start_wire [OF ops(1) sm_start(7)] ops(2) True sm_start(1) by (simp add: sees_def new_runtime_def)
    with True inv sm_start show ?thesis by (simp add: defs publish_def)
  next
    case (sm_start_failed sid' t connected s r)
    with True inv show ?thesis by (simp add: defs publish_def task_end_def)
  next
    case (sm_event sid' t s e t' s')
    with True inv show ?thesis
      using term_step_wire(1) [OF ops(1) sm_event(8)] take_event_wire [OF sm_event(7)] take_event_keeps [OF sm_event(7)]
      by (simp add: defs publish_def sees_def)
  next
    case (sm_stop sid' t s e t' s' r)
    with True inv show ?thesis
      using term_step_wire(2) [OF ops(1) sm_stop(8)] take_event_wire [OF sm_stop(7)]
      by (auto simp: defs publish_def sees_def task_end_def)
  qed (use True inv in \<open>auto simp: defs task_unregister_def task_report_def\<close>)
qed

lemma delivered_steps:
  assumes "steps (sm_step ops net0) w ls w'" "life_cycle w sid" "records_wire ops wire" "wire (net0 sid) = []"
    and "delivered wire w sid reqs"
  shows "delivered wire w' sid (reqs @ requested sid ls)"
  using assms
proof (induction arbitrary: reqs rule: steps.induct)
  case (steps_Nil w)
  then show ?case by simp
next
  case (steps_Cons w l w1 ls w2)
  have "delivered wire w1 sid (reqs @ requested sid [l])"
    using delivered_step [of ops net0 "fst w" "snd w" l "fst w1" "snd w1" sid wire reqs] steps_Cons by simp
  moreover have "life_cycle w1 sid"
    using session_machine.machine_step [OF steps_Cons(1), of sid] steps_Cons.prems(1) by simp
  ultimately have "delivered wire w2 sid ((reqs @ requested sid [l]) @ requested sid ls)"
    using steps_Cons by blast
  then show ?case by simp
qed

section \<open>The specification of sessions\<close>

fun report_of_status :: "connection_status \<Rightarrow> session_report" where
  "report_of_status Disconnected = Ended_well"
| "report_of_status Error_status = Ended_badly"
| "report_of_status _ = Working"

definition session_reports :: "ssh_manager \<Rightarrow> (string \<times> session_report) list" where
  "session_reports m = map (\<lambda>e. (cs_session_id e, report_of_status (cs_status e))) (sm_status m)"

definition session_life :: "ssh_manager \<Rightarrow> string \<Rightarrow> life" where
  "session_life m sid =
     (case sm_tasks m sid of
        None \<Rightarrow> Unstarted
      | Some t \<Rightarrow> (case tk_phase t of Reported r \<Rightarrow> Over | _ \<Rightarrow> Live))"

lemma session_life_frame:
  "sm_tasks m sid = Some t \<Longrightarrow> tk_phase t \<notin> range Reported \<Longrightarrow> tk_phase t' \<notin> range Reported \<Longrightarrow>
     sm_tasks m' = (sm_tasks m)(sid \<mapsto> t') \<Longrightarrow> session_life m' = session_life m"
  by (auto simp: session_life_def fun_eq_iff split: task_phase.splits)

lemma report_final: "report_of_status (fst (final_status r)) \<noteq> Working"
  by (cases r) simp_all

lemma session_refines:
  assumes "sm_step ops net0 (m, rt) l (m', rt')"
  shows "\<exists>es. steps life_step (session_life m) es (session_life m') \<and>
    session_reports m' = session_reports m @ concat (map visible es)"
proof -
  have silent: ?thesis if "session_life m' = session_life m" "sm_status m' = sm_status m"
    using that by (intro exI [of _ "[]"]) (simp add: session_reports_def)
  from assms show ?thesis
  proof cases
    case (sm_connect sid p cols rows)
    show ?thesis
    proof (cases "validate p")
      case (Inl e)
      with sm_connect show ?thesis by (intro silent) (simp_all add: connect_def)
    next
      case (Inr u)
      have "session_life m sid = Unstarted" using sm_connect by (simp add: session_life_def)
      moreover have "session_life m' = (session_life m)(sid := Live)"
        using sm_connect Inr by (auto simp: session_life_def connect_def manager_emit_status_def fun_eq_iff)
      moreover have "session_reports m' = session_reports m @ [(sid, Working)]"
        using sm_connect Inr by (simp add: session_reports_def connect_def manager_emit_status_def)
      ultimately show ?thesis
        by (intro exI [of _ "[Begins sid, Reports sid Working]"])
           (auto intro!: exI [of _ "(session_life m)(sid := Live)"] life_start life_working)
    qed
  next
    case (sm_call c r)
    then have "session_life m' = session_life m \<and> sm_status m' = sm_status m"
      by (cases rule: perform_call_effect [of c m]) (auto simp: session_life_def fun_eq_iff)
    then show ?thesis by (intro silent) simp_all
  next
    case (sm_start sid t connected s)
    then have "session_life m sid = Live" "session_life m' = session_life m"
      by (simp_all add: session_life_def fun_eq_iff start_publishes(1) [OF sm_start(7)])
    with sm_start show ?thesis
      by (intro exI [of _ "[Reports sid Working]"])
         (auto simp: session_reports_def start_publishes(1) [OF sm_start(7)] manager_emit_status_def intro: life_working)
  next
    case (sm_start_failed sid t connected s r)
    then have m': "m' = task_end sid r m" by (simp add: start_publishes(2) [OF sm_start_failed(7)])
    have "session_life m' = session_life m"
      unfolding m' using sm_start_failed(4,5) by (intro session_life_frame [of m sid t "t\<lparr>tk_phase := Ended r\<rparr>"]) (auto simp: task_end_def)
    then show ?thesis by (rule silent) (use m' sm_start_failed in \<open>simp add: task_end_def\<close>)
  next
    case (sm_event sid t s e t' s')
    then have m': "m' = m\<lparr>sm_tasks := (sm_tasks m)(sid \<mapsto> t')\<rparr>" by (simp add: event_publishes(1) [OF sm_event(8)])
    have "session_life m' = session_life m"
      unfolding m' using sm_event(4,5) take_event_keeps [OF sm_event(7)] by (intro session_life_frame [of m sid t t']) auto
    then show ?thesis by (rule silent) (simp add: m')
  next
    case (sm_stop sid t s e t' s' r)
    then have m': "m' = task_end sid r (m\<lparr>sm_tasks := (sm_tasks m)(sid \<mapsto> t')\<rparr>)"
      by (simp add: event_publishes(2) [OF sm_stop(8)])
    have "session_life m' = session_life m"
      unfolding m' using sm_stop(4,5) by (intro session_life_frame [of m sid t "t'\<lparr>tk_phase := Ended r\<rparr>"]) (auto simp: task_end_def)
    then show ?thesis by (rule silent) (simp add: m' task_end_def)
  next
    case (sm_unregister sid t r)
    then have "session_life m' = session_life m"
      by (intro session_life_frame [of m sid t "t\<lparr>tk_phase := Unregistered r\<rparr>"]) (auto simp: task_unregister_def)
    then show ?thesis by (rule silent) (use sm_unregister in \<open>simp add: task_unregister_def\<close>)
  next
    case (sm_report sid t r)
    then have "session_life m sid = Live" "session_life m' = (session_life m)(sid := Over)"
      by (auto simp: session_life_def task_report_def fun_eq_iff)
    with sm_report show ?thesis
      by (intro exI [of _ "[Reports sid (report_of_status (fst (final_status r)))]"])
         (auto simp: session_reports_def task_report_def manager_emit_status_def report_final intro: life_end)
  qed
qed

interpretation ssh_sessions: session_refinement "sm_step ops net0" "\<lambda>w. session_life (fst w)" "\<lambda>w. session_reports (fst w)"
  for ops net0
  by unfold_locales (metis session_refines prod.collapse)

section \<open>Properties of the sessions\<close>

text \<open>
  C9: in every interleaving of callers, session tasks and their runtimes, whatever the server does, a
  session that was started reports \<open>Connecting\<close> first, then \<open>Connected\<close> exactly if its terminal was
  opened and only then, and exactly one final status, the one of its result, after it left the
  map; it is registered exactly while its task has not cleaned up; an error result puts exactly
  one error event on the error stream.
\<close>

theorem session_life_cycle:
  "steps (sm_step ops net0) new_machine ls w \<Longrightarrow> life_cycle w sid"
  by (rule reachable_life_cycle)

text \<open>
  Once every task has reported, no session is left in the map, and every further input,
  resize or disconnect for an old session answers \<open>SessionNotFound\<close> without changing anything.
\<close>

theorem finished_sessions_are_gone:
  assumes "steps (sm_step ops net0) new_machine ls (m, rt)"
    and "\<And>sid t. sm_tasks m sid = Some t \<Longrightarrow> \<exists>r. tk_phase t = Reported r"
  shows "sm_sessions m = {}"
    and "send_command sid cmd m = (Err (SessionNotFound sid), m)"
    and "disconnect sid m = (Err (SessionNotFound sid), m)"
    and "data \<noteq> [] \<Longrightarrow> send_terminal_input sid data m = (Err (SessionNotFound sid), m)"
proof -
  have "sid \<notin> sm_sessions m" for sid
  proof (cases "sm_tasks m sid")
    case None
    with reachable_life_cycle [OF assms(1), of sid] show ?thesis by (simp add: life_cycle_def)
  next
    case (Some t)
    with assms(2) obtain r where "tk_phase t = Reported r" by blast
    with Some reachable_life_cycle [OF assms(1), of sid] show ?thesis by (simp add: life_cycle_def)
  qed
  then show "sm_sessions m = {}"
    and "send_command sid cmd m = (Err (SessionNotFound sid), m)"
    and "disconnect sid m = (Err (SessionNotFound sid), m)"
    and "data \<noteq> [] \<Longrightarrow> send_terminal_input sid data m = (Err (SessionNotFound sid), m)"
    by (auto simp: send_command_def session_def disconnect_def send_terminal_input_def)
qed

text \<open>
  C11: what is typed reaches the server. In every interleaving, what a session has written to its
  channel (typed bytes and, clamped, new window sizes) is the beginning of what the accepted calls
  for this session asked for, in that order. While the session runs nothing is lost: the
  requests are what was written followed by what is still queued, and no call is refused.
\<close>

theorem commands_arrive_in_order:
  assumes "steps (sm_step ops net0) new_machine ls (m, rt)" "records_wire ops wire" "wire (net0 sid) = []"
  shows "prefix (written wire rt sid) (requested sid ls) \<and>
    (\<forall>t. sm_tasks m sid = Some t \<and> tk_phase t = Running \<longrightarrow>
       requested sid ls = written wire rt sid @ concat (map wire_of (tk_queue t)) \<and>
       (\<forall>c. call_sid c = sid \<longrightarrow> fst (perform_call c m) = Ok ()))"
proof -
  have "delivered wire new_machine sid []"
    by (simp add: delivered_def written_def queued_wire_def new_machine_def new_manager_def)
  from delivered_steps [OF assms(1) life_cycle_new assms(2,3) this]
  have d: "delivered wire (m, rt) sid (requested sid ls)" by simp
  have accepted: "fst (perform_call c m) = Ok ()" if "sm_tasks m (call_sid c) = Some t" "tk_phase t = Running" for c t
  proof -
    have "call_sid c \<in> sm_sessions m"
      using reachable_life_cycle [OF assms(1), of "call_sid c"] that by (simp add: life_cycle_def)
    with that show ?thesis
      by (cases c) (simp_all add: send_terminal_input_def resize_terminal_def disconnect_def send_command_def session_def)
  qed
  from d accepted show ?thesis by (auto simp: delivered_def queued_wire_def)
qed

text \<open>
  The platform of a session is detected once. Whatever the first detection concludes (also
  when its command failed and the answer is the default \<open>Unix\<close>), every later one gives the same
  answer and runs no command on the host.
\<close>

theorem platform_is_detected_once:
  assumes "detect_remote_platform run sid m = (platform, m')"
    and "is_ok (session m' sid)"
  shows "detect_remote_platform run' sid m' = (platform, m')"
proof -
  from assms(2) obtain t where "session m' sid = Ok t" by (cases "session m' sid") auto
  with assms(1) show ?thesis
    by (auto simp: detect_remote_platform_def session_def ok_or_def and_then_def Let_def
        split: option.splits sum.splits if_splits prod.splits)
qed

section \<open>The snapshot parser\<close>

text \<open>What the two scripts print, with the line end of the remote system.\<close>

definition print_with :: "string \<Rightarrow> string list \<Rightarrow> string" where
  "print_with eol ls = concat (map (\<lambda>l. l @ eol) ls)"

definition snapshot_report ::
  "string \<Rightarrow> string \<Rightarrow> string \<Rightarrow> string \<Rightarrow> u64 \<Rightarrow> u64 \<Rightarrow> u64 \<Rightarrow> u64 \<Rightarrow> u64 \<Rightarrow> u64 \<Rightarrow> string" where
  "snapshot_report eol os host up mu mf mt du df dt =
     print_with eol
       [''OS='' @ os, ''HOST='' @ host, ''UPTIME='' @ up,
        ''MEM_USED_BYTES='' @ show_word mu, ''MEM_FREE_BYTES='' @ show_word mf,
        ''MEM_TOTAL_BYTES='' @ show_word mt,
        ''DISK_USED_BYTES='' @ show_word du, ''DISK_FREE_BYTES='' @ show_word df,
        ''DISK_TOTAL_BYTES='' @ show_word dt]"

lemma lines_print_with:
  assumes "eol = [LF] \<or> eol = [CR, LF]"
    and "\<And>l. l \<in> set ls \<Longrightarrow> LF \<notin> set l \<and> (l = [] \<or> last l \<noteq> CR)"
  shows "lines (print_with eol ls) = ls"
proof (cases "eol = [LF]")
  case True
  with lines_unlines [OF assms(2)] show ?thesis by (simp add: print_with_def unlines_def)
next
  case False
  with assms(1) have eol: "eol = [CR, LF]" by simp
  have [simp]: "CR \<noteq> LF" "LF \<noteq> CR" by (simp_all add: CR_def LF_def)
  have no_lf: "\<And>l. l \<in> set ls \<Longrightarrow> LF \<notin> set l" using assms(2) by blast
  have "lines (print_with [CR, LF] ls) = ls"
    using no_lf
  proof (induction ls)
    case (Cons l ls)
    have "LF \<notin> set (l @ [CR])" using Cons.prems by simp
    from lines_from_no_LF [OF this, of "[]"] Cons show ?case
      by (simp add: lines_def print_with_def drop_cr_def)
  qed (simp add: lines_def print_with_def)
  with eol show ?thesis by simp
qed

lemma trimmed_no_trailing_CR: "trimmed v \<Longrightarrow> v = [] \<or> last v \<noteq> CR"
proof (cases v rule: rev_cases)
  case (snoc ys y)
  assume "trimmed v"
  then have "trim_back (rev v) = rev v" by (simp add: trimmed_def)
  moreover have "length (trim_back (rev ys)) \<le> length ys"
    using suffix_trim_back [THEN suffix_length_le, of "rev ys"] by simp
  ultimately have "y \<noteq> CR" using snoc by (auto simp: ascii_ws_def CR_def)
  with snoc show ?thesis by simp
qed simp

lemma ascii_ws_not_digit: "48 \<le> (of_char c :: nat) \<Longrightarrow> (of_char c :: nat) \<le> 57 \<Longrightarrow> \<not> ascii_ws c"
  by (auto simp: ascii_ws_def)

lemma wide_ws_not_digit:
  "ws2 a b \<Longrightarrow> 58 \<le> (of_char a :: nat) \<and> 58 \<le> (of_char b :: nat)"
  "ws3 a b c \<Longrightarrow> 58 \<le> (of_char a :: nat) \<and> 58 \<le> (of_char c :: nat)"
  by (auto simp: ws2_def ws3_def)

lemma trim_digit:
  assumes "48 \<le> (of_char a :: nat)" "(of_char a :: nat) \<le> 57"
  shows "trim_start (a # s) = a # s" "trim_back (a # s) = a # s"
proof -
  have "\<not> ascii_ws a" using assms by (rule ascii_ws_not_digit)
  moreover have "\<not> ws2 a b" "\<not> ws2 b a" for b using assms wide_ws_not_digit(1) by fastforce+
  moreover have "\<not> ws3 a b c" "\<not> ws3 b c a" for b c using assms wide_ws_not_digit(2) by fastforce+
  ultimately show "trim_start (a # s) = a # s" "trim_back (a # s) = a # s"
    by (simp_all split: list.splits)
qed

lemma trimmed_dec: "trimmed (show_word w)"
proof -
  have ends: "hd (dec n) \<in> set (dec n)" "hd (rev (dec n)) \<in> set (dec n)" for n
    by (simp_all add: hd_rev)
  have "trim_start (dec n) = dec n" for n
    using trim_digit(1) [OF dec_digits [OF ends(1), THEN conjunct1] dec_digits [OF ends(1), THEN conjunct2],
        of n "tl (dec n)"] by simp
  moreover have "trim_back (rev (dec n)) = rev (dec n)" for n
    using trim_digit(2) [OF dec_digits [OF ends(2), THEN conjunct1] dec_digits [OF ends(2), THEN conjunct2],
        of n "tl (rev (dec n))"] by simp
  ultimately show ?thesis by (simp add: trimmed_def show_word_def)
qed

lemma show_word_no_LF: "LF \<notin> set (show_word w)"
  using dec_digits [of LF "unat w"] by (auto simp: show_word_def LF_def)

lemma snapshot_value_report:
  assumes eol: "eol = [LF] \<or> eol = [CR, LF]"
    and vals: "LF \<notin> set os \<and> trimmed os" "LF \<notin> set host \<and> trimmed host" "LF \<notin> set up \<and> trimmed up"
  shows "lines (snapshot_report eol os host up mu mf mt du df dt) =
    [''OS='' @ os, ''HOST='' @ host, ''UPTIME='' @ up,
     ''MEM_USED_BYTES='' @ show_word mu, ''MEM_FREE_BYTES='' @ show_word mf,
     ''MEM_TOTAL_BYTES='' @ show_word mt,
     ''DISK_USED_BYTES='' @ show_word du, ''DISK_FREE_BYTES='' @ show_word df,
     ''DISK_TOTAL_BYTES='' @ show_word dt]"
proof -
  have line: "LF \<notin> set (k @ v) \<and> (k @ v = [] \<or> last (k @ v) \<noteq> CR)"
    if "LF \<notin> set k" "k \<noteq> []" "last k \<noteq> CR" "LF \<notin> set v \<and> trimmed v" for k v
    using that trimmed_no_trailing_CR [of v] by (auto simp: last_append)
  have num: "LF \<notin> set (show_word w) \<and> trimmed (show_word w)" for w :: u64
    by (simp add: show_word_no_LF trimmed_dec)
  show ?thesis
    unfolding snapshot_report_def
    by (rule lines_print_with [OF eol])
       (elim set_ConsD [THEN disjE] ; (simp only:, rule line; simp add: vals num vals [unfolded LF_def] num [unfolded LF_def] LF_def CR_def)?; simp?)
qed

text \<open>
  The parser recovers what the scripts print: every field of the report, for any text
  values that are single trimmed lines and any 64-bit counters, with Unix or Windows line ends.
  The two summary fields \<open>memory\<close> and \<open>disk\<close>, which no script prints, come out empty.
\<close>

theorem snapshot_round_trip:
  assumes "eol = [LF] \<or> eol = [CR, LF]"
    and "LF \<notin> set os \<and> trimmed os" "LF \<notin> set host \<and> trimmed host" "LF \<notin> set up \<and> trimmed up"
  shows "parse_remote_system_snapshot (snapshot_report eol os host up mu mf mt du df dt) =
    \<lparr>rs_os = os, rs_hostname = host, rs_uptime = up, rs_memory = [], rs_disk = [],
     rs_memory_used_bytes = mu, rs_memory_free_bytes = mf, rs_memory_total_bytes = mt,
     rs_disk_used_bytes = du, rs_disk_free_bytes = df, rs_disk_total_bytes = dt\<rparr>"
  using assms(2-4)
  by (simp add: parse_remote_system_snapshot_def snapshot_value_def snapshot_number_def
      snapshot_value_report [OF assms] find_map_Cons trimmed_dec)

section \<open>Witnesses\<close>

text \<open>
  A channel that works and remembers what was written to it, and a session on it that opens, is
  sent a key and a window size, takes the key, and is closed by the server.
\<close>

definition wire_ops :: "wire list chan_ops" where
  "wire_ops =
     \<lparr>co_open = io_ok (), co_request_pty = (\<lambda>_ _. io_ok ()), co_agent_forward = io_ok (),
      co_exec = (\<lambda>_. io_ok ()), co_request_shell = io_ok (), co_data = (\<lambda>d n. (Ok (), n @ map Typed d)),
      co_window_change = (\<lambda>c r n. (Ok (), n @ [Sized c r])), co_eof = io_ok (), co_close = io_ok (),
      co_disconnect = io_ok (), co_keepalive = io_ok (), co_exec_open = (\<lambda>_. True)\<rparr>"

definition demo_task :: "task_phase \<Rightarrow> nat ssh_command list \<Rightarrow> ssh_task" where
  "demo_task ph q = \<lparr>tk_profile = gate_profile, tk_size = (80, 24), tk_phase = ph, tk_queue = q, tk_platform = None\<rparr>"

definition demo_manager :: "bool \<Rightarrow> ssh_task \<Rightarrow> connection_status list \<Rightarrow> ssh_manager" where
  "demo_manager alive t h =
     \<lparr>sm_sessions = (if alive then {''s''} else {}), sm_tasks = [''s'' \<mapsto> t],
      sm_status = map (\<lambda>st. \<lparr>cs_session_id = ''s'', cs_status = st,
        cs_message = (case st of Connecting \<Rightarrow> Some ''connecting'' | Connected \<Rightarrow> Some ''connected'' | _ \<Rightarrow> None)\<rparr>) h,
      sm_errors = []\<rparr>"

definition demo_runtime :: "wire list \<Rightarrow> wire list runtimes" where
  "demo_runtime n = [''s'' \<mapsto> \<lparr>ts_net = n, ts_output = [],
     ts_status = sm_status (demo_manager True (demo_task Running []) [Connecting, Connected]), ts_exec = []\<rparr>]"

lemmas session_demo_defs = demo_manager_def demo_task_def demo_runtime_def new_manager_def manager_emit_status_def
  task_end_def task_unregister_def task_report_def

lemma validate_gate: "validate gate_profile = Ok ()"
  by code_simp

lemma demo_open:
  "steps (sm_step wire_ops (\<lambda>_. [])) new_machine [LConnect ''s'' gate_profile 80 24, LStart ''s'']
     (demo_manager True (demo_task Running []) [Connecting, Connected], demo_runtime [])"
proof -
  have c: "snd (connect ''s'' gate_profile 80 24 new_manager) = demo_manager True (demo_task Running []) [Connecting]"
    by (simp add: connect_def validate_gate session_demo_defs)
  let ?m = "demo_manager True (demo_task Running []) [Connecting]"
  have s: "runtime_start wire_ops gate_profile ''s'' (Ok ()) 80 24 (sees ?m (new_runtime [])) =
      Continue (the (demo_runtime [] ''s''))"
    by (simp add: runtime_start_def term_call_def open_terminal_def io_bind_def wire_ops_def gate_profile_def case_prod_beta
        sees_def new_runtime_def session_demo_defs emit_status_def)
  have "sm_step wire_ops (\<lambda>_. []) new_machine (LConnect ''s'' gate_profile 80 24) (?m, Map.empty)"
    unfolding new_machine_def c [symmetric] by (rule sm_connect) (simp_all add: new_manager_def)
  moreover have "sm_step wire_ops (\<lambda>_. []) (?m, Map.empty) (LStart ''s'')
      (publish (the (demo_runtime [] ''s'')) ?m, Map.empty(''s'' \<mapsto> the (demo_runtime [] ''s'')))"
    by (rule sm_start [where t = "demo_task Running []" and connected = "Ok ()"])
       (use s in \<open>simp_all add: demo_manager_def demo_task_def\<close>)
  moreover have "publish (the (demo_runtime [] ''s'')) ?m = demo_manager True (demo_task Running []) [Connecting, Connected]"
    "Map.empty(''s'' \<mapsto> the (demo_runtime [] ''s'')) = demo_runtime []"
    by (simp_all add: publish_def session_demo_defs)
  ultimately show ?thesis by auto
qed

lemma demo_typing:
  "steps (sm_step wire_ops (\<lambda>_. [])) (demo_manager True (demo_task Running []) [Connecting, Connected], demo_runtime [])
     [LCall (CallInput ''s'' [65]) (Ok ()), LCall (CallResize ''s'' 100 40) (Ok ()), LEvent ''s'' (Command (Some (Input [65])))]
     (demo_manager True (demo_task Running [Resize 100 40]) [Connecting, Connected], demo_runtime [Typed 65])"
proof -
  let ?m = "\<lambda>q. demo_manager True (demo_task Running q) [Connecting, Connected]"
  let ?q = "[Input [65], Resize 100 40]"
  have calls: "perform_call (CallInput ''s'' [65]) (?m []) = (Ok (), ?m [Input [65]])"
    "perform_call (CallResize ''s'' 100 40) (?m [Input [65]]) = (Ok (), ?m ?q)"
    by (simp_all add: send_terminal_input_def resize_terminal_def send_command_def session_def demo_manager_def demo_task_def)
  have "sm_step wire_ops (\<lambda>_. []) (?m ?q, demo_runtime []) (LEvent ''s'' (Command (Some (Input [65]))))
      (publish (the (demo_runtime [Typed 65] ''s'')) ((?m ?q)\<lparr>sm_tasks := (sm_tasks (?m ?q))(''s'' \<mapsto> demo_task Running [Resize 100 40])\<rparr>),
       (demo_runtime [])(''s'' \<mapsto> the (demo_runtime [Typed 65] ''s'')))"
    by (rule sm_event [where t = "demo_task Running ?q" and s = "the (demo_runtime [] ''s'')"])
       (simp_all add: session_demo_defs term_call_def wire_ops_def sees_def)
  moreover have "publish (the (demo_runtime [Typed 65] ''s''))
      ((?m ?q)\<lparr>sm_tasks := (sm_tasks (?m ?q))(''s'' \<mapsto> demo_task Running [Resize 100 40])\<rparr>) = ?m [Resize 100 40]"
    "(demo_runtime [])(''s'' \<mapsto> the (demo_runtime [Typed 65] ''s'')) = demo_runtime [Typed 65]"
    by (simp_all add: publish_def session_demo_defs)
  ultimately have "sm_step wire_ops (\<lambda>_. []) (?m ?q, demo_runtime []) (LEvent ''s'' (Command (Some (Input [65]))))
      (?m [Resize 100 40], demo_runtime [Typed 65])" by simp
  then show ?thesis
    by (intro steps_Cons steps_Nil) (rule sm_call [OF calls(1)], rule sm_call [OF calls(2)], simp_all)
qed

definition demo_labels :: "sm_label list" where
  "demo_labels =
     [LConnect ''s'' gate_profile 80 24, LStart ''s'', LEvent ''s'' (Message None), LUnregister ''s'', LReport ''s'']"

definition demo_ended :: ssh_manager where
  "demo_ended = demo_manager False (demo_task (Reported (Ok ())) []) [Connecting, Connected, Disconnected]"

lemma demo_run: "steps (sm_step wire_ops (\<lambda>_. [])) new_machine demo_labels (demo_ended, demo_runtime [])"
proof -
  let ?m = "\<lambda>alive ph. demo_manager alive (demo_task ph []) [Connecting, Connected]"
  have "sm_step wire_ops (\<lambda>_. []) (?m True Running, demo_runtime []) (LEvent ''s'' (Message None))
      (task_end ''s'' (Ok ()) (publish (the (demo_runtime [] ''s'')) ((?m True Running)\<lparr>sm_tasks :=
         (sm_tasks (?m True Running))(''s'' \<mapsto> demo_task Running [])\<rparr>)),
       (demo_runtime [])(''s'' \<mapsto> the (demo_runtime [] ''s'')))"
    by (rule sm_stop [where t = "demo_task Running []" and s = "the (demo_runtime [] ''s'')"])
       (simp_all add: session_demo_defs sees_def)
  moreover have "task_end ''s'' (Ok ()) (publish (the (demo_runtime [] ''s'')) ((?m True Running)\<lparr>sm_tasks :=
         (sm_tasks (?m True Running))(''s'' \<mapsto> demo_task Running [])\<rparr>)) = ?m True (Ended (Ok ()))"
    "(demo_runtime [])(''s'' \<mapsto> the (demo_runtime [] ''s'')) = demo_runtime []"
    by (simp_all add: publish_def session_demo_defs)
  ultimately have e: "sm_step wire_ops (\<lambda>_. []) (?m True Running, demo_runtime []) (LEvent ''s'' (Message None))
      (?m True (Ended (Ok ())), demo_runtime [])" by simp
  have u: "sm_step wire_ops (\<lambda>_. []) (?m True (Ended (Ok ())), demo_runtime []) (LUnregister ''s'')
      (task_unregister ''s'' (Ok ()) (?m True (Ended (Ok ()))), demo_runtime [])"
    by (rule sm_unregister [where t = "demo_task (Ended (Ok ())) []"]) (simp_all add: session_demo_defs)
  have "task_unregister ''s'' (Ok ()) (?m True (Ended (Ok ()))) = ?m False (Unregistered (Ok ()))"
    by (simp add: session_demo_defs)
  moreover have "sm_step wire_ops (\<lambda>_. []) (?m False (Unregistered (Ok ())), demo_runtime []) (LReport ''s'')
      (task_report ''s'' (Ok ()) (?m False (Unregistered (Ok ()))), demo_runtime [])"
    by (rule sm_report [where t = "demo_task (Unregistered (Ok ())) []"]) (simp_all add: session_demo_defs)
  moreover have "task_report ''s'' (Ok ()) (?m False (Unregistered (Ok ()))) = demo_ended"
    by (simp add: demo_ended_def session_demo_defs)
  ultimately have "steps (sm_step wire_ops (\<lambda>_. [])) (?m True Running, demo_runtime [])
      [LEvent ''s'' (Message None), LUnregister ''s'', LReport ''s''] (demo_ended, demo_runtime [])"
    using e u by auto
  with demo_open show ?thesis
    using steps_append [of "sm_step wire_ops (\<lambda>_. [])" new_machine "[LConnect ''s'' gate_profile 80 24, LStart ''s'']"]
    unfolding demo_labels_def by fastforce
qed

lemma demo_tasks: "sm_tasks demo_ended sid = Some t \<Longrightarrow> tk_phase t = Reported (Ok ())"
  by (auto simp: demo_ended_def session_demo_defs split: if_splits)

theorem session_life_cycle_witness:
  "life_cycle (demo_ended, demo_runtime []) ''s'' \<and> history ''s'' demo_ended = [Connecting, Connected, Disconnected]"
  using session_life_cycle [OF demo_run, of "''s''"]
  by (simp add: demo_ended_def history_def session_demo_defs)

theorem finished_sessions_are_gone_witness:
  "sm_sessions demo_ended = {} \<and>
   send_terminal_input ''s'' [65] demo_ended = (Err (SessionNotFound ''s''), demo_ended)"
  using finished_sessions_are_gone(1) [OF demo_run] finished_sessions_are_gone(4) [OF demo_run, of "[65]" "''s''"]
    demo_tasks by blast

theorem commands_arrive_in_order_witness:
  "\<exists>ls m rt. steps (sm_step wire_ops (\<lambda>_. [])) new_machine ls (m, rt) \<and>
     requested ''s'' ls = [Typed 65, Sized 100 40] \<and> written id rt ''s'' = [Typed 65] \<and>
     prefix (written id rt ''s'') (requested ''s'' ls)"
proof -
  let ?ls = "[LConnect ''s'' gate_profile 80 24, LStart ''s'', LCall (CallInput ''s'' [65]) (Ok ()),
    LCall (CallResize ''s'' 100 40) (Ok ()), LEvent ''s'' (Command (Some (Input [65])))]"
  let ?m = "demo_manager True (demo_task Running [Resize 100 40]) [Connecting, Connected]"
  have run: "steps (sm_step wire_ops (\<lambda>_. [])) new_machine ?ls (?m, demo_runtime [Typed 65])"
    using demo_open demo_typing
      steps_append [of "sm_step wire_ops (\<lambda>_. [])" new_machine "[LConnect ''s'' gate_profile 80 24, LStart ''s'']"] by fastforce
  have "records_wire wire_ops id" "id [] = ([] :: wire list)" by (simp_all add: records_wire_def wire_ops_def)
  from commands_arrive_in_order [OF run this] have "prefix (written id (demo_runtime [Typed 65]) ''s'') (requested ''s'' ?ls)"
    by blast
  moreover have "requested ''s'' ?ls = [Typed 65, Sized 100 40]" by simp code_simp
  moreover have "written id (demo_runtime [Typed 65]) ''s'' = [Typed 65]" by (simp add: written_def demo_runtime_def)
  ultimately show ?thesis using run by metis
qed

theorem platform_is_detected_once_witness:
  "\<exists>m'. detect_remote_platform (\<lambda>sid c m. (Err (Io ''timeout''), m)) ''s'' (demo_manager True (demo_task Running []) [Connecting, Connected]) = (Unix, m') \<and>
     detect_remote_platform (\<lambda>sid c m. (Ok ''Windows_NT'', m)) ''s'' m' = (Unix, m')"
proof -
  let ?run = "\<lambda>sid c m. (Err (Io ''timeout''), m)"
  obtain p m' where d: "detect_remote_platform ?run ''s'' (demo_manager True (demo_task Running []) [Connecting, Connected]) = (p, m')" by fastforce
  have facts: "p = Unix" "is_ok (session m' ''s'')"
    using d by (auto simp: detect_remote_platform_def classify_platform_def session_demo_defs session_def)
  with d platform_is_detected_once [OF d facts(2), of "\<lambda>sid c m. (Ok ''Windows_NT'', m)"] show ?thesis
    by blast
qed

theorem snapshot_round_trip_witness:
  "rs_memory_used_bytes (parse_remote_system_snapshot
     (snapshot_report [CR, LF] ''Windows 11'' ''pc'' ''1d 2h 3m'' 1024 2048 3072 1 2 3)) = 1024"
proof -
  have "trimmed ''Windows 11''" "trimmed ''pc''" "trimmed ''1d 2h 3m''" by code_simp+
  moreover have "LF \<notin> set ''Windows 11''" "LF \<notin> set ''pc''" "LF \<notin> set ''1d 2h 3m''" by code_simp+
  ultimately show ?thesis using snapshot_round_trip [of "[CR, LF]" "''Windows 11''" "''pc''" "''1d 2h 3m''"] by simp
qed

end
