(* ===== verification/Port_Forward.thy ===== *)
theory Port_Forward
  imports Ssh_Connect
begin

text \<open>
  \<^verbatim>\<open>portix_serv/src/infrastructure/port_forward.rs\<close>: local forwards, the SOCKS5 proxy and remote
  forwards. The SOCKS5 handshake is modelled byte by byte on a socket with what the client
  sends and what is written back; binding, connecting and the tunnel's channel are parameters.
  The table of active tunnels is a machine, because tunnels end on their own while callers
  start and stop others.
\<close>

section \<open>Tunnels\<close>

record local_forward =
  lf_id :: string
  lf_profile_id :: string
  lf_local_port :: u16
  lf_remote_host :: string
  lf_remote_port :: u16
  lf_socks :: bool
  lf_reverse :: bool

datatype destination = Fixed string u16 | Socks

section \<open>The SOCKS5 handshake\<close>

text \<open>A client socket: the bytes still to be read before its end, those written, whether writing works.\<close>

record socket =
  sk_in :: bytes
  sk_out :: bytes
  sk_writable :: bool

definition read_exact :: "nat \<Rightarrow> (socket, string, bytes) io" where
  "read_exact n s =
     (if n \<le> length (sk_in s) then (Ok (take n (sk_in s)), s\<lparr>sk_in := drop n (sk_in s)\<rparr>)
      else (Err ''early eof'', s\<lparr>sk_in := []\<rparr>))"

definition write_all :: "bytes \<Rightarrow> (socket, string, unit) io" where
  "write_all b s =
     (if sk_writable s then (Ok (), s\<lparr>sk_out := sk_out s @ b\<rparr>) else (Err ''broken pipe'', s))"

definition SOCKS_SUCCEEDED :: u8 where "SOCKS_SUCCEEDED = 0"
definition SOCKS_CONNECTION_REFUSED :: u8 where "SOCKS_CONNECTION_REFUSED = 5"
definition SOCKS_COMMAND_NOT_SUPPORTED :: u8 where "SOCKS_COMMAND_NOT_SUPPORTED = 7"
definition SOCKS_ADDRESS_NOT_SUPPORTED :: u8 where "SOCKS_ADDRESS_NOT_SUPPORTED = 8"

definition socks5_reply :: "u8 \<Rightarrow> (socket, string, unit) io" where
  "socks5_reply code = write_all [5, code, 0, 1, 0, 0, 0, 0, 0, 0]"

definition socks_error :: "string \<Rightarrow> string" where
  "socks_error message = message"

text \<open>\<^verbatim>\<open>Ipv4Addr\<close> and \<^verbatim>\<open>Ipv6Addr\<close> as text.\<close>

fun intercalate :: "string \<Rightarrow> string list \<Rightarrow> string" where
  "intercalate sep [] = []"
| "intercalate sep [x] = x"
| "intercalate sep (x # y # ys) = x @ sep @ intercalate sep (y # ys)"

definition show_ipv4 :: "bytes \<Rightarrow> string" where
  "show_ipv4 b = intercalate ''.'' (map show_word b)"

fun segments :: "bytes \<Rightarrow> u16 list" where
  "segments (a # b # bs) = (push_bit 8 (ucast a) OR ucast b) # segments bs"
| "segments _ = []"

definition show_hex :: "u16 list \<Rightarrow> string" where
  "show_hex ss = intercalate '':'' (map (\<lambda>s. hex (unat s)) ss)"

text \<open>The first longest run of zero segments, as start and length.\<close>

fun longest_zeros :: "nat \<Rightarrow> nat \<times> nat \<Rightarrow> nat \<times> nat \<Rightarrow> u16 list \<Rightarrow> nat \<times> nat" where
  "longest_zeros i longest current [] = longest"
| "longest_zeros i longest (start, len) (s # ss) =
     (if s = 0 then
        (let start' = (if len = 0 then i else start);
             current' = (start', Suc len);
             longest' = (if Suc len > snd longest then current' else longest)
         in longest_zeros (Suc i) longest' current' ss)
      else longest_zeros (Suc i) longest (0, 0) ss)"

definition show_ipv6 :: "bytes \<Rightarrow> string" where
  "show_ipv6 b =
     (let ss = segments b in
      if take 6 ss = [0, 0, 0, 0, 0, 0xFFFF] then ''::ffff:'' @ show_ipv4 (drop 12 b)
      else case longest_zeros 0 (0, 0) (0, 0) ss of (start, len) \<Rightarrow>
        if len > 1 then show_hex (take start ss) @ ''::'' @ show_hex (drop (start + len) ss)
        else show_hex ss)"

definition be_u16 :: "bytes \<Rightarrow> u16" where
  "be_u16 b = push_bit 8 (ucast (b ! 0)) OR ucast (b ! 1)"

definition socks5_greeting :: "(socket, string, unit) io" where
  "socks5_greeting =
     io_bind (read_exact 2) (\<lambda>greeting.
       if greeting ! 0 \<noteq> 5 then io_err (socks_error ''not a SOCKS5 client'')
       else io_bind (read_exact (unat (greeting ! 1))) (\<lambda>methods.
         if 0 \<notin> set methods then
           io_bind (write_all [5, 0xFF]) (\<lambda>_. io_err (socks_error ''client requires authentication''))
         else write_all [5, 0]))"

definition socks5_host :: "u8 \<Rightarrow> (socket, string, string) io" where
  "socks5_host atyp =
     (if atyp = 1 then io_bind (read_exact 4) (\<lambda>ip. io_ok (show_ipv4 ip))
      else if atyp = 3 then
        io_bind (read_exact 1) (\<lambda>len.
        io_bind (read_exact (unat (len ! 0))) (\<lambda>name.
        io_of (ok_or (socks_error ''invalid domain name'') (from_utf8 name))))
      else if atyp = 4 then io_bind (read_exact 16) (\<lambda>ip. io_ok (show_ipv6 ip))
      else io_bind (socks5_reply SOCKS_ADDRESS_NOT_SUPPORTED)
             (\<lambda>_. io_err (socks_error ''unknown address type'')))"

definition socks5_request :: "(socket, string, string \<times> u16) io" where
  "socks5_request =
     io_bind socks5_greeting (\<lambda>_.
     io_bind (read_exact 4) (\<lambda>request.
       if request ! 1 \<noteq> 1 then
         io_bind (socks5_reply SOCKS_COMMAND_NOT_SUPPORTED)
           (\<lambda>_. io_err (socks_error ''only CONNECT is supported''))
       else
         io_bind (socks5_host (request ! 3)) (\<lambda>host.
         io_bind (read_exact 2) (\<lambda>port. io_ok (host, be_u16 port)))))"

section \<open>One connection\<close>

text \<open>How a connection through a tunnel ended: with which target the bytes were piped, if at all.\<close>

datatype forward_end = Rejected | Refused string u16 | ReplyFailed string u16 | Piped string u16

definition forward_connection ::
  "(string \<Rightarrow> u16 \<Rightarrow> (string, unit) result) \<Rightarrow> destination \<Rightarrow> socket \<Rightarrow> forward_end \<times> socket" where
  "forward_connection channel_open dest s =
     (let socks = (dest = Socks) in
      case (case dest of Fixed host port \<Rightarrow> (Ok (host, port), s) | Socks \<Rightarrow> socks5_request s) of
        (Err _, s1) \<Rightarrow> (Rejected, s1)
      | (Ok (host, port), s1) \<Rightarrow>
          (case channel_open host port of
             Err _ \<Rightarrow> (Refused host port,
                       if socks then snd (socks5_reply SOCKS_CONNECTION_REFUSED s1) else s1)
           | Ok _ \<Rightarrow>
               if socks then (case socks5_reply SOCKS_SUCCEEDED s1 of
                 (Err _, s2) \<Rightarrow> (ReplyFailed host port, s2)
               | (Ok _, s2) \<Rightarrow> (Piped host port, s2))
               else (Piped host port, s1)))"

section \<open>The accept loop\<close>

datatype 'p serve_event = Accepted "(string, 'p) result" | Liveness bool | Reaped nat

text \<open>
  \<open>Liveness b\<close> is a tick at which \<^verbatim>\<open>handle.is_closed()\<close> answers \<open>b\<close>; \<open>Reaped i\<close> the end of a
  spawned connection; the state is the list of open connections.
\<close>

fun serve_step :: "destination \<Rightarrow> ('p \<times> destination) list \<Rightarrow> 'p serve_event \<Rightarrow> (('p \<times> destination) list, unit) flow" where
  "serve_step dest conns (Accepted (Ok peer)) = Continue (conns @ [(peer, dest)])"
| "serve_step dest conns (Accepted (Err _)) = Continue conns"
| "serve_step dest conns (Liveness closed) = (if closed then Stop [] () else Continue conns)"
| "serve_step dest conns (Reaped i) = Continue (take i conns @ drop (Suc i) conns)"

definition serve :: "destination \<Rightarrow> 'p serve_event list \<Rightarrow> (('p \<times> destination) list, unit) flow" where
  "serve dest events = run_loop (serve_step dest) [] events"

section \<open>The table of active tunnels\<close>

text \<open>What became of the task of a tunnel; \<open>Ended\<close> is the moment before it takes itself off the table.\<close>

datatype tunnel_task = Running | Ended | Removed | Aborted

record 'w tunnels =
  tn_world :: 'w
  tn_active :: "string \<rightharpoonup> local_forward"
  tn_tasks :: "string \<rightharpoonup> tunnel_task"

definition on_tunnel_world :: "('w, 'e, 'a) io \<Rightarrow> ('w tunnels, 'e, 'a) io" where
  "on_tunnel_world m t = (case m (tn_world t) of (r, w) \<Rightarrow> (r, t\<lparr>tn_world := w\<rparr>))"

definition register :: "local_forward \<Rightarrow> ('w tunnels, portix_error, local_forward) io" where
  "register f t =
     (Ok f, t\<lparr>tn_active := (tn_active t)(lf_id f \<mapsto> f), tn_tasks := (tn_tasks t)(lf_id f \<mapsto> Running)\<rparr>)"

text \<open>
  \<open>bind p\<close> binds and gives the port in use, \<open>dial\<close> and \<open>dial_back\<close> stand for
  \<^verbatim>\<open>connect_and_authenticate_profile\<close> and \<^verbatim>\<open>connect_for_remote_forward\<close>, \<open>tcpip_forward\<close> for the
  request that makes the server listen.
\<close>

definition start ::
  "(u16 \<Rightarrow> ('w, string, unit) io) \<Rightarrow> ('w, string, u16) io \<Rightarrow> (ssh_profile \<Rightarrow> ('w, portix_error, unit) io) \<Rightarrow>
   string \<Rightarrow> ssh_profile \<Rightarrow> u16 \<Rightarrow> destination \<Rightarrow> ('w tunnels, portix_error, local_forward) io" where
  "start bind local_addr dial fid p local_port dest =
     io_bind (io_map_err (\<lambda>e. InvalidRequest (''cannot listen on port '' @ show_word local_port @ '': '' @ e))
       (on_tunnel_world (bind local_port))) (\<lambda>_.
     io_bind (io_map_err Io (on_tunnel_world local_addr)) (\<lambda>port.
     io_bind (on_tunnel_world (dial p)) (\<lambda>_.
       let (remote_host, remote_port) = (case dest of Fixed h q \<Rightarrow> (h, q) | Socks \<Rightarrow> ([], 0)) in
       register \<lparr>lf_id = fid, lf_profile_id = ssh_id p, lf_local_port = port, lf_remote_host = remote_host,
                 lf_remote_port = remote_port, lf_socks = (dest = Socks), lf_reverse = False\<rparr>)))"

definition start_local_forward ::
  "(u16 \<Rightarrow> ('w, string, unit) io) \<Rightarrow> ('w, string, u16) io \<Rightarrow> (ssh_profile \<Rightarrow> ('w, portix_error, unit) io) \<Rightarrow>
   string \<Rightarrow> ssh_profile \<Rightarrow> u16 \<Rightarrow> string \<Rightarrow> u16 \<Rightarrow> ('w tunnels, portix_error, local_forward) io" where
  "start_local_forward bind local_addr dial fid p local_port remote_host remote_port =
     start bind local_addr dial fid p local_port (Fixed remote_host remote_port)"

definition start_socks_proxy ::
  "(u16 \<Rightarrow> ('w, string, unit) io) \<Rightarrow> ('w, string, u16) io \<Rightarrow> (ssh_profile \<Rightarrow> ('w, portix_error, unit) io) \<Rightarrow>
   string \<Rightarrow> ssh_profile \<Rightarrow> u16 \<Rightarrow> ('w tunnels, portix_error, local_forward) io" where
  "start_socks_proxy bind local_addr dial fid p local_port = start bind local_addr dial fid p local_port Socks"

definition start_remote_forward ::
  "(ssh_profile \<Rightarrow> string \<times> u16 \<Rightarrow> ('w, portix_error, unit) io) \<Rightarrow> (string \<Rightarrow> u32 \<Rightarrow> ('w, string, u32) io) \<Rightarrow>
   string \<Rightarrow> ssh_profile \<Rightarrow> u16 \<Rightarrow> string \<Rightarrow> u16 \<Rightarrow> ('w tunnels, portix_error, local_forward) io" where
  "start_remote_forward dial_back tcpip_forward fid p remote_port local_host local_port =
     io_bind (on_tunnel_world (dial_back p (local_host, local_port))) (\<lambda>_.
     io_bind (io_map_err (\<lambda>e. InvalidRequest (''the server refused to listen on port '' @ show_word remote_port @ '': '' @ e))
       (on_tunnel_world (tcpip_forward ''localhost'' (ucast remote_port)))) (\<lambda>bound.
     register \<lparr>lf_id = fid, lf_profile_id = ssh_id p, lf_local_port = local_port, lf_remote_host = local_host,
               lf_remote_port = (if remote_port = 0 then ucast bound else remote_port),
               lf_socks = False, lf_reverse = True\<rparr>))"

definition stop_local_forward :: "string \<Rightarrow> 'w tunnels \<Rightarrow> 'w tunnels" where
  "stop_local_forward fid t =
     (case tn_active t fid of
        None \<Rightarrow> t
      | Some _ \<Rightarrow> t\<lparr>tn_active := (tn_active t)(fid := None), tn_tasks := (tn_tasks t)(fid \<mapsto> Aborted)\<rparr>)"

definition active_local_forwards :: "'w tunnels \<Rightarrow> local_forward set" where
  "active_local_forwards t = ran (tn_active t)"

text \<open>The tunnel's own task: its future ends, then it takes itself off the table.\<close>

definition tunnel_end :: "string \<Rightarrow> 'w tunnels \<Rightarrow> 'w tunnels" where
  "tunnel_end fid t = t\<lparr>tn_tasks := (tn_tasks t)(fid \<mapsto> Ended)\<rparr>"

definition tunnel_remove :: "string \<Rightarrow> 'w tunnels \<Rightarrow> 'w tunnels" where
  "tunnel_remove fid t =
     t\<lparr>tn_active := (tn_active t)(fid := None), tn_tasks := (tn_tasks t)(fid \<mapsto> Removed)\<rparr>"

datatype tn_label = TStart local_forward | TStop string | TEnd string | TRemove string

inductive tn_step :: "'w tunnels \<Rightarrow> tn_label \<Rightarrow> 'w tunnels \<Rightarrow> bool" where
  tn_start: "tn_tasks t (lf_id f) = None \<Longrightarrow> tn_step t (TStart f) (snd (register f t))"
| tn_stop: "tn_step t (TStop fid) (stop_local_forward fid t)"
| tn_end: "tn_tasks t fid = Some Running \<Longrightarrow> tn_step t (TEnd fid) (tunnel_end fid t)"
| tn_remove: "tn_tasks t fid = Some Ended \<Longrightarrow> tn_step t (TRemove fid) (tunnel_remove fid t)"

section \<open>Lemmas on the handshake\<close>

text \<open>What a SOCKS5 client sends, and the host it names.\<close>

datatype socks_target = V4 bytes | Name bytes | V6 bytes

fun target_ok :: "socks_target \<Rightarrow> bool" where
  "target_ok (V4 ip) \<longleftrightarrow> length ip = 4"
| "target_ok (Name n) \<longleftrightarrow> length n < 256 \<and> utf8_valid n"
| "target_ok (V6 ip) \<longleftrightarrow> length ip = 16"

fun encode_target :: "socks_target \<Rightarrow> bytes" where
  "encode_target (V4 ip) = 1 # ip"
| "encode_target (Name n) = 3 # of_nat (length n) # n"
| "encode_target (V6 ip) = 4 # ip"

fun target_host :: "socks_target \<Rightarrow> string" where
  "target_host (V4 ip) = show_ipv4 ip"
| "target_host (Name n) = map byte_char n"
| "target_host (V6 ip) = show_ipv6 ip"

definition port_bytes :: "u16 \<Rightarrow> bytes" where
  "port_bytes p = [ucast (drop_bit 8 p), ucast p]"

definition client_hello :: "bytes \<Rightarrow> bytes" where
  "client_hello methods = 5 # of_nat (length methods) # methods"

lemma on_tunnel_world_eq_Ok:
  "on_tunnel_world m t = (Ok x, t') \<longleftrightarrow> (\<exists>w. m (tn_world t) = (Ok x, w) \<and> t' = t\<lparr>tn_world := w\<rparr>)"
  by (auto simp: on_tunnel_world_def split: prod.splits)

lemma read_exact_append:
  "length b = n \<Longrightarrow> sk_in s = b @ rest \<Longrightarrow> read_exact n s = (Ok b, s\<lparr>sk_in := rest\<rparr>)"
  by (auto simp: read_exact_def)

lemma read_exact_eq_Ok:
  "read_exact n s = (Ok b, s') \<longleftrightarrow> length b = n \<and> (\<exists>rest. sk_in s = b @ rest \<and> s' = s\<lparr>sk_in := rest\<rparr>)"
  by (auto simp: read_exact_def intro: exI [of _ "drop n (sk_in s)"])

lemma write_all_eq_Ok:
  "write_all b s = (Ok u, s') \<longleftrightarrow> sk_writable s \<and> s' = s\<lparr>sk_out := sk_out s @ b\<rparr>"
  by (auto simp: write_all_def)

lemma unat_of_nat_u8: "n < 256 \<Longrightarrow> unat (of_nat n :: u8) = n"
  by (simp add: unsigned_of_nat take_bit_nat_eq_self)

lemma be_u16_port: "be_u16 (port_bytes p) = p"
  unfolding be_u16_def port_bytes_def
  by (rule bit_word_eqI) (auto simp: bit_simps)

lemma greeting_accepted:
  assumes "0 \<in> set methods" "length methods < 256" "sk_writable s" "sk_in s = client_hello methods @ rest"
  shows "socks5_greeting s = (Ok (), s\<lparr>sk_in := rest, sk_out := sk_out s @ [5, 0]\<rparr>)"
proof -
  have "read_exact 2 s = (Ok [5, of_nat (length methods)], s\<lparr>sk_in := methods @ rest\<rparr>)"
    using assms(4) by (intro read_exact_append) (simp_all add: client_hello_def)
  moreover have "read_exact (length methods) (s\<lparr>sk_in := methods @ rest\<rparr>) = (Ok methods, s\<lparr>sk_in := rest\<rparr>)"
    using read_exact_append [of methods "length methods" "s\<lparr>sk_in := methods @ rest\<rparr>" rest] by simp
  ultimately show ?thesis
    using assms(1-3) by (simp add: socks5_greeting_def io_bind_def unat_of_nat_u8 write_all_def)
qed

lemma socks5_host_target:
  assumes "target_ok tgt" "sk_in s = tl (encode_target tgt) @ rest"
  shows "socks5_host (hd (encode_target tgt)) s = (Ok (target_host tgt), s\<lparr>sk_in := rest\<rparr>)"
proof (cases tgt)
  case (V4 ip)
  with assms have "read_exact 4 s = (Ok ip, s\<lparr>sk_in := rest\<rparr>)" by (intro read_exact_append) auto
  with V4 show ?thesis by (simp add: socks5_host_def io_bind_def)
next
  case (V6 ip)
  with assms have "read_exact 16 s = (Ok ip, s\<lparr>sk_in := rest\<rparr>)" by (intro read_exact_append) auto
  with V6 show ?thesis by (simp add: socks5_host_def io_bind_def)
next
  case (Name n)
  let ?s = "s\<lparr>sk_in := n @ rest\<rparr>"
  from Name assms have "read_exact 1 s = (Ok [of_nat (length n)], ?s)"
    by (intro read_exact_append) auto
  moreover have "read_exact (length n) ?s = (Ok n, s\<lparr>sk_in := rest\<rparr>)"
    using read_exact_append [of n "length n" ?s rest] by simp
  ultimately show ?thesis
    using Name assms(1) by (simp add: socks5_host_def io_bind_def unat_of_nat_u8 from_utf8_def)
qed

lemma socks5_greeting_Ok:
  assumes "socks5_greeting s = (Ok u, s')"
  shows "\<exists>methods rest. sk_in s = 5 # of_nat (length methods) # methods @ rest \<and> 0 \<in> set methods \<and>
    s' = s\<lparr>sk_in := rest, sk_out := sk_out s @ [5, 0]\<rparr> \<and> sk_writable s"
proof -
  from assms obtain g s1 where g: "read_exact 2 s = (Ok g, s1)" "g ! 0 = 5"
    and r1: "io_bind (read_exact (unat (g ! 1))) (\<lambda>methods. if 0 \<notin> set methods then
           io_bind (write_all [5, 0xFF]) (\<lambda>_. io_err (socks_error ''client requires authentication''))
         else write_all [5, 0]) s1 = (Ok u, s')"
    by (auto simp: socks5_greeting_def io_bind_eq_Ok split: if_splits)
  from r1 obtain methods s2 where m: "read_exact (unat (g ! 1)) s1 = (Ok methods, s2)" "0 \<in> set methods"
    "write_all [5, 0] s2 = (Ok u, s')"
    by (auto simp: io_bind_eq_Ok split: if_splits)
  from g obtain rest1 where in1: "sk_in s = g @ rest1" "s1 = s\<lparr>sk_in := rest1\<rparr>" "length g = 2"
    by (auto simp: read_exact_eq_Ok)
  then obtain x where gx: "g = [5, x]" using g(2) by (auto simp: length_Suc_conv numeral_2_eq_2)
  from m(1) obtain rest where in2: "sk_in s1 = methods @ rest" "s2 = s1\<lparr>sk_in := rest\<rparr>" "length methods = unat (g ! 1)"
    by (auto simp: read_exact_eq_Ok)
  from in2(3) gx have "x = of_nat (length methods)" by simp
  with gx in1 in2 have "sk_in s = 5 # of_nat (length methods) # methods @ rest" by simp
  moreover have "s' = s\<lparr>sk_in := rest, sk_out := sk_out s @ [5, 0]\<rparr>" "sk_writable s"
    using in1 in2 m(3) by (simp_all add: write_all_eq_Ok)
  ultimately show ?thesis using m(2) by blast
qed

section \<open>The table\<close>

definition table_ok :: "'w tunnels \<Rightarrow> bool" where
  "table_ok t \<longleftrightarrow>
     (\<forall>fid. (tn_active t fid \<noteq> None \<longleftrightarrow> tn_tasks t fid \<in> {Some Running, Some Ended}) \<and>
            (\<forall>f. tn_active t fid = Some f \<longrightarrow> lf_id f = fid))"

definition finished :: "string \<Rightarrow> 'w tunnels \<Rightarrow> bool" where
  "finished fid t \<longleftrightarrow> tn_tasks t fid \<in> {Some Aborted, Some Removed}"

inductive_cases tn_stepE: "tn_step t l t'"

lemmas tunnel_op_defs = register_def stop_local_forward_def tunnel_end_def tunnel_remove_def

lemma table_ok_step: "tn_step t l t' \<Longrightarrow> table_ok t \<Longrightarrow> table_ok t'"
  by (erule tn_stepE) (fastforce simp: table_ok_def tunnel_op_defs split: option.splits if_splits)+

lemma finished_step: "tn_step t l t' \<Longrightarrow> table_ok t \<Longrightarrow> finished fid t \<Longrightarrow> finished fid t'"
  by (erule tn_stepE) (auto simp: finished_def tunnel_op_defs split: option.splits if_splits)

interpretation tunnel_table: machine_invariant tn_step table_ok
  by unfold_locales (rule table_ok_step)

interpretation tunnel_finished: machine_invariant tn_step "\<lambda>t. table_ok t \<and> finished fid t" for fid
  by unfold_locales (auto intro: table_ok_step finished_step)

section \<open>Properties\<close>

text \<open>
  C24: the SOCKS5 handshake understands every well-formed CONNECT request, by IPv4 address,
  domain name or IPv6 address: it accepts the no-authentication method, returns the named host
  and port, and has read exactly the handshake, so the first byte of the client's data is the
  first byte that is forwarded.
\<close>

theorem socks5_handshake_round_trip:
  assumes "target_ok tgt" "0 \<in> set methods" "length methods < 256" "sk_writable s"
    and "sk_in s = client_hello methods @ [ver, 1, rsv] @ encode_target tgt @ port_bytes port @ payload"
  shows "socks5_request s =
    (Ok (target_host tgt, port), s\<lparr>sk_in := payload, sk_out := sk_out s @ [5, 0]\<rparr>)"
proof -
  let ?e = "encode_target tgt"
  let ?out = "sk_out s @ [5, 0]"
  obtain a e where e: "?e = a # e" by (cases tgt) auto
  have g: "socks5_greeting s = (Ok (), s\<lparr>sk_in := [ver, 1, rsv, a] @ e @ port_bytes port @ payload, sk_out := ?out\<rparr>)"
    using greeting_accepted [OF assms(2-4)] assms(5) e by simp
  have r: "read_exact 4 (s\<lparr>sk_in := [ver, 1, rsv, a] @ e @ port_bytes port @ payload, sk_out := ?out\<rparr>) =
      (Ok [ver, 1, rsv, a], s\<lparr>sk_in := e @ port_bytes port @ payload, sk_out := ?out\<rparr>)"
    by (cases s) (simp add: read_exact_def)
  have h: "socks5_host a (s\<lparr>sk_in := e @ port_bytes port @ payload, sk_out := ?out\<rparr>) =
      (Ok (target_host tgt), s\<lparr>sk_in := port_bytes port @ payload, sk_out := ?out\<rparr>)"
    using socks5_host_target [OF assms(1), of "s\<lparr>sk_in := e @ port_bytes port @ payload, sk_out := ?out\<rparr>"] e by simp
  have p: "read_exact 2 (s\<lparr>sk_in := port_bytes port @ payload, sk_out := ?out\<rparr>) =
      (Ok (port_bytes port), s\<lparr>sk_in := payload, sk_out := ?out\<rparr>)"
    by (cases s) (simp add: read_exact_def port_bytes_def)
  show ?thesis
    unfolding socks5_request_def
    by (rule io_bind_eqI, rule g, rule io_bind_eqI, rule r, simp, rule io_bind_eqI, rule h,
        rule io_bind_eqI, rule p, simp add: be_u16_port)
qed

text \<open>
  C25: bytes are piped through the proxy only for a client that spoke SOCKS5, offered to go
  without authentication and asked to CONNECT, and only after the channel to the target opened
  and the client was told so: it has been sent the method choice and one success reply.
\<close>

theorem only_connect_is_piped:
  assumes "forward_connection channel_open Socks s = (Piped host port, s')"
  shows "\<exists>methods ver rsv atyp rest.
    sk_in s = client_hello methods @ [ver, 1, rsv, atyp] @ rest \<and> 0 \<in> set methods \<and> atyp \<in> {1, 3, 4} \<and>
    channel_open host port = Ok () \<and>
    sk_out s' = sk_out s @ [5, 0] @ [5, SOCKS_SUCCEEDED, 0, 1, 0, 0, 0, 0, 0, 0]"
proof -
  obtain s1 where rq: "socks5_request s = (Ok (host, port), s1)" and co: "channel_open host port = Ok ()"
    and rp: "socks5_reply SOCKS_SUCCEEDED s1 = (Ok (), s')"
    using assms by (auto simp: forward_connection_def split: prod.splits sum.splits)
  from rq obtain u s2 where g: "socks5_greeting s = (Ok u, s2)"
    and g2: "io_bind (read_exact 4) (\<lambda>request.
       if request ! 1 \<noteq> 1 then io_bind (socks5_reply SOCKS_COMMAND_NOT_SUPPORTED)
           (\<lambda>_. io_err (socks_error ''only CONNECT is supported''))
       else io_bind (socks5_host (request ! 3)) (\<lambda>host.
         io_bind (read_exact 2) (\<lambda>port. io_ok (host, be_u16 port)))) s2 = (Ok (host, port), s1)"
    unfolding socks5_request_def by (auto simp: io_bind_eq_Ok [of socks5_greeting])
  from g2 obtain q s3 s4 where q: "read_exact 4 s2 = (Ok q, s3)" "q ! 1 = 1"
    and h: "socks5_host (q ! 3) s3 = (Ok host, s4)" and p: "\<exists>b. read_exact 2 s4 = (Ok b, s1)"
    by (auto simp: io_bind_eq_Ok split: if_splits)
  from socks5_greeting_Ok [OF g] obtain methods rest where m: "sk_in s = 5 # of_nat (length methods) # methods @ rest"
    "0 \<in> set methods" "s2 = s\<lparr>sk_in := rest, sk_out := sk_out s @ [5, 0]\<rparr>" by blast
  from q(1) m(3) obtain rest2 where r: "rest = q @ rest2" "length q = 4" "sk_out s3 = sk_out s @ [5, 0]"
    by (auto simp: read_exact_eq_Ok)
  then have "q = [q ! 0, q ! 1, q ! 2, q ! 3]" by (auto simp: length_Suc_conv numeral_eq_Suc)
  then have rest: "rest = [q ! 0, 1, q ! 2, q ! 3] @ rest2" using r(1) q(2) by simp
  have "q ! 3 \<in> {1, 3, 4}" "sk_out s4 = sk_out s3"
    using h by (auto simp: socks5_host_def io_bind_eq_Ok read_exact_eq_Ok split: if_splits)
  moreover have "sk_out s1 = sk_out s4" using p by (auto simp: read_exact_eq_Ok)
  moreover have "sk_out s' = sk_out s1 @ [5, SOCKS_SUCCEEDED, 0, 1, 0, 0, 0, 0, 0, 0]"
    using rp by (auto simp: socks5_reply_def write_all_eq_Ok)
  ultimately show ?thesis
    using m(1,2) rest co r(3)
    by (intro exI [of _ methods] exI [of _ "q ! 0"] exI [of _ "q ! 2"] exI [of _ "q ! 3"] exI [of _ rest2])
       (simp add: client_hello_def)
qed


text \<open>
  A local port that cannot be bound fails the start before any SSH connection is made: the
  outcome does not depend on the connection, and no tunnel is registered.
\<close>

theorem busy_port_fails_before_connecting:
  assumes "bind local_port (tn_world t) = (Err e, w)"
  shows "start bind local_addr dial fid p local_port dest t =
    (Err (InvalidRequest (''cannot listen on port '' @ show_word local_port @ '': '' @ e)), t\<lparr>tn_world := w\<rparr>)"
  using assms by (simp add: start_def io_bind_def io_map_err_def on_tunnel_world_def)

section \<open>Witnesses\<close>

definition demo_socket :: socket where
  "demo_socket =
     \<lparr>sk_in = client_hello [0] @ [5, 1, 0] @ encode_target (V4 [10, 0, 0, 7]) @ port_bytes 80 @ [71, 69],
      sk_out = [], sk_writable = True\<rparr>"

lemma demo_handshake:
  "socks5_request demo_socket =
     (Ok (''10.0.0.7'', 80), \<lparr>sk_in = [71, 69], sk_out = [5, 0], sk_writable = True\<rparr>)"
  by code_simp

theorem socks5_handshake_round_trip_witness:
  "socks5_request demo_socket =
     (Ok (''10.0.0.7'', 80), \<lparr>sk_in = [71, 69], sk_out = [5, 0], sk_writable = True\<rparr>)"
proof -
  have "show_ipv4 [10, 0, 0, 7] = ''10.0.0.7''" by code_simp
  then show ?thesis
    using socks5_handshake_round_trip [of "V4 [10, 0, 0, 7]" "[0]" demo_socket 5 0 80 "[71, 69]"]
    by (simp add: demo_socket_def)
qed

theorem only_connect_is_piped_witness:
  "\<exists>s'. forward_connection (\<lambda>_ _. Ok ()) Socks demo_socket = (Piped ''10.0.0.7'' 80, s') \<and>
     sk_out s' = [5, 0] @ [5, SOCKS_SUCCEEDED, 0, 1, 0, 0, 0, 0, 0, 0]"
proof -
  obtain s' where f: "forward_connection (\<lambda>_ _. Ok ()) Socks demo_socket = (Piped ''10.0.0.7'' 80, s')"
    using demo_handshake
    by (simp add: forward_connection_def socks5_reply_def write_all_def)
  from only_connect_is_piped [OF this] have "sk_out s' = sk_out demo_socket @ [5, 0] @ [5, SOCKS_SUCCEEDED, 0, 1, 0, 0, 0, 0, 0, 0]"
    by blast
  with f show ?thesis by (simp add: demo_socket_def)
qed

definition demo_forward :: local_forward where
  "demo_forward = \<lparr>lf_id = ''t'', lf_profile_id = ''g'', lf_local_port = 8080, lf_remote_host = ''db'',
                   lf_remote_port = 5432, lf_socks = False, lf_reverse = False\<rparr>"

definition no_tunnels :: "unit tunnels" where
  "no_tunnels = \<lparr>tn_world = (), tn_active = Map.empty, tn_tasks = Map.empty\<rparr>"


theorem busy_port_fails_before_connecting_witness:
  "fst (start (\<lambda>_. io_err ''in use'') (io_ok 0) (\<lambda>_. io_ok ()) ''t'' gate_profile 8080 Socks no_tunnels) =
     Err (InvalidRequest (''cannot listen on port '' @ show_word (8080 :: u16) @ '': in use''))"
  using busy_port_fails_before_connecting [of "\<lambda>_. io_err ''in use''" 8080 no_tunnels "''in use''" "()"] by simp

end
