(* ===== verification/Ssh_Api.thy ===== *)
theory Ssh_Api
  imports Ssh_Sessions Port_Forward
begin

text \<open>
  \<^verbatim>\<open>portix_serv/src/api/ssh.rs\<close>: what the user interface calls. Most calls hand over to the session
  manager, the host key store, the keyboard-interactive store and the tunnels; two carry logic
  of their own: generating a key pair without overwriting, and the loop that forwards events to
  a stream. Errors cross as \<^verbatim>\<open>anyhow\<close> errors with the same message, so they stay \<open>portix_error\<close>.
\<close>

section \<open>Sessions\<close>

definition api_connect :: "string \<Rightarrow> ssh_profile \<Rightarrow> u32 \<Rightarrow> u32 \<Rightarrow> (ssh_manager, portix_error, session_info) io" where
  "api_connect sid p cols rows = connect sid p cols rows"

definition api_disconnect :: "string \<Rightarrow> (ssh_manager, portix_error, unit) io" where
  "api_disconnect sid = disconnect sid"

definition api_send_terminal_input :: "string \<Rightarrow> bytes \<Rightarrow> (ssh_manager, portix_error, unit) io" where
  "api_send_terminal_input sid data = send_terminal_input sid data"

definition api_resize_terminal :: "string \<Rightarrow> u32 \<Rightarrow> u32 \<Rightarrow> (ssh_manager, portix_error, unit) io" where
  "api_resize_terminal sid cols rows = resize_terminal sid cols rows"

definition api_remote_system_snapshot ::
  "(bytes \<Rightarrow> string) \<Rightarrow> (string \<Rightarrow> string \<Rightarrow> (ssh_manager, portix_error, string) io) \<Rightarrow> string \<Rightarrow>
   (ssh_manager, portix_error, remote_system_snapshot) io" where
  "api_remote_system_snapshot base64 run sid = remote_system_snapshot base64 run sid"

definition api_exec_on_profile ::
  "(string \<Rightarrow> string) \<Rightarrow> (nat \<Rightarrow> string \<Rightarrow> string option \<Rightarrow> exec_reply) \<Rightarrow>
   ssh_profile \<Rightarrow> string \<Rightarrow> string option \<Rightarrow> (profile_exec, portix_error, string) io" where
  "api_exec_on_profile q ask p command input = exec_on_profile q ask p command input"

section \<open>Key generation\<close>

text \<open>
  The disk: which paths exist and what the files hold. The key library is a parameter: drawing a
  key, setting its comment, encrypting it, and its two textual forms; \<open>create_parent\<close> stands for
  \<^verbatim>\<open>create_dir_all\<close> on the parent folder and \<open>write_file\<close> for writing a file.
\<close>

record key_disk =
  kd_exists :: "string \<Rightarrow> bool"
  kd_files :: "string \<rightharpoonup> string"

record 'k keygen_lib =
  kg_create_parent :: "string \<Rightarrow> (key_disk, string, unit) io"
  kg_random :: "(string, 'k) result"
  kg_set_comment :: "string \<Rightarrow> 'k \<Rightarrow> 'k"
  kg_encrypt :: "string \<Rightarrow> 'k \<Rightarrow> (string, 'k) result"
  kg_private_text :: "'k \<Rightarrow> string"
  kg_public_text :: "'k \<Rightarrow> (string, string) result"
  kg_write_file :: "string \<Rightarrow> string \<Rightarrow> (key_disk, string, unit) io"

definition protect_key :: "'k keygen_lib \<Rightarrow> string option \<Rightarrow> 'k \<Rightarrow> (string, 'k) result" where
  "protect_key lib passphrase key =
     (case passphrase of
        Some p \<Rightarrow> if p \<noteq> [] then kg_encrypt lib p key else Ok key
      | None \<Rightarrow> Ok key)"

definition generate_ed25519_key ::
  "'k keygen_lib \<Rightarrow> string \<Rightarrow> string \<Rightarrow> string option \<Rightarrow> (key_disk, string, string) io" where
  "generate_ed25519_key lib path comment passphrase d =
     (let public_path = path @ ''.pub'' in
      if kd_exists d path then (Err (path @ '' already exists''), d)
      else if kd_exists d public_path then (Err (public_path @ '' already exists''), d)
      else
        io_bind (kg_create_parent lib path) (\<lambda>_.
        io_bind (io_of (kg_random lib)) (\<lambda>key.
        io_bind (io_of (protect_key lib passphrase (kg_set_comment lib comment key))) (\<lambda>key.
        io_bind (kg_write_file lib path (kg_private_text lib key)) (\<lambda>_.
        io_bind (io_of (kg_public_text lib key)) (\<lambda>public_key.
        io_bind (kg_write_file lib public_path (public_key @ [LF])) (\<lambda>_.
        io_ok public_key)))))) d)"

section \<open>Host keys and prompts\<close>

record host_key_info =
  hi_algorithm :: string
  hi_fingerprint :: string
  hi_changed_line :: "u32 option"

definition api_pending_host_key :: "string \<Rightarrow> u16 \<Rightarrow> 'k pending_keys \<Rightarrow> host_key_info option" where
  "api_pending_host_key h p pend =
     map_option (\<lambda>e. \<lparr>hi_algorithm = ph_algorithm e, hi_fingerprint = ph_fingerprint e,
                       hi_changed_line = map_option of_nat (ph_changed_line e)\<rparr>)
       (pending_host_key h p pend)"

definition trust_host_key ::
  "('k, 'd, 'f) keys_lib \<Rightarrow> (string \<Rightarrow> string option) \<Rightarrow> string \<Rightarrow> u16 \<Rightarrow> string \<Rightarrow>
   ('f \<times> 'k pending_keys, portix_error, unit) io" where
  "trust_host_key lib env h p fingerprint =
     io_bind (io_of (default_known_hosts_path (home_dir env)))
       (\<lambda>_. trust_pending_host_key lib h p fingerprint)"

record auth_prompt_round =
  ap_name :: string
  ap_instructions :: string
  ap_prompts :: "(string \<times> bool) list"

definition pending_auth_prompts :: "string \<Rightarrow> u16 \<Rightarrow> kbd_state \<Rightarrow> auth_prompt_round option" where
  "pending_auth_prompts h p st =
     map_option (\<lambda>pp. \<lparr>ap_name = pp_name pp, ap_instructions = pp_instructions pp, ap_prompts = pp_prompts pp\<rparr>)
       (pending_prompts_for h p st)"

definition answer_auth_prompts :: "string \<Rightarrow> u16 \<Rightarrow> string list \<Rightarrow> kbd_state \<Rightarrow> kbd_state" where
  "answer_auth_prompts h p answers st = answer_pending h p answers st"

section \<open>Tunnels\<close>

record forward_info =
  fi_id :: string
  fi_profile_id :: string
  fi_local_port :: u16
  fi_remote_host :: string
  fi_remote_port :: u16
  fi_socks :: bool
  fi_reverse :: bool

definition forward_info_from :: "local_forward \<Rightarrow> forward_info" where
  "forward_info_from f =
     \<lparr>fi_id = lf_id f, fi_profile_id = lf_profile_id f, fi_local_port = lf_local_port f,
      fi_remote_host = lf_remote_host f, fi_remote_port = lf_remote_port f,
      fi_socks = lf_socks f, fi_reverse = lf_reverse f\<rparr>"

definition validated ::
  "ssh_profile \<Rightarrow> ('w tunnels, portix_error, local_forward) io \<Rightarrow> ('w tunnels, portix_error, forward_info) io" where
  "validated p m = io_bind (io_of (validate p)) (\<lambda>_. io_bind m (\<lambda>f. io_ok (forward_info_from f)))"

definition api_start_local_forward ::
  "(u16 \<Rightarrow> ('w, string, unit) io) \<Rightarrow> ('w, string, u16) io \<Rightarrow> (ssh_profile \<Rightarrow> ('w, portix_error, unit) io) \<Rightarrow>
   string \<Rightarrow> ssh_profile \<Rightarrow> u16 \<Rightarrow> string \<Rightarrow> u16 \<Rightarrow> ('w tunnels, portix_error, forward_info) io" where
  "api_start_local_forward bind local_addr dial fid p local_port remote_host remote_port =
     validated p (start_local_forward bind local_addr dial fid p local_port remote_host remote_port)"

definition api_start_socks_proxy ::
  "(u16 \<Rightarrow> ('w, string, unit) io) \<Rightarrow> ('w, string, u16) io \<Rightarrow> (ssh_profile \<Rightarrow> ('w, portix_error, unit) io) \<Rightarrow>
   string \<Rightarrow> ssh_profile \<Rightarrow> u16 \<Rightarrow> ('w tunnels, portix_error, forward_info) io" where
  "api_start_socks_proxy bind local_addr dial fid p local_port =
     validated p (start_socks_proxy bind local_addr dial fid p local_port)"

definition api_start_remote_forward ::
  "(ssh_profile \<Rightarrow> string \<times> u16 \<Rightarrow> ('w, portix_error, unit) io) \<Rightarrow> (string \<Rightarrow> u32 \<Rightarrow> ('w, string, u32) io) \<Rightarrow>
   string \<Rightarrow> ssh_profile \<Rightarrow> u16 \<Rightarrow> string \<Rightarrow> u16 \<Rightarrow> ('w tunnels, portix_error, forward_info) io" where
  "api_start_remote_forward dial_back tcpip_forward fid p remote_port local_host local_port =
     validated p (start_remote_forward dial_back tcpip_forward fid p remote_port local_host local_port)"

definition api_stop_local_forward :: "string \<Rightarrow> 'w tunnels \<Rightarrow> 'w tunnels" where
  "api_stop_local_forward fid t = stop_local_forward fid t"

definition list_local_forwards :: "'w tunnels \<Rightarrow> forward_info set" where
  "list_local_forwards t = forward_info_from ` active_local_forwards t"

section \<open>Event streams\<close>

text \<open>
  What a broadcast receiver yields; a sink takes a message and says whether somebody listens.
  A subscriber sees what is sent after it subscribed, except what it lagged behind on.
\<close>

datatype 'e received_event = Event 'e | Lagged nat | Closed

fun stream_step ::
  "('e \<Rightarrow> string option) \<Rightarrow> (string \<Rightarrow> 's \<Rightarrow> bool \<times> 's) \<Rightarrow> 's \<Rightarrow> 'e received_event \<Rightarrow> ('s, unit) flow" where
  "stream_step to_json add sink (Event e) =
     (case to_json e of
        None \<Rightarrow> Continue sink
      | Some json \<Rightarrow> (case add json sink of (True, sink') \<Rightarrow> Continue sink' | (False, sink') \<Rightarrow> Stop sink' ()))"
| "stream_step to_json add sink (Lagged n) = Continue sink"
| "stream_step to_json add sink Closed = Stop sink ()"

definition forward_json_stream ::
  "('e \<Rightarrow> string option) \<Rightarrow> (string \<Rightarrow> 's \<Rightarrow> bool \<times> 's) \<Rightarrow> 's \<Rightarrow> 'e received_event list \<Rightarrow> ('s, unit) flow" where
  "forward_json_stream to_json add sink events = run_loop (stream_step to_json add) sink events"

definition terminal_output_stream ::
  "(terminal_output_event \<Rightarrow> string option) \<Rightarrow> (string \<Rightarrow> 's \<Rightarrow> bool \<times> 's) \<Rightarrow> 's \<Rightarrow>
   terminal_output_event received_event list \<Rightarrow> ('s, unit) flow" where
  "terminal_output_stream to_json add sink events = forward_json_stream to_json add sink events"

definition connection_status_stream ::
  "(connection_status_event \<Rightarrow> string option) \<Rightarrow> (string \<Rightarrow> 's \<Rightarrow> bool \<times> 's) \<Rightarrow> 's \<Rightarrow>
   connection_status_event received_event list \<Rightarrow> ('s, unit) flow" where
  "connection_status_stream to_json add sink events = forward_json_stream to_json add sink events"

definition error_event_stream ::
  "(error_event \<Rightarrow> string option) \<Rightarrow> (string \<Rightarrow> 's \<Rightarrow> bool \<times> 's) \<Rightarrow> 's \<Rightarrow>
   error_event received_event list \<Rightarrow> ('s, unit) flow" where
  "error_event_stream to_json add sink events = forward_json_stream to_json add sink events"

section \<open>Properties\<close>

text \<open>A subscriber that takes \<open>n\<close> messages and then goes away.\<close>

definition listener :: "nat \<Rightarrow> string \<Rightarrow> string list \<Rightarrow> bool \<times> string list" where
  "listener n msg got = (if length got < n then (True, got @ [msg]) else (False, got))"

fun messages :: "('e \<Rightarrow> string option) \<Rightarrow> 'e received_event list \<Rightarrow> string list" where
  "messages to_json [] = []"
| "messages to_json (Event e # es) =
     (case to_json e of None \<Rightarrow> [] | Some json \<Rightarrow> [json]) @ messages to_json es"
| "messages to_json (Lagged n # es) = messages to_json es"
| "messages to_json (Closed # es) = []"

lemma stream_from:
  "length got \<le> n \<Longrightarrow>
   flow_state (run_loop (stream_step to_json (listener n)) got es) = take n (got @ messages to_json es)"
proof (induction to_json es arbitrary: got rule: messages.induct)
  case (2 to_json e es)
  show ?case
  proof (cases "to_json e")
    case None
    with 2 show ?thesis by simp
  next
    case (Some json)
    show ?thesis
    proof (cases "length got < n")
      case True
      with Some "2.IH" [of "got @ [json]"] show ?thesis by (simp add: listener_def)
    next
      case False
      with Some "2.prems" show ?thesis by (simp add: listener_def)
    qed
  qed
qed simp_all

text \<open>
  A subscriber receives the serialised events in the order the receiver yields them, none
  twice and none skipped but those it lagged behind on or that do not serialise, up to the
  point where it stops listening or the channel closes.
\<close>

theorem subscribers_receive_every_event_in_order:
  "flow_state (forward_json_stream to_json (listener n) [] events) = take n (messages to_json events)"
  using stream_from [of "[]" n to_json events] by (simp add: forward_json_stream_def)

text \<open>
  Generating a key never overwrites: when the private or the public path exists nothing
  changes; when it succeeds exactly the two files are new, the private one encrypted iff a
  non-empty passphrase was given, the public one holding the returned line.
\<close>

theorem key_generation_never_overwrites:
  assumes "\<And>q d. kg_create_parent lib q d = (Ok (), d)"
    and "\<And>q c d. kg_write_file lib q c d = (Ok (), d\<lparr>kd_files := (kd_files d)(q \<mapsto> c)\<rparr>)"
  shows "kd_exists d path \<or> kd_exists d (path @ ''.pub'') \<Longrightarrow>
      is_err (fst (generate_ed25519_key lib path comment passphrase d)) \<and>
      snd (generate_ed25519_key lib path comment passphrase d) = d"
    and "generate_ed25519_key lib path comment passphrase d = (Ok line, d') \<Longrightarrow>
      \<not> kd_exists d path \<and> \<not> kd_exists d (path @ ''.pub'') \<and>
      (\<exists>k k'. kg_random lib = Ok k \<and>
        (if passphrase = None \<or> passphrase = Some [] then k' = kg_set_comment lib comment k
         else kg_encrypt lib (the passphrase) (kg_set_comment lib comment k) = Ok k') \<and>
        kg_public_text lib k' = Ok line \<and>
        kd_files d' = (kd_files d)(path \<mapsto> kg_private_text lib k', path @ ''.pub'' \<mapsto> line @ [LF]))"
proof -
  show "is_err (fst (generate_ed25519_key lib path comment passphrase d)) \<and>
      snd (generate_ed25519_key lib path comment passphrase d) = d"
    if "kd_exists d path \<or> kd_exists d (path @ ''.pub'')"
    using that by (auto simp: generate_ed25519_key_def Let_def)
  assume "generate_ed25519_key lib path comment passphrase d = (Ok line, d')"
  then obtain k k' where "\<not> kd_exists d path \<and> \<not> kd_exists d (path @ ''.pub'')" "kg_random lib = Ok k"
    "protect_key lib passphrase (kg_set_comment lib comment k) = Ok k'" "kg_public_text lib k' = Ok line"
    "kd_files d' = (kd_files d)(path \<mapsto> kg_private_text lib k', path @ ''.pub'' \<mapsto> line @ [LF])"
    by (auto simp: generate_ed25519_key_def Let_def io_bind_eq_Ok assms split: if_splits)
  moreover from this(3) have "if passphrase = None \<or> passphrase = Some [] then k' = kg_set_comment lib comment k
      else kg_encrypt lib (the passphrase) (kg_set_comment lib comment k) = Ok k'"
    by (auto simp: protect_key_def split: option.splits if_splits)
  ultimately show "\<not> kd_exists d path \<and> \<not> kd_exists d (path @ ''.pub'') \<and>
      (\<exists>k k'. kg_random lib = Ok k \<and>
        (if passphrase = None \<or> passphrase = Some [] then k' = kg_set_comment lib comment k
         else kg_encrypt lib (the passphrase) (kg_set_comment lib comment k) = Ok k') \<and>
        kg_public_text lib k' = Ok line \<and>
        kd_files d' = (kd_files d)(path \<mapsto> kg_private_text lib k', path @ ''.pub'' \<mapsto> line @ [LF]))"
    by blast
qed

section \<open>Witnesses\<close>

definition demo_keygen :: "string keygen_lib" where
  "demo_keygen =
     \<lparr>kg_create_parent = (\<lambda>_ d. (Ok (), d)), kg_random = Ok ''k'', kg_set_comment = (\<lambda>c k. k @ c),
      kg_encrypt = (\<lambda>p k. Ok (p @ k)), kg_private_text = id, kg_public_text = (\<lambda>k. Ok (''ssh-ed25519 '' @ k)),
      kg_write_file = (\<lambda>q c d. (Ok (), d\<lparr>kd_files := (kd_files d)(q \<mapsto> c)\<rparr>))\<rparr>"

definition demo_disk :: key_disk where
  "demo_disk = \<lparr>kd_exists = (\<lambda>q. q = ''id''), kd_files = [''id'' \<mapsto> ''old'']\<rparr>"

theorem key_generation_never_overwrites_witness:
  "is_err (fst (generate_ed25519_key demo_keygen ''id'' ''me'' None demo_disk)) \<and>
   (\<exists>d'. generate_ed25519_key demo_keygen ''new'' ''me'' (Some ''pw'') demo_disk = (Ok ''ssh-ed25519 pwkme'', d') \<and>
     kd_files d' = [''id'' \<mapsto> ''old'', ''new'' \<mapsto> ''pwkme'', ''new.pub'' \<mapsto> ''ssh-ed25519 pwkme'' @ [LF]])"
proof -
  have lib: "\<And>q d. kg_create_parent demo_keygen q d = (Ok (), d)"
    "\<And>q c d. kg_write_file demo_keygen q c d = (Ok (), d\<lparr>kd_files := (kd_files d)(q \<mapsto> c)\<rparr>)"
    by (simp_all add: demo_keygen_def)
  obtain d' where g: "generate_ed25519_key demo_keygen ''new'' ''me'' (Some ''pw'') demo_disk = (Ok ''ssh-ed25519 pwkme'', d')"
    by (simp add: generate_ed25519_key_def demo_keygen_def demo_disk_def io_bind_def protect_key_def)
  have "is_err (fst (generate_ed25519_key demo_keygen ''id'' ''me'' None demo_disk))"
    using key_generation_never_overwrites(1) [of demo_keygen, OF lib, of demo_disk "''id''"] by (simp add: demo_disk_def)
  with key_generation_never_overwrites(2) [of demo_keygen, OF lib g] g show ?thesis
    by (auto simp: demo_keygen_def demo_disk_def)
qed

end
