(* ===== verification/Sftp_Client.thy ===== *)
theory Sftp_Client
  imports Ssh_Connect "HOL-Library.Product_Lexorder" "HOL-Library.Multiset"
begin

text \<open>
  \<^verbatim>\<open>portix_serv/src/infrastructure/sftp_client.rs\<close>: file access over the SFTP subsystem. The
  SFTP session of \<^verbatim>\<open>russh_sftp\<close> and the server behind it are the parameter \<open>sftp_ops\<close>: one
  field per call the code makes, over a server state \<open>'fs\<close> and open file handles \<open>'h\<close>. The
  local file system is a map from paths to contents; what a write to a local file leaves when
  the disk refuses part of it is a parameter too. Recursive operations take fuel, because how
  deep a folder is is up to the server; running out is the error \<open>None\<close>.
\<close>

section \<open>The library\<close>

record file_attributes =
  at_size :: "u64 option"
  at_mtime :: "u32 option"
  at_permissions :: "u32 option"
  at_is_dir :: bool
  at_is_symlink :: bool

datatype open_flag = F_WRITE | F_CREATE | F_TRUNCATE | F_EXCLUDE | F_READ

record ('fs, 'h) sftp_ops =
  so_channel_open_session :: "('fs, string, unit) io"
  so_request_subsystem :: "string \<Rightarrow> ('fs, string, unit) io"
  so_session_new :: "('fs, string, unit) io"
  so_is_closed :: "'fs \<Rightarrow> bool"
  so_close :: "('fs, string, unit) io"
  so_disconnect :: "('fs, string, unit) io"
  so_canonicalize :: "string \<Rightarrow> ('fs, string, string) io"
  so_read_dir :: "string \<Rightarrow> ('fs, string, (string \<times> file_attributes) list) io"
  so_metadata :: "string \<Rightarrow> ('fs, string, file_attributes) io"
  so_symlink_metadata :: "string \<Rightarrow> ('fs, string, file_attributes) io"
  so_read :: "string \<Rightarrow> ('fs, string, bytes) io"
  so_create_dir :: "string \<Rightarrow> ('fs, string, unit) io"
  so_set_permissions :: "string \<Rightarrow> u32 \<Rightarrow> ('fs, string, unit) io"
  so_rename :: "string \<Rightarrow> string \<Rightarrow> ('fs, string, unit) io"
  so_remove_file :: "string \<Rightarrow> ('fs, string, unit) io"
  so_remove_dir :: "string \<Rightarrow> ('fs, string, unit) io"
  so_open :: "string \<Rightarrow> open_flag set \<Rightarrow> ('fs, string, 'h) io"
  so_seek :: "'h \<Rightarrow> u64 \<Rightarrow> ('fs, string, unit) io"
  so_reads :: "'h \<Rightarrow> 'fs \<Rightarrow> (string, bytes) result list"
  so_write_all :: "'h \<Rightarrow> bytes \<Rightarrow> ('fs, string, unit) io"
  so_flush :: "'h \<Rightarrow> ('fs, string, unit) io"
  so_shutdown :: "'h \<Rightarrow> ('fs, string, unit) io"

text \<open>
  \<open>so_reads h\<close> are the answers to successive reads of a file from its current position; after
  them the file is at its end.
\<close>

section \<open>Paths\<close>

definition PART_SUFFIX :: string where
  "PART_SUFFIX = ''.portix-part''"

definition sftp_error :: "string \<Rightarrow> portix_error" where
  "sftp_error e = Sftp e"

definition remote_path :: "string \<Rightarrow> string" where
  "remote_path path =
     (let path = trim path in
      if path = '''' \<or> path = ''~'' then ''.''
      else unwrap_or path (strip_prefix ''~/'' path))"

definition is_safe_entry_name :: "string \<Rightarrow> bool \<Rightarrow> bool" where
  "is_safe_entry_name name windows \<longleftrightarrow>
     name \<noteq> '''' \<and> name \<noteq> ''.'' \<and> name \<noteq> ''..'' \<and>
     \<not> (CHR ''/'' \<in> set name \<or> CHR 0x00 \<in> set name) \<and>
     \<not> (windows \<and> (CHR 0x5C \<in> set name \<or> CHR '':'' \<in> set name))"

definition join :: "string \<Rightarrow> string \<Rightarrow> string" where
  "join dir name = (if dir \<noteq> [] \<and> last dir = CHR ''/'' then dir @ name else dir @ ''/'' @ name)"

section \<open>The connection\<close>

definition over :: "('fs, 'h) sftp_ops \<Rightarrow> ('fs, portix_error, unit) io" where
  "over ops =
     io_bind (io_map_err Russh (so_channel_open_session ops)) (\<lambda>_.
     io_bind (io_map_err Russh (so_request_subsystem ops ''sftp'')) (\<lambda>_.
     io_map_err sftp_error (so_session_new ops)))"

text \<open>\<open>connected\<close> stands for \<^verbatim>\<open>connect_and_authenticate_profile\<close>.\<close>

definition sftp_open :: "('fs, 'h) sftp_ops \<Rightarrow> ('fs, portix_error, unit) io \<Rightarrow> ('fs, portix_error, unit) io" where
  "sftp_open ops connected = io_bind connected (\<lambda>_. over ops)"

definition sftp_close :: "('fs, 'h) sftp_ops \<Rightarrow> 'fs \<Rightarrow> 'fs" where
  "sftp_close ops w = snd (so_disconnect ops (snd (so_close ops w)))"

text \<open>The permission bits \<^verbatim>\<open>0o7777\<close> are \<open>0xFFF\<close>.\<close>

section \<open>Reading\<close>

definition resolve :: "('fs, 'h) sftp_ops \<Rightarrow> string \<Rightarrow> ('fs, portix_error, string) io" where
  "resolve ops path = io_map_err sftp_error (so_canonicalize ops (remote_path path))"

definition entry_of :: "string \<Rightarrow> string \<Rightarrow> file_attributes \<Rightarrow> remote_file_entry" where
  "entry_of name path meta =
     \<lparr>fe_name = name, fe_path = path, fe_is_directory = at_is_dir meta,
      fe_size_bytes = unwrap_or 0 (at_size meta),
      fe_modified_unix_seconds = (case at_mtime meta of None \<Rightarrow> 0 | Some t \<Rightarrow> uint t),
      fe_mode = unwrap_or 0 (at_permissions meta) AND 0xFFF\<rparr>"

definition entry_meta ::
  "('fs, 'h) sftp_ops \<Rightarrow> string \<Rightarrow> file_attributes \<Rightarrow> 'fs \<Rightarrow> file_attributes \<times> 'fs" where
  "entry_meta ops path meta w =
     (if at_is_symlink meta
      then (case so_metadata ops path w of (Ok target, w') \<Rightarrow> (target, w') | (Err _, w') \<Rightarrow> (meta, w'))
      else (meta, w))"

fun list_entries ::
  "('fs, 'h) sftp_ops \<Rightarrow> bool \<Rightarrow> string \<Rightarrow> (string \<times> file_attributes) list \<Rightarrow> 'fs \<Rightarrow>
   remote_file_entry list \<times> 'fs" where
  "list_entries ops windows dir [] w = ([], w)"
| "list_entries ops windows dir ((name, meta) # es) w =
     (if \<not> is_safe_entry_name name windows then list_entries ops windows dir es w
      else case entry_meta ops (join dir name) meta w of (meta', w1) \<Rightarrow>
        (case list_entries ops windows dir es w1 of (rest, w2) \<Rightarrow>
           (entry_of name (join dir name) meta' # rest, w2)))"

definition entry_key :: "(string \<Rightarrow> string) \<Rightarrow> remote_file_entry \<Rightarrow> bool \<times> string" where
  "entry_key uni e = (\<not> fe_is_directory e, to_lowercase uni (fe_name e))"

definition list_dir ::
  "('fs, 'h) sftp_ops \<Rightarrow> bool \<Rightarrow> (string \<Rightarrow> string) \<Rightarrow> string \<Rightarrow> ('fs, portix_error, remote_file_entry list) io" where
  "list_dir ops windows uni path =
     io_bind (resolve ops path) (\<lambda>dir.
     io_bind (io_map_err sftp_error (so_read_dir ops dir)) (\<lambda>es w.
       case list_entries ops windows dir es w of (entries, w') \<Rightarrow>
         (Ok (sort_key (entry_key uni) entries), w')))"

definition read_file :: "('fs, 'h) sftp_ops \<Rightarrow> string \<Rightarrow> ('fs, portix_error, bytes) io" where
  "read_file ops path = io_map_err sftp_error (so_read ops (remote_path path))"

section \<open>Changing\<close>

definition write_file :: "('fs, 'h) sftp_ops \<Rightarrow> string \<Rightarrow> bytes \<Rightarrow> ('fs, portix_error, unit) io" where
  "write_file ops path data =
     io_bind (io_map_err sftp_error (so_open ops (remote_path path) {F_WRITE, F_CREATE, F_TRUNCATE})) (\<lambda>h.
     io_bind (io_map_err Io (so_write_all ops h data)) (\<lambda>_.
     io_map_err Io (so_shutdown ops h)))"

definition create_dir :: "('fs, 'h) sftp_ops \<Rightarrow> string \<Rightarrow> ('fs, portix_error, unit) io" where
  "create_dir ops path = io_map_err sftp_error (so_create_dir ops (remote_path path))"

definition create_file :: "('fs, 'h) sftp_ops \<Rightarrow> string \<Rightarrow> ('fs, portix_error, unit) io" where
  "create_file ops path =
     io_bind (io_map_err sftp_error (so_open ops (remote_path path) {F_WRITE, F_CREATE, F_EXCLUDE})) (\<lambda>h.
     io_map_err Io (so_shutdown ops h))"

definition chmod :: "('fs, 'h) sftp_ops \<Rightarrow> string \<Rightarrow> u32 \<Rightarrow> ('fs, portix_error, unit) io" where
  "chmod ops path mode =
     io_map_err sftp_error (so_set_permissions ops (remote_path path) (mode AND 0xFFF))"

definition rename :: "('fs, 'h) sftp_ops \<Rightarrow> string \<Rightarrow> string \<Rightarrow> ('fs, portix_error, unit) io" where
  "rename ops src dst = io_map_err sftp_error (so_rename ops (remote_path src) (remote_path dst))"

fun remove_resolved :: "('fs, 'h) sftp_ops \<Rightarrow> nat \<Rightarrow> string \<Rightarrow> ('fs, portix_error option, unit) io" where
  "remove_resolved ops 0 path = io_err None"
| "remove_resolved ops (Suc fuel) path =
     io_bind (io_map_err (Some \<circ> sftp_error) (so_symlink_metadata ops path)) (\<lambda>meta.
       if \<not> at_is_dir meta then io_map_err (Some \<circ> sftp_error) (so_remove_file ops path)
       else
         io_bind (io_map_err (Some \<circ> sftp_error) (so_read_dir ops path)) (\<lambda>es.
         io_bind
           (for_each (\<lambda>name. if name \<noteq> ''.'' \<and> name \<noteq> ''..''
                             then remove_resolved ops fuel (join path name) else io_ok ()) (map fst es))
           (\<lambda>_. io_map_err (Some \<circ> sftp_error) (so_remove_dir ops path))))"

definition remove :: "('fs, 'h) sftp_ops \<Rightarrow> nat \<Rightarrow> string \<Rightarrow> ('fs, portix_error option, unit) io" where
  "remove ops fuel path =
     io_bind (io_map_err Some (resolve ops path)) (\<lambda>path.
       if path = ''/'' then io_err (Some (InvalidRequest ''refusing to delete /''))
       else remove_resolved ops fuel path)"

definition keep_mode :: "('fs, 'h) sftp_ops \<Rightarrow> string \<Rightarrow> u32 option \<Rightarrow> ('fs, portix_error, unit) io" where
  "keep_mode ops path mode = (case mode of Some m \<Rightarrow> chmod ops path m | None \<Rightarrow> io_ok ())"

text \<open>\<^verbatim>\<open>tokio::io::copy\<close>: every read is written before the next one, and the writer is flushed at the end.\<close>

fun io_copy :: "('fs, 'h) sftp_ops \<Rightarrow> 'h \<Rightarrow> (string, bytes) result list \<Rightarrow> ('fs, string, unit) io" where
  "io_copy ops dst [] = so_flush ops dst"
| "io_copy ops dst (r # rs) =
     io_bind (io_of r) (\<lambda>chunk.
       if chunk = [] then so_flush ops dst
       else io_bind (so_write_all ops dst chunk) (\<lambda>_. io_copy ops dst rs))"

fun copy :: "('fs, 'h) sftp_ops \<Rightarrow> nat \<Rightarrow> string \<Rightarrow> string \<Rightarrow> ('fs, portix_error option, unit) io" where
  "copy ops 0 src dst = io_err None"
| "copy ops (Suc fuel) src dst =
     (let src = remote_path src; dst = remote_path dst in
      io_bind (io_map_err (Some \<circ> sftp_error) (so_metadata ops src)) (\<lambda>meta.
        if at_is_dir meta then
          io_bind (io_map_err (Some \<circ> sftp_error) (so_create_dir ops dst)) (\<lambda>_.
          io_bind (io_map_err (Some \<circ> sftp_error) (so_read_dir ops src)) (\<lambda>es.
          io_bind
            (for_each (\<lambda>name. if name \<noteq> ''.'' \<and> name \<noteq> ''..''
                              then copy ops fuel (join src name) (join dst name) else io_ok ()) (map fst es))
            (\<lambda>_. io_map_err Some (keep_mode ops dst (at_permissions meta)))))
        else
          io_bind (io_map_err (Some \<circ> sftp_error) (so_open ops src {F_READ})) (\<lambda>s.
          io_bind (io_map_err (Some \<circ> sftp_error) (so_open ops dst {F_WRITE, F_CREATE, F_EXCLUDE})) (\<lambda>d.
          io_bind (io_map_err (Some \<circ> Io) (\<lambda>w. io_copy ops d (so_reads ops s w) w)) (\<lambda>_.
          io_bind (io_map_err (Some \<circ> Io) (so_shutdown ops d)) (\<lambda>_.
          io_map_err Some (keep_mode ops dst (at_permissions meta))))))))"

section \<open>Transfers\<close>

definition part_path :: "string \<Rightarrow> string" where
  "part_path local_file = local_file @ PART_SUFFIX"

definition resume_offset :: "u64 option \<Rightarrow> u64 \<Rightarrow> u64" where
  "resume_offset part_len tot =
     (case part_len of Some len \<Rightarrow> if len \<le> tot then len else 0 | None \<Rightarrow> 0)"

text \<open>
  The progress callback has a state of its own \<open>'p\<close> and answers whether to go on. The
  destination \<open>'d\<close> is what the writes change.
\<close>

fun copy_with_progress ::
  "(bytes \<Rightarrow> ('d, string, unit) io) \<Rightarrow> ('d, string, unit) io \<Rightarrow>
   (transfer_progress \<Rightarrow> 'p \<Rightarrow> bool \<times> 'p) \<Rightarrow> (string, bytes) result list \<Rightarrow> u64 \<Rightarrow> u64 \<Rightarrow>
   ('d \<times> 'p, portix_error, unit) io" where
  "copy_with_progress write flush progress [] dn tot (d, p) =
     (case progress \<lparr>tp_done = dn, tp_total = tot\<rparr> p of
        (True, p') \<Rightarrow> (Ok (), (d, p'))
      | (False, p') \<Rightarrow> (case flush d of
          (Err e, d') \<Rightarrow> (Err (Io e), (d', p'))
        | (Ok _, d') \<Rightarrow> (Err TransferCancelled, (d', p'))))"
| "copy_with_progress write flush progress (r # rs) dn tot (d, p) =
     (case progress \<lparr>tp_done = dn, tp_total = tot\<rparr> p of
        (True, p') \<Rightarrow> (case r of
          Err e \<Rightarrow> (Err (Io e), (d, p'))
        | Ok chunk \<Rightarrow>
            if chunk = [] then (Ok (), (d, p'))
            else (case write chunk d of
              (Err e, d') \<Rightarrow> (Err (Io e), (d', p'))
            | (Ok _, d') \<Rightarrow>
                copy_with_progress write flush progress rs (dn + of_nat (length chunk)) tot (d', p')))
      | (False, p') \<Rightarrow> (case flush d of
          (Err e, d') \<Rightarrow> (Err (Io e), (d', p'))
        | (Ok _, d') \<Rightarrow> (Err TransferCancelled, (d', p'))))"

record ('fs, 'p) transfer =
  tr_remote :: 'fs
  tr_local :: "string \<rightharpoonup> bytes"
  tr_progress :: 'p

text \<open>
  The local file system: why opening, flushing or renaming fails, if it does; what a
  \<^verbatim>\<open>write_all\<close> at the end of a file leaves; the error for an absent file; how the reads of a
  local file split it.
\<close>

record local_io =
  lo_open :: "string \<Rightarrow> string option"
  lo_write :: "bytes \<Rightarrow> (bytes, string, unit) io"
  lo_flush :: "(bytes, string, unit) io"
  lo_rename :: "string \<Rightarrow> string \<Rightarrow> string option"
  lo_absent :: "string \<Rightarrow> string"
  lo_split :: "bytes \<Rightarrow> bytes list"

definition on_remote :: "('fs, 'e, 'a) io \<Rightarrow> (('fs, 'p) transfer, 'e, 'a) io" where
  "on_remote m t = (case m (tr_remote t) of (r, w) \<Rightarrow> (r, t\<lparr>tr_remote := w\<rparr>))"

definition open_part :: "local_io \<Rightarrow> string \<Rightarrow> bool \<Rightarrow> (('fs, 'p) transfer, portix_error, unit) io" where
  "open_part li part trunc t =
     (case lo_open li part of
        Some e \<Rightarrow> (Err (Io e), t)
      | None \<Rightarrow> (Ok (), t\<lparr>tr_local := (tr_local t)(part \<mapsto>
                  if trunc then [] else unwrap_or [] (tr_local t part))\<rparr>))"

definition copy_to_part ::
  "local_io \<Rightarrow> ('fs, 'h) sftp_ops \<Rightarrow> (transfer_progress \<Rightarrow> 'p \<Rightarrow> bool \<times> 'p) \<Rightarrow> 'h \<Rightarrow> string \<Rightarrow> u64 \<Rightarrow> u64 \<Rightarrow>
   (('fs, 'p) transfer, portix_error, unit) io" where
  "copy_to_part li ops progress src part dn tot t =
     (case copy_with_progress (lo_write li) (lo_flush li) progress (so_reads ops src (tr_remote t)) dn tot
             (unwrap_or [] (tr_local t part), tr_progress t) of
        (r, (d, p)) \<Rightarrow> (r, t\<lparr>tr_local := (tr_local t)(part \<mapsto> d), tr_progress := p\<rparr>))"

definition finish_part :: "local_io \<Rightarrow> string \<Rightarrow> string \<Rightarrow> (('fs, 'p) transfer, portix_error, unit) io" where
  "finish_part li part local_file t =
     (case lo_flush li (unwrap_or [] (tr_local t part)) of
        (Err e, d) \<Rightarrow> (Err (Io e), t\<lparr>tr_local := (tr_local t)(part \<mapsto> d)\<rparr>)
      | (Ok _, d) \<Rightarrow> (case lo_rename li part local_file of
          Some e \<Rightarrow> (Err (Io e), t\<lparr>tr_local := (tr_local t)(part \<mapsto> d)\<rparr>)
        | None \<Rightarrow> (Ok (), t\<lparr>tr_local := (tr_local t)(part := None, local_file \<mapsto> d)\<rparr>)))"

definition download ::
  "local_io \<Rightarrow> ('fs, 'h) sftp_ops \<Rightarrow> (transfer_progress \<Rightarrow> 'p \<Rightarrow> bool \<times> 'p) \<Rightarrow> string \<Rightarrow> string \<Rightarrow>
   (('fs, 'p) transfer, portix_error, unit) io" where
  "download li ops progress remote local_file =
     (let remote = remote_path remote; part = part_path local_file in
      io_bind (io_map_err sftp_error (on_remote (so_metadata ops remote))) (\<lambda>meta t.
        let tot = unwrap_or 0 (at_size meta);
            dn = resume_offset (map_option (\<lambda>c. of_nat (length c)) (tr_local t part)) tot
        in io_bind (io_map_err sftp_error (on_remote (so_open ops remote {F_READ}))) (\<lambda>src.
           io_bind (io_map_err Io (on_remote (so_seek ops src dn))) (\<lambda>_.
           io_bind (open_part li part (dn = 0)) (\<lambda>_.
           io_bind (copy_to_part li ops progress src part dn tot) (\<lambda>_.
           finish_part li part local_file)))) t))"

definition local_content :: "local_io \<Rightarrow> string \<Rightarrow> (('fs, 'p) transfer, portix_error, bytes) io" where
  "local_content li f t = (ok_or (Io (lo_absent li f)) (tr_local t f), t)"

definition copy_to_remote ::
  "local_io \<Rightarrow> ('fs, 'h) sftp_ops \<Rightarrow> (transfer_progress \<Rightarrow> 'p \<Rightarrow> bool \<times> 'p) \<Rightarrow> 'h \<Rightarrow> bytes \<Rightarrow> u64 \<Rightarrow> u64 \<Rightarrow>
   (('fs, 'p) transfer, portix_error, unit) io" where
  "copy_to_remote li ops progress dst content dn tot t =
     (case copy_with_progress (so_write_all ops dst) (so_flush ops dst) progress
             (map Ok (lo_split li (drop (unat dn) content))) dn tot (tr_remote t, tr_progress t) of
        (r, (w, p)) \<Rightarrow> (r, t\<lparr>tr_remote := w, tr_progress := p\<rparr>))"

definition replace_remote ::
  "('fs, 'h) sftp_ops \<Rightarrow> string \<Rightarrow> string \<Rightarrow> ('fs, portix_error, unit) io" where
  "replace_remote ops part remote =
     io_bind (io_try (so_metadata ops remote)) (\<lambda>old.
     io_bind (case old of
        Some meta \<Rightarrow>
          io_bind (keep_mode ops part (at_permissions meta))
            (\<lambda>_. io_map_err sftp_error (so_remove_file ops remote))
      | None \<Rightarrow> io_ok ())
     (\<lambda>_. io_map_err sftp_error (so_rename ops part remote)))"

definition upload ::
  "local_io \<Rightarrow> ('fs, 'h) sftp_ops \<Rightarrow> (transfer_progress \<Rightarrow> 'p \<Rightarrow> bool \<times> 'p) \<Rightarrow> string \<Rightarrow> string \<Rightarrow>
   (('fs, 'p) transfer, portix_error, unit) io" where
  "upload li ops progress local_file remote =
     (let remote = remote_path remote; part = remote @ PART_SUFFIX in
      io_bind (local_content li local_file) (\<lambda>content.
        let tot = of_nat (length content) in
        io_bind (io_try (on_remote (so_metadata ops part))) (\<lambda>existing.
        let dn = resume_offset (Option.bind existing at_size) tot;
            flags = (if dn = 0 then {F_WRITE, F_CREATE, F_TRUNCATE} else {F_WRITE, F_CREATE})
        in io_bind (io_map_err sftp_error (on_remote (so_open ops part flags))) (\<lambda>dst.
           io_bind (io_map_err Io (on_remote (so_seek ops dst dn))) (\<lambda>_.
           io_bind (io_of (case lo_open li local_file of Some e \<Rightarrow> Err (Io e) | None \<Rightarrow> Ok ())) (\<lambda>_.
           io_bind (local_content li local_file) (\<lambda>content'.
           io_bind (copy_to_remote li ops progress dst content' dn tot) (\<lambda>_.
           io_bind (io_map_err Io (on_remote (so_shutdown ops dst))) (\<lambda>_.
           on_remote (replace_remote ops part remote))))))))))"

section \<open>Listing\<close>

lemma list_entries_names:
  "map fe_name (fst (list_entries ops windows dir es w)) =
     filter (\<lambda>n. is_safe_entry_name n windows) (map fst es)"
  by (induction ops windows dir es w rule: list_entries.induct) (auto simp: entry_of_def split: prod.splits)

lemma list_entries_paths:
  "e \<in> set (fst (list_entries ops windows dir es w)) \<Longrightarrow>
     fe_path e = join dir (fe_name e) \<and> fe_mode e \<le> 0xFFF"
  by (induction ops windows dir es w rule: list_entries.induct)
     (auto simp: entry_of_def word_and_le1 split: prod.splits if_splits)

lemma list_dir_eq_Ok:
  assumes "list_dir ops windows uni path w = (Ok es, w')"
  obtains dir raw w1 w2 where "resolve ops path w = (Ok dir, w1)" "so_read_dir ops dir w1 = (Ok raw, w2)"
    "es = sort_key (entry_key uni) (fst (list_entries ops windows dir raw w2))"
  using assms by (auto simp: list_dir_def io_bind_eq_Ok case_prod_beta)

section \<open>Removing stays below the folder\<close>

text \<open>
  The names and paths of a server: an entry has a name without a separator; \<open>inside p q\<close> when \<open>q\<close> is \<open>p\<close>
  followed by such names, none of them \<^verbatim>\<open>..\<close>, so that it lies in the folder \<open>p\<close>.
\<close>

definition entry_name :: "string \<Rightarrow> bool" where
  "entry_name n \<longleftrightarrow> n \<noteq> [] \<and> n \<noteq> ''.'' \<and> n \<noteq> ''..'' \<and> CHR ''/'' \<notin> set n"

inductive inside :: "string \<Rightarrow> string \<Rightarrow> bool" for p where
  inside_refl: "inside p p"
| inside_entry: "inside p q \<Longrightarrow> entry_name n \<Longrightarrow> inside p (join q n)"

lemma inside_trans: "inside q r \<Longrightarrow> inside p q \<Longrightarrow> inside p r"
  by (induction rule: inside.induct) (auto intro: inside.intros)

text \<open>SFTP: a listing holds names relative to the folder, without path components.\<close>

definition lists_names :: "('fs, 'h) sftp_ops \<Rightarrow> bool" where
  "lists_names ops \<longleftrightarrow>
     (\<forall>p w es w'. so_read_dir ops p w = (Ok es, w') \<longrightarrow> (\<forall>n \<in> set (map fst es). n \<noteq> [] \<and> CHR ''/'' \<notin> set n))"

lemma listed_names:
  assumes "lists_names ops" "so_read_dir ops p w = (Ok es, w')" "n \<in> set (map fst es)" "n \<noteq> ''.''" "n \<noteq> ''..''"
  shows "entry_name n"
  using assms unfolding lists_names_def entry_name_def by blast

text \<open>The same for paths that are known to have no such components, by the text of the path.\<close>

definition below :: "string \<Rightarrow> string \<Rightarrow> bool" where
  "below p q \<longleftrightarrow> q = p \<or> prefix (join p []) q"

lemma below_refl [simp]: "below p p"
  by (simp add: below_def)

lemma join_append: "join p n = join p [] @ n"
  by (simp add: join_def)

lemma below_join: "below (join p n) q \<Longrightarrow> below p q"
  unfolding below_def by (metis append_assoc join_append join_def prefix_def prefix_order.trans)

lemma keeps_bind_dep:
  assumes "keeps I m" "\<And>w x w'. m w = (Ok x, w') \<Longrightarrow> keeps I (f x)"
  shows "keeps I (io_bind m f)"
proof (rule keepsI)
  fix w
  assume "I w"
  with keepsD [OF assms(1), of w] assms(2) [of w] show "I (snd (io_bind m f w))"
    by (cases "m w") (auto simp: io_bind_def keeps_def split: sum.splits)
qed

lemma keeps_remove_resolved:
  assumes names: "lists_names ops"
    and "\<And>q. inside p q \<Longrightarrow> keeps I (so_symlink_metadata ops q) \<and> keeps I (so_read_dir ops q) \<and>
      keeps I (so_remove_file ops q) \<and> keeps I (so_remove_dir ops q)"
  shows "keeps I (remove_resolved ops fuel p)"
  using assms(2)
proof (induction fuel arbitrary: p)
  case 0
  then show ?case by simp
next
  case (Suc fuel)
  note here = Suc.prems [OF inside_refl]
  have entry: "keeps I (remove_resolved ops fuel (join p n))" if "entry_name n" for n
    using Suc.prems inside_trans inside_entry [OF inside_refl that] by (intro Suc.IH) blast
  have "keeps I (for_each (\<lambda>name. if name \<noteq> ''.'' \<and> name \<noteq> ''..'' then remove_resolved ops fuel (join p name) else io_ok ())
      (map fst es))" if "so_read_dir ops p w = (Ok es, w')" for w es w'
    using entry listed_names [OF names that] by (intro keeps_for_each) auto
  with here show ?case by (auto intro!: keeps_bind_dep)
qed

section \<open>Transfers\<close>

text \<open>
  What a write to the end of a file and the reads of a file do: a failed write may leave a
  part of the data; reads deliver the content from the offset on, up to a failure.
\<close>

definition appends :: "(bytes \<Rightarrow> (bytes, string, unit) io) \<Rightarrow> bool" where
  "appends write \<longleftrightarrow>
     (\<forall>chunk d. case write chunk d of
        (Ok _, d') \<Rightarrow> d' = d @ chunk
      | (Err _, d') \<Rightarrow> \<exists>k. d' = d @ take k chunk)"

definition received :: "(string, bytes) result list \<Rightarrow> bytes" where
  "received rs = concat (map (\<lambda>r. unwrap_or [] (ok r)) (takeWhile is_ok rs))"

definition delivers :: "bytes \<Rightarrow> nat \<Rightarrow> (string, bytes) result list \<Rightarrow> bool" where
  "delivers content off rs \<longleftrightarrow>
     prefix (received rs) (drop off content) \<and>
     ((\<forall>r \<in> set rs. is_ok r) \<longrightarrow> received rs = drop off content) \<and> Ok [] \<notin> set rs"

lemma appends_Err: "appends write \<Longrightarrow> write chunk d = (Err e, d') \<Longrightarrow> \<exists>k. d' = d @ take k chunk"
  unfolding appends_def by (drule spec [of _ chunk], drule spec [of _ d]) simp

lemma appends_Ok: "appends write \<Longrightarrow> write chunk d = (Ok u, d') \<Longrightarrow> d' = d @ chunk"
  unfolding appends_def by (drule spec [of _ chunk], drule spec [of _ d]) simp

lemma copy_appends:
  assumes "appends write" and flush: "\<And>d. snd (flush d) = d"
    and "copy_with_progress write flush progress rs dn tot (d, p) = (r, (d', p'))" "Ok [] \<notin> set rs"
  shows "\<exists>got. d' = d @ got \<and> prefix got (received rs) \<and>
    (is_ok r \<longrightarrow> got = received rs \<and> (\<forall>x \<in> set rs. is_ok x))"
  using assms(3,4)
proof (induction rs arbitrary: dn d p)
  case Nil
  then show ?case using flush [of d]
    by (auto simp: received_def split: prod.splits bool.splits sum.splits)
next
  case (Cons x rs)
  have flushed: "d'' = d" if "flush d = (a, d'')" for a d'' using flush [of d] that by simp
  show ?case
  proof (cases x)
    case (Inl e)
    with Cons.prems show ?thesis
      by (auto simp: received_def dest: flushed split: prod.splits bool.splits sum.splits)
  next
    case (Inr chunk)
    obtain go p1 where pr: "progress \<lparr>tp_done = dn, tp_total = tot\<rparr> p = (go, p1)" by fastforce
    have chunk: "chunk \<noteq> []" using Cons.prems(2) Inr by auto
    have rec: "received (x # rs) = chunk @ received rs" by (simp add: received_def Inr)
    obtain wr d1 where w: "write chunk d = (wr, d1)" by fastforce
    consider "\<not> go" | e where "go" "wr = Err e" | "go" "wr = Ok ()" by (cases wr) auto
    then show ?thesis
    proof cases
      case 1
      with Cons.prems pr show ?thesis by (auto dest: flushed split: prod.splits sum.splits)
    next
      case 2
      with appends_Err [OF assms(1)] w obtain k where "d1 = d @ take k chunk" by blast
      with 2 Cons.prems pr Inr chunk w rec show ?thesis
        by (auto simp: take_is_prefix intro!: exI [of _ "take k chunk"] prefix_prefix)
    next
      case 3
      with appends_Ok [OF assms(1)] w have d1: "d1 = d @ chunk" by blast
      have "copy_with_progress write flush progress rs (dn + of_nat (length chunk)) tot (d1, p1) = (r, (d', p'))"
        using 3 Cons.prems(1) pr Inr chunk w by simp
      from Cons.IH [OF this] Cons.prems(2) obtain got where "d' = d1 @ got" "prefix got (received rs)"
        "is_ok r \<longrightarrow> got = received rs \<and> (\<forall>x \<in> set rs. is_ok x)" by auto
      with d1 rec Inr show ?thesis by (intro exI [of _ "chunk @ got"]) auto
    qed
  qed
qed

lemma part_path_neq [simp]: "part_path l \<noteq> l" "l \<noteq> part_path l"
  by (simp_all add: part_path_def PART_SUFFIX_def)

lemma copy_to_part_result:
  assumes "appends (lo_write li)" "\<And>d. snd (lo_flush li d) = d"
    and "tr_local t part = Some (take (unat dn) content)" "unat dn \<le> length content"
    and "delivers content (unat dn) (so_reads ops src (tr_remote t))"
    and "copy_to_part li ops progress src part dn tot t = (r, t')"
  shows "\<exists>c. tr_local t' = (tr_local t)(part \<mapsto> c) \<and> prefix c content \<and> (is_ok r \<longrightarrow> c = content)"
proof -
  obtain d p where c: "copy_with_progress (lo_write li) (lo_flush li) progress
      (so_reads ops src (tr_remote t)) dn tot (take (unat dn) content, tr_progress t) = (r, (d, p))"
    and t': "t' = t\<lparr>tr_local := (tr_local t)(part \<mapsto> d), tr_progress := p\<rparr>"
    using assms(3,6) by (auto simp: copy_to_part_def split: prod.splits)
  have del: "prefix (received (so_reads ops src (tr_remote t))) (drop (unat dn) content)"
    "(\<forall>r \<in> set (so_reads ops src (tr_remote t)). is_ok r) \<longrightarrow>
       received (so_reads ops src (tr_remote t)) = drop (unat dn) content"
    "Ok [] \<notin> set (so_reads ops src (tr_remote t))"
    using assms(5) by (auto simp: delivers_def)
  from copy_appends [OF assms(1,2) c del(3)] obtain got where
    got: "d = take (unat dn) content @ got" "prefix got (received (so_reads ops src (tr_remote t)))"
    "is_ok r \<longrightarrow> got = received (so_reads ops src (tr_remote t)) \<and>
       (\<forall>x \<in> set (so_reads ops src (tr_remote t)). is_ok x)" by blast
  from got(2) del(1) have "prefix got (drop (unat dn) content)" by (rule prefix_order.trans)
  then have "prefix d (take (unat dn) content @ drop (unat dn) content)" unfolding got(1) same_prefix_prefix .
  moreover have "is_ok r \<longrightarrow> d = content" using got(1,3) del(2) by auto
  ultimately show ?thesis using t' by auto
qed

definition resumable :: "bytes \<Rightarrow> bytes \<Rightarrow> bool" where
  "resumable content c \<longleftrightarrow> length c < 2 ^ 64 \<and> (prefix c content \<or> length content < length c)"

lemma resume_offset_of_part:
  assumes len: "length content < 2 ^ 64" and part: "\<And>c. part = Some c \<Longrightarrow> resumable content c"
    and dn: "dn = resume_offset (map_option (\<lambda>c. of_nat (length c)) part) (of_nat (length content))"
  shows "(if dn = 0 then [] else unwrap_or [] part) = take (unat dn) content" "unat dn \<le> length content"
proof -
  have "(if dn = 0 then [] else unwrap_or [] part) = take (unat dn) content \<and> unat dn \<le> length content"
  proof (cases "dn = 0")
    case False
    with dn obtain c where c: "part = Some c" "dn = of_nat (length c)"
      "(of_nat (length c) :: u64) \<le> of_nat (length content)"
      by (auto simp: resume_offset_def split: option.splits if_splits)
    with part have r: "resumable content c" by blast
    then have u: "unat dn = length c" using c(2) by (simp add: resumable_def unsigned_of_nat take_bit_nat_eq_self)
    moreover have "length c \<le> length content"
      using c(3) r len by (simp add: resumable_def word_le_nat_alt unsigned_of_nat take_bit_nat_eq_self)
    ultimately show ?thesis using False c(1) r by (auto simp: resumable_def prefix_def)
  qed simp
  then show "(if dn = 0 then [] else unwrap_or [] part) = take (unat dn) content" "unat dn \<le> length content"
    by blast+
qed

lemma download_unfold:
  assumes "so_metadata ops (remote_path remote) (tr_remote t) = (Ok meta, w1)"
    and "so_open ops (remote_path remote) {F_READ} w1 = (Ok src, w2)"
    and "dn = resume_offset (map_option (\<lambda>c. of_nat (length c)) (tr_local t (part_path l))) (unwrap_or 0 (at_size meta))"
    and "so_seek ops src dn w2 = (Ok (), w3)"
  shows "download li ops progress remote l t =
    io_bind (open_part li (part_path l) (dn = 0)) (\<lambda>_.
    io_bind (copy_to_part li ops progress src (part_path l) dn (unwrap_or 0 (at_size meta)))
      (\<lambda>_. finish_part li (part_path l) l)) (t\<lparr>tr_remote := w3\<rparr>)"
proof -
  have loc: "tr_local (t\<lparr>tr_remote := w1\<rparr>) = tr_local t" by simp
  have 1: "io_map_err sftp_error (on_remote (so_metadata ops (remote_path remote))) t = (Ok meta, t\<lparr>tr_remote := w1\<rparr>)"
    using assms(1) by (simp add: on_remote_def)
  have 2: "io_map_err sftp_error (on_remote (so_open ops (remote_path remote) {F_READ})) (t\<lparr>tr_remote := w1\<rparr>) =
      (Ok src, t\<lparr>tr_remote := w2\<rparr>)"
    using assms(2) by (simp add: on_remote_def)
  have 3: "io_map_err Io (on_remote (so_seek ops src dn)) (t\<lparr>tr_remote := w2\<rparr>) = (Ok (), t\<lparr>tr_remote := w3\<rparr>)"
    using assms(4) by (simp add: on_remote_def)
  show ?thesis
    unfolding download_def Let_def
    by (rule io_bind_eqI, rule 1, rule io_bind_eqI, rule 2, simp only: loc flip: assms(3),
        rule io_bind_eqI, rule 3, rule refl)
qed

section \<open>Properties\<close>

text \<open>
  C20: a listing holds exactly the server's entries whose names are one path component (no
  separator, not \<open>.\<close> or \<open>..\<close>), folders first and then by lower-case name, each with the path
  formed from the listed folder and only permission bits in its mode: nothing a server puts in
  a name makes a local path built from it leave its folder.
\<close>

theorem listing_is_safe_and_sorted:
  assumes "list_dir ops windows uni path w = (Ok es, w')"
  shows "\<exists>dir raw w1 w2. resolve ops path w = (Ok dir, w1) \<and> so_read_dir ops dir w1 = (Ok raw, w2) \<and>
    sorted (map (entry_key uni) es) \<and>
    mset (map fe_name es) = mset (filter (\<lambda>n. is_safe_entry_name n windows) (map fst raw)) \<and>
    (\<forall>e \<in> set es. CHR ''/'' \<notin> set (fe_name e) \<and> fe_name e \<notin> {'''', ''.'', ''..''} \<and>
       fe_path e = join dir (fe_name e) \<and> fe_mode e \<le> 0xFFF)"
proof -
  obtain dir raw w1 w2 where l: "resolve ops path w = (Ok dir, w1)" "so_read_dir ops dir w1 = (Ok raw, w2)"
    "es = sort_key (entry_key uni) (fst (list_entries ops windows dir raw w2))"
    by (rule list_dir_eq_Ok [OF assms])
  let ?xs = "fst (list_entries ops windows dir raw w2)"
  have "mset (map fe_name es) = mset (map fe_name ?xs)" using l(3) by simp
  then have names: "mset (map fe_name es) = mset (filter (\<lambda>n. is_safe_entry_name n windows) (map fst raw))"
    by (simp only: list_entries_names)
  have safe: "is_safe_entry_name (fe_name e) windows" if "e \<in> set es" for e
  proof -
    have "fe_name e \<in># mset (map fe_name es)" using that by simp
    then show ?thesis unfolding names by simp
  qed
  have "\<forall>e \<in> set es. CHR ''/'' \<notin> set (fe_name e) \<and> fe_name e \<notin> {'''', ''.'', ''..''} \<and>
       fe_path e = join dir (fe_name e) \<and> fe_mode e \<le> 0xFFF"
    using l(3) list_entries_paths [of _ ops windows dir raw w2] safe by (auto simp: is_safe_entry_name_def)
  moreover have "sorted (map (entry_key uni) es)" using l(3) by simp
  ultimately show ?thesis using l names by blast
qed

text \<open>
  C16: deleting never leaves the folder. On a server whose listings hold names only, every call of a
  delete, lookup or deletion, is for the resolved path or for a path inside it, reached by proper
  names and never by \<^verbatim>\<open>..\<close>: whatever fact about the server is kept by these four calls on such paths
  is kept by the whole recursive delete, however it ends; and the root folder is refused before
  anything is deleted.
\<close>

theorem remove_stays_below:
  assumes "resolve ops path w = (Ok p, w1)" "I w1" "lists_names ops"
    and "\<And>q. inside p q \<Longrightarrow> keeps I (so_symlink_metadata ops q) \<and> keeps I (so_read_dir ops q) \<and>
      keeps I (so_remove_file ops q) \<and> keeps I (so_remove_dir ops q)"
  shows "I (snd (remove ops fuel path w)) \<and>
    (p = ''/'' \<longrightarrow> remove ops fuel path w = (Err (Some (InvalidRequest ''refusing to delete /'')), w1))"
proof (intro conjI impI)
  have r: "remove ops fuel path w =
    (if p = ''/'' then io_err (Some (InvalidRequest ''refusing to delete /'')) else remove_resolved ops fuel p) w1"
    using assms(1) by (simp add: remove_def io_bind_def io_map_err_def)
  show "I (snd (remove ops fuel path w))"
    using keepsD [OF keeps_remove_resolved [OF assms(3,4)] assms(2)] assms(2) by (simp add: r)
  show "p = ''/'' \<Longrightarrow> remove ops fuel path w = (Err (Some (InvalidRequest ''refusing to delete /'')), w1)"
    by (simp add: r)
qed

text \<open>
  C17: a download that succeeds leaves exactly the remote content under the local name and no
  part file; one that fails or is cancelled leaves the local file as it was and a part file
  that is again a beginning of the content, so the next attempt may resume from it. This needs
  the part file to be a beginning of the content (or longer than it, when it is discarded).
\<close>

theorem download_resumes_correctly:
  assumes "appends (lo_write li)" "\<And>d. snd (lo_flush li d) = d"
    and "so_metadata ops (remote_path remote) (tr_remote t) = (Ok meta, w1)"
    and "at_size meta = Some (of_nat (length content))" "length content < 2 ^ 64"
    and "so_open ops (remote_path remote) {F_READ} w1 = (Ok src, w2)"
    and "\<And>off. \<exists>w3. so_seek ops src off w2 = (Ok (), w3) \<and> delivers content (unat off) (so_reads ops src w3)"
    and "\<And>c. tr_local t (part_path l) = Some c \<Longrightarrow> resumable content c"
    and "download li ops progress remote l t = (r, t')"
  shows "if is_ok r then tr_local t' l = Some content \<and> tr_local t' (part_path l) = None
    else tr_local t' l = tr_local t l \<and> (\<forall>c. tr_local t' (part_path l) = Some c \<longrightarrow> resumable content c)"
proof -
  let ?part = "part_path l"
  define dn where "dn = resume_offset (map_option (\<lambda>c. of_nat (length c)) (tr_local t ?part)) (of_nat (length content))"
  obtain w3 where w3: "so_seek ops src dn w2 = (Ok (), w3)" "delivers content (unat dn) (so_reads ops src w3)"
    using assms(7) by blast
  note base = resume_offset_of_part [OF assms(5,8) dn_def]
  have run: "io_bind (open_part li ?part (dn = 0)) (\<lambda>_.
    io_bind (copy_to_part li ops progress src ?part dn (of_nat (length content)))
      (\<lambda>_. finish_part li ?part l)) (t\<lparr>tr_remote := w3\<rparr>) = (r, t')"
    using download_unfold [OF assms(3,6) _ w3(1)] assms(4,9) by (simp add: dn_def)
  show ?thesis
  proof (cases "lo_open li ?part")
    case (Some e)
    then show ?thesis using run assms(8) by (auto simp: io_bind_def open_part_def)
  next
    case None
    define t1 where "t1 = t\<lparr>tr_remote := w3, tr_local := (tr_local t)(?part \<mapsto> take (unat dn) content)\<rparr>"
    obtain r2 t2 where c: "copy_to_part li ops progress src ?part dn (of_nat (length content)) t1 = (r2, t2)"
      by fastforce
    have "\<exists>c. tr_local t2 = (tr_local t1)(?part \<mapsto> c) \<and> prefix c content \<and> (is_ok r2 \<longrightarrow> c = content)"
      by (rule copy_to_part_result [OF assms(1,2) _ base(2) _ c]) (simp_all add: t1_def w3(2))
    then obtain c where t2: "tr_local t2 = (tr_local t1)(?part \<mapsto> c)" "prefix c content"
      "is_ok r2 \<longrightarrow> c = content" by blast
    have res: "resumable content c"
      using t2(2) assms(5) prefix_length_le [OF t2(2)] by (simp add: resumable_def)
    have fin: "(case r2 of Err e \<Rightarrow> (Err e, t2) | Ok _ \<Rightarrow> finish_part li ?part l t2) = (r, t')"
    proof -
      have o: "open_part li ?part (dn = 0) (t\<lparr>tr_remote := w3\<rparr>) = (Ok (), t1)"
        using None by (simp add: open_part_def t1_def flip: base(1))
      have "io_bind (copy_to_part li ops progress src ?part dn (of_nat (length content)))
          (\<lambda>_. finish_part li ?part l) t1 = (r, t')"
        using io_bind_eqI [where m = "open_part li ?part (dn = 0)", OF o refl] run by (rule trans [OF sym])
      with c show ?thesis by (cases r2) (auto simp: io_bind_def)
    qed
    show ?thesis
    proof (cases r2)
      case (Inl e)
      with fin t2 res show ?thesis by (auto simp: t1_def)
    next
      case (Inr u)
      with fin t2 res assms(2) [of c] show ?thesis
        by (auto simp: t1_def finish_part_def split: prod.splits sum.splits option.splits if_splits)
    qed
  qed
qed

text \<open>Keeping a fact about the server through the calls of a transfer.\<close>

definition kept_by_part_calls :: "('fs \<Rightarrow> bool) \<Rightarrow> ('fs, 'h) sftp_ops \<Rightarrow> string \<Rightarrow> bool" where
  "kept_by_part_calls I ops part \<longleftrightarrow>
     (\<forall>q. keeps I (so_metadata ops q)) \<and> (\<forall>flags. keeps I (so_open ops part flags)) \<and>
     (\<forall>h off. keeps I (so_seek ops h off)) \<and> (\<forall>h d. keeps I (so_write_all ops h d)) \<and>
     (\<forall>h. keeps I (so_flush ops h)) \<and> (\<forall>h. keeps I (so_shutdown ops h))"

abbreviation on_server :: "('fs \<Rightarrow> bool) \<Rightarrow> ('fs, 'p) transfer \<Rightarrow> bool" where
  "on_server I \<equiv> (\<lambda>t. I (tr_remote t))"

lemma keeps_on_remote: "keeps I m \<Longrightarrow> keeps (on_server I) (on_remote m)"
  by (auto simp: keeps_def on_remote_def split: prod.splits)

lemma keeps_local_content: "keeps (on_server I) (local_content li f)"
  by (simp add: keeps_def local_content_def)

lemma copy_with_progress_keeps:
  assumes "\<And>d. keeps I (write d)" "keeps I flush"
  shows "I d \<Longrightarrow> I (fst (snd (copy_with_progress write flush progress rs dn tot (d, p))))"
proof (induction rs arbitrary: dn d p)
  case Nil
  with keepsD [OF assms(2)] show ?case
    by (fastforce split: prod.splits bool.splits sum.splits)
next
  case (Cons r rs)
  have wrote: "I d'" if "write chunk d = (a, d')" for chunk a d'
    using keepsD [OF assms(1) Cons.prems, of chunk] that by simp
  have flushed: "I d'" if "flush d = (a, d')" for a d'
    using keepsD [OF assms(2) Cons.prems] that by simp
  show ?case
    using Cons.IH Cons.prems
    by (auto dest: wrote flushed split: prod.splits bool.splits sum.splits)
qed

lemma keeps_copy_to_remote:
  assumes "\<And>h d. keeps I (so_write_all ops h d)" "\<And>h. keeps I (so_flush ops h)"
  shows "keeps (on_server I) (copy_to_remote li ops progress dst content dn tot)"
  unfolding keeps_def [of "on_server I"] copy_to_remote_def case_prod_beta
  by (auto intro!: copy_with_progress_keeps assms)

text \<open>An error of the last stage of an upload comes from an SFTP request, not from I/O or a cancel.\<close>

lemma replace_remote_errors:
  "replace_remote ops part remote w = (Err e, w') \<Longrightarrow> \<exists>s. e = Sftp s"
  by (auto simp: replace_remote_def keep_mode_def chmod_def io_bind_def io_try_def io_map_err_def sftp_error_def
      map_err_def split: prod.splits sum.splits option.splits)

definition upload_copy ::
  "local_io \<Rightarrow> ('fs, 'h) sftp_ops \<Rightarrow> (transfer_progress \<Rightarrow> 'p \<Rightarrow> bool \<times> 'p) \<Rightarrow> string \<Rightarrow> string \<Rightarrow>
   (('fs, 'p) transfer, portix_error, unit) io" where
  "upload_copy li ops progress local_file part =
     io_bind (local_content li local_file) (\<lambda>content.
        let tot = of_nat (length content) in
        io_bind (io_try (on_remote (so_metadata ops part))) (\<lambda>existing.
        let dn = resume_offset (Option.bind existing at_size) tot;
            flags = (if dn = 0 then {F_WRITE, F_CREATE, F_TRUNCATE} else {F_WRITE, F_CREATE})
        in io_bind (io_map_err sftp_error (on_remote (so_open ops part flags))) (\<lambda>dst.
           io_bind (io_map_err Io (on_remote (so_seek ops dst dn))) (\<lambda>_.
           io_bind (io_of (case lo_open li local_file of Some e \<Rightarrow> Err (Io e) | None \<Rightarrow> Ok ())) (\<lambda>_.
           io_bind (local_content li local_file) (\<lambda>content'.
           io_bind (copy_to_remote li ops progress dst content' dn tot) (\<lambda>_.
           io_map_err Io (on_remote (so_shutdown ops dst)))))))))"

lemma upload_split:
  "upload li ops progress local_file remote =
     io_bind (upload_copy li ops progress local_file (remote_path remote @ PART_SUFFIX))
       (\<lambda>_. on_remote (replace_remote ops (remote_path remote @ PART_SUFFIX) (remote_path remote)))"
  by (simp add: upload_def upload_copy_def Let_def io_bind_assoc)

lemma keeps_upload_copy:
  assumes "kept_by_part_calls I ops part"
  shows "keeps (on_server I) (upload_copy li ops progress local_file part)"
  unfolding upload_copy_def Let_def
  using assms
  by (intro keeps_bind keeps_local_content keeps_of keeps_copy_to_remote keeps_on_remote)
     (simp_all add: keeps_on_remote kept_by_part_calls_def)

text \<open>
  C19: until the whole local file is on the server, an upload works on the part file only: when
  it is cancelled or fails with an I/O error, every fact about the server that opening and
  writing the part file keep still holds, so the file it was to replace is untouched.
\<close>

theorem failed_upload_leaves_the_old_file:
  assumes "kept_by_part_calls I ops (remote_path remote @ PART_SUFFIX)" "I (tr_remote t)"
    and "upload li ops progress local_file remote t = (Err e, t')"
    and "e = TransferCancelled \<or> (\<exists>s. e = Io s)"
  shows "I (tr_remote t')"
proof -
  let ?part = "remote_path remote @ PART_SUFFIX"
  obtain r t1 where c: "upload_copy li ops progress local_file ?part t = (r, t1)" by fastforce
  have I: "I (tr_remote t1)"
    using keepsD [OF keeps_upload_copy [OF assms(1)], of t li progress local_file] assms(2) c by simp
  show ?thesis
  proof (cases r)
    case (Inl x)
    then have "t' = t1" using assms(3) c by (simp add: upload_split io_bind_def)
    with I show ?thesis by simp
  next
    case (Inr u)
    then have "on_remote (replace_remote ops ?part (remote_path remote)) t1 = (Err e, t')"
      using assms(3) c by (simp add: upload_split io_bind_def)
    then have "\<exists>s. e = Sftp s"
      by (auto simp: on_remote_def split: prod.splits dest: replace_remote_errors)
    with assms(4) show ?thesis by auto
  qed
qed

text \<open>
  Every operation trims the path it is given, so a listed entry of an absolute folder whose
  name ends in white space stands for the entry without it: deleting, reading, overwriting or
  changing the mode of \<open>name \<close> acts on \<open>name\<close>.
\<close>

theorem trailing_space_names_another_file:
  assumes "dir \<noteq> []" "hd dir = CHR ''/''" "ascii_ws c"
  shows "remove ops fuel (join dir (name @ [c])) = remove ops fuel (join dir name) \<and>
    read_file ops (join dir (name @ [c])) = read_file ops (join dir name) \<and>
    write_file ops (join dir (name @ [c])) = write_file ops (join dir name) \<and>
    chmod ops (join dir (name @ [c])) = chmod ops (join dir name)"
proof -
  obtain d where dir: "dir = CHR ''/'' # d" using assms(1,2) by (cases dir) auto
  have start: "trim_start (CHR ''/'' # s) = CHR ''/'' # s" for s
    by (simp add: ascii_ws_def ws2_def ws3_def split: list.splits)
  obtain s where s: "join dir name = CHR ''/'' # s"
    unfolding join_def dir by (metis append_Cons)
  then have s': "join dir (name @ [c]) = CHR ''/'' # s @ [c]"
    using join_append [of dir name] join_append [of dir "name @ [c]"] by simp
  have "trim (CHR ''/'' # s @ [c]) = trim (CHR ''/'' # s)"
    unfolding trim_def start trim_end_def using assms(3) by simp
  then have "remote_path (join dir (name @ [c])) = remote_path (join dir name)"
    unfolding s s' remote_path_def by simp
  then show ?thesis
    by (simp add: remove_def resolve_def read_file_def write_file_def chmod_def fun_eq_iff)
qed

section \<open>Witnesses\<close>

text \<open>
  A server with two files under \<open>/d\<close> whose state is the list of deleted paths and the bytes
  written; reads come in one piece, and from an offset the rest.
\<close>

record demo_fs =
  df_deleted :: "string list"
  df_written :: bytes
  df_pos :: u64

definition demo_attrs :: "nat \<Rightarrow> file_attributes" where
  "demo_attrs n = \<lparr>at_size = Some (of_nat n), at_mtime = None, at_permissions = Some 420,
                   at_is_dir = False, at_is_symlink = False\<rparr>"

definition demo_content :: bytes where
  "demo_content = [10, 20, 30]"

definition demo_dir :: "string \<Rightarrow> (string \<times> file_attributes) list" where
  "demo_dir p = (if p = ''/d'' then [(''B'', demo_attrs 3), (''../x'', demo_attrs 3), (''a'', demo_attrs 3)] else [])"

definition demo_ops :: "(demo_fs, unit) sftp_ops" where
  "demo_ops =
     \<lparr>so_channel_open_session = io_ok (), so_request_subsystem = (\<lambda>_. io_ok ()), so_session_new = io_ok (),
      so_is_closed = (\<lambda>_. False), so_close = io_ok (), so_disconnect = io_ok (),
      so_canonicalize = (\<lambda>p. io_ok p),
      so_read_dir = (\<lambda>p. io_ok (demo_dir p)),
      so_metadata = (\<lambda>_. io_ok (demo_attrs 3)),
      so_symlink_metadata = (\<lambda>p. io_ok ((demo_attrs 3)\<lparr>at_is_dir := p = ''/d''\<rparr>)),
      so_read = (\<lambda>_. io_ok demo_content), so_create_dir = (\<lambda>_. io_ok ()),
      so_set_permissions = (\<lambda>_ _. io_ok ()), so_rename = (\<lambda>_ _. io_ok ()),
      so_remove_file = (\<lambda>p s. (Ok (), s\<lparr>df_deleted := p # df_deleted s\<rparr>)),
      so_remove_dir = (\<lambda>p s. (Ok (), s\<lparr>df_deleted := p # df_deleted s\<rparr>)),
      so_open = (\<lambda>_ _. io_ok ()), so_seek = (\<lambda>_ off s. (Ok (), s\<lparr>df_pos := off\<rparr>)),
      so_reads = (\<lambda>_ s. let rest = drop (unat (df_pos s)) demo_content in if rest = [] then [] else [Ok rest]),
      so_write_all = (\<lambda>_ d s. (Ok (), s\<lparr>df_written := df_written s @ d\<rparr>)),
      so_flush = (\<lambda>_. io_ok ()), so_shutdown = (\<lambda>_. io_ok ())\<rparr>"

definition demo_fs0 :: demo_fs where
  "demo_fs0 = \<lparr>df_deleted = [], df_written = [], df_pos = 0\<rparr>"

definition demo_local :: local_io where
  "demo_local = \<lparr>lo_open = Map.empty, lo_write = (\<lambda>chunk d. (Ok (), d @ chunk)), lo_flush = io_ok (),
                 lo_rename = (\<lambda>_ _. None), lo_absent = (\<lambda>_. ''absent''), lo_split = (\<lambda>b. [b])\<rparr>"

text \<open>A local folder with the first byte of an interrupted download.\<close>

definition demo_transfer :: "(demo_fs, nat) transfer" where
  "demo_transfer = \<lparr>tr_remote = demo_fs0, tr_local = [part_path ''f'' \<mapsto> [10], ''u'' \<mapsto> [1, 2]], tr_progress = 0\<rparr>"

lemma demo_list: "list_dir demo_ops False id ''/d'' demo_fs0 =
    (Ok [entry_of ''a'' ''/d/a'' (demo_attrs 3), entry_of ''B'' ''/d/B'' (demo_attrs 3)], demo_fs0)"
  by code_simp

theorem listing_is_safe_and_sorted_witness:
  "\<exists>es. list_dir demo_ops False id ''/d'' demo_fs0 = (Ok es, demo_fs0) \<and> length es = 2 \<and>
     (\<forall>e \<in> set es. CHR ''/'' \<notin> set (fe_name e))"
  using listing_is_safe_and_sorted [OF demo_list] demo_list by auto

text \<open>The same server, with a folder in the folder and without the name that is none.\<close>

definition demo_folder_ops :: "(demo_fs, unit) sftp_ops" where
  "demo_folder_ops = demo_ops
     \<lparr>so_read_dir := \<lambda>p. io_ok (if p = ''/d'' then [(''.'', demo_attrs 3), (''..'', demo_attrs 3), (''sub'', demo_attrs 3)]
        else if p = ''/d/sub'' then [(''a'', demo_attrs 3)] else []),
      so_symlink_metadata := \<lambda>p. io_ok ((demo_attrs 3)\<lparr>at_is_dir := p = ''/d'' \<or> p = ''/d/sub''\<rparr>)\<rparr>"

theorem remove_stays_below_witness:
  "df_deleted (snd (remove demo_folder_ops 3 ''/d'' demo_fs0)) = [''/d'', ''/d/sub'', ''/d/sub/a''] \<and>
   list_all (inside ''/d'') (df_deleted (snd (remove demo_folder_ops 3 ''/d'' demo_fs0)))"
proof
  show "df_deleted (snd (remove demo_folder_ops 3 ''/d'' demo_fs0)) = [''/d'', ''/d/sub'', ''/d/sub/a'']" by code_simp
  have r: "resolve demo_folder_ops ''/d'' demo_fs0 = (Ok ''/d'', demo_fs0)" by code_simp
  have "lists_names demo_folder_ops" by (auto simp: lists_names_def demo_folder_ops_def split: if_splits)
  then show "list_all (inside ''/d'') (df_deleted (snd (remove demo_folder_ops 3 ''/d'' demo_fs0)))"
    by (rule remove_stays_below [OF r, where I = "\<lambda>s. list_all (inside ''/d'') (df_deleted s)", THEN conjunct1, rotated])
       (auto simp: demo_fs0_def demo_folder_ops_def demo_ops_def keeps_def)
qed

theorem download_resumes_correctly_witness:
  "\<exists>t'. download demo_local demo_ops (\<lambda>_ n. (True, Suc n)) ''/d/a'' ''f'' demo_transfer = (Ok (), t') \<and>
     tr_local t' ''f'' = Some demo_content"
proof -
  let ?run = "download demo_local demo_ops (\<lambda>_ n. (True, Suc n)) ''/d/a'' ''f'' demo_transfer"
  obtain r t' where d: "?run = (r, t')" by fastforce
  have "if is_ok r then tr_local t' ''f'' = Some demo_content \<and> tr_local t' (part_path ''f'') = None
    else tr_local t' ''f'' = tr_local demo_transfer ''f'' \<and>
      (\<forall>c. tr_local t' (part_path ''f'') = Some c \<longrightarrow> resumable demo_content c)"
    by (rule download_resumes_correctly [OF _ _ _ _ _ _ _ _ d,
          where meta = "demo_attrs 3" and ?w1.0 = demo_fs0 and src = "()" and ?w2.0 = demo_fs0])
       (simp_all add: demo_local_def appends_def demo_ops_def demo_transfer_def demo_attrs_def demo_content_def
          delivers_def received_def Let_def resumable_def part_path_def PART_SUFFIX_def)
  moreover have "is_ok (fst ?run)" by code_simp
  ultimately show ?thesis using d by (cases r) auto
qed

theorem failed_upload_leaves_the_old_file_witness:
  "\<exists>t'. upload demo_local demo_ops (\<lambda>_ n. (False, n)) ''u'' ''/d/a'' demo_transfer = (Err TransferCancelled, t') \<and>
     df_deleted (tr_remote t') = []"
proof -
  let ?run = "upload demo_local demo_ops (\<lambda>_ n. (False, n)) ''u'' ''/d/a'' demo_transfer"
  obtain t' where u: "?run = (Err TransferCancelled, t')"
    by (cases ?run) (simp add: upload_def demo_local_def demo_ops_def demo_transfer_def demo_fs0_def demo_attrs_def
        io_bind_def io_try_def io_map_err_def on_remote_def local_content_def copy_to_remote_def
        resume_offset_def Let_def part_path_def PART_SUFFIX_def)
  have "df_deleted (tr_remote t') = []"
    by (rule failed_upload_leaves_the_old_file [where I = "\<lambda>s. df_deleted s = []", OF _ _ u])
       (simp_all add: kept_by_part_calls_def demo_ops_def keeps_def demo_transfer_def demo_fs0_def)
  with u show ?thesis by blast
qed

theorem trailing_space_names_another_file_witness:
  "is_safe_entry_name ''a '' False \<and> remove demo_ops 1 ''/d/a '' = remove demo_ops 1 ''/d/a''"
proof -
  have "join ''/d'' (''a'' @ '' '') = ''/d/a ''" "join ''/d'' ''a'' = ''/d/a''" by code_simp+
  moreover have "is_safe_entry_name ''a '' False" by code_simp
  ultimately show ?thesis
    using trailing_space_names_another_file [of "''/d''" "CHR '' ''" demo_ops 1 "''a''"]
    by (simp add: ascii_ws_def)
qed

end
