(* ===== verification/Sftp_Sessions.thy ===== *)
theory Sftp_Sessions
  imports Sftp_Client
begin

text \<open>
  \<^verbatim>\<open>portix_serv/src/application/sftp_manager.rs\<close> and \<^verbatim>\<open>portix_serv/src/api/sftp.rs\<close>: the open SFTP
  connections by id, and the calls the user interface makes on them. A connection is a handle
  \<open>'c\<close>; what the library offers for it is \<open>ops c\<close>, and how a profile is connected is the
  parameter \<open>dial\<close>. Ids come from \<^verbatim>\<open>Uuid::new_v4\<close> and are passed in.
\<close>

section \<open>The manager\<close>

record ('w, 'c) sftp_app =
  sa_world :: 'w
  sa_connections :: "string \<rightharpoonup> 'c"
  sa_local :: "string \<rightharpoonup> bytes"

definition on_world :: "('w, 'e, 'a) io \<Rightarrow> (('w, 'c) sftp_app, 'e, 'a) io" where
  "on_world m st = (case m (sa_world st) of (r, w) \<Rightarrow> (r, st\<lparr>sa_world := w\<rparr>))"

definition insert_connection :: "string \<Rightarrow> 'c \<Rightarrow> ('w, 'c) sftp_app \<Rightarrow> ('w, 'c) sftp_app" where
  "insert_connection cid c st = st\<lparr>sa_connections := (sa_connections st)(cid \<mapsto> c)\<rparr>"

definition remove_connection :: "string \<Rightarrow> ('w, 'c) sftp_app \<Rightarrow> ('w, 'c) sftp_app" where
  "remove_connection cid st = st\<lparr>sa_connections := (sa_connections st)(cid := None)\<rparr>"

definition sftp_manager_connect ::
  "('c \<Rightarrow> ('w, 'h) sftp_ops) \<Rightarrow> (ssh_profile \<Rightarrow> ('w, portix_error, 'c) io) \<Rightarrow> string \<Rightarrow> ssh_profile \<Rightarrow>
   (('w, 'c) sftp_app, portix_error, string) io" where
  "sftp_manager_connect ops dial cid p =
     io_bind (io_of (validate p)) (\<lambda>_.
     io_bind (on_world (io_bind (dial p) (\<lambda>c. io_bind (sftp_open (ops c) (io_ok ())) (\<lambda>_. io_ok c)))) (\<lambda>c st.
       (Ok cid, insert_connection cid c st)))"

definition sftp_get ::
  "('c \<Rightarrow> ('w, 'h) sftp_ops) \<Rightarrow> string \<Rightarrow> (('w, 'c) sftp_app, portix_error, 'c) io" where
  "sftp_get ops cid st =
     (case sa_connections st cid of
        None \<Rightarrow> (Err (SessionNotFound cid), st)
      | Some c \<Rightarrow>
          if \<not> so_is_closed (ops c) (sa_world st) then (Ok c, st)
          else (Err (SessionNotFound (cid @ '' (SFTP connection closed)'')), remove_connection cid st))"

definition sftp_is_alive ::
  "('c \<Rightarrow> ('w, 'h) sftp_ops) \<Rightarrow> string \<Rightarrow> ('w, 'c) sftp_app \<Rightarrow> bool \<times> ('w, 'c) sftp_app" where
  "sftp_is_alive ops cid st = (case sftp_get ops cid st of (r, st') \<Rightarrow> (is_ok r, st'))"

definition sftp_disconnect ::
  "('c \<Rightarrow> ('w, 'h) sftp_ops) \<Rightarrow> string \<Rightarrow> ('w, 'c) sftp_app \<Rightarrow> ('w, 'c) sftp_app" where
  "sftp_disconnect ops cid st =
     (case sa_connections st cid of
        None \<Rightarrow> st
      | Some c \<Rightarrow>
          (let st' = remove_connection cid st in st'\<lparr>sa_world := sftp_close (ops c) (sa_world st')\<rparr>))"

section \<open>The calls\<close>

definition with_connection ::
  "('c \<Rightarrow> ('w, 'h) sftp_ops) \<Rightarrow> string \<Rightarrow> (('w, 'h) sftp_ops \<Rightarrow> ('w, 'e, 'a) io) \<Rightarrow> (portix_error \<Rightarrow> 'e) \<Rightarrow>
   (('w, 'c) sftp_app, 'e, 'a) io" where
  "with_connection ops cid call err =
     io_bind (io_map_err err (sftp_get ops cid)) (\<lambda>c. on_world (call (ops c)))"

definition sftp_resolve :: "('c \<Rightarrow> ('w, 'h) sftp_ops) \<Rightarrow> string \<Rightarrow> string \<Rightarrow> (('w, 'c) sftp_app, portix_error, string) io" where
  "sftp_resolve ops cid path = with_connection ops cid (\<lambda>conn. resolve conn path) id"

definition sftp_list ::
  "('c \<Rightarrow> ('w, 'h) sftp_ops) \<Rightarrow> bool \<Rightarrow> (string \<Rightarrow> string) \<Rightarrow> string \<Rightarrow> string \<Rightarrow>
   (('w, 'c) sftp_app, portix_error, remote_file_entry list) io" where
  "sftp_list ops windows uni cid path = with_connection ops cid (\<lambda>conn. list_dir conn windows uni path) id"

definition sftp_read :: "('c \<Rightarrow> ('w, 'h) sftp_ops) \<Rightarrow> string \<Rightarrow> string \<Rightarrow> (('w, 'c) sftp_app, portix_error, bytes) io" where
  "sftp_read ops cid path = with_connection ops cid (\<lambda>conn. read_file conn path) id"

definition sftp_write ::
  "('c \<Rightarrow> ('w, 'h) sftp_ops) \<Rightarrow> string \<Rightarrow> string \<Rightarrow> bytes \<Rightarrow> (('w, 'c) sftp_app, portix_error, unit) io" where
  "sftp_write ops cid path data = with_connection ops cid (\<lambda>conn. write_file conn path data) id"

definition sftp_create_dir :: "('c \<Rightarrow> ('w, 'h) sftp_ops) \<Rightarrow> string \<Rightarrow> string \<Rightarrow> (('w, 'c) sftp_app, portix_error, unit) io" where
  "sftp_create_dir ops cid path = with_connection ops cid (\<lambda>conn. create_dir conn path) id"

definition sftp_create_file :: "('c \<Rightarrow> ('w, 'h) sftp_ops) \<Rightarrow> string \<Rightarrow> string \<Rightarrow> (('w, 'c) sftp_app, portix_error, unit) io" where
  "sftp_create_file ops cid path = with_connection ops cid (\<lambda>conn. create_file conn path) id"

definition sftp_chmod ::
  "('c \<Rightarrow> ('w, 'h) sftp_ops) \<Rightarrow> string \<Rightarrow> string \<Rightarrow> u32 \<Rightarrow> (('w, 'c) sftp_app, portix_error, unit) io" where
  "sftp_chmod ops cid path mode = with_connection ops cid (\<lambda>conn. chmod conn path mode) id"

definition sftp_rename ::
  "('c \<Rightarrow> ('w, 'h) sftp_ops) \<Rightarrow> string \<Rightarrow> string \<Rightarrow> string \<Rightarrow> (('w, 'c) sftp_app, portix_error, unit) io" where
  "sftp_rename ops cid src dst = with_connection ops cid (\<lambda>conn. rename conn src dst) id"

definition sftp_remove ::
  "('c \<Rightarrow> ('w, 'h) sftp_ops) \<Rightarrow> nat \<Rightarrow> string \<Rightarrow> string \<Rightarrow> (('w, 'c) sftp_app, portix_error option, unit) io" where
  "sftp_remove ops fuel cid path = with_connection ops cid (\<lambda>conn. remove conn fuel path) Some"

definition sftp_copy ::
  "('c \<Rightarrow> ('w, 'h) sftp_ops) \<Rightarrow> nat \<Rightarrow> string \<Rightarrow> string \<Rightarrow> string \<Rightarrow>
   (('w, 'c) sftp_app, portix_error option, unit) io" where
  "sftp_copy ops fuel cid src dst = with_connection ops cid (\<lambda>conn. copy conn fuel src dst) Some"

text \<open>
  A transfer reports to a stream sink \<open>'p\<close>: \<open>add\<close> delivers a progress report and says whether
  somebody still listens, \<open>add_error\<close> delivers the error that ends the stream.
\<close>

definition run_transfer ::
  "('c \<Rightarrow> ('w, 'h) sftp_ops) \<Rightarrow> (portix_error \<Rightarrow> 'p \<Rightarrow> 'p) \<Rightarrow> string \<Rightarrow>
   (('w, 'h) sftp_ops \<Rightarrow> (('w, 'p) transfer, portix_error, unit) io) \<Rightarrow>
   ('w, 'c) sftp_app \<Rightarrow> 'p \<Rightarrow> ('w, 'c) sftp_app \<times> 'p" where
  "run_transfer ops add_error cid move st sink =
     (case sftp_get ops cid st of
        (Err e, st') \<Rightarrow> (st', add_error e sink)
      | (Ok c, st') \<Rightarrow>
          (case move (ops c) \<lparr>tr_remote = sa_world st', tr_local = sa_local st', tr_progress = sink\<rparr> of
             (r, t) \<Rightarrow>
               (st'\<lparr>sa_world := tr_remote t, sa_local := tr_local t\<rparr>,
                (case r of Err e \<Rightarrow> add_error e (tr_progress t) | Ok _ \<Rightarrow> tr_progress t))))"

definition sftp_download ::
  "local_io \<Rightarrow> ('c \<Rightarrow> ('w, 'h) sftp_ops) \<Rightarrow> (transfer_progress \<Rightarrow> 'p \<Rightarrow> bool \<times> 'p) \<Rightarrow> (portix_error \<Rightarrow> 'p \<Rightarrow> 'p) \<Rightarrow>
   string \<Rightarrow> string \<Rightarrow> string \<Rightarrow> ('w, 'c) sftp_app \<Rightarrow> 'p \<Rightarrow> ('w, 'c) sftp_app \<times> 'p" where
  "sftp_download li ops add add_error cid remote local_file =
     run_transfer ops add_error cid (\<lambda>conn. download li conn add remote local_file)"

definition sftp_upload ::
  "local_io \<Rightarrow> ('c \<Rightarrow> ('w, 'h) sftp_ops) \<Rightarrow> (transfer_progress \<Rightarrow> 'p \<Rightarrow> bool \<times> 'p) \<Rightarrow> (portix_error \<Rightarrow> 'p \<Rightarrow> 'p) \<Rightarrow>
   string \<Rightarrow> string \<Rightarrow> string \<Rightarrow> ('w, 'c) sftp_app \<Rightarrow> 'p \<Rightarrow> ('w, 'c) sftp_app \<times> 'p" where
  "sftp_upload li ops add add_error cid local_file remote =
     run_transfer ops add_error cid (\<lambda>conn. upload li conn add local_file remote)"

section \<open>Lemmas\<close>

interpretation sftp_connections: registry
  "\<lambda>st. sa_connections st" insert_connection remove_connection
  by unfold_locales (auto simp: insert_connection_def remove_connection_def)

lemma sftp_get_absent: "sa_connections st cid = None \<Longrightarrow> sftp_get ops cid st = (Err (SessionNotFound cid), st)"
  by (simp add: sftp_get_def)

lemma with_connection_absent:
  "sa_connections st cid = None \<Longrightarrow> with_connection ops cid call err st = (Err (err (SessionNotFound cid)), st)"
  by (simp add: with_connection_def io_bind_def io_map_err_def sftp_get_absent)

lemma sftp_disconnect_connections:
  "sa_connections (sftp_disconnect ops cid st) = (sa_connections st)(cid := None)"
  by (auto simp: sftp_disconnect_def remove_connection_def Let_def split: option.splits)

lemmas sftp_call_defs = sftp_resolve_def sftp_list_def sftp_read_def sftp_write_def sftp_create_dir_def
  sftp_create_file_def sftp_chmod_def sftp_rename_def sftp_remove_def sftp_copy_def

section \<open>Properties\<close>

text \<open>
  A disconnected id is dead: whatever connections are opened or closed under other ids
  afterwards, a call on it answers \<open>SessionNotFound\<close> and changes nothing on any server, and a
  transfer only delivers that error to its stream.
\<close>

theorem disconnected_ids_are_dead:
  assumes "\<And>x. x \<in> set others \<Longrightarrow> op_key x \<noteq> cid"
    and "st' = fold (apply_op insert_connection remove_connection) others (sftp_disconnect ops cid st)"
  shows "sftp_read ops cid path st' = (Err (SessionNotFound cid), st')"
    and "sftp_write ops cid path data st' = (Err (SessionNotFound cid), st')"
    and "sftp_remove ops fuel cid path st' = (Err (Some (SessionNotFound cid)), st')"
    and "fst (sftp_is_alive ops cid st') = False"
    and "sftp_upload li ops add add_error cid f path st' sink = (st', add_error (SessionNotFound cid) sink)"
proof -
  have "sa_connections st' cid = None"
    unfolding assms(2) by (subst sftp_connections.get_run_other [OF assms(1)])
      (simp_all add: sftp_disconnect_connections)
  then show "sftp_read ops cid path st' = (Err (SessionNotFound cid), st')"
    and "sftp_write ops cid path data st' = (Err (SessionNotFound cid), st')"
    and "sftp_remove ops fuel cid path st' = (Err (Some (SessionNotFound cid)), st')"
    and "fst (sftp_is_alive ops cid st') = False"
    and "sftp_upload li ops add add_error cid f path st' sink = (st', add_error (SessionNotFound cid) sink)"
    by (simp_all add: sftp_call_defs with_connection_absent sftp_is_alive_def sftp_upload_def run_transfer_def
        sftp_get_absent)
qed

text \<open>
  A connection that dropped is reported once as closed and forgotten: the next call finds no
  such session; a live connection is handed out and stays registered; other ids never notice.
\<close>

theorem dropped_connections_are_forgotten:
  assumes "sftp_get ops cid st = (r, st')" "sa_connections st cid = Some c"
  shows "if so_is_closed (ops c) (sa_world st)
    then r = Err (SessionNotFound (cid @ '' (SFTP connection closed)'')) \<and>
      sftp_get ops cid st' = (Err (SessionNotFound cid), st') \<and>
      (\<forall>other. other \<noteq> cid \<longrightarrow> sa_connections st' other = sa_connections st other)
    else r = Ok c \<and> st' = st"
  using assms by (auto simp: sftp_get_def remove_connection_def split: if_splits)

section \<open>Witnesses\<close>

definition demo_app :: "(demo_fs, unit) sftp_app" where
  "demo_app = \<lparr>sa_world = demo_fs0, sa_connections = [''c'' \<mapsto> ()], sa_local = Map.empty\<rparr>"

theorem disconnected_ids_are_dead_witness:
  "\<exists>st'. st' = insert_connection ''d'' () (sftp_disconnect (\<lambda>_. demo_ops) ''c'' demo_app) \<and>
     sftp_read (\<lambda>_. demo_ops) ''c'' ''/d/a'' st' = (Err (SessionNotFound ''c''), st')"
  using disconnected_ids_are_dead(1) [of "[Put ''d'' ()]" "''c''" _ "\<lambda>_. demo_ops" demo_app "''/d/a''"] by simp

theorem dropped_connections_are_forgotten_witness:
  "fst (sftp_get (\<lambda>_. demo_ops\<lparr>so_is_closed := \<lambda>_. True\<rparr>) ''c'' demo_app) =
     Err (SessionNotFound ''c (SFTP connection closed)'')"
proof -
  obtain r st' where g: "sftp_get (\<lambda>_. demo_ops\<lparr>so_is_closed := \<lambda>_. True\<rparr>) ''c'' demo_app = (r, st')" by fastforce
  moreover have "sa_connections demo_app ''c'' = Some ()" by (simp add: demo_app_def)
  ultimately show ?thesis using dropped_connections_are_forgotten [OF g] by simp
qed

end
