(* ===== verification/Sftp_Upload.thy ===== *)
theory Sftp_Upload
  imports Sftp_Client
begin

text \<open>
  What a finished upload leaves on the server. The server is described by the files it holds and
  the position of each open handle; \<open>file_server\<close> says what the calls of \<^verbatim>\<open>russh_sftp\<close> that an upload
  makes do to them when they succeed, nothing about when they do.
\<close>

section \<open>A file server\<close>

definition file_server ::
  "('fs, 'h) sftp_ops \<Rightarrow> ('fs \<Rightarrow> string \<rightharpoonup> bytes) \<Rightarrow> ('fs \<Rightarrow> 'h \<Rightarrow> string \<times> nat) \<Rightarrow> bool" where
  "file_server ops files at \<longleftrightarrow>
     (\<forall>p w r w'. so_metadata ops p w = (r, w') \<longrightarrow> files w' = files w \<and>
        (\<forall>m n. r = Ok m \<longrightarrow> at_size m = Some n \<longrightarrow> (\<exists>c. files w p = Some c \<and> n = of_nat (length c)))) \<and>
     (\<forall>p flags w h w'. so_open ops p flags w = (Ok h, w') \<longrightarrow> at w' h = (p, 0) \<and>
        files w' = (files w)(p \<mapsto> if F_TRUNCATE \<in> flags then [] else unwrap_or [] (files w p))) \<and>
     (\<forall>h off w u w'. so_seek ops h off w = (Ok u, w') \<longrightarrow> at w' h = (fst (at w h), unat off) \<and> files w' = files w) \<and>
     (\<forall>h d w u w' p k c. so_write_all ops h d w = (Ok u, w') \<longrightarrow> at w h = (p, k) \<longrightarrow> files w p = Some c \<longrightarrow>
        at w' h = (p, k + length d) \<and> files w' = (files w)(p \<mapsto> take k c @ d @ drop (k + length d) c)) \<and>
     (\<forall>h w u w'. so_shutdown ops h w = (Ok u, w') \<longrightarrow> files w' = files w) \<and>
     (\<forall>p mode w u w'. so_set_permissions ops p mode w = (Ok u, w') \<longrightarrow> files w' = files w) \<and>
     (\<forall>p w u w'. so_remove_file ops p w = (Ok u, w') \<longrightarrow> files w' = (files w)(p := None)) \<and>
     (\<forall>p q w u w'. so_rename ops p q w = (Ok u, w') \<longrightarrow> files w' = (files w)(p := None, q := files w p))"

text \<open>The reads of a local file deliver all of it, in pieces that are not empty.\<close>

definition reads_all :: "local_io \<Rightarrow> bool" where
  "reads_all li \<longleftrightarrow> (\<forall>b. concat (lo_split li b) = b \<and> [] \<notin> set (lo_split li b))"

lemma server_metadata:
  "file_server ops files at \<Longrightarrow> so_metadata ops p w = (r, w') \<Longrightarrow> files w' = files w"
  by (simp add: file_server_def)

lemma server_size:
  "file_server ops files at \<Longrightarrow> so_metadata ops p w = (Ok m, w') \<Longrightarrow> at_size m = Some n \<Longrightarrow>
     \<exists>c. files w p = Some c \<and> n = of_nat (length c)"
  by (simp add: file_server_def)

lemma server_open:
  "file_server ops files at \<Longrightarrow> so_open ops p flags w = (Ok h, w') \<Longrightarrow> at w' h = (p, 0) \<and>
     files w' = (files w)(p \<mapsto> if F_TRUNCATE \<in> flags then [] else unwrap_or [] (files w p))"
  by (simp add: file_server_def)

lemma server_seek:
  "file_server ops files at \<Longrightarrow> so_seek ops h off w = (Ok u, w') \<Longrightarrow>
     at w' h = (fst (at w h), unat off) \<and> files w' = files w"
  by (simp add: file_server_def)

lemma server_append:
  assumes "file_server ops files at" "so_write_all ops h d w = (Ok u, w')"
    and "at w h = (p, length c)" "files w p = Some c"
  shows "at w' h = (p, length (c @ d)) \<and> files w' = (files w)(p \<mapsto> c @ d)"
proof -
  have "at w' h = (p, length c + length d) \<and>
      files w' = (files w)(p \<mapsto> take (length c) c @ d @ drop (length c + length d) c)"
    using assms by (simp add: file_server_def)
  then show ?thesis by simp
qed

lemma server_shutdown:
  "file_server ops files at \<Longrightarrow> so_shutdown ops h w = (Ok u, w') \<Longrightarrow> files w' = files w"
  by (simp add: file_server_def)

lemma server_chmod:
  "file_server ops files at \<Longrightarrow> so_set_permissions ops p mode w = (Ok u, w') \<Longrightarrow> files w' = files w"
  by (simp add: file_server_def)

lemma server_remove:
  "file_server ops files at \<Longrightarrow> so_remove_file ops p w = (Ok u, w') \<Longrightarrow> files w' = (files w)(p := None)"
  by (simp add: file_server_def)

lemma server_rename:
  "file_server ops files at \<Longrightarrow> so_rename ops p q w = (Ok u, w') \<Longrightarrow> files w' = (files w)(p := None, q := files w p)"
  by (simp add: file_server_def)

section \<open>Copying\<close>

lemma write_chunks:
  assumes fs: "file_server ops files at"
  shows "at w h = (p, length c) \<Longrightarrow> files w p = Some c \<Longrightarrow> [] \<notin> set chunks \<Longrightarrow>
    copy_with_progress (so_write_all ops h) fl progress (map Ok chunks) dn tot (w, a) = (Ok u, (w', a')) \<Longrightarrow>
    files w' = (files w)(p \<mapsto> c @ concat chunks)"
proof (induction chunks arbitrary: c w dn a)
  case Nil
  then show ?case by (auto split: prod.splits bool.splits sum.splits)
next
  case (Cons d chunks)
  then obtain a1 x w1 where go: "so_write_all ops h d w = (Ok x, w1)"
    and rest: "copy_with_progress (so_write_all ops h) fl progress (map Ok chunks) (dn + of_nat (length d)) tot (w1, a1) =
      (Ok u, (w', a'))"
    by (auto split: prod.splits bool.splits sum.splits if_splits)
  note w1 = server_append [OF fs go Cons.prems(1,2)]
  have "files w' = (files w1)(p \<mapsto> (c @ d) @ concat chunks)"
    using w1 Cons.prems(3) rest by (intro Cons.IH) auto
  with w1 show ?case by simp
qed

lemma on_remote_eq: "on_remote m t = (r, t') \<longleftrightarrow> (\<exists>w. m (tr_remote t) = (r, w) \<and> t' = t\<lparr>tr_remote := w\<rparr>)"
  by (auto simp: on_remote_def split: prod.splits)

lemma local_content_eq_Ok: "local_content li f t = (Ok c, t') \<longleftrightarrow> tr_local t f = Some c \<and> t' = t"
  by (cases "tr_local t f") (auto simp: local_content_def)

lemma copy_to_remote_eq_Ok:
  "copy_to_remote li ops progress dst content dn tot t = (Ok x, t') \<longleftrightarrow>
     (\<exists>w p. copy_with_progress (so_write_all ops dst) (so_flush ops dst) progress
        (map Ok (lo_split li (drop (unat dn) content))) dn tot (tr_remote t, tr_progress t) = (Ok x, (w, p)) \<and>
      t' = t\<lparr>tr_remote := w, tr_progress := p\<rparr>)"
  by (auto simp: copy_to_remote_def split: prod.splits)

lemma io_try_eq_Ok: "io_try m w = (Ok y, w') \<longleftrightarrow> (\<exists>r. m w = (r, w') \<and> y = ok r)"
  by (auto simp: io_try_def split: prod.splits)

text \<open>What the part file holds when the copy starts, and where it starts.\<close>

lemma part_offset:
  assumes fs: "file_server ops files at" and len: "length content < 2 ^ 64"
    and part: "\<And>c. files w part = Some c \<Longrightarrow> resumable content c"
    and meta: "so_metadata ops part w = (r, w1)"
    and dn: "dn = resume_offset (Option.bind (ok r) at_size) (of_nat (length content))"
  shows "(if dn = 0 then [] else unwrap_or [] (files w part)) = take (unat dn) content" "unat dn \<le> length content"
proof -
  have "(if dn = 0 then [] else unwrap_or [] (files w part)) = take (unat dn) content \<and> unat dn \<le> length content"
  proof (cases "Option.bind (ok r) at_size")
    case None
    with dn show ?thesis by (simp add: resume_offset_def)
  next
    case (Some n)
    then obtain m where m: "r = Ok m" "at_size m = Some n" by (cases r) auto
    with server_size [OF fs] meta obtain c where c: "files w part = Some c" "n = of_nat (length c)" by blast
    have "dn = resume_offset (map_option (\<lambda>c. of_nat (length c)) (files w part)) (of_nat (length content))"
      using dn Some c by simp
    from resume_offset_of_part [OF len part this] show ?thesis by simp
  qed
  then show "(if dn = 0 then [] else unwrap_or [] (files w part)) = take (unat dn) content" "unat dn \<le> length content"
    by simp_all
qed

lemma upload_copy_Ok:
  assumes fs: "file_server ops files at" and li: "reads_all li"
    and l: "tr_local t l = Some content" and len: "length content < 2 ^ 64"
    and part: "\<And>c. files (tr_remote t) part = Some c \<Longrightarrow> resumable content c"
    and run: "upload_copy li ops progress l part t = (Ok u, t')"
  shows "files (tr_remote t') = (files (tr_remote t))(part \<mapsto> content)"
proof -
  define tot :: u64 where "tot = of_nat (length content)"
  from run l obtain r w1 dn dst w2 w3 a w4 a' w5 where
    meta: "so_metadata ops part (tr_remote t) = (r, w1)" and dn: "dn = resume_offset (Option.bind (ok r) at_size) tot"
    and opened: "so_open ops part (if dn = 0 then {F_WRITE, F_CREATE, F_TRUNCATE} else {F_WRITE, F_CREATE}) w1 = (Ok dst, w2)"
    and sought: "so_seek ops dst dn w2 = (Ok (), w3)"
    and copied: "copy_with_progress (so_write_all ops dst) (so_flush ops dst) progress
        (map Ok (lo_split li (drop (unat dn) content))) dn tot (w3, a) = (Ok (), (w4, a'))"
    and shut: "so_shutdown ops dst w4 = (Ok (), w5)" and t': "tr_remote t' = w5"
    unfolding upload_copy_def Let_def tot_def
    by (auto simp: io_bind_eq_Ok on_remote_eq io_try_eq_Ok local_content_eq_Ok copy_to_remote_eq_Ok
        simp del: if_split split: option.splits)
  note base = part_offset [OF fs len part meta dn [unfolded tot_def]]
  have f1: "files w1 = files (tr_remote t)" by (rule server_metadata [OF fs meta])
  have f2: "at w2 dst = (part, 0)" "files w2 = (files (tr_remote t))(part \<mapsto> take (unat dn) content)"
    using server_open [OF fs opened] f1 base(1) by auto
  have f3: "at w3 dst = (part, unat dn)" "files w3 = files w2" using server_seek [OF fs sought] f2 by auto
  have "files w4 = (files w3)(part \<mapsto> take (unat dn) content @ concat (lo_split li (drop (unat dn) content)))"
    by (rule write_chunks [OF fs _ _ _ copied]) (use f2 f3 base(2) li in \<open>auto simp: reads_all_def\<close>)
  also have "\<dots> = (files (tr_remote t))(part \<mapsto> content)"
    using li f2 f3 by (simp add: reads_all_def)
  finally show ?thesis using server_shutdown [OF fs shut] t' by simp
qed

lemma replace_remote_Ok:
  assumes fs: "file_server ops files at" and ne: "part \<noteq> remote"
    and run: "replace_remote ops part remote w = (Ok u, w')"
  shows "files w' = (files w)(part := None, remote := files w part)"
proof -
  from run obtain r w1 w2 where meta: "so_metadata ops remote w = (r, w1)"
    and mid: "(case ok r of Some m \<Rightarrow> io_bind (keep_mode ops part (at_permissions m))
        (\<lambda>_. io_map_err sftp_error (so_remove_file ops remote)) | None \<Rightarrow> io_ok ()) w1 = (Ok (), w2)"
    and moved: "so_rename ops part remote w2 = (Ok u, w')"
    by (auto simp: replace_remote_def io_bind_eq_Ok io_try_eq_Ok)
  have "files w1 = files w" by (rule server_metadata [OF fs meta])
  moreover have "files w2 = files w1 \<or> files w2 = (files w1)(remote := None)"
  proof (cases "ok r")
    case None
    with mid show ?thesis by simp
  next
    case (Some m)
    with mid obtain w3 where k: "keep_mode ops part (at_permissions m) w1 = (Ok (), w3)"
      and d: "so_remove_file ops remote w3 = (Ok (), w2)"
      by (auto simp: io_bind_eq_Ok)
    have "files w3 = files w1"
      using k server_chmod [OF fs] by (cases "at_permissions m") (auto simp: keep_mode_def chmod_def)
    with server_remove [OF fs d] show ?thesis by simp
  qed
  ultimately show ?thesis using server_rename [OF fs moved] ne by (auto simp: fun_eq_iff)
qed

section \<open>A server in memory\<close>

text \<open>A server with one open file, and a disk whose reads return one byte each.\<close>

record mem_fs =
  mf_files :: "string \<rightharpoonup> bytes"
  mf_at :: "string \<times> nat"

definition mem_metadata :: "string \<Rightarrow> (mem_fs, string, file_attributes) io" where
  "mem_metadata p s = (case mf_files s p of None \<Rightarrow> (Err ''no such file'', s)
     | Some c \<Rightarrow> (Ok (demo_attrs (of_nat (length c))), s))"

definition mem_open :: "string \<Rightarrow> open_flag set \<Rightarrow> (mem_fs, string, unit) io" where
  "mem_open p flags s = (Ok (), s\<lparr>mf_at := (p, 0),
     mf_files := (mf_files s)(p \<mapsto> if F_TRUNCATE \<in> flags then [] else unwrap_or [] (mf_files s p))\<rparr>)"

definition mem_write :: "bytes \<Rightarrow> (mem_fs, string, unit) io" where
  "mem_write d s = (case mf_at s of (p, k) \<Rightarrow>
     (Ok (), s\<lparr>mf_at := (p, k + length d),
       mf_files := (mf_files s)(p := map_option (\<lambda>c. take k c @ d @ drop (k + length d) c) (mf_files s p))\<rparr>))"

definition mem_ops :: "(mem_fs, unit) sftp_ops" where
  "mem_ops =
     \<lparr>so_channel_open_session = io_ok (), so_request_subsystem = (\<lambda>_. io_ok ()), so_session_new = io_ok (),
      so_is_closed = (\<lambda>_. False), so_close = io_ok (), so_disconnect = io_ok (),
      so_canonicalize = (\<lambda>p. io_ok p), so_read_dir = (\<lambda>_. io_ok []),
      so_metadata = mem_metadata, so_symlink_metadata = mem_metadata,
      so_read = (\<lambda>p s. (Ok (unwrap_or [] (mf_files s p)), s)), so_create_dir = (\<lambda>_. io_ok ()),
      so_set_permissions = (\<lambda>_ _. io_ok ()),
      so_rename = (\<lambda>p q s. (Ok (), s\<lparr>mf_files := (mf_files s)(p := None, q := mf_files s p)\<rparr>)),
      so_remove_file = (\<lambda>p s. (Ok (), s\<lparr>mf_files := (mf_files s)(p := None)\<rparr>)),
      so_remove_dir = (\<lambda>_. io_ok ()),
      so_open = mem_open, so_seek = (\<lambda>_ off s. (Ok (), s\<lparr>mf_at := (fst (mf_at s), unat off)\<rparr>)),
      so_reads = (\<lambda>_ _. []), so_write_all = (\<lambda>_. mem_write),
      so_flush = (\<lambda>_. io_ok ()), so_shutdown = (\<lambda>_. io_ok ())\<rparr>"

definition mem_local :: local_io where
  "mem_local = demo_local\<lparr>lo_split := map (\<lambda>x. [x])\<rparr>"

text \<open>An old version of the file, and the first byte of an interrupted upload of the new one.\<close>

definition mem_transfer :: "(mem_fs, unit) transfer" where
  "mem_transfer = \<lparr>tr_remote = \<lparr>mf_files = [''/d/a'' \<mapsto> [9], ''/d/a'' @ PART_SUFFIX \<mapsto> [1]], mf_at = ([], 0)\<rparr>,
     tr_local = [''u'' \<mapsto> [1, 2, 3]], tr_progress = ()\<rparr>"

lemma mem_file_server: "file_server mem_ops mf_files (\<lambda>s _. mf_at s)"
  by (auto simp: file_server_def mem_ops_def mem_metadata_def mem_open_def mem_write_def demo_attrs_def
      split: option.splits)

lemma mem_reads_all: "reads_all mem_local"
proof -
  have "concat (map (\<lambda>x. [x]) b) = b" for b :: bytes by (induction b) auto
  then show ?thesis by (auto simp: reads_all_def mem_local_def)
qed

section \<open>Properties\<close>

text \<open>
  C18: an upload that succeeds leaves exactly the local file under the remote name, no part file, and
  every other file as it was; also when it resumes from the part file of an interrupted upload of
  the same content, or replaces a part file that is too long to belong to it.
\<close>

theorem upload_delivers_the_file:
  assumes "file_server ops files at" "reads_all li"
    and "tr_local t local_file = Some content" "length content < 2 ^ 64"
    and "\<And>c. files (tr_remote t) (remote_path remote @ PART_SUFFIX) = Some c \<Longrightarrow> resumable content c"
    and "upload li ops progress local_file remote t = (Ok (), t')"
  shows "files (tr_remote t') =
    (files (tr_remote t))(remote_path remote @ PART_SUFFIX := None, remote_path remote \<mapsto> content)"
proof -
  let ?part = "remote_path remote @ PART_SUFFIX"
  from assms(6) obtain u t1 w where copied: "upload_copy li ops progress local_file ?part t = (Ok u, t1)"
    and moved: "replace_remote ops ?part (remote_path remote) (tr_remote t1) = (Ok (), w)" "tr_remote t' = w"
    by (auto simp: upload_split io_bind_eq_Ok on_remote_eq)
  have "files (tr_remote t1) = (files (tr_remote t))(?part \<mapsto> content)"
    by (rule upload_copy_Ok [OF assms(1-5) copied])
  with replace_remote_Ok [OF assms(1) _ moved(1)] moved(2) show ?thesis
    by (simp add: PART_SUFFIX_def fun_eq_iff)
qed

theorem upload_delivers_the_file_witness:
  "\<exists>t'. upload mem_local mem_ops (\<lambda>_ u. (True, u)) ''u'' ''/d/a'' mem_transfer = (Ok (), t') \<and>
     mf_files (tr_remote t') = [''/d/a'' \<mapsto> [1, 2, 3]]"
proof -
  let ?run = "upload mem_local mem_ops (\<lambda>_ u. (True, u)) ''u'' ''/d/a'' mem_transfer"
  have path: "remote_path ''/d/a'' = ''/d/a''" by code_simp
  have "is_ok (fst ?run)" by code_simp
  then obtain t' where u: "?run = (Ok (), t')" by (cases ?run; cases "fst ?run") auto
  have "mf_files (tr_remote t') = (mf_files (tr_remote mem_transfer))
      (remote_path ''/d/a'' @ PART_SUFFIX := None, remote_path ''/d/a'' \<mapsto> [1, 2, 3])"
    by (rule upload_delivers_the_file [OF mem_file_server mem_reads_all _ _ _ u])
       (auto simp: mem_transfer_def path resumable_def PART_SUFFIX_def)
  with u show ?thesis by (auto simp: path mem_transfer_def PART_SUFFIX_def fun_eq_iff)
qed

end
