(* ===== verification/Sftp_Tree.thy ===== *)
theory Sftp_Tree
  imports Sftp_Client "HOL-Library.AList"
begin

text \<open>
  What the recursive operations of \<^verbatim>\<open>sftp_client.rs\<close> do to a server that holds a tree of folders and
  files: deleting removes exactly a subtree, copying reproduces one, and copying a folder into
  itself does not end. The server is described by the entries it holds (\<open>nodes\<close>) and its open
  handles; \<open>removing_server\<close> and \<open>copying_server\<close> state what the calls of \<^verbatim>\<open>russh_sftp\<close> do to them on a
  server that carries them out.
\<close>

section \<open>Paths\<close>

text \<open>A path does not end in a separator, the root apart.\<close>

definition solid :: "string \<Rightarrow> bool" where
  "solid p \<longleftrightarrow> p \<noteq> [] \<and> last p \<noteq> CHR ''/''"

lemma join_solid: "solid p \<Longrightarrow> join p n = p @ ''/'' @ n"
  by (simp add: solid_def join_def)

lemma solid_join [simp]: "entry_name n \<Longrightarrow> solid (join p n)"
  by (auto simp: entry_name_def solid_def join_def) (metis last_in_set)+

text \<open>With a separator behind both paths, being below is being a prefix.\<close>

lemma below_prefix: "solid p \<Longrightarrow> below p q \<longleftrightarrow> prefix (p @ ''/'') (q @ ''/'')"
  by (auto simp: below_def join_solid prefix_snoc)

lemma below_child [simp]: "solid p \<Longrightarrow> below p (join p n)"
  by (simp add: below_def join_solid)

lemma below_trans: "solid p \<Longrightarrow> solid q \<Longrightarrow> below p q \<Longrightarrow> below q r \<Longrightarrow> below p r"
  unfolding below_prefix by (rule prefix_order.trans)

lemma below_comparable: "solid a \<Longrightarrow> solid b \<Longrightarrow> below a q \<Longrightarrow> below b q \<Longrightarrow> below a b \<or> below b a"
  unfolding below_prefix by (rule prefix_same_cases)

lemma below_antisym: "solid a \<Longrightarrow> solid b \<Longrightarrow> below a b \<Longrightarrow> below b a \<Longrightarrow> a = b"
  unfolding below_prefix by (metis append_same_eq prefix_order.antisym)

lemma child_neq [simp]: "solid p \<Longrightarrow> join p n \<noteq> p" "solid p \<Longrightarrow> p \<noteq> join p n"
  by (simp_all add: join_solid)

lemma not_below_child: "solid p \<Longrightarrow> entry_name n \<Longrightarrow> \<not> below (join p n) p"
  using below_antisym [of p "join p n"] by fastforce

lemma below_parent:
  assumes "solid p" "entry_name n" "d = ''/'' \<or> solid d" "below p (join d n)" "p \<noteq> join d n"
  shows "below p d"
proof -
  have "prefix (p @ ''/'') (join d [] @ n @ ''/'')"
    using assms(1,4) join_append [of d n] by (simp add: below_prefix)
  then consider "prefix (p @ ''/'') (join d [])" | u where "p @ ''/'' = join d [] @ u" "prefix u (n @ ''/'')"
    by (auto simp: prefix_append)
  then have "prefix (p @ ''/'') (join d [])"
  proof cases
    case (2 u)
    show ?thesis
    proof (cases u rule: rev_cases)
      case Nil
      with 2 show ?thesis by simp
    next
      case (snoc v c)
      with 2 have "c = CHR ''/''" "p = join d [] @ v" by auto
      moreover have "v = n" using 2(2) snoc \<open>c = _\<close> assms(2) by (auto simp: prefix_snoc entry_name_def dest: set_mono_prefix)
      ultimately show ?thesis using assms(5) join_append [of d n] by simp
    qed
  qed
  then show ?thesis
    using assms(1,3) by (auto simp: below_prefix join_solid solid_def join_def prefix_snoc)
qed

lemma join_inj [simp]: "join p m = join p n \<longleftrightarrow> m = n"
  using join_append [of p m] join_append [of p n] by simp

lemma sibling_below:
  assumes "solid p" "entry_name m" "entry_name n" "below (join p m) (join p n)"
  shows "m = n"
proof (rule ccontr)
  assume "m \<noteq> n"
  then have "below (join p m) p" using assms by (intro below_parent [of _ n p]) auto
  with assms(1,2) show False by (simp add: not_below_child)
qed

lemma below_siblings:
  assumes "solid p" "entry_name m" "entry_name n" "below (join p m) q" "below (join p n) q"
  shows "m = n"
  using below_comparable [OF _ _ assms(4,5)] sibling_below [of p m n] sibling_below [of p n m] assms(1-3) by auto

section \<open>A server with folders\<close>

text \<open>
  What a server holds: folders, files and symbolic links by their paths. Every entry but the root
  lies in a folder.
\<close>

datatype node = Folder | File bytes | Link string

type_synonym nodes = "string \<rightharpoonup> node"

definition children :: "nodes \<Rightarrow> string \<Rightarrow> string set" where
  "children t p = {n. entry_name n \<and> t (join p n) \<noteq> None}"

definition tree_ok :: "nodes \<Rightarrow> bool" where
  "tree_ok t \<longleftrightarrow> finite (dom t) \<and>
     (\<forall>q. t q \<noteq> None \<longrightarrow> q = ''/'' \<or>
        (\<exists>d n. q = join d n \<and> entry_name n \<and> t d = Some Folder))"

definition entries :: "nodes \<Rightarrow> string \<Rightarrow> string set" where
  "entries t p = {q. t q \<noteq> None \<and> below p q}"

text \<open>
  The same for what is below one path only: whatever has something below it is a folder, and what
  is below it is below one of its children.
\<close>

definition subtree_ok :: "nodes \<Rightarrow> string \<Rightarrow> bool" where
  "subtree_ok t p \<longleftrightarrow> solid p \<and> finite (entries t p) \<and>
     (\<forall>d q. solid d \<longrightarrow> d \<in> entries t p \<longrightarrow> q \<in> entries t d \<longrightarrow> q \<noteq> d \<longrightarrow>
        t d = Some Folder \<and> (\<exists>n \<in> children t d. below (join d n) q))"

text \<open>
  What the library calls do on such a server when nothing forbids them: reading a folder lists its
  entries, each once, and perhaps the folder itself and its parent.
\<close>

definition listing_server :: "('fs, 'h) sftp_ops \<Rightarrow> ('fs \<Rightarrow> nodes) \<Rightarrow> bool" where
  "listing_server ops nodes \<longleftrightarrow>
     (\<forall>p w. nodes w p = Some Folder \<longrightarrow>
        (\<exists>es w'. so_read_dir ops p w = (Ok es, w') \<and> nodes w' = nodes w \<and> distinct (map fst es) \<and>
           set (map fst es) - {''.'', ''..''} = children (nodes w) p))"

definition removing_server :: "('fs, 'h) sftp_ops \<Rightarrow> ('fs \<Rightarrow> nodes) \<Rightarrow> bool" where
  "removing_server ops nodes \<longleftrightarrow> listing_server ops nodes \<and>
     (\<forall>p w x. nodes w p = Some x \<longrightarrow>
        (\<exists>m w'. so_symlink_metadata ops p w = (Ok m, w') \<and> nodes w' = nodes w \<and> (at_is_dir m \<longleftrightarrow> x = Folder))) \<and>
     (\<forall>p w x. nodes w p = Some x \<longrightarrow> x \<noteq> Folder \<longrightarrow>
        (\<exists>w'. so_remove_file ops p w = (Ok (), w') \<and> nodes w' = (nodes w)(p := None))) \<and>
     (\<forall>p w. nodes w p = Some Folder \<longrightarrow> children (nodes w) p = {} \<longrightarrow>
        (\<exists>w'. so_remove_dir ops p w = (Ok (), w') \<and> nodes w' = (nodes w)(p := None)))"

text \<open>For a copy also the open handles matter: \<open>at\<close> gives the file of a handle and its position.\<close>

definition copying_server ::
  "('fs, 'h) sftp_ops \<Rightarrow> ('fs \<Rightarrow> nodes) \<Rightarrow> ('fs \<Rightarrow> 'h \<rightharpoonup> string \<times> nat) \<Rightarrow> bool" where
  "copying_server ops nodes at \<longleftrightarrow> listing_server ops nodes \<and>
     (\<forall>p w x. nodes w p = Some x \<longrightarrow> (\<forall>target. x \<noteq> Link target) \<longrightarrow>
        (\<exists>m w'. so_metadata ops p w = (Ok m, w') \<and> nodes w' = nodes w \<and> (at_is_dir m \<longleftrightarrow> x = Folder))) \<and>
     (\<forall>d n w. nodes w d = Some Folder \<longrightarrow> entry_name n \<longrightarrow> nodes w (join d n) = None \<longrightarrow>
        (\<exists>w'. so_create_dir ops (join d n) w = (Ok (), w') \<and> nodes w' = (nodes w)(join d n \<mapsto> Folder))) \<and>
     (\<forall>p c w. nodes w p = Some (File c) \<longrightarrow>
        (\<exists>h w'. so_open ops p {F_READ} w = (Ok h, w') \<and> nodes w' = nodes w \<and> at w' h = Some (p, 0))) \<and>
     (\<forall>d n w. nodes w d = Some Folder \<longrightarrow> entry_name n \<longrightarrow> nodes w (join d n) = None \<longrightarrow>
        (\<exists>h w'. so_open ops (join d n) {F_WRITE, F_CREATE, F_EXCLUDE} w = (Ok h, w') \<and>
           nodes w' = (nodes w)(join d n \<mapsto> File []) \<and> at w h = None \<and> at w' = (at w)(h \<mapsto> (join d n, 0)))) \<and>
     (\<forall>h p k c w. at w h = Some (p, k) \<longrightarrow> nodes w p = Some (File c) \<longrightarrow>
        (\<exists>cs. so_reads ops h w = map Ok cs \<and> [] \<notin> set cs \<and> concat cs = drop k c)) \<and>
     (\<forall>h p k c d w. at w h = Some (p, k) \<longrightarrow> nodes w p = Some (File c) \<longrightarrow>
        (\<exists>w'. so_write_all ops h d w = (Ok (), w') \<and> at w' h = Some (p, k + length d) \<and>
           nodes w' = (nodes w)(p \<mapsto> File (take k c @ d @ drop (k + length d) c)))) \<and>
     (\<forall>h w. at w h \<noteq> None \<longrightarrow> (\<exists>w'. so_flush ops h w = (Ok (), w') \<and> nodes w' = nodes w \<and> at w' = at w)) \<and>
     (\<forall>h w. at w h \<noteq> None \<longrightarrow> (\<exists>w'. so_shutdown ops h w = (Ok (), w') \<and> nodes w' = nodes w)) \<and>
     (\<forall>p mode w. nodes w p \<noteq> None \<longrightarrow> (\<exists>w'. so_set_permissions ops p mode w = (Ok (), w') \<and> nodes w' = nodes w))"

lemma server_read_dir:
  "listing_server ops nodes \<Longrightarrow> nodes w p = Some Folder \<Longrightarrow>
     \<exists>es w'. so_read_dir ops p w = (Ok es, w') \<and> nodes w' = nodes w \<and> distinct (map fst es) \<and>
       set (map fst es) - {''.'', ''..''} = children (nodes w) p"
  by (simp add: listing_server_def)

lemma tree_solid: "tree_ok t \<Longrightarrow> t q \<noteq> None \<Longrightarrow> q = ''/'' \<or> solid q"
  by (fastforce simp: tree_ok_def)

lemma not_below_root: "solid p \<Longrightarrow> \<not> below p ''/''"
  by (cases p rule: rev_cases) (auto simp: below_prefix solid_def prefix_def Cons_eq_append_conv)

lemma join_eq:
  assumes "join d n = join d' n'" "entry_name n" "entry_name n'" "d = ''/'' \<or> solid d" "d' = ''/'' \<or> solid d'"
  shows "d = d' \<and> n = n'"
proof -
  have last_part: "takeWhile (\<lambda>c. c \<noteq> CHR ''/'') (rev (join d n)) = rev n" if "entry_name n" for d n
  proof -
    have "\<exists>e. join d [] = e @ ''/''" by (cases d rule: rev_cases) (auto simp: join_def)
    then obtain e where "join d [] = e @ ''/''" by blast
    then have "rev (join d n) = rev n @ CHR ''/'' # rev e" using join_append [of d n] by simp
    moreover have "\<forall>c \<in> set (rev n). c \<noteq> CHR ''/''" using that by (auto simp: entry_name_def)
    ultimately show ?thesis by (simp add: takeWhile_tail takeWhile_eq_all_conv)
  qed
  have "rev n = rev n'" using last_part [OF assms(2), of d] last_part [OF assms(3), of d'] assms(1) by simp
  then have "n = n'" by simp
  moreover from this assms(1) have "join d [] = join d' []" using join_append by (metis append_same_eq)
  then have "d = d'" using assms(4,5) by (auto simp: join_solid) (auto simp: join_def solid_def)
  ultimately show ?thesis by simp
qed

lemma tree_folder:
  assumes "tree_ok t" "solid d" "n \<in> children t d"
  shows "t d = Some Folder"
proof -
  from assms(1,3) obtain d' n' where d: "join d n = join d' n'" "entry_name n'" "t d' = Some Folder"
    using not_below_root [of "join d n"] by (fastforce simp: tree_ok_def children_def)
  have "d' = ''/'' \<or> solid d'" using tree_solid [OF assms(1), of d'] d(3) by simp
  with d join_eq [of d n d' n'] assms(2,3) show ?thesis by (simp add: children_def)
qed

lemma tree_child:
  assumes "tree_ok t" "solid p"
  shows "t q \<noteq> None \<Longrightarrow> below p q \<Longrightarrow> q \<noteq> p \<Longrightarrow> \<exists>n. n \<in> children t p \<and> below (join p n) q"
proof (induction "length q" arbitrary: q rule: less_induct)
  case less
  have "q \<noteq> ''/''" using less.prems(2) not_below_root [OF assms(2)] by blast
  then obtain d n where d: "q = join d n" "entry_name n" "t d = Some Folder"
    using assms(1) less.prems(1) by (auto simp: tree_ok_def)
  then have s: "d = ''/'' \<or> solid d" using tree_solid [OF assms(1), of d] by simp
  have b: "below p d" using below_parent [OF assms(2) d(2) s] less.prems(2,3) d(1) by simp
  show ?case
  proof (cases "d = p")
    case True
    with d less.prems(1) show ?thesis by (auto simp: children_def)
  next
    case False
    have "length d < length q" using d(1,2) by (auto simp: join_def entry_name_def)
    from less.hyps [OF this _ b False] d(3) obtain m where m: "m \<in> children t p" "below (join p m) d" by auto
    then have "solid (join p m)" by (simp add: children_def)
    moreover have "solid d" using s b not_below_root [OF assms(2)] by blast
    ultimately have "below (join p m) q" using m(2) d(1) below_trans [of "join p m" d q] by simp
    with m show ?thesis by blast
  qed
qed

lemma tree_subtree:
  assumes "tree_ok t" "solid p"
  shows "subtree_ok t p"
  unfolding subtree_ok_def
proof (intro conjI allI impI)
  show "finite (entries t p)"
    using assms(1) by (auto simp: tree_ok_def entries_def intro: rev_finite_subset [of "dom t"])
  fix d q
  assume "solid d" "q \<in> entries t d" "q \<noteq> d"
  with tree_child [OF assms(1), of d q] obtain n where n: "n \<in> children t d" "below (join d n) q"
    by (auto simp: entries_def)
  then show "\<exists>n \<in> children t d. below (join d n) q" by blast
  show "t d = Some Folder" by (rule tree_folder [OF assms(1) \<open>solid d\<close> n(1)])
qed (rule assms)

text \<open>A subtree is a matter of what is below its path, and goes down to the children.\<close>

lemma entries_mono: "solid p \<Longrightarrow> solid d \<Longrightarrow> below p d \<Longrightarrow> entries t d \<subseteq> entries t p"
  by (auto simp: entries_def intro: below_trans)

lemma subtree_child:
  assumes "subtree_ok t p" "n \<in> children t p"
  shows "subtree_ok t (join p n)"
proof -
  have s: "solid p" "solid (join p n)" using assms by (auto simp: subtree_ok_def children_def)
  then have "entries t (join p n) \<subseteq> entries t p" by (intro entries_mono) auto
  with assms(1) s show ?thesis unfolding subtree_ok_def by (blast intro: finite_subset)
qed

lemma subtree_cong:
  assumes "subtree_ok t p" "\<And>q. below p q \<Longrightarrow> t' q = t q"
  shows "subtree_ok t' p"
proof -
  have s: "solid p" using assms(1) by (simp add: subtree_ok_def)
  have e: "entries t' d = entries t d \<and> children t' d = children t d \<and> t' d = t d" if "solid d" "below p d" for d
    using assms(2) below_trans [OF s that(1,2)] that below_child [OF that(1)] by (auto simp: entries_def children_def)
  then have p: "entries t' p = entries t p" using s by simp
  show ?thesis
    unfolding subtree_ok_def p
  proof (intro conjI allI impI)
    fix d q
    assume d: "solid d" "d \<in> entries t p" "q \<in> entries t' d" "q \<noteq> d"
    then have "entries t' d = entries t d" "children t' d = children t d" "t' d = t d"
      using e by (auto simp: entries_def)
    with d assms(1) show "t' d = Some Folder" "\<exists>n \<in> children t' d. below (join d n) q"
      by (auto simp: subtree_ok_def)
  qed (use assms(1) in \<open>auto simp: subtree_ok_def\<close>)
qed

lemma subtree_below:
  assumes "subtree_ok t p" "t p \<noteq> None" "t q \<noteq> None" "below p q" "q \<noteq> p"
  shows "t p = Some Folder \<and> (\<exists>n \<in> children t p. below (join p n) q)"
proof -
  have "p \<in> entries t p" "q \<in> entries t p" using assms(2-4) by (simp_all add: entries_def)
  with assms(1,5) show ?thesis unfolding subtree_ok_def by blast
qed

lemma card_child:
  assumes "subtree_ok t p" "t p \<noteq> None" "n \<in> children t p"
  shows "card (entries t (join p n)) < card (entries t p)"
proof (rule psubset_card_mono)
  have s: "solid p" "solid (join p n)" "entry_name n" using assms by (auto simp: subtree_ok_def children_def)
  have "p \<notin> entries t (join p n)" using not_below_child [OF s(1,3)] by (simp add: entries_def)
  moreover have "p \<in> entries t p" using assms(2) by (simp add: entries_def)
  ultimately show "entries t (join p n) \<subset> entries t p" using entries_mono [OF s(1,2)] s by auto
qed (use assms(1) in \<open>simp add: subtree_ok_def\<close>)

section \<open>Deleting\<close>

definition cut :: "nodes \<Rightarrow> string \<Rightarrow> nodes" where
  "cut t p = (\<lambda>q. if below p q then None else t q)"

definition cut_children :: "nodes \<Rightarrow> string \<Rightarrow> string set \<Rightarrow> nodes" where
  "cut_children t p ns = (\<lambda>q. if \<exists>n \<in> ns. below (join p n) q then None else t q)"

definition removes :: "('fs \<Rightarrow> nodes) \<Rightarrow> ('fs, portix_error option, unit) io \<Rightarrow> string \<Rightarrow> 'fs \<Rightarrow> bool" where
  "removes nodes m p w \<longleftrightarrow> (\<exists>w'. m w = (Ok (), w') \<and> nodes w' = cut (nodes w) p)"

lemma cut_sibling:
  assumes "solid p" "entry_name m" "entry_name n" "m \<noteq> n" "below (join p m) q"
  shows "cut t (join p n) q = t q"
  using below_siblings [OF assms(1-3) assms(5)] assms(4) by (auto simp: cut_def)

lemma remove_children:
  assumes IH: "\<And>n w. n \<in> set ns \<Longrightarrow> n \<noteq> ''.'' \<Longrightarrow> n \<noteq> ''..'' \<Longrightarrow> subtree_ok (nodes w) (join p n) \<Longrightarrow>
      nodes w (join p n) \<noteq> None \<Longrightarrow> card (entries (nodes w) (join p n)) \<le> k \<Longrightarrow> removes nodes (rm (join p n)) (join p n) w"
    and "solid p" "distinct ns"
    and "\<And>n. n \<in> set ns \<Longrightarrow> n \<noteq> ''.'' \<Longrightarrow> n \<noteq> ''..'' \<Longrightarrow> entry_name n \<and> subtree_ok (nodes w) (join p n) \<and>
      nodes w (join p n) \<noteq> None \<and> card (entries (nodes w) (join p n)) \<le> k"
  shows "\<exists>w'. for_each (\<lambda>n. if n \<noteq> ''.'' \<and> n \<noteq> ''..'' then rm (join p n) else io_ok ()) ns w = (Ok (), w') \<and>
    nodes w' = cut_children (nodes w) p (set ns - {''.'', ''..''})"
  using assms
proof (induction ns arbitrary: w)
  case Nil
  then show ?case by (simp add: cut_children_def)
next
  case (Cons n ns)
  show ?case
  proof (cases "n = ''.'' \<or> n = ''..''")
    case True
    have "set (n # ns) - {''.'', ''..''} = set ns - {''.'', ''..''}" using True by auto
    moreover have "\<exists>w'. for_each (\<lambda>n. if n \<noteq> ''.'' \<and> n \<noteq> ''..'' then rm (join p n) else io_ok ()) ns w = (Ok (), w') \<and>
        nodes w' = cut_children (nodes w) p (set ns - {''.'', ''..''})"
      by (rule Cons.IH) (use Cons.prems in auto)
    ultimately show ?thesis using True by (auto simp: io_bind_def)
  next
    case False
    with Cons.prems(1) [of n w] Cons.prems(4) [of n] obtain w1 where w1: "rm (join p n) w = (Ok (), w1)"
      "nodes w1 = cut (nodes w) (join p n)" by (auto simp: removes_def)
    have n: "entry_name n" using Cons.prems(4) [of n] False by simp
    have rest: "entry_name m \<and> subtree_ok (nodes w1) (join p m) \<and> nodes w1 (join p m) \<noteq> None \<and>
        card (entries (nodes w1) (join p m)) \<le> k" if m: "m \<in> set ns" "m \<noteq> ''.''" "m \<noteq> ''..''" for m
    proof -
      have old: "entry_name m" "subtree_ok (nodes w) (join p m)" "nodes w (join p m) \<noteq> None"
        "card (entries (nodes w) (join p m)) \<le> k" using Cons.prems(4) [of m] m by auto
      have "m \<noteq> n" using m Cons.prems(3) by auto
      then have eq: "nodes w1 q = nodes w q" if "below (join p m) q" for q
        using cut_sibling [OF Cons.prems(2) old(1) n _ that] w1(2) by simp
      then have "entries (nodes w1) (join p m) = entries (nodes w) (join p m)" by (auto simp: entries_def)
      with old eq subtree_cong [OF old(2) eq] show ?thesis by simp
    qed
    have "\<exists>w'. for_each (\<lambda>n. if n \<noteq> ''.'' \<and> n \<noteq> ''..'' then rm (join p n) else io_ok ()) ns w1 = (Ok (), w') \<and>
        nodes w' = cut_children (nodes w1) p (set ns - {''.'', ''..''})"
      by (rule Cons.IH) (use Cons.prems rest in auto)
    moreover have "cut_children (nodes w1) p (set ns - {''.'', ''..''}) = cut_children (nodes w) p (set (n # ns) - {''.'', ''..''})"
      using False w1(2) by (auto simp: cut_children_def cut_def fun_eq_iff)
    ultimately show ?thesis using False w1(1) by (auto simp: io_bind_def)
  qed
qed

lemma server_lstat:
  "removing_server ops nodes \<Longrightarrow> nodes w p = Some x \<Longrightarrow>
     \<exists>m w'. so_symlink_metadata ops p w = (Ok m, w') \<and> nodes w' = nodes w \<and> (at_is_dir m \<longleftrightarrow> x = Folder)"
  by (simp add: removing_server_def)

lemma server_remove_file:
  "removing_server ops nodes \<Longrightarrow> nodes w p = Some x \<Longrightarrow> x \<noteq> Folder \<Longrightarrow>
     \<exists>w'. so_remove_file ops p w = (Ok (), w') \<and> nodes w' = (nodes w)(p := None)"
  by (simp add: removing_server_def)

lemma server_remove_dir:
  "removing_server ops nodes \<Longrightarrow> nodes w p = Some Folder \<Longrightarrow> children (nodes w) p = {} \<Longrightarrow>
     \<exists>w'. so_remove_dir ops p w = (Ok (), w') \<and> nodes w' = (nodes w)(p := None)"
  by (simp add: removing_server_def)

lemma cut_all_children:
  assumes "subtree_ok t p" "t p \<noteq> None"
  shows "(cut_children t p (children t p))(p := None) = cut t p"
proof
  fix q
  show "((cut_children t p (children t p))(p := None)) q = cut t p q"
  proof (cases "t q \<noteq> None \<and> below p q \<and> q \<noteq> p")
    case True
    then have "\<exists>n \<in> children t p. below (join p n) q" using subtree_below [OF assms, of q] by blast
    with True show ?thesis by (auto simp: cut_children_def cut_def)
  qed (auto simp: cut_children_def cut_def dest: below_join)
qed

lemma remove_plain:
  assumes srv: "removing_server ops nodes" and ok: "subtree_ok (nodes w) p" and x: "nodes w p = Some x" "x \<noteq> Folder"
  shows "removes nodes (remove_resolved ops (Suc fuel) p) p w"
proof -
  obtain m w1 where w1: "so_symlink_metadata ops p w = (Ok m, w1)" "nodes w1 = nodes w" "\<not> at_is_dir m"
    using server_lstat [OF srv x(1)] x(2) by auto
  obtain w2 where w2: "so_remove_file ops p w1 = (Ok (), w2)" "nodes w2 = (nodes w)(p := None)"
    using server_remove_file [OF srv, of w1 p x] x w1(2) by auto
  have "nodes w q = None" if "below p q" "q \<noteq> p" for q
    using subtree_below [OF ok _ _ that] x by (cases "nodes w q") auto
  then have "nodes w2 = cut (nodes w) p" using w2(2) by (auto simp: cut_def)
  then show ?thesis using w1 w2(1) by (simp add: removes_def io_bind_def io_map_err_def)
qed

lemma remove_resolved_removes:
  assumes srv: "removing_server ops nodes"
  shows "subtree_ok (nodes w) p \<Longrightarrow> nodes w p \<noteq> None \<Longrightarrow> card (entries (nodes w) p) \<le> fuel \<Longrightarrow>
    removes nodes (remove_resolved ops fuel p) p w"
proof (induction fuel arbitrary: p w)
  case 0
  then have "p \<in> entries (nodes w) p" "finite (entries (nodes w) p)" by (auto simp: entries_def subtree_ok_def)
  with 0 show ?case by simp
next
  case (Suc fuel)
  have s: "solid p" using Suc.prems(1) by (simp add: subtree_ok_def)
  show ?case
  proof (cases "nodes w p = Some Folder")
    case False
    then show ?thesis using remove_plain [OF srv Suc.prems(1)] Suc.prems(2) by blast
  next
    case True
    obtain m w1 where w1: "so_symlink_metadata ops p w = (Ok m, w1)" "nodes w1 = nodes w" "at_is_dir m"
      using server_lstat [OF srv True] by auto
    obtain es w2 where w2: "so_read_dir ops p w1 = (Ok es, w2)" "nodes w2 = nodes w" "distinct (map fst es)"
      "set (map fst es) - {''.'', ''..''} = children (nodes w) p"
      using srv True w1(2) server_read_dir [of ops nodes w1 p] by (auto simp: removing_server_def)
    have "\<exists>w'. for_each (\<lambda>n. if n \<noteq> ''.'' \<and> n \<noteq> ''..'' then remove_resolved ops fuel (join p n) else io_ok ()) (map fst es) w2 =
        (Ok (), w') \<and> nodes w' = cut_children (nodes w2) p (set (map fst es) - {''.'', ''..''})"
    proof (rule remove_children [where k = fuel])
      fix n
      assume "n \<in> set (map fst es)" "n \<noteq> ''.''" "n \<noteq> ''..''"
      with w2(4) have n: "n \<in> children (nodes w) p" by auto
      have "card (entries (nodes w) (join p n)) \<le> fuel" using card_child [OF Suc.prems(1,2) n] Suc.prems(3) by simp
      with n subtree_child [OF Suc.prems(1) n] w2(2)
      show "entry_name n \<and> subtree_ok (nodes w2) (join p n) \<and> nodes w2 (join p n) \<noteq> None \<and>
          card (entries (nodes w2) (join p n)) \<le> fuel"
        by (simp add: children_def)
    qed (use Suc.IH s w2(3) in auto)
    then obtain w3 where w3: "for_each (\<lambda>n. if n \<noteq> ''.'' \<and> n \<noteq> ''..'' then remove_resolved ops fuel (join p n) else io_ok ())
        (map fst es) w2 = (Ok (), w3)" "nodes w3 = cut_children (nodes w) p (children (nodes w) p)"
      using w2(2,4) by auto
    have "nodes w3 p = Some Folder" "children (nodes w3) p = {}"
      using w3(2) True not_below_child [OF s] by (auto simp: cut_children_def children_def)
    then obtain w4 where w4: "so_remove_dir ops p w3 = (Ok (), w4)" "nodes w4 = (nodes w3)(p := None)"
      using server_remove_dir [OF srv] by blast
    then have "nodes w4 = cut (nodes w) p" using w3(2) cut_all_children [OF Suc.prems(1,2)] by simp
    then show ?thesis using w1 w2(1) w3(1) w4(1) by (simp add: removes_def io_bind_def io_map_err_def)
  qed
qed

lemma remove_removes:
  assumes "removing_server ops nodes" "resolve ops path w = (Ok p, w1)" "p \<noteq> ''/''"
    and "tree_ok (nodes w1)" "nodes w1 p \<noteq> None" "card (dom (nodes w1)) \<le> fuel"
  shows "\<exists>w'. remove ops fuel path w = (Ok (), w') \<and> nodes w' = cut (nodes w1) p"
proof -
  have "solid p" using tree_solid [OF assms(4,5)] assms(3) by simp
  note sub = tree_subtree [OF assms(4) this]
  have "card (entries (nodes w1) p) \<le> card (dom (nodes w1))"
    using assms(4) by (intro card_mono) (auto simp: tree_ok_def entries_def)
  with assms(6) have "card (entries (nodes w1) p) \<le> fuel" by simp
  from remove_resolved_removes [OF assms(1) sub assms(5) this] show ?thesis
    using assms(2,3) by (auto simp: remove_def removes_def io_bind_def io_map_err_def)
qed

text \<open>
  C22: deleting deletes exactly a subtree. On a server whose entries form a tree and that carries out
  what it is asked for, a delete removes the path the server resolves the request to (its
  canonical form) when that exists and is not the root: afterwards nothing is left at or below
  that path, links in it removed as links, while everything else is as it was, also what those
  links point to. Fuel for the number of entries is enough.
\<close>

theorem remove_deletes_exactly_the_subtree:
  assumes "removing_server ops nodes" "resolve ops path w = (Ok p, w1)" "p \<noteq> ''/''"
    and "tree_ok (nodes w1)" "nodes w1 p \<noteq> None" "card (dom (nodes w1)) \<le> fuel"
  shows "\<exists>w'. remove ops fuel path w = (Ok (), w') \<and> (\<forall>q. nodes w' q = (if below p q then None else nodes w1 q))"
  using remove_removes [OF assms] by (auto simp: cut_def)

text \<open>
  C31: the link that is deleted is followed. The request is resolved before it is looked at, and a
  server resolves a link to its target: then deleting a link deletes the target, a folder with
  everything in it, and leaves the link.
\<close>

theorem deleting_a_link_deletes_its_target:
  assumes "removing_server ops nodes" "nodes w1 path = Some (Link target)"
    and "resolve ops path w = (Ok target, w1)" "nodes w1 target \<noteq> None" "target \<noteq> ''/''" "\<not> below target path"
    and "tree_ok (nodes w1)" "card (dom (nodes w1)) \<le> fuel"
  shows "\<exists>w'. remove ops fuel path w = (Ok (), w') \<and> nodes w' path = Some (Link target) \<and>
    (\<forall>q. below target q \<longrightarrow> nodes w' q = None)"
  using remove_removes [OF assms(1,3,5,7,4,8)] assms(2,6) by (auto simp: cut_def)

section \<open>Deleting ends\<close>

text \<open>
  The same server when it refuses what it likes: nothing a delete asks for adds an entry, only an
  entry is called a folder, and listings hold names.
\<close>

definition refusing_server :: "('fs, 'h) sftp_ops \<Rightarrow> ('fs \<Rightarrow> nodes) \<Rightarrow> bool" where
  "refusing_server ops nodes \<longleftrightarrow> lists_names ops \<and>
     (\<forall>p w m w'. so_symlink_metadata ops p w = (Ok m, w') \<longrightarrow> at_is_dir m \<longrightarrow> nodes w p \<noteq> None) \<and>
     (\<forall>p w. dom (nodes (snd (so_symlink_metadata ops p w))) \<subseteq> dom (nodes w)) \<and>
     (\<forall>p w. dom (nodes (snd (so_read_dir ops p w))) \<subseteq> dom (nodes w)) \<and>
     (\<forall>p w. dom (nodes (snd (so_remove_file ops p w))) \<subseteq> dom (nodes w)) \<and>
     (\<forall>p w. dom (nodes (snd (so_remove_dir ops p w))) \<subseteq> dom (nodes w))"

text \<open>A run over a server with entries in \<open>D\<close> only that does not give up for lack of fuel.\<close>

definition ends_within :: "('fs \<Rightarrow> nodes) \<Rightarrow> string set \<Rightarrow> ('fs, 'e option, 'a) io \<Rightarrow> bool" where
  "ends_within nodes D m \<longleftrightarrow>
     (\<forall>w. dom (nodes w) \<subseteq> D \<longrightarrow> fst (m w) \<noteq> Err None \<and> dom (nodes (snd (m w))) \<subseteq> D)"

lemma ends_call:
  "(\<And>w. dom (nodes (snd (m w))) \<subseteq> dom (nodes w)) \<Longrightarrow> ends_within nodes D (io_map_err (Some \<circ> f) m)"
  by (fastforce simp: ends_within_def io_map_err_def case_prod_beta map_err_def split: sum.splits)

lemma ends_ok: "ends_within nodes D (io_ok x)"
  by (simp add: ends_within_def)

lemma ends_bind:
  assumes "ends_within nodes D m" "\<And>x w w'. m w = (Ok x, w') \<Longrightarrow> dom (nodes w) \<subseteq> D \<Longrightarrow> ends_within nodes D (f x)"
  shows "ends_within nodes D (io_bind m f)"
  unfolding ends_within_def
proof (intro allI impI)
  fix w
  assume w: "dom (nodes w) \<subseteq> D"
  obtain r w' where m: "m w = (r, w')" by fastforce
  have "fst (m w) \<noteq> Err None \<and> dom (nodes (snd (m w))) \<subseteq> D" using assms(1) w by (simp add: ends_within_def)
  with m have r: "r \<noteq> Err None" "dom (nodes w') \<subseteq> D" by simp_all
  show "fst (io_bind m f w) \<noteq> Err None \<and> dom (nodes (snd (io_bind m f w))) \<subseteq> D"
  proof (cases r)
    case (Inl e)
    with m r show ?thesis by (simp add: io_bind_def)
  next
    case (Inr x)
    with m r assms(2) [of w x w'] w show ?thesis by (simp add: io_bind_def ends_within_def)
  qed
qed

lemma ends_for_each: "(\<And>x. x \<in> set xs \<Longrightarrow> ends_within nodes D (f x)) \<Longrightarrow> ends_within nodes D (for_each f xs)"
  by (induction xs) (auto intro: ends_bind ends_ok)

lemma remove_resolved_ends:
  assumes srv: "refusing_server ops nodes" and fin: "finite D"
  shows "solid p \<Longrightarrow> card {q \<in> D. below p q} < fuel \<Longrightarrow> ends_within nodes D (remove_resolved ops fuel p)"
proof (induction fuel arbitrary: p)
  case (Suc fuel)
  have calls: "ends_within nodes D (io_map_err (Some \<circ> sftp_error) (so_symlink_metadata ops p))"
    "ends_within nodes D (io_map_err (Some \<circ> sftp_error) (so_read_dir ops p))"
    "ends_within nodes D (io_map_err (Some \<circ> sftp_error) (so_remove_file ops p))"
    "ends_within nodes D (io_map_err (Some \<circ> sftp_error) (so_remove_dir ops p))"
    by (rule ends_call; use srv in \<open>simp add: refusing_server_def\<close>)+
  have entry: "ends_within nodes D (remove_resolved ops fuel (join p n))" if "p \<in> D" "entry_name n" for n
  proof (rule Suc.IH)
    have "\<not> below (join p n) p" using not_below_child [OF Suc.prems(1) that(2)] .
    then have "p \<notin> {q \<in> D. below (join p n) q}" "p \<in> {q \<in> D. below p q}" using that by simp_all
    moreover have "{q \<in> D. below (join p n) q} \<subseteq> {q \<in> D. below p q}" using below_join by blast
    ultimately have "{q \<in> D. below (join p n) q} \<subset> {q \<in> D. below p q}" by blast
    then have "card {q \<in> D. below (join p n) q} < card {q \<in> D. below p q}" using fin by (intro psubset_card_mono) auto
    with Suc.prems(2) show "card {q \<in> D. below (join p n) q} < fuel" by simp
  qed (use that in simp)
  have folder: "p \<in> D" if "so_symlink_metadata ops p w = (Ok m, w')" "at_is_dir m" "dom (nodes w) \<subseteq> D" for w m w'
  proof -
    have "nodes w p \<noteq> None" using srv that(1,2) unfolding refusing_server_def by blast
    with that(3) show ?thesis by blast
  qed
  have names: "entry_name n" if "so_read_dir ops p w = (Ok es, w')" "n \<in> set (map fst es)" "n \<noteq> ''.''" "n \<noteq> ''..''" for w es w' n
    using srv listed_names [OF _ that] by (simp add: refusing_server_def)
  have loop: "ends_within nodes D (for_each (\<lambda>name. if name \<noteq> ''.'' \<and> name \<noteq> ''..'' then remove_resolved ops fuel (join p name)
      else io_ok ()) (map fst es))" if "p \<in> D" "so_read_dir ops p w = (Ok es, w')" for w es w'
    using entry [OF that(1)] names [OF that(2)] by (intro ends_for_each) (simp add: ends_ok)
  show ?case
    by (auto intro!: ends_bind calls loop elim: folder)
qed simp

text \<open>
  C21: deleting always ends. On a server whose entries are finitely many, fuel above their number is
  enough for a delete to come back, with success or an error of the server, whatever the server
  refuses on the way.
\<close>

theorem deleting_always_ends:
  assumes "refusing_server ops nodes" "resolve ops path w = (Ok p, w1)" "p = ''/'' \<or> solid p"
    and "finite (dom (nodes w1))" "card (dom (nodes w1)) < fuel"
  shows "fst (remove ops fuel path w) \<noteq> Err None"
proof (cases "p = ''/''")
  case True
  with assms(2) show ?thesis by (simp add: remove_def io_bind_def io_map_err_def)
next
  case False
  have "card {q \<in> dom (nodes w1). below p q} \<le> card (dom (nodes w1))" using assms(4) by (intro card_mono) auto
  with assms(3,5) False have "ends_within nodes (dom (nodes w1)) (remove_resolved ops fuel p)"
    by (intro remove_resolved_ends [OF assms(1,4)]) auto
  with assms(2) False show ?thesis by (auto simp: remove_def io_bind_def io_map_err_def ends_within_def)
qed

section \<open>Copying\<close>

definition paste :: "nodes \<Rightarrow> string \<Rightarrow> string \<Rightarrow> nodes" where
  "paste t src dst = (\<lambda>q. if below dst q then t (src @ drop (length dst) q) else t q)"

definition paste_children :: "nodes \<Rightarrow> string \<Rightarrow> string \<Rightarrow> string set \<Rightarrow> nodes" where
  "paste_children t src dst ns =
     (\<lambda>q. if q = dst then Some Folder
          else if \<exists>n \<in> ns. below (join dst n) q then t (src @ drop (length dst) q) else t q)"

text \<open>
  When a copy can succeed: nothing is at the destination, its folder exists, neither path is below
  the other, there are no links to follow, and no path on the way is changed by trimming.
\<close>

definition copyable :: "nodes \<Rightarrow> string \<Rightarrow> string \<Rightarrow> bool" where
  "copyable t src dst \<longleftrightarrow> subtree_ok t src \<and> t src \<noteq> None \<and>
     (\<forall>q target. below src q \<longrightarrow> t q \<noteq> Some (Link target)) \<and>
     (\<forall>q. below dst q \<longrightarrow> t q = None) \<and> \<not> below src dst \<and> \<not> below dst src \<and>
     (\<exists>d n. dst = join d n \<and> entry_name n \<and> t d = Some Folder) \<and>
     (\<forall>r. t (src @ r) \<noteq> None \<longrightarrow> below src (src @ r) \<longrightarrow> remote_path (src @ r) = src @ r \<and> remote_path (dst @ r) = dst @ r)"

lemma copyable_solid: "copyable t src dst \<Longrightarrow> solid src \<and> solid dst"
  by (auto simp: copyable_def subtree_ok_def)

lemma copyable_paths:
  assumes "copyable t src dst"
  shows "remote_path src = src" "remote_path dst = dst"
  using assms by (auto simp: copyable_def dest: spec [of _ "[]"])

lemma copyable_disjoint:
  assumes "copyable t src dst" "below src q"
  shows "\<not> below dst q"
  using below_comparable [of src dst q] copyable_solid [OF assms(1)] assms by (auto simp: copyable_def)

lemma below_shift: "solid a \<Longrightarrow> solid b \<Longrightarrow> entry_name n \<Longrightarrow> below (join a n) (a @ r) \<longleftrightarrow> below (join b n) (b @ r)"
  by (simp only: below_prefix solid_join) (simp add: join_solid)

lemma apart_child:
  assumes "solid a" "solid b" "entry_name n" "\<not> below a b"
  shows "\<not> below (join a n) (join b n)"
proof
  assume "below (join a n) (join b n)"
  moreover have "join a n \<noteq> join b n" using join_eq [of a n b n] assms by auto
  ultimately have "below (join a n) b" using assms by (intro below_parent [of _ n b]) auto
  with assms(4) show False by (auto dest: below_join)
qed

lemma drop_below: "solid p \<Longrightarrow> below p q \<Longrightarrow> q = p @ drop (length p) q"
  by (auto simp: below_def join_solid prefix_def)

lemma paste_children_src:
  assumes "copyable t src dst" "below src q"
  shows "paste_children t src dst ns q = t q"
proof -
  have "\<not> below dst q" by (rule copyable_disjoint [OF assms])
  then show ?thesis by (auto simp: paste_children_def dest: below_join)
qed

lemma paste_all_children:
  assumes ok: "copyable t src dst" and folder: "t src = Some Folder"
  shows "paste_children t src dst (children t src) = paste t src dst"
proof
  fix q
  have s: "solid src" "solid dst" using copyable_solid [OF ok] by auto
  show "paste_children t src dst (children t src) q = paste t src dst q"
  proof (cases "below dst q \<and> q \<noteq> dst")
    case True
    define r where "r = drop (length dst) q"
    have q: "q = dst @ r" using drop_below [OF s(2)] True by (simp add: r_def)
    have b: "below src (src @ r)" using True q s by (auto simp: below_prefix)
    show ?thesis
    proof (cases "\<exists>n \<in> children t src. below (join dst n) q")
      case False
      have "t (src @ r) = None"
      proof (rule ccontr)
        assume "t (src @ r) \<noteq> None"
        moreover have "src @ r \<noteq> src" using True q by auto
        ultimately obtain n where n: "n \<in> children t src" "below (join src n) (src @ r)"
          using subtree_below [of t src "src @ r"] ok b by (auto simp: copyable_def)
        then have "below (join dst n) (dst @ r)" using below_shift [OF s, of n r] by (simp add: children_def)
        with n(1) q False show False by blast
      qed
      moreover have "t q = None" using ok True by (simp add: copyable_def)
      ultimately show ?thesis using True False by (simp add: paste_children_def paste_def r_def)
    qed (use True in \<open>simp add: paste_children_def paste_def\<close>)
  qed (use folder in \<open>auto simp: paste_children_def paste_def dest: below_join\<close>)
qed

text \<open>Each child can be copied in turn, and pasting it adds it to what has been copied.\<close>

lemma copyable_child:
  assumes ok: "copyable t src dst" and n: "n \<in> children t src" "n \<notin> ns" and ns: "ns \<subseteq> children t src"
  shows "copyable (paste_children t src dst ns) (join src n) (join dst n)"
proof -
  let ?t = "paste_children t src dst ns"
  have s: "solid src" "solid dst" using copyable_solid [OF ok] by auto
  have name: "entry_name n" using n(1) by (simp add: children_def)
  have src: "?t q = t q" if "below (join src n) q" for q
    using paste_children_src [OF ok] below_join [OF that] by simp
  have apart: "\<not> below (join src n) (join dst n)" "\<not> below (join dst n) (join src n)"
    using apart_child [of src dst n] apart_child [of dst src n] name s ok by (simp_all add: copyable_def)
  have "?t q = None" if q: "below (join dst n) q" for q
  proof -
    have "\<not> below (join dst m) q" if "m \<in> ns" for m
      using below_siblings [OF s(2), of m n q] that ns n q name by (auto simp: children_def)
    moreover have "q \<noteq> dst" using not_below_child [OF s(2) name] q by auto
    ultimately show ?thesis using ok below_join [OF q] by (auto simp: paste_children_def copyable_def)
  qed
  moreover have "subtree_ok ?t (join src n)"
    using subtree_cong [OF subtree_child src] ok n(1) by (simp add: copyable_def)
  moreover have "remote_path (join src n @ r) = join src n @ r \<and> remote_path (join dst n @ r) = join dst n @ r"
    if "?t (join src n @ r) \<noteq> None" "below (join src n) (join src n @ r)" for r
    using that src [OF that(2)] below_join [OF that(2)] ok s
    by (simp add: copyable_def join_solid)
  moreover have "?t (join src n) \<noteq> None" using src [of "join src n"] n(1) by (simp add: children_def)
  moreover have "?t q \<noteq> Some (Link target)" if "below (join src n) q" for q target
    using src [OF that] below_join [OF that] ok by (simp add: copyable_def)
  moreover have "?t dst = Some Folder" by (simp add: paste_children_def)
  ultimately show ?thesis unfolding copyable_def using apart name by blast
qed

lemma paste_next:
  assumes ok: "copyable t src dst" and n: "n \<in> children t src" and ns: "ns \<subseteq> children t src"
  shows "paste (paste_children t src dst ns) (join src n) (join dst n) = paste_children t src dst (insert n ns)"
proof
  fix q
  let ?t = "paste_children t src dst ns"
  have s: "solid src" "solid dst" using copyable_solid [OF ok] by auto
  have name: "entry_name n" using n by (simp add: children_def)
  show "paste ?t (join src n) (join dst n) q = paste_children t src dst (insert n ns) q"
  proof (cases "below (join dst n) q")
    case True
    define r where "r = drop (length (join dst n)) q"
    have q: "q = join dst n @ r" using drop_below [of "join dst n" q] name True by (simp add: r_def)
    have "below (join src n) (join src n @ r)" using True q s name by (simp add: below_prefix)
    then have "?t (join src n @ r) = t (join src n @ r)" using paste_children_src [OF ok] below_join by blast
    moreover have "q \<noteq> dst" using True not_below_child [OF s(2) name] by auto
    moreover have "src @ drop (length dst) q = join src n @ r" unfolding q using s by (simp add: join_solid)
    moreover have "paste ?t (join src n) (join dst n) q = ?t (join src n @ r)" using True by (simp add: paste_def r_def)
    ultimately show ?thesis using True by (simp add: paste_children_def)
  qed (auto simp: paste_def paste_children_def)
qed

lemma server_meta:
  "copying_server ops nodes at \<Longrightarrow> nodes w p = Some x \<Longrightarrow> (\<And>target. x \<noteq> Link target) \<Longrightarrow>
     \<exists>m w'. so_metadata ops p w = (Ok m, w') \<and> nodes w' = nodes w \<and> (at_is_dir m \<longleftrightarrow> x = Folder)"
  by (simp add: copying_server_def)

lemma server_create_dir:
  "copying_server ops nodes at \<Longrightarrow> nodes w d = Some Folder \<Longrightarrow> entry_name n \<Longrightarrow> nodes w (join d n) = None \<Longrightarrow>
     \<exists>w'. so_create_dir ops (join d n) w = (Ok (), w') \<and> nodes w' = (nodes w)(join d n \<mapsto> Folder)"
  by (simp add: copying_server_def)

lemma server_open_read:
  "copying_server ops nodes at \<Longrightarrow> nodes w p = Some (File c) \<Longrightarrow>
     \<exists>h w'. so_open ops p {F_READ} w = (Ok h, w') \<and> nodes w' = nodes w \<and> at w' h = Some (p, 0)"
  by (simp add: copying_server_def)

lemma server_create_file:
  "copying_server ops nodes at \<Longrightarrow> nodes w d = Some Folder \<Longrightarrow> entry_name n \<Longrightarrow> nodes w (join d n) = None \<Longrightarrow>
     \<exists>h w'. so_open ops (join d n) {F_WRITE, F_CREATE, F_EXCLUDE} w = (Ok h, w') \<and>
       nodes w' = (nodes w)(join d n \<mapsto> File []) \<and> at w h = None \<and> at w' = (at w)(h \<mapsto> (join d n, 0))"
  by (simp add: copying_server_def)

lemma server_reads:
  "copying_server ops nodes at \<Longrightarrow> at w h = Some (p, k) \<Longrightarrow> nodes w p = Some (File c) \<Longrightarrow>
     \<exists>cs. so_reads ops h w = map Ok cs \<and> [] \<notin> set cs \<and> concat cs = drop k c"
  by (simp add: copying_server_def)

lemma server_write:
  assumes "copying_server ops nodes at" "at w h = Some (p, length c)" "nodes w p = Some (File c)"
  shows "\<exists>w'. so_write_all ops h d w = (Ok (), w') \<and> at w' h = Some (p, length (c @ d)) \<and>
    nodes w' = (nodes w)(p \<mapsto> File (c @ d))"
proof -
  have "\<exists>w'. so_write_all ops h d w = (Ok (), w') \<and> at w' h = Some (p, length c + length d) \<and>
      nodes w' = (nodes w)(p \<mapsto> File (take (length c) c @ d @ drop (length c + length d) c))"
    using assms unfolding copying_server_def by blast
  then show ?thesis by simp
qed

lemma server_flush:
  "copying_server ops nodes at \<Longrightarrow> at w h \<noteq> None \<Longrightarrow>
     \<exists>w'. so_flush ops h w = (Ok (), w') \<and> nodes w' = nodes w \<and> at w' = at w"
  by (simp add: copying_server_def)

lemma server_close_handle:
  "copying_server ops nodes at \<Longrightarrow> at w h \<noteq> None \<Longrightarrow> \<exists>w'. so_shutdown ops h w = (Ok (), w') \<and> nodes w' = nodes w"
  by (simp add: copying_server_def)

lemma server_keep_mode:
  assumes "copying_server ops nodes at" "nodes w p \<noteq> None" "remote_path p = p"
  shows "\<exists>w'. keep_mode ops p mode w = (Ok (), w') \<and> nodes w' = nodes w"
proof (cases mode)
  case (Some m)
  have "\<exists>w'. so_set_permissions ops p (m AND 0xFFF) w = (Ok (), w') \<and> nodes w' = nodes w"
    using assms(1,2) by (simp add: copying_server_def)
  then show ?thesis using Some assms(3) by (auto simp: keep_mode_def chmod_def io_map_err_def)
qed (simp add: keep_mode_def)

lemma io_copy_appends:
  assumes srv: "copying_server ops nodes at"
  shows "at w h = Some (p, length c) \<Longrightarrow> nodes w p = Some (File c) \<Longrightarrow> [] \<notin> set cs \<Longrightarrow>
    \<exists>w'. io_copy ops h (map Ok cs) w = (Ok (), w') \<and> nodes w' = (nodes w)(p \<mapsto> File (c @ concat cs)) \<and> at w' h \<noteq> None"
proof (induction cs arbitrary: c w)
  case Nil
  then show ?case using server_flush [OF srv, of w h] by (auto simp: fun_upd_idem)
next
  case (Cons d cs)
  obtain w1 where w1: "so_write_all ops h d w = (Ok (), w1)" "at w1 h = Some (p, length (c @ d))"
    "nodes w1 = (nodes w)(p \<mapsto> File (c @ d))"
    using server_write [OF srv Cons.prems(1,2)] by blast
  then obtain w2 where w2: "io_copy ops h (map Ok cs) w1 = (Ok (), w2)" "nodes w2 = (nodes w)(p \<mapsto> File (c @ d @ concat cs))"
    "at w2 h \<noteq> None"
    using Cons.IH [OF w1(2)] Cons.prems(3) by (simp add: fun_upd_upd del: fun_upd_apply) (metis fun_upd_same fun_upd_upd)
  with w1(1) Cons.prems(3) show ?case by (auto simp: io_bind_def fun_upd_def)
qed

definition copies :: "('fs \<Rightarrow> nodes) \<Rightarrow> ('fs, portix_error option, unit) io \<Rightarrow> string \<Rightarrow> string \<Rightarrow> 'fs \<Rightarrow> bool" where
  "copies nodes m src dst w \<longleftrightarrow> (\<exists>w'. m w = (Ok (), w') \<and> nodes w' = paste (nodes w) src dst)"

lemma copy_children:
  assumes ok: "copyable t src dst"
    and IH: "\<And>n w. n \<in> children t src \<Longrightarrow> copyable (nodes w) (join src n) (join dst n) \<Longrightarrow>
      entries (nodes w) (join src n) = entries t (join src n) \<Longrightarrow> copies nodes (cp (join src n) (join dst n)) (join src n) (join dst n) w"
  shows "distinct ns \<Longrightarrow> set ns - {''.'', ''..''} \<subseteq> children t src - done \<Longrightarrow> done \<subseteq> children t src \<Longrightarrow>
    nodes w = paste_children t src dst done \<Longrightarrow>
    \<exists>w'. for_each (\<lambda>n. if n \<noteq> ''.'' \<and> n \<noteq> ''..'' then cp (join src n) (join dst n) else io_ok ()) ns w = (Ok (), w') \<and>
      nodes w' = paste_children t src dst (done \<union> (set ns - {''.'', ''..''}))"
proof (induction ns arbitrary: w "done")
  case Nil
  then show ?case by simp
next
  case (Cons n ns)
  show ?case
  proof (cases "n = ''.'' \<or> n = ''..''")
    case True
    have "set (n # ns) - {''.'', ''..''} = set ns - {''.'', ''..''}" using True by auto
    moreover have "\<exists>w'. for_each (\<lambda>n. if n \<noteq> ''.'' \<and> n \<noteq> ''..'' then cp (join src n) (join dst n) else io_ok ()) ns w =
        (Ok (), w') \<and> nodes w' = paste_children t src dst (done \<union> (set ns - {''.'', ''..''}))"
      by (rule Cons.IH) (use Cons.prems in auto)
    ultimately show ?thesis using True by (auto simp: io_bind_def)
  next
    case False
    then have n: "n \<in> children t src" "n \<notin> done" using Cons.prems(2) by auto
    have "entries (nodes w) (join src n) = entries t (join src n)"
      using paste_children_src [OF ok] Cons.prems(4) by (auto simp: entries_def dest: below_join)
    then have "copies nodes (cp (join src n) (join dst n)) (join src n) (join dst n) w"
      using copyable_child [OF ok n Cons.prems(3)] Cons.prems(4) by (intro IH [OF n(1)]) simp_all
    then obtain w1 where w1: "cp (join src n) (join dst n) w = (Ok (), w1)"
      "nodes w1 = paste (paste_children t src dst done) (join src n) (join dst n)"
      using Cons.prems(4) by (auto simp: copies_def)
    have "\<exists>w'. for_each (\<lambda>n. if n \<noteq> ''.'' \<and> n \<noteq> ''..'' then cp (join src n) (join dst n) else io_ok ()) ns w1 =
        (Ok (), w') \<and> nodes w' = paste_children t src dst (insert n done \<union> (set ns - {''.'', ''..''}))"
      by (rule Cons.IH) (use Cons.prems n paste_next [OF ok n(1) Cons.prems(3)] w1(2) in auto)
    moreover have "insert n done \<union> (set ns - {''.'', ''..''}) = done \<union> (set (n # ns) - {''.'', ''..''})" using False by auto
    ultimately show ?thesis using False w1(1) by (auto simp: io_bind_def)
  qed
qed

text \<open>A file: what is read from the source is what the new file holds.\<close>

lemma copy_file:
  assumes srv: "copying_server ops nodes at" and ok: "copyable (nodes w) src dst" and plain: "nodes w src = Some (File c)"
  shows "copies nodes (copy ops (Suc fuel) src dst) src dst w"
proof -
  note paths = copyable_paths [OF ok]
  obtain m w1 where w1: "so_metadata ops src w = (Ok m, w1)" "nodes w1 = nodes w" "\<not> at_is_dir m"
    using server_meta [OF srv plain] by auto
  obtain h w2 where w2: "so_open ops src {F_READ} w1 = (Ok h, w2)" "nodes w2 = nodes w" "at w2 h = Some (src, 0)"
    using server_open_read [OF srv, of w1 src c] plain w1(2) by auto
  obtain d n where d: "dst = join d n" "entry_name n" "nodes w d = Some Folder" using ok by (auto simp: copyable_def)
  have "nodes w dst = None" using ok by (simp add: copyable_def)
  then obtain g w3 where w3: "so_open ops dst {F_WRITE, F_CREATE, F_EXCLUDE} w2 = (Ok g, w3)"
    "nodes w3 = (nodes w)(dst \<mapsto> File [])" "at w2 g = None" "at w3 = (at w2)(g \<mapsto> (dst, 0))"
    using server_create_file [OF srv, of w2 d n] d w2(2) by auto
  have "src \<noteq> dst" using plain \<open>nodes w dst = None\<close> by auto
  then have "at w3 h = Some (src, 0)" "nodes w3 src = Some (File c)" using w2(3) w3(2,3,4) plain by auto
  then obtain cs where cs: "so_reads ops h w3 = map Ok cs" "[] \<notin> set cs" "concat cs = c"
    using server_reads [OF srv, of w3 h src 0 c] by auto
  obtain w4 where w4: "io_copy ops g (map Ok cs) w3 = (Ok (), w4)" "nodes w4 = (nodes w)(dst \<mapsto> File c)" "at w4 g \<noteq> None"
    using io_copy_appends [OF srv, of w3 g dst "[]" cs] w3(2,4) cs by auto
  obtain w5 where w5: "so_shutdown ops g w4 = (Ok (), w5)" "nodes w5 = (nodes w)(dst \<mapsto> File c)"
    using server_close_handle [OF srv w4(3)] w4(2) by auto
  obtain w6 where w6: "keep_mode ops dst (at_permissions m) w5 = (Ok (), w6)" "nodes w6 = (nodes w)(dst \<mapsto> File c)"
    using server_keep_mode [OF srv, of w5 dst "at_permissions m"] w5(2) paths by auto
  have "nodes w6 q = paste (nodes w) src dst q" for q
  proof (cases "below dst q \<and> q \<noteq> dst")
    case True
    define r where "r = drop (length dst) q"
    have q: "q = dst @ r" "nodes w q = None"
      using True drop_below [of dst q] copyable_solid [OF ok] ok by (auto simp: copyable_def r_def)
    then have "below src (src @ r)" "src @ r \<noteq> src" using True copyable_solid [OF ok] by (auto simp: below_prefix)
    then have "nodes w (src @ r) = None"
      using subtree_below [of "nodes w" src "src @ r"] ok plain by (cases "nodes w (src @ r)") (auto simp: copyable_def)
    with True q(2) show ?thesis using w6(2) by (simp add: paste_def r_def)
  qed (use w6(2) plain in \<open>auto simp: paste_def\<close>)
  then have "nodes w6 = paste (nodes w) src dst" by blast
  then show ?thesis
    using w1 w2(1) w3(1) cs(1) w4(1) w5(1) w6(1) paths by (simp add: copies_def io_bind_def io_map_err_def Let_def)
qed

lemma copy_copies:
  assumes srv: "copying_server ops nodes at"
  shows "copyable (nodes w) src dst \<Longrightarrow> card (entries (nodes w) src) \<le> fuel \<Longrightarrow> copies nodes (copy ops fuel src dst) src dst w"
proof (induction fuel arbitrary: src dst w)
  case 0
  then have "src \<in> entries (nodes w) src" "finite (entries (nodes w) src)"
    by (auto simp: entries_def copyable_def subtree_ok_def)
  with 0 show ?case by simp
next
  case (Suc fuel)
  note ok = Suc.prems(1)
  note paths = copyable_paths [OF ok]
  show ?case
  proof (cases "nodes w src = Some Folder")
    case False
    then obtain c where "nodes w src = Some (File c)"
      using ok by (cases "nodes w src"; cases "the (nodes w src)") (auto simp: copyable_def)
    then show ?thesis by (rule copy_file [OF srv ok])
  next
    case True
    obtain m w1 where w1: "so_metadata ops src w = (Ok m, w1)" "nodes w1 = nodes w" "at_is_dir m"
      using server_meta [OF srv True] by auto
    obtain d n where d: "dst = join d n" "entry_name n" "nodes w d = Some Folder" using ok by (auto simp: copyable_def)
    have "nodes w dst = None" using ok by (simp add: copyable_def)
    then obtain w2 where w2: "so_create_dir ops dst w1 = (Ok (), w2)" "nodes w2 = (nodes w)(dst \<mapsto> Folder)"
      using server_create_dir [OF srv, of w1 d n] d w1(2) by auto
    have same: "nodes w2 = paste_children (nodes w) src dst {}" using w2(2) by (auto simp: paste_children_def)
    have kids: "children (nodes w2) src = children (nodes w) src" "nodes w2 src = Some Folder"
      using paste_children_src [OF ok, of _ "{}"] copyable_solid [OF ok] True
      by (auto simp: same children_def)
    obtain es w3 where w3: "so_read_dir ops src w2 = (Ok es, w3)" "nodes w3 = nodes w2" "distinct (map fst es)"
      "set (map fst es) - {''.'', ''..''} = children (nodes w) src"
      using server_read_dir [of ops nodes w2 src] srv kids by (auto simp: copying_server_def)
    have "\<exists>w'. for_each (\<lambda>n. if n \<noteq> ''.'' \<and> n \<noteq> ''..'' then copy ops fuel (join src n) (join dst n) else io_ok ())
        (map fst es) w3 = (Ok (), w') \<and>
      nodes w' = paste_children (nodes w) src dst ({} \<union> (set (map fst es) - {''.'', ''..''}))"
    proof (rule copy_children [OF ok])
      fix n v
      assume n: "n \<in> children (nodes w) src" and c: "copyable (nodes v) (join src n) (join dst n)"
        and e: "entries (nodes v) (join src n) = entries (nodes w) (join src n)"
      have "card (entries (nodes w) (join src n)) \<le> fuel"
        using card_child [of "nodes w" src n] ok n Suc.prems(2) by (simp add: copyable_def)
      then show "copies nodes (copy ops fuel (join src n) (join dst n)) (join src n) (join dst n) v"
        using c e by (intro Suc.IH) simp_all
    qed (use w3 same in auto)
    then obtain w4 where w4: "for_each (\<lambda>n. if n \<noteq> ''.'' \<and> n \<noteq> ''..'' then copy ops fuel (join src n) (join dst n) else io_ok ())
        (map fst es) w3 = (Ok (), w4)" "nodes w4 = paste (nodes w) src dst"
      using paste_all_children [OF ok True] w3(4) by auto
    have "nodes w4 dst \<noteq> None" using w4(2) True by (simp add: paste_def)
    then obtain w5 where w5: "keep_mode ops dst (at_permissions m) w4 = (Ok (), w5)" "nodes w5 = nodes w4"
      using server_keep_mode [OF srv] paths by blast
    show ?thesis
      using w1 w2(1) w3(1) w4 w5 paths by (simp add: copies_def io_bind_def io_map_err_def Let_def)
  qed
qed

text \<open>
  C23: copying reproduces the source. On a server whose entries form a tree and that carries out what it
  is asked for, copying an existing path to a free name in an existing folder that is not inside it
  succeeds; afterwards the destination holds, at every depth, the same folders and files with
  the same content as the source, and nothing else has changed. This is for sources without
  symbolic links and with no path that trimming changes; fuel for the number of entries is
  enough.
\<close>

theorem copy_reproduces_the_subtree:
  assumes srv: "copying_server ops nodes at" and tree: "tree_ok (nodes w)" "card (dom (nodes w)) \<le> fuel"
    and src: "nodes w src \<noteq> None" "src \<noteq> ''/''" "\<forall>q target. below src q \<longrightarrow> nodes w q \<noteq> Some (Link target)"
    and dst: "dst = join d n" "entry_name n" "nodes w d = Some Folder" "nodes w dst = None" "\<not> below src dst"
    and plain: "\<forall>r. nodes w (src @ r) \<noteq> None \<longrightarrow> remote_path (src @ r) = src @ r \<and> remote_path (dst @ r) = dst @ r"
  shows "\<exists>w'. copy ops fuel src dst w = (Ok (), w') \<and>
    (\<forall>q. nodes w' q = (if below dst q then nodes w (src @ drop (length dst) q) else nodes w q))"
proof -
  have s: "solid src" "solid dst" using tree_solid [OF tree(1) src(1)] src(2) dst(1,2) by auto
  have free: "nodes w q = None" if b: "below dst q" for q
  proof (rule ccontr)
    assume "nodes w q \<noteq> None"
    moreover from this have "q \<noteq> dst" using dst(4) by auto
    ultimately obtain m where "m \<in> children (nodes w) dst" using tree_child [OF tree(1) s(2) _ b] by blast
    with tree_folder [OF tree(1) s(2)] dst(4) show False by auto
  qed
  then have "\<not> below dst src" using src(1) by auto
  then have ok: "copyable (nodes w) src dst"
    using tree_subtree [OF tree(1) s(1)] src dst plain free unfolding copyable_def by blast
  have "card (entries (nodes w) src) \<le> card (dom (nodes w))"
    using tree(1) by (intro card_mono) (auto simp: tree_ok_def entries_def)
  with tree(2) have "card (entries (nodes w) src) \<le> fuel" by simp
  from copy_copies [OF srv ok this] show ?thesis by (auto simp: copies_def paste_def)
qed

section \<open>Copying a folder into itself\<close>

text \<open>An absolute path whose last character is neither white space nor part of a longer one.\<close>

definition plain_path :: "string \<Rightarrow> bool" where
  "plain_path p \<longleftrightarrow> solid p \<and> hd p = CHR ''/'' \<and> \<not> ascii_ws (last p) \<and> last p < CHR 0x80"

lemma remote_path_plain:
  assumes "plain_path p"
  shows "remote_path p = p"
proof -
  obtain s where p: "p = CHR ''/'' # s" using assms by (cases p) (auto simp: plain_path_def solid_def)
  obtain v c where v: "p = v @ [c]" "\<not> ascii_ws c" "c < CHR 0x80"
    using assms by (cases p rule: rev_cases) (auto simp: plain_path_def solid_def)
  have start: "trim_start p = p" unfolding p by (simp add: ascii_ws_def ws2_def ws3_def split: list.splits)
  have "\<not> ws2 a c" "\<not> ws3 a b c" for a b using v(3) by (auto simp: ws2_def ws3_def less_char_def)
  then have "trim_back (c # rev v) = c # rev v" using v(2) by (simp split: list.splits)
  then have "trim p = p" unfolding trim_def start trim_end_def by (simp add: v(1) del: trim_back.simps)
  then show ?thesis by (simp add: remote_path_def p)
qed

lemma plain_child: "plain_path p \<Longrightarrow> entry_name n \<Longrightarrow> \<not> ascii_ws (last n) \<Longrightarrow> last n < CHR 0x80 \<Longrightarrow> plain_path (join p n)"
  using solid_join [of n p] by (auto simp: plain_path_def join_solid entry_name_def solid_def)

lemma for_each_stuck:
  assumes "fst (f n w) = Err e" "\<And>m. m \<in> set ns \<Longrightarrow> m \<noteq> n \<Longrightarrow> f m = io_ok ()" "n \<in> set ns"
  shows "fst (for_each f ns w) = Err e"
  using assms(2,3)
proof (induction ns)
  case (Cons m ns)
  show ?case
  proof (cases "m = n")
    case True
    with assms(1) show ?thesis by (cases "f n w") (auto simp: io_bind_def)
  next
    case False
    with Cons show ?thesis by (simp add: io_bind_def)
  qed
qed simp

text \<open>
  C39: copying a folder into itself does not end: a copy of an empty folder to a name inside it finds in
  the folder the copy it has just made and goes on copying that, for ever deeper; no fuel is
  enough.
\<close>

theorem copy_into_itself_never_ends:
  assumes srv: "copying_server ops nodes at" and name: "entry_name n" "\<not> ascii_ws (last n)" "last n < CHR 0x80"
    and "plain_path src" "nodes w src = Some Folder" "\<forall>q. below src q \<longrightarrow> q \<noteq> src \<longrightarrow> nodes w q = None"
  shows "fst (copy ops fuel src (join src n) w) = Err None"
  using assms(5-)
proof (induction fuel arbitrary: src w)
  case (Suc fuel)
  have s: "solid src" using Suc.prems(1) by (simp add: plain_path_def)
  note child = plain_child [OF Suc.prems(1) name]
  note paths = remote_path_plain [OF Suc.prems(1)] remote_path_plain [OF child]
  obtain m w1 where w1: "so_metadata ops src w = (Ok m, w1)" "nodes w1 = nodes w" "at_is_dir m"
    using server_meta [OF srv Suc.prems(2)] by auto
  have "nodes w (join src n) = None" using Suc.prems(3) s by simp
  then obtain w2 where w2: "so_create_dir ops (join src n) w1 = (Ok (), w2)" "nodes w2 = (nodes w)(join src n \<mapsto> Folder)"
    using server_create_dir [OF srv, of w1 src n] Suc.prems(2) name(1) w1(2) by auto
  have "nodes w2 src = Some Folder" using w2(2) Suc.prems(2) s by simp
  then obtain es w3 where w3: "so_read_dir ops src w2 = (Ok es, w3)" "nodes w3 = nodes w2"
    "set (map fst es) - {''.'', ''..''} = children (nodes w2) src"
    using server_read_dir [of ops nodes w2 src] srv by (auto simp: copying_server_def)
  have "children (nodes w2) src = {n}" using w2(2) Suc.prems(3) s name(1) by (auto simp: children_def)
  with w3(3) have ns: "n \<in> set (map fst es)" "\<And>k. k \<in> set (map fst es) \<Longrightarrow> k \<noteq> n \<Longrightarrow> k = ''.'' \<or> k = ''..''" by auto
  have dots: "n \<noteq> ''.''" "n \<noteq> ''..''" using name(1) by (simp_all add: entry_name_def)
  have "nodes w3 (join src n) = Some Folder" using w3(2) w2(2) by simp
  moreover have "\<forall>q. below (join src n) q \<longrightarrow> q \<noteq> join src n \<longrightarrow> nodes w3 q = None"
    using w3(2) w2(2) Suc.prems(3) not_below_child [OF s name(1)] by (auto dest: below_join)
  ultimately have "fst (copy ops fuel (join src n) (join (join src n) n) w3) = Err None"
    using child by (intro Suc.IH)
  then have "fst (for_each (\<lambda>k. if k \<noteq> ''.'' \<and> k \<noteq> ''..'' then copy ops fuel (join src k) (join (join src n) k) else io_ok ())
      (map fst es) w3) = Err None"
    using ns dots by (intro for_each_stuck [of _ n]) auto
  then show ?case
    using w1 w2(1) w3(1) paths by (auto simp: io_bind_def io_map_err_def Let_def split: prod.splits sum.splits)
qed simp

section \<open>Witnesses\<close>

text \<open>A server that keeps the contracts: a table of entries and a list of handles.\<close>

record tree_server =
  ts_table :: "(string \<times> node) list"
  ts_handles :: "(string \<times> nat) list"

definition ts_nodes :: "tree_server \<Rightarrow> nodes" where
  "ts_nodes w = map_of (ts_table w)"

definition ts_at :: "tree_server \<Rightarrow> nat \<rightharpoonup> string \<times> nat" where
  "ts_at w h = (if h < length (ts_handles w) then Some (ts_handles w ! h) else None)"

definition ts_put :: "string \<Rightarrow> node \<Rightarrow> tree_server \<Rightarrow> tree_server" where
  "ts_put p x w = w\<lparr>ts_table := AList.update p x (ts_table w)\<rparr>"

definition ts_drop :: "string \<Rightarrow> tree_server \<Rightarrow> tree_server" where
  "ts_drop p w = w\<lparr>ts_table := AList.delete p (ts_table w)\<rparr>"

definition ts_meta :: "node \<Rightarrow> file_attributes" where
  "ts_meta x =
     \<lparr>at_size = None, at_mtime = None, at_permissions = Some 0x1ED, at_is_dir = (x = Folder),
      at_is_symlink = (case x of Link _ \<Rightarrow> True | _ \<Rightarrow> False)\<rparr>"

definition ts_names :: "string \<Rightarrow> tree_server \<Rightarrow> string list" where
  "ts_names p w =
     filter entry_name (map (drop (length (join p []))) (filter (prefix (join p [])) (remdups (map fst (ts_table w)))))"

definition ts_lookup :: "string \<Rightarrow> (tree_server, string, file_attributes) io" where
  "ts_lookup p w = (case ts_nodes w p of Some x \<Rightarrow> (Ok (ts_meta x), w) | None \<Rightarrow> (Err ''no such file'', w))"

definition ts_read_dir :: "string \<Rightarrow> (tree_server, string, (string \<times> file_attributes) list) io" where
  "ts_read_dir p w = (Ok (map (\<lambda>n. (n, ts_meta Folder)) (''.'' # ''..'' # ts_names p w)), w)"

definition ts_open :: "string \<Rightarrow> open_flag set \<Rightarrow> (tree_server, string, nat) io" where
  "ts_open p flags w =
     (let w' = (if F_CREATE \<in> flags then ts_put p (File []) w else w)
      in if F_EXCLUDE \<in> flags \<and> ts_nodes w p \<noteq> None then (Err ''file exists'', w)
         else (Ok (length (ts_handles w)), w'\<lparr>ts_handles := ts_handles w @ [(p, 0)]\<rparr>))"

definition ts_reads :: "nat \<Rightarrow> tree_server \<Rightarrow> (string, bytes) result list" where
  "ts_reads h w =
     (case ts_at w h of
        Some (p, k) \<Rightarrow> (case ts_nodes w p of
            Some (File c) \<Rightarrow> if drop k c = [] then [] else [Ok (drop k c)]
          | _ \<Rightarrow> [Err ''not a file''])
      | None \<Rightarrow> [Err ''bad handle''])"

definition ts_write :: "nat \<Rightarrow> bytes \<Rightarrow> (tree_server, string, unit) io" where
  "ts_write h d w =
     (case ts_at w h of
        Some (p, k) \<Rightarrow> (case ts_nodes w p of
            Some (File c) \<Rightarrow>
              (Ok (), (ts_put p (File (take k c @ d @ drop (k + length d) c)) w)
                 \<lparr>ts_handles := (ts_handles w)[h := (p, k + length d)]\<rparr>)
          | _ \<Rightarrow> (Err ''not a file'', w))
      | None \<Rightarrow> (Err ''bad handle'', w))"

definition tree_ops :: "(tree_server, nat) sftp_ops" where
  "tree_ops =
     \<lparr>so_channel_open_session = io_ok (), so_request_subsystem = (\<lambda>_. io_ok ()), so_session_new = io_ok (),
      so_is_closed = (\<lambda>_. False), so_close = io_ok (), so_disconnect = io_ok (), so_canonicalize = io_ok,
      so_read_dir = ts_read_dir, so_metadata = ts_lookup, so_symlink_metadata = ts_lookup,
      so_read = (\<lambda>_. io_err []), so_create_dir = (\<lambda>p w. (Ok (), ts_put p Folder w)), so_set_permissions = (\<lambda>_ _. io_ok ()),
      so_rename = (\<lambda>_ _. io_err []), so_remove_file = (\<lambda>p w. (Ok (), ts_drop p w)),
      so_remove_dir = (\<lambda>p w. (Ok (), ts_drop p w)),
      so_open = ts_open, so_seek = (\<lambda>_ _. io_err []), so_reads = ts_reads,
      so_write_all = ts_write, so_flush = (\<lambda>_. io_ok ()), so_shutdown = (\<lambda>_. io_ok ())\<rparr>"

lemma ts_nodes_put [simp]: "ts_nodes (ts_put p x w) = (ts_nodes w)(p \<mapsto> x)"
  by (simp add: ts_nodes_def ts_put_def update_conv')

lemma ts_nodes_drop [simp]: "ts_nodes (ts_drop p w) = (ts_nodes w)(p := None)"
  by (simp add: ts_nodes_def ts_drop_def delete_conv')

lemma ts_nodes_handles [simp]: "ts_nodes (w\<lparr>ts_handles := hs\<rparr>) = ts_nodes w"
  by (simp add: ts_nodes_def)

lemma ts_names_children: "distinct (ts_names p w) \<and> set (ts_names p w) = children (ts_nodes w) p"
proof
  have "inj_on (drop (length (join p []))) {q. prefix (join p []) q}"
    by (auto simp: inj_on_def prefix_def)
  then show "distinct (ts_names p w)"
    unfolding ts_names_def by (intro distinct_filter) (auto simp: distinct_map elim: inj_on_subset)
  have key: "(prefix (join p []) k \<and> drop (length (join p [])) k = n) = (k = join p n)" for k n
    using join_append [of p n] by (auto simp: prefix_def)
  have "n \<in> set (ts_names p w) \<longleftrightarrow>
      entry_name n \<and> (\<exists>k \<in> fst ` set (ts_table w). prefix (join p []) k \<and> drop (length (join p [])) k = n)" for n
    by (auto simp: ts_names_def simp del: drop_eq_Nil)
  then have "n \<in> set (ts_names p w) \<longleftrightarrow> entry_name n \<and> join p n \<in> fst ` set (ts_table w)" for n
    unfolding key by auto
  then show "set (ts_names p w) = children (ts_nodes w) p"
    by (auto simp: children_def ts_nodes_def map_of_eq_None_iff)
qed

lemma no_dots [simp]: "''.'' \<notin> children t p" "''..'' \<notin> children t p"
  by (simp_all add: children_def entry_name_def)

lemma tree_ops_listing: "listing_server tree_ops ts_nodes"
  by (simp add: listing_server_def tree_ops_def ts_read_dir_def comp_def image_image ts_names_children)

lemma tree_ops_removing: "removing_server tree_ops ts_nodes"
  by (simp add: removing_server_def tree_ops_listing) (simp add: tree_ops_def ts_lookup_def ts_meta_def)

lemma ts_handles_put [simp]: "ts_handles (ts_put p x w) = ts_handles w"
  by (simp add: ts_put_def)

lemma tree_ops_copying: "copying_server tree_ops ts_nodes ts_at"
  unfolding copying_server_def
proof (intro conjI tree_ops_listing allI impI)
  fix h p k c w
  assume "ts_at w h = Some (p, k)" "ts_nodes w p = Some (File c)"
  then show "\<exists>cs. so_reads tree_ops h w = map Ok cs \<and> [] \<notin> set cs \<and> concat cs = drop k c"
    by (intro exI [of _ "if drop k c = [] then [] else [drop k c]"]) (auto simp: tree_ops_def ts_reads_def)
qed (auto simp: tree_ops_def ts_lookup_def ts_meta_def ts_open_def ts_write_def ts_at_def nth_append Let_def fun_eq_iff
      split: if_splits)

text \<open>A folder with a folder with a file, and a file beside it.\<close>

definition demo_tree :: tree_server where
  "demo_tree =
     \<lparr>ts_table = [(''/'', Folder), (''/a'', Folder), (''/a/b'', Folder), (''/a/b/c'', File [1, 2]), (''/z'', File [3])],
      ts_handles = []\<rparr>"

lemma demo_tree_ok: "tree_ok (ts_nodes demo_tree)" "card (dom (ts_nodes demo_tree)) \<le> 5"
proof -
  have d: "dom (ts_nodes demo_tree) = {''/'', ''/a'', ''/a/b'', ''/a/b/c'', ''/z''}"
    by (simp add: ts_nodes_def demo_tree_def dom_map_of_conv_image_fst)
  have up: "''/a'' = join ''/'' ''a''" "''/a/b'' = join ''/a'' ''b''" "''/a/b/c'' = join ''/a/b'' ''c''" "''/z'' = join ''/'' ''z''"
    by (simp_all add: join_def)
  have names: "entry_name ''a''" "entry_name ''b''" "entry_name ''c''" "entry_name ''z''" by (simp_all add: entry_name_def)
  have folders: "ts_nodes demo_tree ''/'' = Some Folder" "ts_nodes demo_tree ''/a'' = Some Folder" "ts_nodes demo_tree ''/a/b'' = Some Folder"
    by (simp_all add: ts_nodes_def demo_tree_def)
  have "q = ''/'' \<or> (\<exists>d n. q = join d n \<and> entry_name n \<and> ts_nodes demo_tree d = Some Folder)"
    if "ts_nodes demo_tree q \<noteq> None" for q
    using that d up names folders by blast
  then show "tree_ok (ts_nodes demo_tree)" by (auto simp: tree_ok_def d)
  show "card (dom (ts_nodes demo_tree)) \<le> 5" unfolding d by (simp add: card_insert_if)
qed

theorem remove_deletes_exactly_the_subtree_witness:
  "\<exists>w'. remove tree_ops 5 ''/a'' demo_tree = (Ok (), w') \<and> ts_nodes w' ''/a/b/c'' = None \<and> ts_nodes w' ''/z'' = Some (File [3])"
proof -
  have "resolve tree_ops ''/a'' demo_tree = (Ok ''/a'', demo_tree)"
    using remote_path_plain [of "''/a''"]
    by (simp add: resolve_def tree_ops_def io_map_err_def plain_path_def solid_def ascii_ws_def less_char_def)
  moreover have "ts_nodes demo_tree ''/a'' \<noteq> None" "ts_nodes demo_tree ''/z'' = Some (File [3])" by (simp_all add: ts_nodes_def demo_tree_def)
  ultimately show ?thesis
    using remove_deletes_exactly_the_subtree [OF tree_ops_removing _ _ demo_tree_ok(1) _ demo_tree_ok(2), of "''/a''" demo_tree "''/a''"]
    by (auto simp: below_def join_def)
qed

text \<open>A server that resolves links, and one that does not let files be deleted.\<close>

definition resolving_ops :: "(tree_server, nat) sftp_ops" where
  "resolving_ops = tree_ops
     \<lparr>so_canonicalize := \<lambda>p w. (Ok (case ts_nodes w p of Some (Link target) \<Rightarrow> target | _ \<Rightarrow> p), w)\<rparr>"

definition linked_tree :: tree_server where
  "linked_tree =
     \<lparr>ts_table = [(''/'', Folder), (''/a'', Folder), (''/a/c'', File [1, 2]), (''/l'', Link ''/a'')], ts_handles = []\<rparr>"

lemma linked_tree_ok: "tree_ok (ts_nodes linked_tree)" "card (dom (ts_nodes linked_tree)) \<le> 5"
proof -
  have d: "dom (ts_nodes linked_tree) = {''/'', ''/a'', ''/a/c'', ''/l''}"
    by (simp add: ts_nodes_def linked_tree_def dom_map_of_conv_image_fst)
  have up: "''/a'' = join ''/'' ''a''" "''/a/c'' = join ''/a'' ''c''" "''/l'' = join ''/'' ''l''"
    by (simp_all add: join_def)
  have names: "entry_name ''a''" "entry_name ''c''" "entry_name ''l''" by (simp_all add: entry_name_def)
  have folders: "ts_nodes linked_tree ''/'' = Some Folder" "ts_nodes linked_tree ''/a'' = Some Folder"
    by (simp_all add: ts_nodes_def linked_tree_def)
  have "q = ''/'' \<or> (\<exists>d n. q = join d n \<and> entry_name n \<and> ts_nodes linked_tree d = Some Folder)"
    if "ts_nodes linked_tree q \<noteq> None" for q
    using that d up names folders by blast
  then show "tree_ok (ts_nodes linked_tree)" by (auto simp: tree_ok_def d)
  show "card (dom (ts_nodes linked_tree)) \<le> 5" unfolding d by (simp add: card_insert_if)
qed

theorem deleting_a_link_deletes_its_target_witness:
  "\<exists>w'. remove resolving_ops 5 ''/l'' linked_tree = (Ok (), w') \<and> ts_nodes w' ''/l'' = Some (Link ''/a'') \<and>
     ts_nodes w' ''/a/c'' = None"
proof -
  have srv: "removing_server resolving_ops ts_nodes"
    using tree_ops_removing by (simp add: removing_server_def listing_server_def resolving_ops_def)
  have link: "ts_nodes linked_tree ''/l'' = Some (Link ''/a'')" "ts_nodes linked_tree ''/a'' \<noteq> None"
    by (simp_all add: ts_nodes_def linked_tree_def)
  have "remote_path ''/l'' = ''/l''"
    by (rule remote_path_plain) (simp add: plain_path_def solid_def ascii_ws_def less_char_def)
  then have r: "resolve resolving_ops ''/l'' linked_tree = (Ok ''/a'', linked_tree)"
    using link(1) by (simp add: resolve_def resolving_ops_def io_map_err_def)
  have "''/a'' \<noteq> ''/''" "\<not> below ''/a'' ''/l''" "below ''/a'' ''/a/c''" by (simp_all add: below_def join_def)
  with deleting_a_link_deletes_its_target [OF srv link(1) r link(2) _ _ linked_tree_ok] show ?thesis by fastforce
qed

definition denying_ops :: "(tree_server, nat) sftp_ops" where
  "denying_ops = tree_ops\<lparr>so_remove_file := \<lambda>_. io_err ''permission denied''\<rparr>"

theorem deleting_always_ends_witness:
  "fst (remove denying_ops 6 ''/a'' demo_tree) \<noteq> Err None"
proof -
  have "ts_lookup p w = (Ok m, w') \<Longrightarrow> ts_nodes w p \<noteq> None" "snd (ts_lookup p w) = w" for p w m w'
    by (auto simp: ts_lookup_def split: option.splits)
  moreover have "n \<noteq> [] \<and> CHR ''/'' \<notin> set n" if "n \<in> set (ts_names p w)" for n p w
    using that by (auto simp: ts_names_def entry_name_def)
  ultimately have srv: "refusing_server denying_ops ts_nodes"
    by (auto simp: refusing_server_def lists_names_def denying_ops_def tree_ops_def ts_read_dir_def)
  have "resolve denying_ops ''/a'' demo_tree = (Ok ''/a'', demo_tree)"
    using remote_path_plain [of "''/a''"]
    by (simp add: resolve_def denying_ops_def tree_ops_def io_map_err_def plain_path_def solid_def ascii_ws_def less_char_def)
  then show ?thesis
    using demo_tree_ok by (intro deleting_always_ends [OF srv]) (auto simp: solid_def tree_ok_def)
qed

theorem copy_reproduces_the_subtree_witness:
  "\<exists>w'. copy tree_ops 5 ''/a'' ''/y'' demo_tree = (Ok (), w') \<and> ts_nodes w' ''/y/b/c'' = Some (File [1, 2]) \<and>
     ts_nodes w' ''/a/b/c'' = Some (File [1, 2])"
proof -
  have in_a: "r = [] \<or> r = ''/b'' \<or> r = ''/b/c''" if "ts_nodes demo_tree (''/a'' @ r) \<noteq> None" for r
    using that by (auto simp: ts_nodes_def demo_tree_def split: if_splits)
  have paths: "remote_path p = p" if "p \<in> {''/a'', ''/a/b'', ''/a/b/c'', ''/y'', ''/y/b'', ''/y/b/c''}" for p
    using that by (intro remote_path_plain) (auto simp: plain_path_def solid_def ascii_ws_def less_char_def)
  have "\<exists>w'. copy tree_ops 5 ''/a'' ''/y'' demo_tree = (Ok (), w') \<and>
      (\<forall>q. ts_nodes w' q = (if below ''/y'' q then ts_nodes demo_tree (''/a'' @ drop (length ''/y'') q) else ts_nodes demo_tree q))"
  proof (rule copy_reproduces_the_subtree [OF tree_ops_copying demo_tree_ok])
    show "\<forall>r. ts_nodes demo_tree (''/a'' @ r) \<noteq> None \<longrightarrow> remote_path (''/a'' @ r) = ''/a'' @ r \<and> remote_path (''/y'' @ r) = ''/y'' @ r"
      by (intro allI impI, drule in_a, elim disjE) (simp_all add: paths)
    show "''/y'' = join ''/'' ''y''" "entry_name ''y''" by (simp_all add: join_def entry_name_def)
    show "\<not> below ''/a'' ''/y''" by (simp add: below_def join_def)
  qed (auto simp: ts_nodes_def demo_tree_def split: if_splits)
  then show ?thesis by (auto simp: below_def join_def ts_nodes_def demo_tree_def)
qed

theorem copy_into_itself_never_ends_witness:
  "fst (copy tree_ops 1000 ''/a'' ''/a/n'' \<lparr>ts_table = [(''/a'', Folder)], ts_handles = []\<rparr>) = Err None"
  using copy_into_itself_never_ends [OF tree_ops_copying, of "''n''" "''/a''" "\<lparr>ts_table = [(''/a'', Folder)], ts_handles = []\<rparr>" 1000]
  by (simp add: entry_name_def ascii_ws_def less_char_def plain_path_def solid_def ts_nodes_def join_def)

end
