(* ===== verification/Rdp_Domain.thy ===== *)
theory Rdp_Domain
  imports Rust_Str
begin

text \<open>
  \<^verbatim>\<open>portix_rdp/src/domain\<close>: the errors, events, session data and connection profile of the RDP
  backend, and the parser of \<^verbatim>\<open>.rdp\<close> files. \<^verbatim>\<open>to_lowercase\<close> beyond ASCII is the parameter \<open>uni\<close>.
\<close>

section \<open>Errors\<close>

text \<open>An I/O error is represented by its message.\<close>

datatype rdp_error =
    RInvalidProfile string
  | RSessionNotFound string
  | RSessionAlreadyExists string
  | RCancelled
  | RConnectionTimeout
  | RAuthenticationFailed
  | RNegotiationFailed string
  | RProtocol string
  | RDisconnected
  | RBridge string
  | RIo string
  | RAnyhow string

fun rdp_error_to_string :: "rdp_error \<Rightarrow> string" where
  "rdp_error_to_string (RInvalidProfile s) = ''invalid profile: '' @ s"
| "rdp_error_to_string (RSessionNotFound s) = ''session not found: '' @ s"
| "rdp_error_to_string (RSessionAlreadyExists s) = ''session already exists: '' @ s"
| "rdp_error_to_string RCancelled = ''operation cancelled''"
| "rdp_error_to_string RConnectionTimeout = ''connection timed out''"
| "rdp_error_to_string RAuthenticationFailed = ''authentication failed''"
| "rdp_error_to_string (RNegotiationFailed s) = ''RDP negotiation failed: '' @ s"
| "rdp_error_to_string (RProtocol s) = ''RDP protocol error: '' @ s"
| "rdp_error_to_string RDisconnected = ''disconnected''"
| "rdp_error_to_string (RBridge s) = ''bridge error: '' @ s"
| "rdp_error_to_string (RIo s) = s"
| "rdp_error_to_string (RAnyhow s) = s"

fun rdp_error_clone :: "rdp_error \<Rightarrow> rdp_error" where
  "rdp_error_clone (RInvalidProfile s) = RInvalidProfile s"
| "rdp_error_clone (RSessionNotFound s) = RSessionNotFound s"
| "rdp_error_clone (RSessionAlreadyExists s) = RSessionAlreadyExists s"
| "rdp_error_clone RCancelled = RCancelled"
| "rdp_error_clone RConnectionTimeout = RConnectionTimeout"
| "rdp_error_clone RAuthenticationFailed = RAuthenticationFailed"
| "rdp_error_clone (RNegotiationFailed s) = RNegotiationFailed s"
| "rdp_error_clone (RProtocol s) = RProtocol s"
| "rdp_error_clone RDisconnected = RDisconnected"
| "rdp_error_clone (RBridge s) = RBridge s"
| "rdp_error_clone (RIo s) = RIo s"
| "rdp_error_clone (RAnyhow s) = RBridge s"

fun code :: "rdp_error \<Rightarrow> string" where
  "code (RInvalidProfile _) = ''INVALID_PROFILE''"
| "code (RSessionNotFound _) = ''SESSION_NOT_FOUND''"
| "code (RSessionAlreadyExists _) = ''SESSION_ALREADY_EXISTS''"
| "code RCancelled = ''CANCELLED''"
| "code RConnectionTimeout = ''CONNECTION_TIMEOUT''"
| "code RAuthenticationFailed = ''AUTH_FAILED''"
| "code (RNegotiationFailed _) = ''NEGOTIATION_FAILED''"
| "code (RProtocol _) = ''PROTOCOL_ERROR''"
| "code RDisconnected = ''DISCONNECTED''"
| "code (RBridge _) = ''BRIDGE_ERROR''"
| "code (RIo _) = ''IO_ERROR''"
| "code (RAnyhow _) = ''UNKNOWN_ERROR''"

definition is_user_visible :: "rdp_error \<Rightarrow> bool" where
  "is_user_visible e = (case e of
     RInvalidProfile _ \<Rightarrow> True | RConnectionTimeout \<Rightarrow> True | RAuthenticationFailed \<Rightarrow> True
   | RNegotiationFailed _ \<Rightarrow> True | RProtocol _ \<Rightarrow> True | _ \<Rightarrow> False)"

definition is_transient :: "rdp_error \<Rightarrow> bool" where
  "is_transient e = (case e of RSessionNotFound _ \<Rightarrow> True | RCancelled \<Rightarrow> True | RDisconnected \<Rightarrow> True | _ \<Rightarrow> False)"

section \<open>Sessions and events\<close>

datatype rdp_connection_status = RdpDisconnected | RdpConnecting | RdpConnected | RdpErrored

fun rdp_status_to_string :: "rdp_connection_status \<Rightarrow> string" where
  "rdp_status_to_string RdpDisconnected = ''disconnected''"
| "rdp_status_to_string RdpConnecting = ''connecting''"
| "rdp_status_to_string RdpConnected = ''connected''"
| "rdp_status_to_string RdpErrored = ''error''"

record rdp_session_info =
  ri_id :: string
  ri_profile_id :: string
  ri_status :: rdp_connection_status

definition is_active :: "rdp_session_info \<Rightarrow> bool" where
  "is_active i \<longleftrightarrow> ri_status i = RdpConnecting \<or> ri_status i = RdpConnected"

record rdp_status_event =
  re_session_id :: string
  re_status :: rdp_connection_status
  re_message :: "string option"

record rdp_error_event =
  rx_session_id :: "string option"
  rx_message :: string
  rx_code :: string

record rdp_frame_event =
  rf_session_id :: string
  rf_data :: bytes
  rf_width :: u32
  rf_height :: u32
  rf_x :: u32
  rf_y :: u32
  rf_frame_id :: u64

definition default_error_code :: string where
  "default_error_code = ''UNKNOWN''"

section \<open>Profiles\<close>

record rdp_profile =
  rp_id :: string
  rp_name :: string
  rp_host :: string
  rp_port :: u16
  rp_username :: string
  rp_password :: "string option"
  rp_domain :: "string option"
  rp_desktop_width :: u16
  rp_desktop_height :: u16
  rp_full_screen :: bool
  rp_enable_cred_ssp :: bool
  rp_alternate_shell :: "string option"
  rp_source_rdp_content :: "string option"
  rp_passthru_username :: "string option"
  rp_redirect_drives :: bool
  rp_redirect_clipboard :: bool
  rp_local_share_path :: "string option"
  rp_local_share_name :: string

definition default_profile :: rdp_profile where
  "default_profile =
     \<lparr>rp_id = [], rp_name = [], rp_host = [], rp_port = 3389, rp_username = [], rp_password = None,
      rp_domain = None, rp_desktop_width = 1280, rp_desktop_height = 800, rp_full_screen = False,
      rp_enable_cred_ssp = True, rp_alternate_shell = None, rp_source_rdp_content = None,
      rp_passthru_username = None, rp_redirect_drives = False, rp_redirect_clipboard = True,
      rp_local_share_path = None, rp_local_share_name = ''Portix''\<rparr>"

definition rdp_socket_addr :: "rdp_profile \<Rightarrow> string" where
  "rdp_socket_addr p = rp_host p @ '':'' @ show_word (rp_port p)"

definition names_psm :: "(string \<Rightarrow> string) \<Rightarrow> string option \<Rightarrow> bool" where
  "names_psm uni shell = unwrap_or False (map_option (\<lambda>s. contains ''psm'' (to_lowercase uni s)) shell)"

definition is_cyberark_psm :: "(string \<Rightarrow> string) \<Rightarrow> rdp_profile \<Rightarrow> bool" where
  "is_cyberark_psm uni p = names_psm uni (rp_alternate_shell p)"

definition rdp_validate :: "rdp_profile \<Rightarrow> (rdp_error, unit) result" where
  "rdp_validate p =
     (if trim (rp_id p) = [] then Err (RInvalidProfile ''profile id is required'')
      else if trim (rp_host p) = [] then Err (RInvalidProfile ''host is required'')
      else if rp_port p = 0 then Err (RInvalidProfile ''port must be > 0'')
      else if trim (rp_username p) = [] then Err (RInvalidProfile ''username is required'')
      else if rp_redirect_drives p then
        (if trim (unwrap_or [] (rp_local_share_path p)) = [] then
           Err (RInvalidProfile ''local share path is required when drive redirection is enabled'')
         else if trim (rp_local_share_name p) = [] then
           Err (RInvalidProfile ''local share name is required when drive redirection is enabled'')
         else Ok ())
      else Ok ())"

definition connection_key :: "rdp_profile \<Rightarrow> string" where
  "connection_key p =
     rp_host p @ '':'' @ show_word (rp_port p) @ ''@'' @ rp_username p @ '':'' @ unwrap_or [] (rp_domain p)"

definition has_local_share :: "rdp_profile \<Rightarrow> bool" where
  "has_local_share p \<longleftrightarrow>
     rp_redirect_drives p \<and> unwrap_or False (map_option (\<lambda>s. trim s \<noteq> []) (rp_local_share_path p))"

definition local_share_path :: "rdp_profile \<Rightarrow> string option" where
  "local_share_path p = (if \<not> rp_redirect_drives p then None else rp_local_share_path p)"

definition local_share_name :: "rdp_profile \<Rightarrow> string" where
  "local_share_name p =
     (if trim (rp_local_share_name p) = [] then ''Portix'' else trim (rp_local_share_name p))"

section \<open>Parsing .rdp files\<close>

text \<open>One line: a key, and what follows the second colon (or the first, without a second).\<close>

definition parse_rdp_line :: "(string \<Rightarrow> string) \<Rightarrow> string \<Rightarrow> (string \<times> string) option" where
  "parse_rdp_line uni line =
     (let trimmed = trim line in
      if trimmed = [] then None
      else case find_char CHR '':'' trimmed of
        None \<Rightarrow> None
      | Some colon_pos \<Rightarrow>
          (let key = to_lowercase uni (trim (take colon_pos trimmed));
               rest = drop (colon_pos + 1) trimmed;
               val = (case find_char CHR '':'' rest of
                          Some second_colon \<Rightarrow> trim (drop (second_colon + 1) rest)
                        | None \<Rightarrow> trim rest)
           in Some (key, val)))"

definition parse_rdp_lines :: "(string \<Rightarrow> string) \<Rightarrow> string \<Rightarrow> string \<rightharpoonup> string" where
  "parse_rdp_lines uni content =
     fold (\<lambda>line m. case parse_rdp_line uni line of None \<Rightarrow> m | Some (k, v) \<Rightarrow> m(k \<mapsto> v)) (lines content) Map.empty"

definition parsed :: "(string \<Rightarrow> 'a option) \<Rightarrow> 'a \<Rightarrow> string option \<Rightarrow> 'a" where
  "parsed parse d v = unwrap_or d (Option.bind v parse)"

definition parse_host_port :: "string option \<Rightarrow> string \<Rightarrow> string \<times> u16" where
  "parse_host_port server_port full_address =
     (case server_port of
        Some port_str \<Rightarrow> (trim full_address, unwrap_or 3389 (parse_u16 (trim port_str)))
      | None \<Rightarrow>
          (let parts = splitn2 CHR '':'' full_address in
           (trim (hd parts),
            unwrap_or 3389 (if length parts > 1 then parse_u16 (trim (parts ! 1)) else None))))"

definition parse_domain_user :: "string \<Rightarrow> string option \<times> string" where
  "parse_domain_user username =
     (if CHR 0x5C \<in> set username then
        (let parts = splitn2 CHR 0x5C username in (Some (trim (parts ! 0)), trim (parts ! 1)))
      else (None, username))"

text \<open>The dash in the default names is U+2013.\<close>

definition default_name :: "bool \<Rightarrow> string \<Rightarrow> string" where
  "default_name cyberark host =
     (if cyberark then ''CyberArk '' else ''RDP '') @ [CHR 0xE2, CHR 0x80, CHR 0x93] @ '' '' @ host"

definition parse_rdp_file ::
  "(string \<Rightarrow> string) \<Rightarrow> string \<Rightarrow> string \<Rightarrow> string option \<Rightarrow> (rdp_error, rdp_profile) result" where
  "parse_rdp_file uni content profile_id profile_name =
     (let settings = parse_rdp_lines uni content;
          full_address = unwrap_or [] (settings ''full address'');
          username = unwrap_or [] (settings ''username'');
          alternate_shell = settings ''alternate shell'';
          screen_mode_id = parsed parse_i32 1 (settings ''screen mode id'');
          original_cred_ssp = (parsed parse_i32 1 (settings ''enablecredsspsupport'') = 1);
          (host, port) = parse_host_port (settings ''server port'') full_address;
          (domain, user) = parse_domain_user username
      in Ok \<lparr>rp_id = profile_id,
             rp_name = (case profile_name of Some n \<Rightarrow> n | None \<Rightarrow> default_name (alternate_shell \<noteq> None) host),
             rp_host = host, rp_port = port, rp_username = user, rp_password = None, rp_domain = domain,
             rp_desktop_width = parsed parse_u16 1280 (settings ''desktopwidth''),
             rp_desktop_height = parsed parse_u16 800 (settings ''desktopheight''),
             rp_full_screen = (screen_mode_id = 2),
             rp_enable_cred_ssp = (if names_psm uni alternate_shell then True else original_cred_ssp),
             rp_alternate_shell = alternate_shell, rp_source_rdp_content = Some content,
             rp_passthru_username = None,
             rp_redirect_drives = (parsed parse_i32 0 (settings ''redirectdrives'') = 1),
             rp_redirect_clipboard = True, rp_local_share_path = None, rp_local_share_name = ''Portix''\<rparr>)"

section \<open>Lemmas\<close>

lemma rdp_error_clone_text:
  "rdp_error_to_string (rdp_error_clone e) =
     (case e of RAnyhow s \<Rightarrow> ''bridge error: '' @ s | _ \<Rightarrow> rdp_error_to_string e)"
  by (cases e) simp_all

lemma visible_not_transient: "\<not> (is_user_visible e \<and> is_transient e)"
  by (cases e) (simp_all add: is_user_visible_def is_transient_def)

text \<open>White space never reaches across a colon.\<close>

lemma colon_not_ws [simp]:
  "\<not> ascii_ws CHR '':''" "\<not> ws2 CHR '':'' x" "\<not> ws2 x CHR '':''"
  "\<not> ws3 CHR '':'' x y" "\<not> ws3 x CHR '':'' y" "\<not> ws3 x y CHR '':''"
  by (auto simp: ascii_ws_def ws2_def ws3_def)

lemma trim_start_id_cons:
  assumes "trim_start (a # k) = a # k"
  shows "\<not> ascii_ws a" "\<And>b r. k = b # r \<Longrightarrow> \<not> ws2 a b" "\<And>b c r. k = b # c # r \<Longrightarrow> \<not> ws3 a b c"
proof -
  have short: "trim_start s \<noteq> a # k" if "length s \<le> length k" for s
    using suffix_trim_start [THEN suffix_length_le, of s] that by auto
  show no_ws: "\<not> ascii_ws a"
  proof
    assume "ascii_ws a"
    then have "trim_start (a # k) = trim_start k" by simp
    with assms short [of k] show False by simp
  qed
  show "\<not> ws2 a b" if "k = b # r" for b r
  proof
    assume "ws2 a b"
    then have "trim_start (a # k) = trim_start r" using that no_ws by (cases r) simp_all
    with assms short [of r] that show False by simp
  qed
  then have no_ws2: "\<not> ws2 a b" if "k = b # r" for b r using that by blast
  show "\<not> ws3 a b c" if "k = b # c # r" for b c r
  proof
    assume "ws3 a b c"
    then have "trim_start (a # k) = trim_start r" using that no_ws no_ws2 [of b "c # r"] by simp
    with assms short [of r] that show False by simp
  qed
qed

lemma trim_back_id_cons:
  assumes "trim_back (a # k) = a # k"
  shows "\<not> ascii_ws a" "\<And>b r. k = b # r \<Longrightarrow> \<not> ws2 b a" "\<And>b c r. k = b # c # r \<Longrightarrow> \<not> ws3 c b a"
proof -
  have short: "trim_back s \<noteq> a # k" if "length s \<le> length k" for s
    using suffix_trim_back [THEN suffix_length_le, of s] that by auto
  show no_ws: "\<not> ascii_ws a"
  proof
    assume "ascii_ws a"
    then have "trim_back (a # k) = trim_back k" by simp
    with assms short [of k] show False by simp
  qed
  show "\<not> ws2 b a" if "k = b # r" for b r
  proof
    assume "ws2 b a"
    then have "trim_back (a # k) = trim_back r" using that no_ws by (cases r) simp_all
    with assms short [of r] that show False by simp
  qed
  then have no_ws2: "\<not> ws2 b a" if "k = b # r" for b r using that by blast
  show "\<not> ws3 c b a" if "k = b # c # r" for b c r
  proof
    assume "ws3 c b a"
    then have "trim_back (a # k) = trim_back r" using that no_ws no_ws2 [of b "c # r"] by simp
    with assms short [of r] that show False by simp
  qed
qed

lemma trim_start_before_colon:
  "trim_start k = k \<Longrightarrow> trim_start (k @ CHR '':'' # r) = k @ CHR '':'' # r"
proof (cases k)
  case (Cons a k')
  assume "trim_start k = k"
  with Cons have "trim_start (a # k') = a # k'" by simp
  note no_ws = trim_start_id_cons [OF this]
  show ?thesis
  proof (cases k')
    case Nil
    with Cons no_ws(1) show ?thesis by (cases r) auto
  next
    case k': (Cons b k'')
    show ?thesis
    proof (cases k'')
      case Nil
      with Cons k' no_ws show ?thesis by auto
    next
      case (Cons c k3)
      with \<open>k = a # k'\<close> k' no_ws show ?thesis by auto
    qed
  qed
qed (simp split: list.splits)

lemma trim_back_before_colon:
  "trim_back k = k \<Longrightarrow> trim_back (k @ CHR '':'' # r) = k @ CHR '':'' # r"
proof (cases k)
  case (Cons a k')
  assume "trim_back k = k"
  with Cons have "trim_back (a # k') = a # k'" by simp
  note no_ws = trim_back_id_cons [OF this]
  show ?thesis
  proof (cases k')
    case Nil
    with Cons no_ws(1) show ?thesis by (cases r) auto
  next
    case k': (Cons b k'')
    show ?thesis
    proof (cases k'')
      case Nil
      with Cons k' no_ws show ?thesis by auto
    next
      case (Cons c k3)
      with \<open>k = a # k'\<close> k' no_ws show ?thesis by auto
    qed
  qed
qed (simp split: list.splits)

lemma trim_around_colon: "trimmed k \<Longrightarrow> trimmed v \<Longrightarrow> trim (k @ '':'' @ m @ '':'' @ v) = k @ '':'' @ m @ '':'' @ v"
  using trim_start_before_colon [of k "m @ '':'' @ v"] trim_back_before_colon [of "rev v" "rev (k @ '':'' @ m)"]
  by (simp add: trim_def trim_end_def trimmed_def)

section \<open>Printing settings\<close>

fun print_setting :: "string \<times> string \<times> string \<Rightarrow> string" where
  "print_setting (k, t, v) = k @ '':'' @ t @ '':'' @ v"

fun setting_ok :: "(string \<Rightarrow> string) \<Rightarrow> string \<times> string \<times> string \<Rightarrow> bool" where
  "setting_ok uni (k, t, v) \<longleftrightarrow>
     trimmed k \<and> to_lowercase uni k = k \<and> CHR '':'' \<notin> set k \<and> LF \<notin> set k \<and>
     CHR '':'' \<notin> set t \<and> LF \<notin> set t \<and> trimmed v \<and> LF \<notin> set v"

lemma parse_rdp_line_print:
  assumes "setting_ok uni (k, t, v)"
  shows "parse_rdp_line uni (print_setting (k, t, v)) = Some (k, v)"
proof -
  have "trim (print_setting (k, t, v)) = k @ CHR '':'' # t @ CHR '':'' # v"
    using trim_around_colon [of k v t] assms by simp
  moreover have "find_char CHR '':'' (k @ CHR '':'' # t @ CHR '':'' # v) = Some (length k)"
    "find_char CHR '':'' (t @ CHR '':'' # v) = Some (length t)"
    using assms by (simp_all add: find_char_append)
  ultimately show ?thesis using assms by (simp add: parse_rdp_line_def Let_def)
qed

lemma trimmed_last_not_CR: "trimmed v \<Longrightarrow> v = [] \<or> last v \<noteq> CR"
proof (cases v rule: rev_cases)
  case (snoc ys y)
  assume "trimmed v"
  with snoc have "trim_back (y # rev ys) = y # rev ys" by (simp add: trimmed_def)
  from trim_back_id_cons(1) [OF this] snoc show ?thesis by (auto simp: ascii_ws_def CR_def)
qed simp

lemma lines_print_settings:
  assumes "list_all (setting_ok uni) ss"
  shows "lines (unlines (map print_setting ss)) = map print_setting ss"
proof (rule lines_unlines)
  fix l
  assume "l \<in> set (map print_setting ss)"
  then obtain k t v where s: "setting_ok uni (k, t, v)" "l = k @ '':'' @ t @ '':'' @ v"
    using assms by (fastforce simp: list_all_iff)
  have "last l \<noteq> CR" using s trimmed_last_not_CR [of v] by (auto simp: CR_def)
  then show "LF \<notin> set l \<and> (l = [] \<or> last l \<noteq> CR)" using s by (auto simp: LF_def)
qed

lemma fold_settings:
  assumes "list_all (setting_ok uni) ss"
  shows "fold (\<lambda>line m. case parse_rdp_line uni line of None \<Rightarrow> m | Some (k, v) \<Rightarrow> m(k \<mapsto> v)) (map print_setting ss) m =
    m ++ map_of (rev (map (\<lambda>(k, t, v). (k, v)) ss))"
  using assms
proof (induction ss arbitrary: m)
  case (Cons s ss)
  obtain k t v where s: "s = (k, t, v)" by (cases s)
  have "parse_rdp_line uni (print_setting s) = Some (k, v)"
    using Cons.prems parse_rdp_line_print [of uni k t v] unfolding s by simp
  with Cons s show ?case by simp
qed simp

lemma parse_rdp_lines_print:
  assumes "list_all (setting_ok uni) ss"
  shows "parse_rdp_lines uni (unlines (map print_setting ss)) = map_of (rev (map (\<lambda>(k, t, v). (k, v)) ss))"
  unfolding parse_rdp_lines_def lines_print_settings [OF assms]
  using fold_settings [OF assms, of Map.empty] by simp

lemma imported_psm_has_credssp:
  "parse_rdp_file uni content pid pname = Ok p \<Longrightarrow> is_cyberark_psm uni p \<Longrightarrow> rp_enable_cred_ssp p"
  by (auto simp: parse_rdp_file_def Let_def is_cyberark_psm_def split: prod.splits)

section \<open>Properties\<close>

text \<open>
  Reading a settings file gives back the settings it was written from: for every list of
  keys, type letters and values, looking a key up in the parse yields the value of the last
  line with that key, whatever colons the value itself contains.
\<close>

theorem rdp_settings_round_trip:
  assumes "list_all (setting_ok uni) ss"
  shows "parse_rdp_lines uni (unlines (map print_setting ss)) = map_of (rev (map (\<lambda>(k, t, v). (k, v)) ss))"
  using assms by (rule parse_rdp_lines_print)

text \<open>
  An imported file never carries a password and always keeps NLA on for CyberArk PSM,
  whatever it says; for other targets NLA follows the file. A file that asks for drive
  redirection gives a profile that does not pass validation until a local folder is chosen.
\<close>

lemma imported_profile_is_safe:
  assumes "parse_rdp_file uni content pid pname = Ok p"
  shows "rp_password p = None \<and> rp_id p = pid \<and>
    (rp_enable_cred_ssp p \<longleftrightarrow> is_cyberark_psm uni p \<or>
      parsed parse_i32 1 (parse_rdp_lines uni content ''enablecredsspsupport'') = 1) \<and>
    (rp_redirect_drives p \<longrightarrow> is_err (rdp_validate p))"
  using assms
  by (auto simp: parse_rdp_file_def Let_def is_cyberark_psm_def rdp_validate_def split: prod.splits if_splits)

section \<open>Witnesses\<close>

definition demo_settings :: "(string \<times> string \<times> string) list" where
  "demo_settings =
     [(''full address'', ''s'', ''10.0.0.1:3390''), (''enablecredsspsupport'', ''i'', ''0''),
      (''alternate shell'', ''s'', ''PSM@abc'')]"

lemma demo_settings_ok: "list_all (setting_ok id) demo_settings"
  by code_simp

theorem rdp_settings_round_trip_witness:
  "parse_rdp_lines id (unlines (map print_setting demo_settings)) ''full address'' = Some ''10.0.0.1:3390''"
  using rdp_settings_round_trip [OF demo_settings_ok] by (simp add: demo_settings_def)

lemma imported_profile_is_safe_witness:
  "\<exists>p. parse_rdp_file id (unlines (map print_setting demo_settings)) ''i'' None = Ok p \<and>
     is_cyberark_psm id p \<and> rp_enable_cred_ssp p \<and> rp_host p = ''10.0.0.1'' \<and> rp_port p = 3390"
proof -
  have "trim ''10.0.0.1'' = ''10.0.0.1''" "trim ''3390'' = ''3390''" by code_simp+
  then have "parse_host_port None ''10.0.0.1:3390'' = (''10.0.0.1'', 3390)"
    by (simp add: parse_host_port_def splitn2_def parse_u16_def parse_unsigned_def)
  moreover have "parse_domain_user [] = (None, [])" "names_psm id (Some ''PSM@abc'')" by code_simp+
  ultimately have parts: "parse_host_port None ''10.0.0.1:3390'' = (''10.0.0.1'', 3390)"
    "parse_domain_user [] = (None, [])" "names_psm id (Some ''PSM@abc'')" by blast+
  have m: "parse_rdp_lines id (unlines (map print_setting demo_settings)) =
      map_of [(''alternate shell'', ''PSM@abc''), (''enablecredsspsupport'', ''0''), (''full address'', ''10.0.0.1:3390'')]"
    using parse_rdp_lines_print [OF demo_settings_ok] by (simp add: demo_settings_def)
  obtain p where p: "parse_rdp_file id (unlines (map print_setting demo_settings)) ''i'' None = Ok p"
    and "rp_alternate_shell p = Some ''PSM@abc''" "rp_host p = ''10.0.0.1''" "rp_port p = 3390"
    by (simp add: parse_rdp_file_def m Let_def parts)
  then show ?thesis
    using imported_profile_is_safe [OF p] parts(3) by (simp add: is_cyberark_psm_def)
qed

end
