(* ===== verification/Rdp_Clipboard.thy ===== *)
theory Rdp_Clipboard
  imports Rust_Str
begin

text \<open>
  \<^verbatim>\<open>portix_rdp/src/infrastructure/clipboard.rs\<close>: the backend that queues what the server did on the
  clipboard channel, and the two-way text synchronisation that answers it. Clipboard format ids
  are 32-bit numbers; \<^verbatim>\<open>CF_UNICODETEXT\<close> is 13.
\<close>

section \<open>The backend\<close>

definition CF_UNICODETEXT :: u32 where
  "CF_UNICODETEXT = 13"

datatype remote_clipboard_event =
    FormatListRequested
  | Copied bool
  | DataRequested u32
  | Text string

record clipboard_backend =
  be_events :: "remote_clipboard_event list"
  be_temp_dir :: string

definition new_backend :: "string \<Rightarrow> clipboard_backend" where
  "new_backend temp_dir = \<lparr>be_events = [], be_temp_dir = temp_dir\<rparr>"

definition take_events :: "clipboard_backend \<Rightarrow> remote_clipboard_event list \<times> clipboard_backend" where
  "take_events b = (be_events b, b\<lparr>be_events := []\<rparr>)"

definition on_request_format_list :: "clipboard_backend \<Rightarrow> clipboard_backend" where
  "on_request_format_list b = b\<lparr>be_events := be_events b @ [FormatListRequested]\<rparr>"

definition on_remote_copy :: "u32 list \<Rightarrow> clipboard_backend \<Rightarrow> clipboard_backend" where
  "on_remote_copy formats b =
     b\<lparr>be_events := be_events b @ [Copied (list_ex (\<lambda>f. f = CF_UNICODETEXT) formats)]\<rparr>"

definition on_format_data_request :: "u32 \<Rightarrow> clipboard_backend \<Rightarrow> clipboard_backend" where
  "on_format_data_request format b = b\<lparr>be_events := be_events b @ [DataRequested format]\<rparr>"

text \<open>A response is an error, or data that may decode as text.\<close>

definition on_format_data_response :: "string option option \<Rightarrow> clipboard_backend \<Rightarrow> clipboard_backend" where
  "on_format_data_response response b =
     (case response of
        None \<Rightarrow> b
      | Some None \<Rightarrow> b
      | Some (Some text) \<Rightarrow> b\<lparr>be_events := be_events b @ [Text text]\<rparr>)"

section \<open>Synchronisation\<close>

datatype clipboard_action =
    Announce bool
  | RequestText
  | SendText "string option"
  | WriteLocal string

record clipboard_sync =
  last_text :: "string option"

definition non_empty :: "string option \<Rightarrow> string option" where
  "non_empty text = (case text of Some t \<Rightarrow> if t \<noteq> [] then Some t else None | None \<Rightarrow> None)"

definition on_local_text :: "string option \<Rightarrow> clipboard_sync \<Rightarrow> clipboard_action option \<times> clipboard_sync" where
  "on_local_text text s =
     (case non_empty text of
        None \<Rightarrow> (None, s)
      | Some t \<Rightarrow>
          if last_text s = Some t then (None, s) else (Some (Announce True), s\<lparr>last_text := Some t\<rparr>))"

fun on_remote_event ::
  "remote_clipboard_event \<Rightarrow> string option \<Rightarrow> clipboard_sync \<Rightarrow> clipboard_action option \<times> clipboard_sync" where
  "on_remote_event FormatListRequested local_text s =
     (let text = non_empty local_text in
      (Some (Announce (text \<noteq> None)), s\<lparr>last_text := text\<rparr>))"
| "on_remote_event (Copied has_text) local_text s = ((if has_text then Some RequestText else None), s)"
| "on_remote_event (DataRequested format) local_text s =
     (Some (SendText (if format = CF_UNICODETEXT then local_text else None)), s)"
| "on_remote_event (Text text) local_text s =
     (let text = trim_end_matches CHR 0x00 text in
      if last_text s = Some text then (None, s)
      else (Some (WriteLocal text), s\<lparr>last_text := Some text\<rparr>))"

section \<open>A run\<close>

text \<open>
  The local clipboard and the synchroniser: the user copies, the poll looks, the server acts.
  The flag of an event says whether the local clipboard can be read and written at that moment; a read
  that fails finds no text, and a write that fails is only logged. The trace of actions taken is
  what crosses the channel or is written locally.
\<close>

datatype clip_event = LocalCopy string | Poll bool | Remote remote_clipboard_event bool

record clip_state =
  cb_local :: "string option"
  cb_sync :: clipboard_sync
  cb_actions :: "clipboard_action list"

definition readable :: "bool \<Rightarrow> clip_state \<Rightarrow> string option" where
  "readable works c = (if works then cb_local c else None)"

definition perform :: "bool \<Rightarrow> clipboard_action option \<Rightarrow> clip_state \<Rightarrow> clip_state" where
  "perform works a c =
     (case a of
        None \<Rightarrow> c
      | Some (WriteLocal t) \<Rightarrow>
          c\<lparr>cb_local := (if works then Some t else cb_local c), cb_actions := cb_actions c @ [WriteLocal t]\<rparr>
      | Some x \<Rightarrow> c\<lparr>cb_actions := cb_actions c @ [x]\<rparr>)"

fun clip_step :: "clip_event \<Rightarrow> clip_state \<Rightarrow> clip_state" where
  "clip_step (LocalCopy t) c = c\<lparr>cb_local := Some t\<rparr>"
| "clip_step (Poll works) c =
     (case on_local_text (readable works c) (cb_sync c) of (a, s) \<Rightarrow> perform works a (c\<lparr>cb_sync := s\<rparr>))"
| "clip_step (Remote e works) c =
     (case on_remote_event e (readable works c) (cb_sync c) of (a, s) \<Rightarrow> perform works a (c\<lparr>cb_sync := s\<rparr>))"

text \<open>What is on the local clipboard is the text that crossed the channel last.\<close>

definition synced :: "clip_state \<Rightarrow> bool" where
  "synced c \<longleftrightarrow> (\<forall>t. non_empty (cb_local c) = Some t \<longrightarrow> last_text (cb_sync c) = Some t)"

text \<open>The events that bring the two sides together, and those that leave them so.\<close>

fun crosses :: "clip_event \<Rightarrow> clip_state \<Rightarrow> bool" where
  "crosses (Poll works) c = works"
| "crosses (Remote FormatListRequested works) c = works"
| "crosses (Remote (Text t) works) c \<longleftrightarrow> works \<and> last_text (cb_sync c) \<noteq> Some (trim_end_matches CHR 0x00 t)"
| "crosses _ c = False"

fun undisturbed :: "clip_event \<Rightarrow> bool" where
  "undisturbed (LocalCopy t) = False"
| "undisturbed (Poll works) = True"
| "undisturbed (Remote e works) = works"

lemma poll_synced: "synced c \<Longrightarrow> clip_step (Poll works) c = c"
  by (auto simp: synced_def on_local_text_def perform_def readable_def non_empty_def split: option.splits if_splits)

lemma text_synced:
  assumes "synced c" "non_empty (cb_local c) = Some u" "last u \<noteq> CHR 0x00"
  shows "clip_step (Remote (Text (u @ replicate z CHR 0x00)) works) c = c"
proof -
  have "trim_end_matches CHR 0x00 (u @ replicate z CHR 0x00) = trim_end_matches CHR 0x00 u"
    by (induction z) (simp_all add: replicate_app_Cons_same trim_end_matches_def)
  also have "\<dots> = u" using assms(3) by (intro trim_end_matches_id) simp
  finally show ?thesis using assms(1,2) by (simp add: perform_def Let_def synced_def)
qed

lemma crossing_syncs: "crosses e c \<Longrightarrow> synced (clip_step e c)"
  by (cases "(e, c)" rule: crosses.cases)
     (auto simp: synced_def on_local_text_def perform_def readable_def non_empty_def Let_def split: option.splits if_splits)

lemma undisturbed_synced:
  assumes "undisturbed e" "synced c"
  shows "synced (clip_step e c)"
proof (cases e)
  case (Remote r works)
  with assms show ?thesis
    by (cases r) (auto simp: synced_def perform_def readable_def non_empty_def Let_def split: option.splits if_splits)
qed (use assms poll_synced in auto)

lemma undisturbed_run: "\<forall>e \<in> set es. undisturbed e \<Longrightarrow> synced c \<Longrightarrow> synced (fold clip_step es c)"
  by (induction es arbitrary: c) (auto simp: undisturbed_synced simp del: clip_step.simps)

section \<open>Properties\<close>

text \<open>
  C33: a text does not bounce. Once the clipboards were brought together, by a poll, by the list of formats
  the server asks for, or by a text of the server written locally, whatever follows, requests,
  announcements and further texts of the server included, until the user copies something or the
  clipboard of the system fails: the next poll announces nothing, and the server sending back the text
  that is on the local clipboard writes nothing.
\<close>

theorem clipboard_text_never_echoes:
  assumes "crosses e c" "\<forall>x \<in> set es. undisturbed x" "c' = fold clip_step es (clip_step e c)"
  shows "clip_step (Poll works) c' = c' \<and>
    (non_empty (cb_local c') = Some u \<and> last u \<noteq> CHR 0x00 \<longrightarrow>
      clip_step (Remote (Text (u @ replicate z CHR 0x00)) works) c' = c')"
proof -
  have "synced c'" unfolding assms(3) by (rule undisturbed_run [OF assms(2) crossing_syncs [OF assms(1)]])
  then show ?thesis by (blast intro: poll_synced text_synced)
qed

text \<open>
  A write that fails is what lets a text bounce: the synchroniser takes the new text for synchronised,
  and the next poll announces the old one, although it came from the server.
\<close>

theorem failed_write_bounces_the_old_text:
  assumes "synced c" "cb_local c = Some t" "t \<noteq> []" "trim_end_matches CHR 0x00 new \<noteq> t"
  shows "cb_actions (clip_step (Poll True) (clip_step (Remote (Text new) False) c)) =
    cb_actions c @ [WriteLocal (trim_end_matches CHR 0x00 new), Announce True]"
  using assms by (simp add: synced_def non_empty_def perform_def on_local_text_def readable_def Let_def)

text \<open>
  What leaves the local clipboard: text is sent only in answer to a request for Unicode text,
  it is the current local text, and any other format is answered with an error response.
\<close>

theorem clipboard_only_answers_text_requests:
  "fst (on_remote_event e local_text s) = Some (SendText (Some t)) \<longleftrightarrow>
     e = DataRequested CF_UNICODETEXT \<and> local_text = Some t"
  by (cases e) (auto simp: Let_def)

section \<open>Witness\<close>

definition clip0 :: clip_state where
  "clip0 = \<lparr>cb_local = Some ''old'', cb_sync = \<lparr>last_text = None\<rparr>, cb_actions = []\<rparr>"

theorem clipboard_text_never_echoes_witness:
  "cb_actions (fold clip_step [Remote (Text (''hi'' @ [CHR 0x00])) True, Remote (Copied False) True,
     Remote (DataRequested CF_UNICODETEXT) True, Poll True] clip0) = [WriteLocal ''hi'', SendText (Some ''hi'')]"
proof -
  have "crosses (Remote (Text (''hi'' @ [CHR 0x00])) True) clip0" by (simp add: clip0_def)
  moreover have "\<forall>x \<in> set [Remote (Copied False) True, Remote (DataRequested CF_UNICODETEXT) True]. undisturbed x" by simp
  ultimately show ?thesis
    using clipboard_text_never_echoes [OF _ _ refl, of "Remote (Text (''hi'' @ [CHR 0x00])) True" clip0
        "[Remote (Copied False) True, Remote (DataRequested CF_UNICODETEXT) True]" True]
    by (simp add: clip0_def perform_def readable_def Let_def trim_end_matches_def)
qed

end
