(* ===== verification/Rdp_License.thy ===== *)
theory Rdp_License
  imports Rust_Str
begin

text \<open>
  \<^verbatim>\<open>portix_rdp/src/infrastructure/license_cache.rs\<close>: recognising license errors and CyberArk logins,
  and the two caches handed to the connector. \<open>LicenseCache\<close> is an interface of \<^verbatim>\<open>ironrdp\<close>; its
  contract is a locale here, interpreted on both caches. The disk is a map from paths to file
  contents; the hash of the file name and the JSON encoding are parameters, with the law that
  decoding gives back what was encoded.
\<close>

section \<open>Recognising\<close>

definition is_license_error :: "string \<Rightarrow> bool" where
  "is_license_error msg \<longleftrightarrow>
     contains ''LicenseExchangeState'' msg \<or> contains ''SERVER_NEW_LICENSE'' msg \<or>
     contains ''licensing error'' msg \<or> contains ''license verification'' msg \<or>
     contains ''ClientNewLicenseRequest'' msg \<or> contains ''ClientLicenseInfo'' msg \<or>
     contains ''ClientPlatformChallengeResponse'' msg"

definition is_cyberark_pam :: "(string \<Rightarrow> string) \<Rightarrow> string \<Rightarrow> bool" where
  "is_cyberark_pam uni username \<longleftrightarrow>
     (let lower = to_lowercase uni username in
      starts_with ''psm@'' lower \<or> starts_with (''psm'' @ [CHR 0x5C] @ ''@'') lower \<or>
      starts_with ''pam@'' lower \<or> starts_with (''pam'' @ [CHR 0x5C] @ ''@'') lower)"

section \<open>Where licenses are kept\<close>

definition default_cache_dir :: "(string \<Rightarrow> string option) \<Rightarrow> bool \<Rightarrow> string" where
  "default_cache_dir env macos =
     (case env ''XDG_CACHE_HOME'' of
        Some base \<Rightarrow> path_join (path_join base ''portix'') ''licenses''
      | None \<Rightarrow> (case env ''HOME'' of
          Some home \<Rightarrow>
            if macos then
              path_join (path_join (path_join (path_join home ''Library'') ''Caches'') ''portix'') ''licenses''
            else path_join (path_join (path_join home ''.cache'') ''portix'') ''licenses''
        | None \<Rightarrow> (case env ''LOCALAPPDATA'' of
            Some local_dir \<Rightarrow> path_join (path_join local_dir ''portix'') ''licenses''
          | None \<Rightarrow> ''/tmp/portix_cache/licenses'')))"

section \<open>The caches\<close>

text \<open>What identifies a license, and the license itself.\<close>

record license_identity =
  li_version :: u32
  li_scope :: string
  li_company_name :: string
  li_product_id :: string

record license_information =
  lc_identity :: license_identity
  lc_license_info :: bytes

definition stub_get_license :: "license_information \<Rightarrow> 'd \<Rightarrow> (string, bytes option) result" where
  "stub_get_license info d = Ok (Some [])"

definition stub_store_license :: "license_information \<Rightarrow> ('d, string, unit) io" where
  "stub_store_license info d = (Ok (), d)"

text \<open>
  The disk as the file cache sees it: the files, and why creating the folder, creating, opening
  or opening a file fails, if it does. A failed write is logged only; \<open>ld_written\<close> is what of the text
  reaches the file, which creating it has emptied.
\<close>

record license_disk =
  ld_files :: "string \<rightharpoonup> string"
  ld_mkdir_error :: "string option"
  ld_create_error :: "string \<Rightarrow> string option"
  ld_open_error :: "string \<Rightarrow> string option"
  ld_written :: "string \<Rightarrow> string"

record license_codec =
  lk_hash :: "license_identity \<Rightarrow> u64"
  lk_to_json :: "license_information \<Rightarrow> string"
  lk_from_json :: "string \<Rightarrow> license_information option"

definition hex16 :: "u64 \<Rightarrow> string" where
  "hex16 w = (let h = hex (unat w) in replicate (16 - length h) (CHR ''0'') @ h)"

definition cache_file_path :: "license_codec \<Rightarrow> string \<Rightarrow> license_identity \<Rightarrow> string" where
  "cache_file_path lk dir i = path_join dir (''license_'' @ hex16 (lk_hash lk i) @ ''.json'')"

definition file_get_license ::
  "license_codec \<Rightarrow> string \<Rightarrow> license_information \<Rightarrow> license_disk \<Rightarrow> (string, bytes option) result" where
  "file_get_license lk dir info d =
     (let path = cache_file_path lk dir (lc_identity info) in
      case ld_files d path of
        None \<Rightarrow> Ok None
      | Some text \<Rightarrow>
          (case ld_open_error d path of
             Some e \<Rightarrow> Err ''FileLicenseCache::get_license''
           | None \<Rightarrow> (case lk_from_json lk text of
               None \<Rightarrow> Err ''FileLicenseCache::get_license deserialize''
             | Some cached \<Rightarrow>
                 if lc_identity cached = lc_identity info then Ok (Some (lc_license_info cached)) else Ok None)))"

definition file_store_license ::
  "license_codec \<Rightarrow> string \<Rightarrow> license_information \<Rightarrow> (license_disk, string, unit) io" where
  "file_store_license lk dir info d =
     (case ld_mkdir_error d of
        Some e \<Rightarrow> (Ok (), d)
      | None \<Rightarrow>
          (let path = cache_file_path lk dir (lc_identity info) in
           case ld_create_error d path of
             Some e \<Rightarrow> (Err ''FileLicenseCache::store_license'', d)
           | None \<Rightarrow>
               (Ok (), d\<lparr>ld_files := (ld_files d)(path \<mapsto> ld_written d (lk_to_json lk info))\<rparr>)))"

section \<open>The interface\<close>

text \<open>
  What a connector may rely on: on a healthy disk a stored license is found again by the
  identity it was stored under, so the next connection presents a license instead of asking
  for a new one.
\<close>

locale license_cache =
  fixes get_license :: "license_information \<Rightarrow> 'd \<Rightarrow> (string, bytes option) result"
    and store_license :: "license_information \<Rightarrow> ('d, string, unit) io"
    and healthy :: "'d \<Rightarrow> bool"
    and answer :: "license_information \<Rightarrow> bytes"
  assumes store_ok: "healthy d \<Longrightarrow> fst (store_license info d) = Ok ()"
    and store_healthy: "healthy d \<Longrightarrow> healthy (snd (store_license info d))"
    and get_stored: "healthy d \<Longrightarrow> lc_identity wanted = lc_identity info \<Longrightarrow>
      get_license wanted (snd (store_license info d)) = Ok (Some (answer info))"
begin

lemma store_twice:
  assumes "healthy d" "lc_identity wanted = lc_identity newer"
  shows "get_license wanted (snd (store_license newer (snd (store_license older d)))) = Ok (Some (answer newer))"
  using get_stored [OF store_healthy [OF assms(1)] assms(2)] .

end

interpretation stub_cache: license_cache stub_get_license stub_store_license "\<lambda>_. True" "\<lambda>_. []"
  by unfold_locales (simp_all add: stub_get_license_def stub_store_license_def)

definition healthy_disk :: "license_codec \<Rightarrow> license_disk \<Rightarrow> bool" where
  "healthy_disk lk d \<longleftrightarrow>
     ld_mkdir_error d = None \<and> (\<forall>p. ld_create_error d p = None \<and> ld_open_error d p = None) \<and> (\<forall>t. ld_written d t = t) \<and>
     (\<forall>info. lk_from_json lk (lk_to_json lk info) = Some info)"

interpretation file_cache: license_cache "file_get_license lk dir" "file_store_license lk dir" "healthy_disk lk"
    lc_license_info for lk dir
  by unfold_locales
     (auto simp: file_get_license_def file_store_license_def healthy_disk_def Let_def)

section \<open>Properties\<close>

text \<open>
  The file cache returns the license last stored under an identity, and never one stored
  under another: when two identities share a file name, a lookup sees a mismatch and reports
  nothing rather than the wrong license.
\<close>

theorem license_file_round_trip:
  assumes "healthy_disk lk d"
    and "d' = snd (file_store_license lk dir newer (snd (file_store_license lk dir older d)))"
  shows "(lc_identity wanted = lc_identity newer \<longrightarrow>
      file_get_license lk dir wanted d' = Ok (Some (lc_license_info newer))) \<and>
    (lc_identity wanted \<noteq> lc_identity newer \<longrightarrow>
      lk_hash lk (lc_identity wanted) = lk_hash lk (lc_identity newer) \<longrightarrow>
      file_get_license lk dir wanted d' = Ok None)"
proof (intro conjI impI)
  show "file_get_license lk dir wanted d' = Ok (Some (lc_license_info newer))"
    if "lc_identity wanted = lc_identity newer"
    unfolding assms(2) by (rule file_cache.store_twice [OF assms(1) that])
  show "file_get_license lk dir wanted d' = Ok None"
    if "lc_identity wanted \<noteq> lc_identity newer" "lk_hash lk (lc_identity wanted) = lk_hash lk (lc_identity newer)"
    using that assms
    by (auto simp: file_get_license_def file_store_license_def healthy_disk_def cache_file_path_def Let_def)
qed

section \<open>Witness\<close>

text \<open>A codec of length-prefixed fields, with a hash under which all identities collide.\<close>

definition put_field :: "string \<Rightarrow> string \<Rightarrow> string" where
  "put_field f rest = replicate (length f) (CHR ''1'') @ CHR ''0'' # f @ rest"

definition get_field :: "string \<Rightarrow> string \<times> string" where
  "get_field t =
     (let n = length (takeWhile (\<lambda>c. c = CHR ''1'') t); r = drop (Suc n) t in (take n r, drop n r))"

lemma get_put_field [simp]: "get_field (put_field f rest) = (f, rest)"
proof -
  have "takeWhile (\<lambda>c. c = CHR ''1'') (put_field f rest) = replicate (length f) (CHR ''1'')"
    by (simp add: put_field_def takeWhile_append)
  then have "length (takeWhile (\<lambda>c. c = CHR ''1'') (put_field f rest)) = length f" by simp
  then show ?thesis by (simp add: get_field_def put_field_def Let_def)
qed

definition plain_codec :: license_codec where
  "plain_codec =
     \<lparr>lk_hash = (\<lambda>_. 7),
      lk_to_json = (\<lambda>i. put_field (show_word (li_version (lc_identity i))) (put_field (li_scope (lc_identity i))
        (put_field (li_company_name (lc_identity i)) (put_field (li_product_id (lc_identity i))
          (map byte_char (lc_license_info i)))))),
      lk_from_json = (\<lambda>t. case get_field t of (v, t1) \<Rightarrow> case get_field t1 of (sc, t2) \<Rightarrow>
        case get_field t2 of (co, t3) \<Rightarrow> case get_field t3 of (pr, t4) \<Rightarrow>
          map_option (\<lambda>n. \<lparr>lc_identity = \<lparr>li_version = of_nat n, li_scope = sc, li_company_name = co, li_product_id = pr\<rparr>,
            lc_license_info = map char_byte t4\<rparr>) (digits_from 0 v))\<rparr>"

definition clean_disk :: license_disk where
  "clean_disk = \<lparr>ld_files = Map.empty, ld_mkdir_error = None, ld_create_error = (\<lambda>_. None),
                 ld_open_error = (\<lambda>_. None), ld_written = (\<lambda>t. t)\<rparr>"

lemma clean_disk_healthy: "healthy_disk plain_codec clean_disk"
  by (simp add: healthy_disk_def clean_disk_def plain_codec_def show_word_def digits_from_dec comp_def)

definition demo_license :: "string \<Rightarrow> bytes \<Rightarrow> license_information" where
  "demo_license sc bs = \<lparr>lc_identity = \<lparr>li_version = 1, li_scope = sc, li_company_name = [], li_product_id = []\<rparr>,
                         lc_license_info = bs\<rparr>"

theorem license_file_round_trip_witness:
  "\<exists>d'. file_get_license plain_codec ''c'' (demo_license ''b'' []) d' = Ok (Some [222, 173]) \<and>
     file_get_license plain_codec ''c'' (demo_license ''a'' []) d' = Ok None"
proof -
  let ?d = "snd (file_store_license plain_codec ''c'' (demo_license ''b'' [222, 173])
    (snd (file_store_license plain_codec ''c'' (demo_license ''a'' [1]) clean_disk)))"
  have "file_get_license plain_codec ''c'' (demo_license ''b'' []) ?d = Ok (Some [222, 173])"
    using license_file_round_trip [OF clean_disk_healthy refl, of "demo_license ''b'' []" "demo_license ''b'' [222, 173]"]
    by (simp add: demo_license_def)
  moreover have "file_get_license plain_codec ''c'' (demo_license ''a'' []) ?d = Ok None"
    using license_file_round_trip [OF clean_disk_healthy refl, of "demo_license ''a'' []" "demo_license ''b'' [222, 173]"]
    by (simp add: demo_license_def plain_codec_def)
  ultimately show ?thesis by blast
qed

end
