(* ===== verification/Rdp_Client.thy ===== *)
theory Rdp_Client
  imports Rdp_Domain Rdp_Clipboard Rdp_License
begin

text \<open>
  \<^verbatim>\<open>portix_rdp/src/infrastructure/rdp_client.rs\<close> and \<^verbatim>\<open>rdpsnd.rs\<close>: connecting to an RDP server, the
  retry policy, the finalisation with license repair, and the loop of a running session. The
  protocol library (\<^verbatim>\<open>ironrdp\<close>), TLS and TCP are parameters: one field per call the code makes.
\<close>

section \<open>Commands and keys\<close>

datatype rdp_command =
    MouseMove u16 u16
  | MouseButton u16 u16 u8 bool
  | MouseWheel u16 u16 i16 bool
  | KeyboardInput u16 bool
  | RdpDisconnect

text \<open>USB HID usages and their set 1 scan codes.\<close>

definition hid_table :: "(u16 \<times> u16) list" where
  "hid_table =
     [(0x04, 0x1E), (0x05, 0x30), (0x06, 0x2E), (0x07, 0x20), (0x08, 0x12), (0x09, 0x21),
      (0x0A, 0x22), (0x0B, 0x23), (0x0C, 0x17), (0x0D, 0x24), (0x0E, 0x25), (0x0F, 0x26),
      (0x10, 0x32), (0x11, 0x31), (0x12, 0x18), (0x13, 0x19), (0x14, 0x10), (0x15, 0x13),
      (0x16, 0x1F), (0x17, 0x14), (0x18, 0x16), (0x19, 0x2F), (0x1A, 0x11), (0x1B, 0x2D),
      (0x1C, 0x15), (0x1D, 0x2C), (0x1E, 0x02), (0x1F, 0x03), (0x20, 0x04), (0x21, 0x05),
      (0x22, 0x06), (0x23, 0x07), (0x24, 0x08), (0x25, 0x09), (0x26, 0x0A), (0x27, 0x0B),
      (0x28, 0x1C), (0x29, 0x01), (0x2A, 0x0E), (0x2B, 0x0F), (0x2C, 0x39), (0x2D, 0x0C),
      (0x2E, 0x0D), (0x2F, 0x1A), (0x30, 0x1B), (0x31, 0x2B), (0x33, 0x27), (0x34, 0x28),
      (0x35, 0x29), (0x36, 0x33), (0x37, 0x34), (0x38, 0x35), (0x39, 0x3A), (0x3A, 0x3B),
      (0x3B, 0x3C), (0x3C, 0x3D), (0x3D, 0x3E), (0x3E, 0x3F), (0x3F, 0x40), (0x40, 0x41),
      (0x41, 0x42), (0x42, 0x43), (0x43, 0x44), (0x44, 0x57), (0x45, 0x58), (0x46, 0xE037),
      (0x47, 0x46), (0x48, 0xE045), (0x49, 0xE052), (0x4A, 0xE047), (0x4B, 0xE049), (0x4C, 0xE053),
      (0x4D, 0xE04F), (0x4E, 0xE051), (0x4F, 0xE04D), (0x50, 0xE04B), (0x51, 0xE050), (0x52, 0xE048),
      (0x53, 0x45), (0x54, 0xE035), (0x55, 0x37), (0x56, 0x4A), (0x57, 0x4E), (0x58, 0xE01C),
      (0x59, 0x4F), (0x5A, 0x50), (0x5B, 0x51), (0x5C, 0x4B), (0x5D, 0x4C), (0x5E, 0x4D),
      (0x5F, 0x47), (0x60, 0x48), (0x61, 0x49), (0x62, 0x52), (0x63, 0x53), (0xE0, 0x1D),
      (0xE1, 0x2A), (0xE2, 0x38), (0xE3, 0xE05B), (0xE4, 0xE01D), (0xE5, 0x36), (0xE6, 0xE038),
      (0xE7, 0xE05C)]"

definition hid_usage_to_set1 :: "u16 \<Rightarrow> u16 option" where
  "hid_usage_to_set1 hid = map_of hid_table hid"

datatype button = Left | Middle | Right

datatype operation =
    OpMouseMove u16 u16
  | OpButtonPressed button
  | OpButtonReleased button
  | OpWheel bool i16
  | OpKeyPressed u16
  | OpKeyReleased u16

definition mouse_button :: "u8 \<Rightarrow> button option" where
  "mouse_button b = (if b = 0 then Some Left else if b = 1 then Some Middle else if b = 2 then Some Right else None)"

text \<open>
  The operations one command applies to the input database, in order; \<open>None\<close> is a command that
  is skipped.
\<close>

fun command_operations :: "rdp_command \<Rightarrow> operation list option" where
  "command_operations (MouseMove x y) = Some [OpMouseMove x y]"
| "command_operations (MouseButton x y b down) =
     (case mouse_button b of
        None \<Rightarrow> None
      | Some m \<Rightarrow> Some [OpMouseMove x y, (if down then OpButtonPressed m else OpButtonReleased m)])"
| "command_operations (MouseWheel x y delta is_vertical) = Some [OpMouseMove x y, OpWheel is_vertical delta]"
| "command_operations (KeyboardInput hid down) =
     (case hid_usage_to_set1 hid of
        None \<Rightarrow> None
      | Some scancode \<Rightarrow> Some [if down then OpKeyPressed scancode else OpKeyReleased scancode])"
| "command_operations RdpDisconnect = None"

section \<open>The silent sound channel\<close>

definition noop_rdpsnd_process :: "bytes \<Rightarrow> (string, bytes list) result" where
  "noop_rdpsnd_process payload = Ok []"

section \<open>Connecting\<close>

datatype 'a timed = RTimeout | RFailed string | RDone 'a

text \<open>
  The configuration of the connector; the fields the code leaves at the library's defaults or at
  \<^verbatim>\<open>None\<close> (bitmap, hardware id, time zone, compression and the like) are left out.
\<close>

record rdp_config =
  rc_width :: u16
  rc_height :: u16
  rc_desktop_scale_factor :: u32
  rc_enable_tls :: bool
  rc_enable_credssp :: bool
  rc_username :: string
  rc_password :: string
  rc_domain :: "string option"
  rc_client_build :: u32
  rc_client_name :: string
  rc_keyboard_subtype :: u32
  rc_keyboard_functional_keys_count :: u32
  rc_keyboard_layout :: u32
  rc_ime_file_name :: string
  rc_dig_product_id :: string
  rc_client_dir :: string
  rc_alternate_shell :: string
  rc_work_dir :: string
  rc_autologon :: bool
  rc_enable_audio_playback :: bool
  rc_stub_license :: bool
  rc_enable_server_pointer :: bool
  rc_pointer_software_rendering :: bool
  rc_channels :: "string list"

text \<open>
  The connector that the repairing finalisation drives: its state, whether it waits for a PDU,
  its steps with what they want written, the codecs of the license PDUs, and \<open>cn_default\<close>, the
  state \<^verbatim>\<open>mem::take\<close> leaves behind.
\<close>

record ('w, 's, 'r) connector =
  cn_default :: 's
  cn_next_pdu_hint :: "'s \<Rightarrow> bool"
  cn_is_licensing :: "'s \<Rightarrow> bool"
  cn_read :: "('w, string, bytes) io"
  cn_decode_sdi :: "bytes \<Rightarrow> (u16 \<times> u16) option"
  cn_decode_license :: "bytes \<Rightarrow> bool"
  cn_valid_client :: "(string, bytes) result"
  cn_encode_sdi :: "u16 \<Rightarrow> u16 \<Rightarrow> bytes \<Rightarrow> (string, bytes) result"
  cn_step :: "bytes \<Rightarrow> 's \<Rightarrow> (string, bytes option) result \<times> 's"
  cn_step_no_input :: "'s \<Rightarrow> (string, bytes option) result \<times> 's"
  cn_write :: "bytes \<Rightarrow> ('w, string, unit) io"
  cn_connected :: "'s \<Rightarrow> 'r option"

definition license_input :: "('w, 's, 'r) connector \<Rightarrow> 's \<Rightarrow> bytes \<Rightarrow> (string, bytes) result" where
  "license_input cn s pdu =
     (if \<not> cn_is_licensing cn s then Ok pdu
      else if cn_decode_sdi cn pdu \<noteq> None \<and> cn_decode_license cn pdu then Ok pdu
      else case cn_decode_sdi cn pdu of
        None \<Rightarrow> Ok pdu
      | Some (initiator_id, channel_id) \<Rightarrow>
          and_then (cn_valid_client cn) (\<lambda>license_pdu. cn_encode_sdi cn initiator_id channel_id license_pdu))"

text \<open>One turn of the loop: the state after the step, once its response is written.\<close>

definition bypass_step :: "('w, 's, 'r) connector \<Rightarrow> 's \<Rightarrow> ('w, string, 's) io" where
  "bypass_step cn s =
     io_bind (if cn_next_pdu_hint cn s
              then io_bind (cn_read cn) (\<lambda>pdu. io_bind (io_of (license_input cn s pdu))
                     (\<lambda>input. io_ok (cn_step cn input s)))
              else io_ok (cn_step_no_input cn s)) (\<lambda>(written, s').
     io_bind (io_of written) (\<lambda>response.
     io_bind (case response of Some b \<Rightarrow> cn_write cn b | None \<Rightarrow> io_ok ()) (\<lambda>_. io_ok s')))"

text \<open>
  \<^verbatim>\<open>if let Connected { result } = mem::take(&mut connector.state)\<close>: the state is taken out also
  when it is another one, so the next turn starts from the default state.
\<close>

fun connect_finalize_with_license_bypass ::
  "('w, 's, 'r) connector \<Rightarrow> nat \<Rightarrow> 's \<Rightarrow> ('w, string option, 'r) io" where
  "connect_finalize_with_license_bypass cn 0 s = io_err None"
| "connect_finalize_with_license_bypass cn (Suc fuel) s =
     io_bind (io_map_err Some (bypass_step cn s)) (\<lambda>s'.
       case cn_connected cn s' of
         Some r \<Rightarrow> io_ok r
       | None \<Rightarrow> connect_finalize_with_license_bypass cn fuel (cn_default cn))"

record ('w, 's, 'r) rdp_lib =
  rl_cancelled :: "'w \<Rightarrow> bool"
  rl_tcp_connect :: "string \<Rightarrow> 'w \<Rightarrow> unit timed \<times> 'w"
  rl_tcp_setup :: "('w, string, unit) io"
  rl_create_dir :: "string \<Rightarrow> 'w \<Rightarrow> 'w"
  rl_connect_begin :: "rdp_config \<Rightarrow> 'w \<Rightarrow> unit timed \<times> 'w"
  rl_tls_upgrade :: "string \<Rightarrow> 'w \<Rightarrow> unit timed \<times> 'w"
  rl_connect_finalize :: "rdp_config \<Rightarrow> 'w \<Rightarrow> 'r timed \<times> 'w"
  rl_connector :: "rdp_config \<Rightarrow> ('w, 's, 'r) connector"
  rl_connector_state :: "rdp_config \<Rightarrow> 's"
  rl_bypass_times_out :: "'w \<Rightarrow> bool"

text \<open>A call under \<^verbatim>\<open>timeout\<close>, with the error its failure becomes.\<close>

definition timed_call :: "(string \<Rightarrow> rdp_error) \<Rightarrow> ('w \<Rightarrow> 'a timed \<times> 'w) \<Rightarrow> ('w, rdp_error, 'a) io" where
  "timed_call err f w =
     (case f w of
        (RTimeout, w') \<Rightarrow> (Err RConnectionTimeout, w')
      | (RFailed e, w') \<Rightarrow> (Err (err e), w')
      | (RDone x, w') \<Rightarrow> (Ok x, w'))"

definition make_config :: "rdp_profile \<Rightarrow> bool \<Rightarrow> bool \<Rightarrow> rdp_config" where
  "make_config p credssp stub =
     \<lparr>rc_width = rp_desktop_width p, rc_height = rp_desktop_height p, rc_desktop_scale_factor = 0,
      rc_enable_tls = True,
      rc_enable_credssp = credssp, rc_username = rp_username p, rc_password = unwrap_or [] (rp_password p),
      rc_domain = rp_domain p, rc_client_build = 7601, rc_client_name = ''Portix'',
      rc_keyboard_subtype = 0, rc_keyboard_functional_keys_count = 12, rc_keyboard_layout = 0x0409,
      rc_ime_file_name = [], rc_dig_product_id = [],
      rc_client_dir = ''C:'' @ [CHR 0x5C] @ ''Windows'' @ [CHR 0x5C] @ ''System32'' @ [CHR 0x5C] @ ''mstscax.dll'',
      rc_alternate_shell = unwrap_or [] (rp_alternate_shell p), rc_work_dir = [],
      rc_autologon = False, rc_enable_audio_playback = False, rc_stub_license = stub,
      rc_enable_server_pointer = True, rc_pointer_software_rendering = True,
      rc_channels = (if has_local_share p then [''rdpdr'', ''rdpsnd''] else []) @
                    (if rp_redirect_clipboard p then [''cliprdr''] else [])\<rparr>"

definition finalize_bypass :: "('w, 's, 'r) rdp_lib \<Rightarrow> nat \<Rightarrow> rdp_config \<Rightarrow> 'w \<Rightarrow> 'r timed \<times> 'w" where
  "finalize_bypass lib fuel config w =
     (case connect_finalize_with_license_bypass (rl_connector lib config) fuel (rl_connector_state lib config) w of
        (Ok r, w') \<Rightarrow> if rl_bypass_times_out lib w then (RTimeout, w') else (RDone r, w')
      | (Err (Some e), w') \<Rightarrow> if rl_bypass_times_out lib w then (RTimeout, w') else (RFailed e, w')
      | (Err None, w') \<Rightarrow> (RTimeout, w'))"

definition prepare_share :: "('w, 's, 'r) rdp_lib \<Rightarrow> rdp_profile \<Rightarrow> ('w, rdp_error, unit) io" where
  "prepare_share lib p w =
     (Ok (), if has_local_share p then rl_create_dir lib (unwrap_or [] (local_share_path p)) w else w)"

definition connect_steps ::
  "('w, 's, 'r) rdp_lib \<Rightarrow> nat \<Rightarrow> rdp_profile \<Rightarrow> rdp_config \<Rightarrow> bool \<Rightarrow> ('w, rdp_error, 'r) io" where
  "connect_steps lib fuel p config bypass =
     io_bind (timed_call RIo (rl_tcp_connect lib (rdp_socket_addr p))) (\<lambda>_.
     io_bind (io_map_err RIo (rl_tcp_setup lib)) (\<lambda>_.
     io_bind (prepare_share lib p) (\<lambda>_.
     io_bind (timed_call RNegotiationFailed (rl_connect_begin lib config)) (\<lambda>_.
     io_bind (timed_call RNegotiationFailed (rl_tls_upgrade lib (rp_host p))) (\<lambda>_.
     timed_call RNegotiationFailed
       (if bypass \<and> \<not> rc_enable_credssp config then finalize_bypass lib fuel config
        else rl_connect_finalize lib config))))))"

definition try_connect ::
  "('w, 's, 'r) rdp_lib \<Rightarrow> nat \<Rightarrow> rdp_profile \<Rightarrow> bool \<Rightarrow> bool \<Rightarrow> bool \<Rightarrow> ('w, rdp_error, 'r) io" where
  "try_connect lib fuel p credssp stub bypass w =
     (if rl_cancelled lib w then (Err RCancelled, w)
      else connect_steps lib fuel p (make_config p credssp stub) bypass w)"

section \<open>The retry policy\<close>

definition nla_failed :: "string \<Rightarrow> rdp_error" where
  \<open>nla_failed msg = RNegotiationFailed (''NLA failed: '' @ msg @
     ''. If this server does not support NLA, turn off "Enable CredSSP (NLA)" in the profile.'')\<close>

text \<open>\<open>attempt credssp stub bypass\<close> is one \<open>try_connect\<close>; \<open>emit\<close> reports a status.\<close>

definition connect_policy ::
  "(bool \<Rightarrow> bool \<Rightarrow> bool \<Rightarrow> ('w, rdp_error, 'r) io) \<Rightarrow> (rdp_connection_status \<Rightarrow> string \<Rightarrow> 'w \<Rightarrow> 'w) \<Rightarrow>
   (string \<Rightarrow> string) \<Rightarrow> rdp_profile \<Rightarrow> ('w, rdp_error, 'r) io" where
  "connect_policy attempt emit uni p w =
     (let credssp = rp_enable_cred_ssp p;
          retry = (\<lambda>w. attempt credssp True True
                     (emit RdpConnecting ''License exchange failed, retrying with fallback cache'' w))
      in case attempt credssp (is_cyberark_pam uni (rp_username p)) False w of
           (Ok r, w') \<Rightarrow> (Ok r, w')
         | (Err (RNegotiationFailed msg), w') \<Rightarrow>
             if credssp \<and> is_license_error msg then retry w'
             else if credssp then (Err (nla_failed msg), w')
             else if is_license_error msg then retry w'
             else (Err (RNegotiationFailed msg), w')
         | (Err e, w') \<Rightarrow> (Err e, w'))"

section \<open>Frames\<close>

record image =
  im_width :: u16
  im_height :: u16
  im_bytes_per_pixel :: nat
  im_stride :: nat
  im_data :: bytes

fun opaque :: "bytes \<Rightarrow> bytes" where
  "opaque (r # g # b # a # rest) = r # g # b # 0xFF # opaque rest"
| "opaque rest = rest"

definition frame_data :: "image \<Rightarrow> bytes option" where
  "frame_data im =
     (let width = unat (im_width im); height = unat (im_height im); row_bytes = width * 4;
          expected = min (im_stride im * height) (2 ^ 64 - 1)
      in if width = 0 \<or> height = 0 \<or> im_bytes_per_pixel im \<noteq> 4 then None
         else if length (im_data im) < expected \<or> im_stride im < row_bytes then None
         else Some (opaque (concat (map (\<lambda>row. take row_bytes (drop (row * im_stride im) (im_data im))) [0..<height]))))"

section \<open>A running session\<close>

datatype stage_output = ResponseFrame bytes | GraphicsUpdate | Terminate | OtherOutput

datatype clip_message = InitiateCopy bool | InitiatePaste u32 | SubmitData "string option"

record ('st, 'db, 'fp) rdp_ops =
  ro_process :: "bytes \<Rightarrow> 'st \<Rightarrow> (string, stage_output list) result \<times> 'st"
  ro_take_events :: "'st \<Rightarrow> remote_clipboard_event list \<times> 'st"
  ro_has_cliprdr :: "'st \<Rightarrow> bool"
  ro_clip_message :: "clip_message \<Rightarrow> 'st \<Rightarrow> (string, bytes) result \<times> 'st"
  ro_graceful_shutdown :: "'st \<Rightarrow> (string, stage_output list) result \<times> 'st"
  ro_image :: "'st \<Rightarrow> image"
  ro_input_apply :: "operation \<Rightarrow> 'db \<Rightarrow> 'fp list \<times> 'db"
  ro_encode_input :: "'fp list \<Rightarrow> (string, bytes) result"
  ro_write_error :: "bytes list \<Rightarrow> bytes \<Rightarrow> string option"
  ro_set_text :: "string \<Rightarrow> string option \<Rightarrow> string option"

record ('st, 'db) rdp_state =
  rt_stage :: 'st
  rt_db :: 'db
  rt_dirty :: bool
  rt_clip :: "string option option"
  rt_sync :: clipboard_sync
  rt_sent :: "bytes list"
  rt_frames :: "rdp_frame_event list"
  rt_next_frame_id :: u64

text \<open>
  \<open>rt_clip\<close>: no local clipboard, or one with its current text; \<open>rt_sent\<close>: what was written to the
  server, of which \<open>ro_write_error\<close> says whether the next write fails. \<open>ro_set_text\<close> is what the
  local clipboard holds after a \<^verbatim>\<open>set_text\<close>, which may have failed.
\<close>

definition local_text :: "('st, 'db) rdp_state \<Rightarrow> string option" where
  "local_text s = (case rt_clip s of None \<Rightarrow> None | Some t \<Rightarrow> t)"

definition send_bytes :: "('st, 'db, 'fp) rdp_ops \<Rightarrow> bytes \<Rightarrow> (('st, 'db) rdp_state, rdp_error, unit) io" where
  "send_bytes ops b s =
     (case ro_write_error ops (rt_sent s) b of
        Some e \<Rightarrow> (Err (RIo e), s)
      | None \<Rightarrow> (Ok (), s\<lparr>rt_sent := rt_sent s @ [b]\<rparr>))"

definition send_fast_path :: "('st, 'db, 'fp) rdp_ops \<Rightarrow> 'fp list \<Rightarrow> (('st, 'db) rdp_state, rdp_error, unit) io" where
  "send_fast_path ops events =
     io_bind (io_of (map_err RProtocol (ro_encode_input ops events))) (\<lambda>buf. send_bytes ops buf)"

definition emit_full_frame :: "string \<Rightarrow> image \<Rightarrow> ('st, 'db) rdp_state \<Rightarrow> ('st, 'db) rdp_state" where
  "emit_full_frame sid im s =
     (case frame_data im of
        None \<Rightarrow> s
      | Some data \<Rightarrow>
          s\<lparr>rt_frames := rt_frames s @
              [\<lparr>rf_session_id = sid, rf_data = data, rf_width = ucast (im_width im),
                rf_height = ucast (im_height im), rf_x = 0, rf_y = 0, rf_frame_id = rt_next_frame_id s\<rparr>],
            rt_next_frame_id := rt_next_frame_id s + 1\<rparr>)"

definition apply_clipboard_action ::
  "('st, 'db, 'fp) rdp_ops \<Rightarrow> clipboard_action \<Rightarrow> (('st, 'db) rdp_state, rdp_error, unit) io" where
  "apply_clipboard_action ops action s =
     (if \<not> ro_has_cliprdr ops (rt_stage s) then (Ok (), s)
      else
        let send = (\<lambda>msg. case ro_clip_message ops msg (rt_stage s) of
                     (Err _, st) \<Rightarrow> (Ok (), s\<lparr>rt_stage := st\<rparr>)
                   | (Ok frame, st) \<Rightarrow> send_bytes ops frame (s\<lparr>rt_stage := st\<rparr>))
        in case action of
             WriteLocal t \<Rightarrow> (Ok (), s\<lparr>rt_clip := map_option (ro_set_text ops t) (rt_clip s)\<rparr>)
           | Announce has_text \<Rightarrow> send (InitiateCopy has_text)
           | RequestText \<Rightarrow> send (InitiatePaste CF_UNICODETEXT)
           | SendText t \<Rightarrow> send (SubmitData t))"

fun process_outputs ::
  "('st, 'db, 'fp) rdp_ops \<Rightarrow> stage_output list \<Rightarrow> ('st, 'db) rdp_state \<Rightarrow>
   (('st, 'db) rdp_state, (rdp_error, unit) result) flow" where
  "process_outputs ops [] s = Continue s"
| "process_outputs ops (ResponseFrame f # os) s =
     (case send_bytes ops f s of (Err e, s') \<Rightarrow> Stop s' (Err e) | (Ok _, s') \<Rightarrow> process_outputs ops os s')"
| "process_outputs ops (GraphicsUpdate # os) s = process_outputs ops os (s\<lparr>rt_dirty := True\<rparr>)"
| "process_outputs ops (Terminate # os) s = Stop s (Ok ())"
| "process_outputs ops (OtherOutput # os) s = process_outputs ops os s"

fun process_clipboard ::
  "('st, 'db, 'fp) rdp_ops \<Rightarrow> remote_clipboard_event list \<Rightarrow> ('st, 'db) rdp_state \<Rightarrow>
   (('st, 'db) rdp_state, (rdp_error, unit) result) flow" where
  "process_clipboard ops [] s = Continue s"
| "process_clipboard ops (e # es) s =
     (case on_remote_event e (local_text s) (rt_sync s) of (action, sync) \<Rightarrow>
        let s1 = s\<lparr>rt_sync := sync\<rparr> in
        case action of
          None \<Rightarrow> process_clipboard ops es s1
        | Some a \<Rightarrow> (case apply_clipboard_action ops a s1 of
            (Err x, s2) \<Rightarrow> Stop s2 (Err x)
          | (Ok _, s2) \<Rightarrow> process_clipboard ops es s2))"

fun apply_operations :: "('st, 'db, 'fp) rdp_ops \<Rightarrow> operation list \<Rightarrow> 'db \<Rightarrow> 'fp list \<times> 'db" where
  "apply_operations ops [] db = ([], db)"
| "apply_operations ops (x # xs) db =
     (case ro_input_apply ops x db of (e, db1) \<Rightarrow>
        case apply_operations ops xs db1 of (es, db2) \<Rightarrow> (e @ es, db2))"

fun shutdown_frames :: "('st, 'db, 'fp) rdp_ops \<Rightarrow> stage_output list \<Rightarrow> (('st, 'db) rdp_state, rdp_error, unit) io" where
  "shutdown_frames ops [] = io_ok ()"
| "shutdown_frames ops (ResponseFrame f # os) = io_bind (send_bytes ops f) (\<lambda>_. shutdown_frames ops os)"
| "shutdown_frames ops (_ # os) = shutdown_frames ops os"

definition close_rdp ::
  "('st, 'db, 'fp) rdp_ops \<Rightarrow> ('st, 'db) rdp_state \<Rightarrow> (('st, 'db) rdp_state, (rdp_error, unit) result) flow" where
  "close_rdp ops s =
     (case ro_graceful_shutdown ops (rt_stage s) of
        (Err e, st) \<Rightarrow> Stop (s\<lparr>rt_stage := st\<rparr>) (Err (RProtocol e))
      | (Ok outputs, st) \<Rightarrow> (case shutdown_frames ops outputs (s\<lparr>rt_stage := st\<rparr>) of (r, s') \<Rightarrow> Stop s' r))"

definition rdp_input ::
  "('st, 'db, 'fp) rdp_ops \<Rightarrow> rdp_command \<Rightarrow> ('st, 'db) rdp_state \<Rightarrow> (('st, 'db) rdp_state, (rdp_error, unit) result) flow" where
  "rdp_input ops cmd s =
     (case command_operations cmd of
        None \<Rightarrow> Continue s
      | Some xs \<Rightarrow>
          (case apply_operations ops xs (rt_db s) of (events, db) \<Rightarrow>
             let s1 = s\<lparr>rt_db := db\<rparr> in
             if events = [] then Continue s1
             else case send_fast_path ops events s1 of
               (Err e, s2) \<Rightarrow> Stop s2 (Err e)
             | (Ok _, s2) \<Rightarrow> Continue s2))"

datatype rdp_event =
    FrameTick
  | ClipboardTick
  | CancelRequested
  | PduRead "(string, bytes) result"
  | RdpCmd "rdp_command option"
  | UserCopies string

fun rdp_step ::
  "('st, 'db, 'fp) rdp_ops \<Rightarrow> string \<Rightarrow> ('st, 'db) rdp_state \<Rightarrow> rdp_event \<Rightarrow>
   (('st, 'db) rdp_state, (rdp_error, unit) result) flow" where
  "rdp_step ops sid s FrameTick =
     Continue (if rt_dirty s then (emit_full_frame sid (ro_image ops (rt_stage s)) s)\<lparr>rt_dirty := False\<rparr> else s)"
| "rdp_step ops sid s ClipboardTick =
     (if rt_clip s = None then Continue s
      else case on_local_text (local_text s) (rt_sync s) of (action, sync) \<Rightarrow>
        let s1 = s\<lparr>rt_sync := sync\<rparr> in
        case action of
          None \<Rightarrow> Continue s1
        | Some a \<Rightarrow> (case apply_clipboard_action ops a s1 of
            (Err e, s2) \<Rightarrow> Stop s2 (Err e) | (Ok _, s2) \<Rightarrow> Continue s2))"
| "rdp_step ops sid s CancelRequested =
     Stop (s\<lparr>rt_stage := snd (ro_graceful_shutdown ops (rt_stage s))\<rparr>) (Err RCancelled)"
| "rdp_step ops sid s (PduRead (Err e)) = Stop s (Err (RProtocol e))"
| "rdp_step ops sid s (PduRead (Ok pdu)) =
     (case ro_process ops pdu (rt_stage s) of
        (Err e, st) \<Rightarrow> Stop (s\<lparr>rt_stage := st\<rparr>) (Err (RProtocol e))
      | (Ok outputs, st) \<Rightarrow>
          (case process_outputs ops outputs (s\<lparr>rt_stage := st\<rparr>) of
             Stop s' r \<Rightarrow> Stop s' r
           | Continue s1 \<Rightarrow>
               (case ro_take_events ops (rt_stage s1) of (es, st') \<Rightarrow>
                  process_clipboard ops es (s1\<lparr>rt_stage := st'\<rparr>))))"
| "rdp_step ops sid s (RdpCmd None) = close_rdp ops s"
| "rdp_step ops sid s (RdpCmd (Some RdpDisconnect)) = close_rdp ops s"
| "rdp_step ops sid s (RdpCmd (Some cmd)) = rdp_input ops cmd s"
| "rdp_step ops sid s (UserCopies t) = Continue (s\<lparr>rt_clip := map_option (\<lambda>_. Some t) (rt_clip s)\<rparr>)"

definition rdp_session ::
  "('st, 'db, 'fp) rdp_ops \<Rightarrow> string \<Rightarrow> rdp_event list \<Rightarrow> ('st, 'db) rdp_state \<Rightarrow>
   (('st, 'db) rdp_state, (rdp_error, unit) result) flow" where
  "rdp_session ops sid events s = run_loop (rdp_step ops sid) s events"

text \<open>
  The state a session starts in: the local clipboard is opened only when the profile shares it, and
  opening may fail (\<open>clipboard\<close>).
\<close>

definition start_session ::
  "rdp_profile \<Rightarrow> string option option \<Rightarrow> 'st \<Rightarrow> 'db \<Rightarrow> u64 \<Rightarrow> ('st, 'db) rdp_state" where
  "start_session p clipboard stage input_db next_id =
     \<lparr>rt_stage = stage, rt_db = input_db, rt_dirty = False,
      rt_clip = (if rp_redirect_clipboard p then clipboard else None),
      rt_sync = \<lparr>last_text = None\<rparr>, rt_sent = [], rt_frames = [], rt_next_frame_id = next_id\<rparr>"

text \<open>
  The whole runtime: \<open>connected\<close> is the outcome of the connection policy, \<open>start\<close> the state the
  session starts in; the status \<open>Connected\<close> is reported in between.
\<close>

definition rdp_run ::
  "('w \<Rightarrow> bool) \<Rightarrow> ('w, rdp_error, 'r) io \<Rightarrow> (rdp_connection_status \<Rightarrow> string \<Rightarrow> 'w \<Rightarrow> 'w) \<Rightarrow>
   ('st, 'db, 'fp) rdp_ops \<Rightarrow> string \<Rightarrow> ('r \<Rightarrow> ('st, 'db) rdp_state) \<Rightarrow> rdp_event list \<Rightarrow> 'w \<Rightarrow>
   (rdp_error, (('st, 'db) rdp_state, (rdp_error, unit) result) flow) result \<times> 'w" where
  "rdp_run cancelled connected emit ops sid start_state events w =
     (if cancelled w then (Err RCancelled, w)
      else case connected w of
        (Err e, w') \<Rightarrow> (Err e, w')
      | (Ok r, w') \<Rightarrow> (Ok (rdp_session ops sid events (start_state r)), emit RdpConnected ''connected'' w'))"

section \<open>Lemmas\<close>

lemma keeps_timed_call:
  assumes "\<And>w. I w \<Longrightarrow> I (snd (f w))"
  shows "keeps I (timed_call err f)"
proof (rule keepsI)
  fix w
  assume "I w"
  then have "I (snd (f w))" by (rule assms)
  then show "I (snd (timed_call err f w))"
    by (cases "f w"; cases "fst (f w)") (simp_all add: timed_call_def)
qed

lemma keeps_policy:
  assumes "\<And>stub bypass. keeps I (attempt (rp_enable_cred_ssp p) stub bypass)"
    and "\<And>st msg w. I w \<Longrightarrow> I (emit st msg w)"
  shows "keeps I (connect_policy attempt emit uni p)"
proof (rule keepsI)
  fix w
  assume w: "I w"
  obtain r w' where a: "attempt (rp_enable_cred_ssp p) (is_cyberark_pam uni (rp_username p)) False w = (r, w')"
    by fastforce
  have w': "I w'" using keepsD [OF assms(1) w] a by (metis snd_conv)
  have again: "I (snd (attempt (rp_enable_cred_ssp p) True True (emit st msg w')))" for st msg
    by (rule keepsD [OF assms(1) assms(2) [OF w']])
  show "I (snd (connect_policy attempt emit uni p w))"
    using w' again by (auto simp: connect_policy_def a Let_def split: sum.splits rdp_error.splits)
qed

lemma at_most_two_attempts:
  assumes "\<And>a b c w. cnt (snd (attempt a b c w)) \<le> cnt w + (1 :: nat)" "\<And>st msg w. cnt (emit st msg w) = cnt w"
  shows "cnt (snd (connect_policy attempt emit uni p w)) \<le> cnt w + 2"
proof -
  obtain r w' where a: "attempt (rp_enable_cred_ssp p) (is_cyberark_pam uni (rp_username p)) False w = (r, w')"
    by fastforce
  have w': "cnt w' \<le> cnt w + 1" using assms(1) a by (metis snd_conv)
  have again: "cnt (snd (attempt (rp_enable_cred_ssp p) True True (emit st msg w'))) \<le> cnt w + 2" for st msg
    using assms(1) [of "rp_enable_cred_ssp p" True True "emit st msg w'"] assms(2) [of st msg w'] w' by linarith
  show ?thesis
    using w' again by (auto simp: connect_policy_def a Let_def split: sum.splits rdp_error.splits)
qed

lemma opaque_length [simp]: "length (opaque xs) = length xs"
  by (induction xs rule: opaque.induct) simp_all

lemma opaque_nth:
  "4 dvd length xs \<Longrightarrow> i < length xs \<Longrightarrow> opaque xs ! i = (if i mod 4 = 3 then 0xFF else xs ! i)"
proof (induction xs arbitrary: i rule: opaque.induct)
  case (1 r g b a rest)
  show ?case
  proof (cases "i < 4")
    case True
    then consider "i = 0" | "i = 1" | "i = 2" | "i = 3" by linarith
    then show ?thesis by cases simp_all
  next
    case False
    then obtain j where j: "i = j + 4" by (metis add.commute le_iff_add linorder_not_less)
    have "4 dvd length rest" using "1.prems"(1) by (simp add: dvd_def) presburger
    with "1.IH" [of j] "1.prems"(2) j show ?thesis by simp
  qed
qed (auto dest: dvd_imp_le)

lemma concat_rows:
  assumes "\<And>r. r < h \<Longrightarrow> length (f r) = n" "row < h" "j < n"
  shows "concat (map f [0..<h]) ! (row * n + j) = f row ! j"
    and "length (concat (map f [0..<h])) = h * n"
proof -
  have len: "length (concat (map f [0..<k])) = k * n" if "k \<le> h" for k
    using that assms(1) by (induction k) simp_all
  show "length (concat (map f [0..<h])) = h * n" by (rule len) simp
  have "concat (map f [0..<k]) ! (row * n + j) = f row ! j" if "row < k" "k \<le> h" for k
    using that
  proof (induction k)
    case (Suc k)
    have l: "length (concat (map f [0..<k])) = k * n" using Suc.prems len [of k] by simp
    show ?case
    proof (cases "row < k")
      case True
      then have "row * n + j < k * n" using assms(3)
        by (metis add_less_mono1 add_strict_left_mono less_le_trans mult_Suc mult_le_mono1 Suc_leI add.commute)
      with True Suc l show ?thesis by (simp add: nth_append)
    next
      case False
      with Suc.prems have "row = k" by simp
      with l show ?thesis by (simp add: nth_append)
    qed
  qed simp
  then show "concat (map f [0..<h]) ! (row * n + j) = f row ! j" using assms(2) by blast
qed

lemma keeps_credssp_policy:
  assumes "rp_enable_cred_ssp p" "\<And>st msg w. I w \<Longrightarrow> I (emit st msg w)"
    and "\<And>config w. rc_enable_credssp config \<Longrightarrow> I w \<Longrightarrow> I (snd (rl_connect_begin lib config w))"
    and "\<And>config w. rc_enable_credssp config \<Longrightarrow> I w \<Longrightarrow> I (snd (rl_connect_finalize lib config w))"
    and "\<And>addr w. I w \<Longrightarrow> I (snd (rl_tcp_connect lib addr w))" "keeps I (rl_tcp_setup lib)"
    and "\<And>dir w. I w \<Longrightarrow> I (rl_create_dir lib dir w)" "\<And>host w. I w \<Longrightarrow> I (snd (rl_tls_upgrade lib host w))"
  shows "keeps I (connect_policy (try_connect lib fuel p) emit uni p)"
proof (rule keeps_policy)
  fix stub bypass
  have c: "rc_enable_credssp (make_config p True stub)" by (simp add: make_config_def)
  have "keeps I (connect_steps lib fuel p (make_config p True stub) bypass)"
    unfolding connect_steps_def
    using assms(3,4) [OF c] assms(5-8) c
    by (intro keeps_bind keeps_timed_call) (simp_all add: keeps_def prepare_share_def)
  then have "keeps I (try_connect lib fuel p True stub bypass)"
    by (simp add: keeps_def try_connect_def)
  with assms(1) show "keeps I (try_connect lib fuel p (rp_enable_cred_ssp p) stub bypass)" by simp
qed (rule assms(2))

section \<open>Properties\<close>

text \<open>
  C27: with NLA enabled, no retry turns it off: whatever holds before a connection and is kept by
  the library calls made with a configuration that has CredSSP on is kept by the whole
  connection, so nothing is ever negotiated without it, license retries included.
\<close>

theorem nla_is_never_downgraded:
  assumes "rp_enable_cred_ssp p" "\<And>st msg w. I w \<Longrightarrow> I (emit st msg w)"
    and "\<And>config w. rc_enable_credssp config \<Longrightarrow> I w \<Longrightarrow> I (snd (rl_connect_begin lib config w))"
    and "\<And>config w. rc_enable_credssp config \<Longrightarrow> I w \<Longrightarrow> I (snd (rl_connect_finalize lib config w))"
    and "\<And>addr w. I w \<Longrightarrow> I (snd (rl_tcp_connect lib addr w))" "keeps I (rl_tcp_setup lib)"
    and "\<And>dir w. I w \<Longrightarrow> I (rl_create_dir lib dir w)" "\<And>host w. I w \<Longrightarrow> I (snd (rl_tls_upgrade lib host w))"
  shows "keeps I (connect_policy (try_connect lib fuel p) emit uni p)"
  using assms by (rule keeps_credssp_policy)

text \<open>
  C38: the finalisation with license repair survives only one step. It takes the connector's state
  out to look at it and leaves the default state behind; with a connector whose default state
  waits for nothing and refuses to step, every server that needs a second step gets an error, so
  the repair never leads to a connection there.
\<close>

theorem license_repair_fails_after_one_step:
  assumes "\<not> cn_next_pdu_hint cn (cn_default cn)" "\<exists>s. cn_step_no_input cn (cn_default cn) = (Err e, s)"
    and "bypass_step cn s w = (Ok s1, w1)" "cn_connected cn s1 = None"
  shows "connect_finalize_with_license_bypass cn (Suc (Suc fuel)) s w = (Err (Some e), w1)"
proof -
  have "bypass_step cn (cn_default cn) w1 = (Err e, w1)"
    using assms(1,2) by (auto simp: bypass_step_def io_bind_def)
  with assms(3,4) show ?thesis by (simp add: io_bind_def io_map_err_def)
qed

text \<open>
  C32: a frame sent to the user interface is the decoded picture: four bytes per pixel, row after
  row without the padding of the source, colours unchanged and every pixel opaque.
\<close>

theorem frame_is_a_faithful_copy:
  assumes "frame_data im = Some data" "im_stride im * unat (im_height im) < 2 ^ 64"
    and "row < unat (im_height im)" "x < unat (im_width im)" "c < 4"
  shows "length data = unat (im_width im) * unat (im_height im) * 4 \<and>
    data ! ((row * unat (im_width im) + x) * 4 + c) =
      (if c = 3 then 0xFF else im_data im ! (row * im_stride im + x * 4 + c))"
proof (rule conjI)
  let ?w = "unat (im_width im)" and ?h = "unat (im_height im)"
  let ?f = "\<lambda>row. take (?w * 4) (drop (row * im_stride im) (im_data im))"
  from assms(1,2) have big: "im_stride im * ?h \<le> length (im_data im)" "?w * 4 \<le> im_stride im"
    and d: "data = opaque (concat (map ?f [0..<?h]))"
    by (auto simp: frame_data_def Let_def split: if_splits)
  have fits: "r * im_stride im + ?w * 4 \<le> length (im_data im)" if "r < ?h" for r
  proof -
    have "Suc r * im_stride im \<le> im_stride im * ?h" using that by (metis Suc_leI mult.commute mult_le_mono1)
    with big show ?thesis by simp
  qed
  have len: "length (?f r) = ?w * 4" if "r < ?h" for r using fits [OF that] by simp
  have j: "x * 4 + c < ?w * 4" using assms(4,5) by simp
  note rows = concat_rows [of ?h ?f, OF len assms(3) j]
  show "length data = ?w * ?h * 4" using rows(2) by (simp add: d)
  let ?i = "row * (?w * 4) + (x * 4 + c)"
  have i: "?i < ?h * (?w * 4)"
  proof -
    have "?i < row * (?w * 4) + ?w * 4" using j by simp
    also have "\<dots> = Suc row * (?w * 4)" by simp
    also have "\<dots> \<le> ?h * (?w * 4)" using assms(3) by (metis Suc_leI mult_le_mono1)
    finally show ?thesis .
  qed
  have eq: "?i = (row * ?w + x) * 4 + c" by (simp add: algebra_simps)
  have m: "?i mod 4 = c" unfolding eq using assms(5) by (simp only: mod_mult_self3 mod_less)
  have "data ! ?i = (if c = 3 then 0xFF else concat (map ?f [0..<?h]) ! ?i)"
    unfolding d using opaque_nth [of "concat (map ?f [0..<?h])" ?i] rows(2) i m by simp
  also have "concat (map ?f [0..<?h]) ! ?i = im_data im ! (row * im_stride im + x * 4 + c)"
    using rows(1) j fits [OF assms(3)] by (simp add: nth_drop add.assoc)
  finally show "data ! ((row * ?w + x) * 4 + c) = (if c = 3 then 0xFF else im_data im ! (row * im_stride im + x * 4 + c))"
    by (simp add: algebra_simps)
qed

lemma hid_table_distinct: "distinct (map snd hid_table)" "distinct (map fst hid_table)"
  by (simp_all add: hid_table_def)

text \<open>
  Every key the table knows has a scan code of its own, so two keys never look alike to the
  server; keys and buttons it does not know are dropped without touching the session.
\<close>

theorem keys_have_their_own_scan_codes:
  shows "hid_usage_to_set1 a = Some sc \<Longrightarrow> hid_usage_to_set1 b = Some sc \<Longrightarrow> a = b"
    and "hid_usage_to_set1 hid = None \<Longrightarrow> rdp_step ops sid s (RdpCmd (Some (KeyboardInput hid down))) = Continue s"
    and "2 < button \<Longrightarrow> rdp_step ops sid s (RdpCmd (Some (MouseButton x y button down))) = Continue s"
proof -
  show "a = b" if "hid_usage_to_set1 a = Some sc" "hid_usage_to_set1 b = Some sc"
  proof -
    have "(a, sc) \<in> set hid_table" "(b, sc) \<in> set hid_table"
      using that by (auto simp: hid_usage_to_set1_def dest: map_of_SomeD)
    with hid_table_distinct(1) show ?thesis
      by (metis (no_types, lifting) distinct_map inj_on_def prod.inject snd_conv)
  qed
qed (auto simp: rdp_input_def mouse_button_def split: if_splits)

text \<open>Without an open clipboard, no step of a session opens one.\<close>

lemma send_bytes_clip: "rt_clip (snd (send_bytes ops b s)) = rt_clip s"
  by (simp add: send_bytes_def split: option.splits)

lemma send_fast_path_clip: "rt_clip (snd (send_fast_path ops es s)) = rt_clip s"
  by (cases "ro_encode_input ops es") (simp_all add: send_fast_path_def io_bind_def send_bytes_clip map_err_def)

lemma process_outputs_clip: "rt_clip (flow_state (process_outputs ops outs s)) = rt_clip s"
proof (induction ops outs s rule: process_outputs.induct)
  case (2 ops f os s)
  then show ?case using send_bytes_clip [of ops f s] by (auto split: prod.splits sum.splits)
qed simp_all

lemma clipboard_action_clip: "rt_clip s = None \<Longrightarrow> rt_clip (snd (apply_clipboard_action ops a s)) = None"
  by (auto simp: apply_clipboard_action_def Let_def send_bytes_clip split: clipboard_action.splits prod.splits sum.splits)

lemma process_clipboard_clip: "rt_clip s = None \<Longrightarrow> rt_clip (flow_state (process_clipboard ops es s)) = None"
proof (induction es arbitrary: s)
  case (Cons e es)
  have step: "rt_clip s' = None" if "apply_clipboard_action ops a (s\<lparr>rt_sync := sync\<rparr>) = (r, s')" for a sync r s'
    using clipboard_action_clip [of "s\<lparr>rt_sync := sync\<rparr>" ops a] Cons.prems that by simp
  show ?case
    using Cons by (auto simp: Let_def dest: step split: prod.splits option.splits sum.splits)
qed simp

lemma shutdown_frames_clip: "rt_clip (snd (shutdown_frames ops outs s)) = rt_clip s"
proof (induction ops outs arbitrary: s rule: shutdown_frames.induct)
  case (2 ops f os)
  then show ?case using send_bytes_clip [of ops f s]
    by (cases "send_bytes ops f s") (auto simp: io_bind_def split: sum.splits)
qed simp_all

lemma close_rdp_clip: "rt_clip (flow_state (close_rdp ops s)) = rt_clip s"
  using shutdown_frames_clip [of ops _ "s\<lparr>rt_stage := _\<rparr>"]
  by (auto simp: close_rdp_def split: prod.splits sum.splits) (metis snd_conv rdp_state.select_convs(4) rdp_state.surjective rdp_state.update_convs(1))

lemma rdp_input_clip: "rt_clip (flow_state (rdp_input ops cmd s)) = rt_clip s"
proof (cases "command_operations cmd")
  case (Some xs)
  let ?s = "s\<lparr>rt_db := snd (apply_operations ops xs (rt_db s))\<rparr>"
  show ?thesis
    using Some send_fast_path_clip [of ops "fst (apply_operations ops xs (rt_db s))" ?s]
    by (cases "send_fast_path ops (fst (apply_operations ops xs (rt_db s))) ?s")
       (auto simp: rdp_input_def Let_def case_prod_beta split: sum.splits)
qed (simp add: rdp_input_def)

lemma pdu_clip:
  assumes "rt_clip s = None"
  shows "rt_clip (flow_state (rdp_step ops sid s (PduRead (Ok pdu)))) = None"
proof (cases "ro_process ops pdu (rt_stage s)")
  case (Pair r st)
  show ?thesis
  proof (cases r)
    case (Inr outputs)
    have out: "rt_clip (flow_state (process_outputs ops outputs (s\<lparr>rt_stage := st\<rparr>))) = None"
      using assms by (simp add: process_outputs_clip)
    then show ?thesis
      using Pair Inr
      by (cases "process_outputs ops outputs (s\<lparr>rt_stage := st\<rparr>)") (auto simp: process_clipboard_clip split: prod.splits)
  qed (use Pair assms in simp)
qed

interpretation no_clipboard: loop_invariant "rdp_step ops sid" "\<lambda>s. rt_clip s = None" for ops sid
proof unfold_locales
  show "rt_clip (flow_state (rdp_step ops sid s e)) = None" if "rt_clip s = None" for s e
    using that by (induction ops sid s e rule: rdp_step.induct)
      (simp_all add: emit_full_frame_def close_rdp_clip rdp_input_clip pdu_clip del: rdp_step.simps(5) split: option.splits)
qed

text \<open>What happens on the local clipboard: the user copies, and the poll looks.\<close>

fun is_clipboard_event :: "rdp_event \<Rightarrow> bool" where
  "is_clipboard_event ClipboardTick = True"
| "is_clipboard_event (UserCopies _) = True"
| "is_clipboard_event _ = False"

lemma no_clipboard_event: "rt_clip s = None \<Longrightarrow> is_clipboard_event e \<Longrightarrow> rdp_step ops sid s e = Continue s"
  by (cases e) simp_all

lemma no_clipboard_run:
  "rt_clip s = None \<Longrightarrow>
     run_loop (rdp_step ops sid) s events = run_loop (rdp_step ops sid) s (filter (\<lambda>e. \<not> is_clipboard_event e) events)"
proof (induction events arbitrary: s)
  case (Cons e events)
  then show ?case
    using no_clipboard.step_inv [OF Cons.prems, of ops sid e]
    by (cases "rdp_step ops sid s e") (auto simp: no_clipboard_event)
qed simp

text \<open>
  C28: a clipboard that is not shared stays private. When the profile does not redirect the
  clipboard, the clipboard channel is not requested, and whatever the server sends and asks for,
  what the session sends, shows and ends with is the same as if the user had never copied
  anything: no text of the local clipboard reaches the server. And no text of the server is written
  to it, since the session never opens it.
\<close>

theorem unshared_clipboard_stays_private:
  assumes "\<not> rp_redirect_clipboard p"
  shows "''cliprdr'' \<notin> set (rc_channels (make_config p credssp stub)) \<and>
    rdp_session ops sid events (start_session p clipboard stage db n) =
      rdp_session ops sid (filter (\<lambda>e. \<not> is_clipboard_event e) events) (start_session p None stage db n) \<and>
    rt_clip (flow_state (rdp_session ops sid events (start_session p clipboard stage db n))) = None"
proof -
  have start: "start_session p clipboard stage db n = start_session p None stage db n"
    and none: "rt_clip (start_session p None stage db n) = None"
    using assms by (simp_all add: start_session_def)
  have "rdp_session ops sid events (start_session p clipboard stage db n) =
      rdp_session ops sid (filter (\<lambda>e. \<not> is_clipboard_event e) events) (start_session p None stage db n)"
    unfolding start rdp_session_def by (rule no_clipboard_run [OF none])
  moreover have "rt_clip (flow_state (rdp_session ops sid events (start_session p clipboard stage db n))) = None"
    unfolding start rdp_session_def by (rule no_clipboard.run_inv [OF none])
  ultimately show ?thesis using assms by (simp add: make_config_def)
qed

section \<open>Witnesses\<close>

text \<open>A library that records whether CredSSP was ever off, and fails its first finalisation on a license PDU.\<close>

definition demo_rdp_lib :: "(bool \<times> nat, unit, unit) rdp_lib" where
  "demo_rdp_lib =
     \<lparr>rl_cancelled = (\<lambda>_. False), rl_tcp_connect = (\<lambda>_ w. (RDone (), w)), rl_tcp_setup = io_ok (),
      rl_create_dir = (\<lambda>_ w. w),
      rl_connect_begin = (\<lambda>config (safe, n). (RDone (), (safe \<and> rc_enable_credssp config, n))),
      rl_tls_upgrade = (\<lambda>_ w. (RDone (), w)),
      rl_connect_finalize = (\<lambda>config (safe, n).
        (if n = 0 then RFailed ''licensing error'' else RDone (), (safe, Suc n))),
      rl_connector = (\<lambda>_. \<lparr>cn_default = (), cn_next_pdu_hint = (\<lambda>_. False), cn_is_licensing = (\<lambda>_. False),
        cn_read = io_err [], cn_decode_sdi = (\<lambda>_. None), cn_decode_license = (\<lambda>_. False), cn_valid_client = Err [],
        cn_encode_sdi = (\<lambda>_ _ _. Err []), cn_step = (\<lambda>_ s. (Err [], s)), cn_step_no_input = (\<lambda>s. (Err [], s)),
        cn_write = (\<lambda>_. io_ok ()), cn_connected = (\<lambda>_. None)\<rparr>),
      rl_connector_state = (\<lambda>_. ()), rl_bypass_times_out = (\<lambda>_. False)\<rparr>"

theorem nla_is_never_downgraded_witness:
  "fst (snd (connect_policy (try_connect demo_rdp_lib 0 default_profile) (\<lambda>_ _ w. w) id default_profile (True, 0)))"
proof -
  have "keeps fst (connect_policy (try_connect demo_rdp_lib 0 default_profile) (\<lambda>_ _ w. w) id default_profile)"
    by (rule nla_is_never_downgraded)
       (auto simp: default_profile_def demo_rdp_lib_def split: prod.splits)
  from keepsD [OF this, of "(True, 0)"] show ?thesis by simp
qed

text \<open>A connector that needs two steps: states 0, 1 and connected at 2; the default state is 9.\<close>

definition two_step :: "(unit, nat, unit) connector" where
  "two_step =
     \<lparr>cn_default = 9, cn_next_pdu_hint = (\<lambda>_. False), cn_is_licensing = (\<lambda>_. False),
      cn_read = io_err [], cn_decode_sdi = (\<lambda>_. None), cn_decode_license = (\<lambda>_. False), cn_valid_client = Err [],
      cn_encode_sdi = (\<lambda>_ _ _. Err []), cn_step = (\<lambda>_ s. (Ok None, Suc s)),
      cn_step_no_input = (\<lambda>s. if s = 9 then (Err ''consumed'', s) else (Ok None, Suc s)),
      cn_write = (\<lambda>_. io_ok ()), cn_connected = (\<lambda>s. if s = 2 then Some () else None)\<rparr>"

theorem license_repair_fails_after_one_step_witness:
  "connect_finalize_with_license_bypass two_step 5 0 () = (Err (Some ''consumed''), ())"
proof -
  have "bypass_step two_step 0 () = (Ok 1, ())"
    by (simp add: bypass_step_def two_step_def io_bind_def)
  from license_repair_fails_after_one_step [OF _ _ this, of "''consumed''" 3] show ?thesis
    by (simp add: two_step_def numeral_eq_Suc)
qed

definition demo_image :: image where
  "demo_image = \<lparr>im_width = 1, im_height = 2, im_bytes_per_pixel = 4, im_stride = 5,
                 im_data = [1, 2, 3, 4, 0, 5, 6, 7, 8, 0]\<rparr>"

theorem frame_is_a_faithful_copy_witness:
  "\<exists>data. frame_data demo_image = Some data \<and> length data = 8 \<and> data ! 4 = 5 \<and> data ! 7 = 0xFF"
proof -
  obtain data where d: "frame_data demo_image = Some data"
    by (simp add: frame_data_def demo_image_def Let_def)
  have small: "im_stride demo_image * unat (im_height demo_image) < 2 ^ 64"
    "1 < unat (im_height demo_image)" "0 < unat (im_width demo_image)" by (simp_all add: demo_image_def)
  note copy = frame_is_a_faithful_copy [OF d small]
  have "length data = 8" "data ! 4 = 5" "data ! 7 = 0xFF"
    using copy [of 0] copy [of 3] by (simp_all add: demo_image_def)
  with d show ?thesis by blast
qed

theorem keys_have_their_own_scan_codes_witness:
  "hid_usage_to_set1 0x32 = None \<and>
   (\<forall>(ops :: (unit, unit, unit) rdp_ops) s. rdp_step ops ''s'' s (RdpCmd (Some (KeyboardInput 0x32 True))) = Continue s)"
proof -
  have none: "hid_usage_to_set1 0x32 = None" by (simp add: hid_usage_to_set1_def hid_table_def)
  show ?thesis using none keys_have_their_own_scan_codes(2) [OF none] by blast
qed

text \<open>A server that asks for the text of the clipboard after every message, on an open channel.\<close>

definition asking_ops :: "(unit, unit, unit) rdp_ops" where
  "asking_ops =
     \<lparr>ro_process = (\<lambda>pdu st. (Ok [ResponseFrame pdu], st)), ro_take_events = (\<lambda>st. ([DataRequested CF_UNICODETEXT], st)),
      ro_has_cliprdr = (\<lambda>_. True),
      ro_clip_message = (\<lambda>m st. (Ok (case m of SubmitData (Some t) \<Rightarrow> str_bytes t | _ \<Rightarrow> []), st)),
      ro_graceful_shutdown = (\<lambda>st. (Ok [], st)), ro_image = (\<lambda>_. demo_image),
      ro_input_apply = (\<lambda>_ db. ([], db)), ro_encode_input = (\<lambda>_. Ok []), ro_write_error = (\<lambda>_ _. None),
      ro_set_text = (\<lambda>t _. Some t)\<rparr>"

theorem unshared_clipboard_stays_private_witness:
  "rt_sent (flow_state (rdp_session asking_ops ''s'' [UserCopies ''secret'', ClipboardTick, PduRead (Ok [1])]
      (start_session (default_profile\<lparr>rp_redirect_clipboard := False\<rparr>) (Some None) () () 0))) = [[1], []]"
proof -
  let ?p = "default_profile\<lparr>rp_redirect_clipboard := False\<rparr>"
  have "rdp_session asking_ops ''s'' [UserCopies ''secret'', ClipboardTick, PduRead (Ok [1])] (start_session ?p (Some None) () () 0) =
      rdp_session asking_ops ''s'' [PduRead (Ok [1])] (start_session ?p None () () 0)"
    using unshared_clipboard_stays_private [of ?p False False asking_ops "''s''"
        "[UserCopies ''secret'', ClipboardTick, PduRead (Ok [1])]" "Some None" "()" "()" 0] by simp
  then show ?thesis
    by (simp add: rdp_session_def start_session_def asking_ops_def send_bytes_def apply_clipboard_action_def local_text_def)
qed

end
