(* ===== verification/Rdp_Sessions.thy ===== *)
theory Rdp_Sessions
  imports Rdp_Client Session_Spec
begin

text \<open>
  \<^verbatim>\<open>portix_rdp/src/application/session_manager.rs\<close> and \<^verbatim>\<open>portix_rdp/src/api.rs\<close>: the RDP sessions.
  Two maps behind separate locks, sessions by id and the session of each profile, and one task
  per session that cleans both up when it ends. Starting a session spawns its task before the
  maps are filled, and every lock is taken on its own, so the manager is a machine whose steps
  are the critical sections.
\<close>

section \<open>State\<close>

datatype rdp_phase =
    RRunning
  | RFinished "(rdp_error, unit) result"
  | RReported "(rdp_error, unit) result"
  | RUnlisted "(rdp_error, unit) result"
  | RUnindexed "(rdp_error, unit) result"

record rdp_task =
  rk_info :: rdp_session_info
  rk_profile :: rdp_profile
  rk_phase :: rdp_phase
  rk_cancelled :: bool
  rk_queue :: "rdp_command list"

text \<open>
  \<^verbatim>\<open>SessionHandle\<close> is the information of the session together with the sending ends of its channel
  and its cancellation token; the receiving ends are the fields \<open>rk_queue\<close> and \<open>rk_cancelled\<close> of the
  task with the same identifier.
\<close>

record rdp_manager =
  rm_sessions :: "string \<rightharpoonup> rdp_session_info"
  rm_index :: "string \<rightharpoonup> string"
  rm_tasks :: "string \<rightharpoonup> rdp_task"
  rm_status :: "rdp_status_event list"
  rm_errors :: "rdp_error_event list"
  rm_global_cancel :: bool
  rm_next_frame_id :: u64

definition rdp_new :: rdp_manager where
  "rdp_new = \<lparr>rm_sessions = Map.empty, rm_index = Map.empty, rm_tasks = Map.empty,
              rm_status = [], rm_errors = [], rm_global_cancel = False, rm_next_frame_id = 0\<rparr>"

definition next_frame_id :: "rdp_manager \<Rightarrow> u64 \<times> rdp_manager" where
  "next_frame_id m = (rm_next_frame_id m + 1, m\<lparr>rm_next_frame_id := rm_next_frame_id m + 1\<rparr>)"

section \<open>Queries\<close>

definition parse_rdp_file_content ::
  "(string \<Rightarrow> string) \<Rightarrow> string \<Rightarrow> string \<Rightarrow> string option \<Rightarrow> (rdp_error, rdp_session_info) result" where
  "parse_rdp_file_content uni pid content name =
     and_then (parse_rdp_file uni content pid name)
       (\<lambda>_. Ok \<lparr>ri_id = pid, ri_profile_id = pid, ri_status = RdpDisconnected\<rparr>)"

definition get_active_session_for_profile :: "string \<Rightarrow> rdp_manager \<Rightarrow> string option" where
  "get_active_session_for_profile pid m = rm_index m pid"

definition is_session_active :: "string \<Rightarrow> rdp_manager \<Rightarrow> bool" where
  "is_session_active sid m \<longleftrightarrow> rm_sessions m sid \<noteq> None"

text \<open>\<^verbatim>\<open>command_tx.is_closed()\<close>: the runtime dropped its receiver when it ended.\<close>

definition task_open :: "rdp_manager \<Rightarrow> string \<Rightarrow> bool" where
  "task_open m sid = (case rm_tasks m sid of Some t \<Rightarrow> rk_phase t = RRunning | None \<Rightarrow> False)"

definition update_task :: "string \<Rightarrow> (rdp_task \<Rightarrow> rdp_task) \<Rightarrow> rdp_manager \<Rightarrow> rdp_manager" where
  "update_task sid f m = m\<lparr>rm_tasks := (rm_tasks m)(sid := map_option f (rm_tasks m sid))\<rparr>"

definition set_session :: "string \<Rightarrow> rdp_session_info option \<Rightarrow> rdp_manager \<Rightarrow> rdp_manager" where
  "set_session sid x m = m\<lparr>rm_sessions := (rm_sessions m)(sid := x)\<rparr>"

definition set_index :: "string \<Rightarrow> string option \<Rightarrow> rdp_manager \<Rightarrow> rdp_manager" where
  "set_index pid x m = m\<lparr>rm_index := (rm_index m)(pid := x)\<rparr>"

section \<open>Connecting\<close>

definition find_existing :: "string \<Rightarrow> rdp_manager \<Rightarrow> rdp_session_info option \<times> rdp_manager" where
  "find_existing pid m =
     (case rm_index m pid of
        None \<Rightarrow> (None, m)
      | Some existing_id \<Rightarrow>
          (case rm_sessions m existing_id of
             None \<Rightarrow> (None, m)
           | Some info \<Rightarrow>
               if task_open m existing_id then (Some info, m)
               else (None, set_index pid None (set_session existing_id None m))))"

definition new_info :: "string \<Rightarrow> rdp_profile \<Rightarrow> rdp_session_info" where
  "new_info sid p = \<lparr>ri_id = sid, ri_profile_id = rp_id p, ri_status = RdpConnecting\<rparr>"

definition rdp_spawn :: "string \<Rightarrow> rdp_profile \<Rightarrow> rdp_manager \<Rightarrow> rdp_manager" where
  "rdp_spawn sid p m =
     m\<lparr>rm_tasks := (rm_tasks m)(sid \<mapsto>
        \<lparr>rk_info = new_info sid p, rk_profile = p, rk_phase = RRunning, rk_cancelled = False, rk_queue = []\<rparr>)\<rparr>"

definition rdp_connect :: "string \<Rightarrow> rdp_profile \<Rightarrow> (rdp_manager, rdp_error, rdp_session_info) io" where
  "rdp_connect sid p m =
     (case rdp_validate p of
        Err e \<Rightarrow> (Err e, m)
      | Ok _ \<Rightarrow>
          (case find_existing (rp_id p) m of
             (Some info, m1) \<Rightarrow> (Ok info, m1)
           | (None, m1) \<Rightarrow>
               (Ok (new_info sid p),
                set_index (rp_id p) (Some sid) (set_session sid (Some (new_info sid p)) (rdp_spawn sid p m1)))))"

section \<open>Disconnecting and input\<close>

definition cancel_task :: "string \<Rightarrow> rdp_manager \<Rightarrow> rdp_manager" where
  "cancel_task sid = update_task sid (\<lambda>t. t\<lparr>rk_cancelled := True\<rparr>)"

text \<open>
  \<^verbatim>\<open>command_tx.send(..).await\<close>: an error when the receiver is gone, and otherwise the command is
  appended once the channel, which holds 32 commands, has room.
\<close>

definition rdp_send :: "string \<Rightarrow> rdp_command \<Rightarrow> (rdp_manager, rdp_error, unit) io" where
  "rdp_send sid cmd m =
     (if task_open m sid then (Ok (), update_task sid (\<lambda>t. t\<lparr>rk_queue := rk_queue t @ [cmd]\<rparr>) m)
      else (Err RDisconnected, m))"

definition has_room :: "string \<Rightarrow> rdp_manager \<Rightarrow> bool" where
  "has_room sid m \<longleftrightarrow> (case rm_tasks m sid of Some t \<Rightarrow> rk_phase t = RRunning \<longrightarrow> length (rk_queue t) < 32 | None \<Rightarrow> True)"

definition close_handle :: "string \<Rightarrow> rdp_manager \<Rightarrow> rdp_manager" where
  "close_handle sid m = snd (rdp_send sid RdpDisconnect (cancel_task sid m))"

definition rdp_disconnect :: "string \<Rightarrow> (rdp_manager, rdp_error, unit) io" where
  "rdp_disconnect sid m =
     (case rm_sessions m sid of
        None \<Rightarrow> (Ok (), m)
      | Some info \<Rightarrow> (Ok (), set_index (ri_profile_id info) None (close_handle sid (set_session sid None m))))"

definition disconnect_all :: "string list \<Rightarrow> rdp_manager \<Rightarrow> rdp_manager" where
  "disconnect_all order m =
     (fold close_handle order (m\<lparr>rm_sessions := Map.empty\<rparr>))\<lparr>rm_index := Map.empty\<rparr>"

definition send_input :: "string \<Rightarrow> rdp_command \<Rightarrow> (rdp_manager, rdp_error, unit) io" where
  "send_input sid cmd m =
     (case rm_sessions m sid of
        None \<Rightarrow> (Ok (), m)
      | Some _ \<Rightarrow> rdp_send sid cmd m)"

definition send_mouse_move :: "string \<Rightarrow> u16 \<Rightarrow> u16 \<Rightarrow> (rdp_manager, rdp_error, unit) io" where
  "send_mouse_move sid x y = send_input sid (MouseMove x y)"

definition send_mouse_button :: "string \<Rightarrow> u16 \<Rightarrow> u16 \<Rightarrow> u8 \<Rightarrow> bool \<Rightarrow> (rdp_manager, rdp_error, unit) io" where
  "send_mouse_button sid x y b down = send_input sid (MouseButton x y b down)"

definition send_mouse_wheel :: "string \<Rightarrow> u16 \<Rightarrow> u16 \<Rightarrow> i16 \<Rightarrow> bool \<Rightarrow> (rdp_manager, rdp_error, unit) io" where
  "send_mouse_wheel sid x y delta is_vertical = send_input sid (MouseWheel x y delta is_vertical)"

definition send_keyboard_input :: "string \<Rightarrow> u16 \<Rightarrow> bool \<Rightarrow> (rdp_manager, rdp_error, unit) io" where
  "send_keyboard_input sid hid down = send_input sid (KeyboardInput hid down)"

definition drop_manager :: "rdp_manager \<Rightarrow> rdp_manager" where
  "drop_manager m = m\<lparr>rm_global_cancel := True\<rparr>"

section \<open>The calls, one critical section at a time\<close>

text \<open>
  Where a call stands between two locks. The definitions above are the calls with nothing in
  between; \<open>call_step\<close> is one critical section, \<open>None\<close> when it has to wait for room in the
  channel or has returned. The fresh identifier (\<^verbatim>\<open>Uuid::new_v4\<close>) and the order in which
  \<^verbatim>\<open>drain\<close> yields the handles are arguments.
\<close>

datatype rdp_call =
    CReadIndex rdp_profile
  | CReadSession rdp_profile string
  | CDropSession rdp_profile string
  | CDropIndex rdp_profile
  | CStart rdp_profile
  | CInsertSession rdp_session_info
  | CInsertIndex rdp_session_info
  | CTake string
  | CClose string rdp_session_info
  | CClearEntry string
  | CDrain
  | CCloseAll "string list"
  | CInput string rdp_command
  | CReturn "(rdp_error, rdp_session_info option) result"

definition connect_call :: "rdp_profile \<Rightarrow> rdp_call" where
  "connect_call p = (case rdp_validate p of Err e \<Rightarrow> CReturn (Err e) | Ok _ \<Rightarrow> CReadIndex p)"

fun call_step :: "string \<Rightarrow> string list \<Rightarrow> rdp_call \<Rightarrow> rdp_manager \<Rightarrow> (rdp_call \<times> rdp_manager) option" where
  "call_step sid order (CReadIndex p) m =
     Some (case rm_index m (rp_id p) of None \<Rightarrow> CStart p | Some e \<Rightarrow> CReadSession p e, m)"
| "call_step sid order (CReadSession p e) m =
     Some (case rm_sessions m e of
             None \<Rightarrow> CStart p
           | Some info \<Rightarrow> if task_open m e then CReturn (Ok (Some info)) else CDropSession p e, m)"
| "call_step sid order (CDropSession p e) m = Some (CDropIndex p, set_session e None m)"
| "call_step sid order (CDropIndex p) m = Some (CStart p, set_index (rp_id p) None m)"
| "call_step sid order (CStart p) m = Some (CInsertSession (new_info sid p), rdp_spawn sid p m)"
| "call_step sid order (CInsertSession info) m = Some (CInsertIndex info, set_session (ri_id info) (Some info) m)"
| "call_step sid order (CInsertIndex info) m =
     Some (CReturn (Ok (Some info)), set_index (ri_profile_id info) (Some (ri_id info)) m)"
| "call_step sid order (CTake s) m =
     Some (case rm_sessions m s of
             None \<Rightarrow> (CReturn (Ok None), m)
           | Some info \<Rightarrow> (CClose s info, cancel_task s (set_session s None m)))"
| "call_step sid order (CClose s info) m =
     (if has_room s m then Some (CClearEntry (ri_profile_id info), snd (rdp_send s RdpDisconnect m)) else None)"
| "call_step sid order (CClearEntry pid) m = Some (CReturn (Ok None), set_index pid None m)"
| "call_step sid order CDrain m = Some (CCloseAll order, m\<lparr>rm_sessions := Map.empty\<rparr>)"
| "call_step sid order (CCloseAll []) m = Some (CReturn (Ok None), m\<lparr>rm_index := Map.empty\<rparr>)"
| "call_step sid order (CCloseAll (s # ss)) m =
     (if has_room s m then Some (CCloseAll ss, close_handle s m) else None)"
| "call_step sid order (CInput s cmd) m =
     (case rm_sessions m s of
        None \<Rightarrow> Some (CReturn (Ok None), m)
      | Some _ \<Rightarrow>
          if has_room s m
          then Some (case rdp_send s cmd m of
                       (Ok _, m') \<Rightarrow> (CReturn (Ok None), m')
                     | (Err e, m') \<Rightarrow> (CReturn (Err e), m'))
          else None)"
| "call_step sid order (CReturn r) m = None"

fun run_call :: "nat \<Rightarrow> string \<Rightarrow> string list \<Rightarrow> rdp_call \<Rightarrow> rdp_manager \<Rightarrow>
  ((rdp_error, rdp_session_info option) result \<times> rdp_manager) option" where
  "run_call n sid order (CReturn r) m = Some (r, m)"
| "run_call 0 sid order c m = None"
| "run_call (Suc n) sid order c m =
     (case call_step sid order c m of None \<Rightarrow> None | Some (c', m') \<Rightarrow> run_call n sid order c' m')"

section \<open>The task of a session\<close>

fun rdp_final :: "(rdp_error, unit) result \<Rightarrow> rdp_connection_status \<times> string" where
  "rdp_final (Ok _) = (RdpDisconnected, ''disconnected normally'')"
| "rdp_final (Err e) = (RdpErrored, rdp_error_to_string e)"

definition rdp_report :: "string \<Rightarrow> (rdp_error, unit) result \<Rightarrow> rdp_manager \<Rightarrow> rdp_manager" where
  "rdp_report sid r m =
     update_task sid (\<lambda>t. t\<lparr>rk_phase := RReported r\<rparr>)
       (m\<lparr>rm_errors := rm_errors m @
             (case r of Ok _ \<Rightarrow> []
              | Err e \<Rightarrow> [\<lparr>rx_session_id = Some sid, rx_message = rdp_error_to_string e, rx_code = ''UNKNOWN''\<rparr>]),
          rm_status := rm_status m @
             [\<lparr>re_session_id = sid, re_status = fst (rdp_final r), re_message = Some (snd (rdp_final r))\<rparr>]\<rparr>)"

definition rdp_unlist :: "string \<Rightarrow> (rdp_error, unit) result \<Rightarrow> rdp_manager \<Rightarrow> rdp_manager" where
  "rdp_unlist sid r m = update_task sid (\<lambda>t. t\<lparr>rk_phase := RUnlisted r\<rparr>) (set_session sid None m)"

definition rdp_unindex :: "string \<Rightarrow> string \<Rightarrow> (rdp_error, unit) result \<Rightarrow> rdp_manager \<Rightarrow> rdp_manager" where
  "rdp_unindex sid pid r m = update_task sid (\<lambda>t. t\<lparr>rk_phase := RUnindexed r\<rparr>) (set_index pid None m)"

section \<open>The machine\<close>

text \<open>
  The calls in progress and the manager they share. A call reaches the machine as the program
  counter it starts with; the results a runtime can end with are those of \<open>rdp_run\<close>, where
  \<open>RCancelled\<close> needs the token, and \<open>Ok\<close> is also what the surrounding \<^verbatim>\<open>select!\<close> gives when the
  token of the session or, once the manager is dropped, the global one is cancelled.
\<close>

type_synonym rdp_world = "(nat \<rightharpoonup> rdp_call) \<times> rdp_manager"

datatype rdp_label =
    MCall nat rdp_call
  | MStep nat string "string list"
  | MReceive string
  | MRuntimeStatus string rdp_connection_status string
  | MFinish string "(rdp_error, unit) result"
  | MReport string
  | MUnlist string
  | MUnindex string
  | MDrop

fun is_entry :: "rdp_call \<Rightarrow> bool" where
  "is_entry (CReadIndex p) = is_ok (rdp_validate p)"
| "is_entry (CTake sid) = True"
| "is_entry CDrain = True"
| "is_entry (CInput sid cmd) = (cmd \<noteq> RdpDisconnect)"
| "is_entry _ = False"

inductive rdp_mstep :: "rdp_world \<Rightarrow> rdp_label \<Rightarrow> rdp_world \<Rightarrow> bool" where
  m_call: "cs n = None \<Longrightarrow> is_entry c \<Longrightarrow> rdp_mstep (cs, m) (MCall n c) (cs(n \<mapsto> c), m)"
| m_step: "cs n = Some c \<Longrightarrow> rm_tasks m sid = None \<Longrightarrow> (c = CDrain \<longrightarrow> set order = dom (rm_sessions m) \<and> distinct order) \<Longrightarrow>
     call_step sid order c m = Some (c', m') \<Longrightarrow> rdp_mstep (cs, m) (MStep n sid order) (cs(n \<mapsto> c'), m')"
| m_receive: "rm_tasks m sid = Some t \<Longrightarrow> rk_phase t = RRunning \<Longrightarrow> rk_queue t = cmd # rest \<Longrightarrow>
     rdp_mstep (cs, m) (MReceive sid) (cs, update_task sid (\<lambda>t. t\<lparr>rk_queue := rest\<rparr>) m)"
| m_runtime_status: "rm_tasks m sid = Some t \<Longrightarrow> rk_phase t = RRunning \<Longrightarrow> st \<in> {RdpConnecting, RdpConnected} \<Longrightarrow>
     rdp_mstep (cs, m) (MRuntimeStatus sid st msg)
       (cs, m\<lparr>rm_status := rm_status m @ [\<lparr>re_session_id = sid, re_status = st, re_message = Some msg\<rparr>]\<rparr>)"
| m_finish: "rm_tasks m sid = Some t \<Longrightarrow> rk_phase t = RRunning \<Longrightarrow> (r = Err RCancelled \<longrightarrow> rk_cancelled t) \<Longrightarrow>
     rdp_mstep (cs, m) (MFinish sid r) (cs, update_task sid (\<lambda>t. t\<lparr>rk_phase := RFinished r\<rparr>) m)"
| m_report: "rm_tasks m sid = Some t \<Longrightarrow> rk_phase t = RFinished r \<Longrightarrow>
     rdp_mstep (cs, m) (MReport sid) (cs, rdp_report sid r m)"
| m_unlist: "rm_tasks m sid = Some t \<Longrightarrow> rk_phase t = RReported r \<Longrightarrow>
     rdp_mstep (cs, m) (MUnlist sid) (cs, rdp_unlist sid r m)"
| m_unindex: "rm_tasks m sid = Some t \<Longrightarrow> rk_phase t = RUnlisted r \<Longrightarrow>
     rdp_mstep (cs, m) (MUnindex sid) (cs, rdp_unindex sid (rp_id (rk_profile t)) r m)"
| m_drop: "rdp_mstep (cs, m) MDrop (cs, drop_manager m)"

inductive_simps rdp_mstep_simps:
  "rdp_mstep w (MCall n c) w'" "rdp_mstep w (MStep n sid order) w'" "rdp_mstep w (MReceive sid) w'"
  "rdp_mstep w (MRuntimeStatus sid st msg) w'" "rdp_mstep w (MFinish sid r) w'" "rdp_mstep w (MReport sid) w'"
  "rdp_mstep w (MUnlist sid) w'" "rdp_mstep w (MUnindex sid) w'"

section \<open>The calls of the user interface\<close>

text \<open>\<^verbatim>\<open>api.rs\<close>: the one manager of the process behind functions; errors keep their message.\<close>

definition rdp_parse_file ::
  "(string \<Rightarrow> string) \<Rightarrow> string \<Rightarrow> string \<Rightarrow> string option \<Rightarrow> (rdp_error, rdp_session_info) result" where
  "rdp_parse_file uni pid content name = parse_rdp_file_content uni pid content name"

definition api_rdp_connect :: "string \<Rightarrow> rdp_profile \<Rightarrow> (rdp_manager, rdp_error, rdp_session_info) io" where
  "api_rdp_connect sid p = rdp_connect sid p"

definition api_rdp_disconnect :: "string \<Rightarrow> (rdp_manager, rdp_error, unit) io" where
  "api_rdp_disconnect sid = rdp_disconnect sid"

definition rdp_send_mouse_move :: "string \<Rightarrow> u16 \<Rightarrow> u16 \<Rightarrow> (rdp_manager, rdp_error, unit) io" where
  "rdp_send_mouse_move sid x y = send_mouse_move sid x y"

definition rdp_send_mouse_button :: "string \<Rightarrow> u16 \<Rightarrow> u16 \<Rightarrow> u8 \<Rightarrow> bool \<Rightarrow> (rdp_manager, rdp_error, unit) io" where
  "rdp_send_mouse_button sid x y b down = send_mouse_button sid x y b down"

definition rdp_send_mouse_wheel :: "string \<Rightarrow> u16 \<Rightarrow> u16 \<Rightarrow> i16 \<Rightarrow> bool \<Rightarrow> (rdp_manager, rdp_error, unit) io" where
  "rdp_send_mouse_wheel sid x y delta is_vertical = send_mouse_wheel sid x y delta is_vertical"

definition rdp_send_keyboard_input :: "string \<Rightarrow> u16 \<Rightarrow> bool \<Rightarrow> (rdp_manager, rdp_error, unit) io" where
  "rdp_send_keyboard_input sid scancode down = send_keyboard_input sid scancode down"

section \<open>Streams\<close>

text \<open>\<^verbatim>\<open>api.rs\<close>: the loop that forwards events to a sink until nobody listens or the channel closes.\<close>

datatype 'e rdp_received = RdpEvent 'e | RdpLagged nat | RdpClosed

fun rdp_stream_step :: "('e \<Rightarrow> 's \<Rightarrow> bool \<times> 's) \<Rightarrow> 's \<Rightarrow> 'e rdp_received \<Rightarrow> ('s, unit) flow" where
  "rdp_stream_step add sink (RdpEvent e) =
     (case add e sink of (True, sink') \<Rightarrow> Continue sink' | (False, sink') \<Rightarrow> Stop sink' ())"
| "rdp_stream_step add sink (RdpLagged n) = Continue sink"
| "rdp_stream_step add sink RdpClosed = Stop sink ()"

definition rdp_frame_stream ::
  "(rdp_frame_event \<Rightarrow> 's \<Rightarrow> bool \<times> 's) \<Rightarrow> 's \<Rightarrow> rdp_frame_event rdp_received list \<Rightarrow> ('s, unit) flow" where
  "rdp_frame_stream add sink events = run_loop (rdp_stream_step add) sink events"

definition rdp_status_stream ::
  "(rdp_status_event \<Rightarrow> 's \<Rightarrow> bool \<times> 's) \<Rightarrow> 's \<Rightarrow> rdp_status_event rdp_received list \<Rightarrow> ('s, unit) flow" where
  "rdp_status_stream add sink events = run_loop (rdp_stream_step add) sink events"

definition rdp_error_stream ::
  "(rdp_error_event \<Rightarrow> 's \<Rightarrow> bool \<times> 's) \<Rightarrow> 's \<Rightarrow> rdp_error_event rdp_received list \<Rightarrow> ('s, unit) flow" where
  "rdp_error_stream add sink events = run_loop (rdp_stream_step add) sink events"

section \<open>A call with nothing in between\<close>

lemmas manager_updates = update_task_def set_session_def set_index_def cancel_task_def rdp_spawn_def rdp_send_def

lemma task_open_set [simp]:
  "task_open (set_session s x m) = task_open m" "task_open (set_index pid y m) = task_open m"
  "task_open (m\<lparr>rm_sessions := f\<rparr>) = task_open m"
  by (simp_all add: task_open_def manager_updates fun_eq_iff)

lemma task_open_cancel [simp]: "task_open (cancel_task s m) = task_open m"
  by (auto simp: task_open_def manager_updates fun_eq_iff split: option.splits)

lemma has_room_set [simp]:
  "has_room s (set_session s' x m) = has_room s m" "has_room s (cancel_task s' m) = has_room s m"
  "has_room s (m\<lparr>rm_sessions := f\<rparr>) = has_room s m"
  by (auto simp: has_room_def manager_updates split: option.splits)

lemma has_room_close: "s \<noteq> s' \<Longrightarrow> has_room s (close_handle s' m) = has_room s m"
  by (simp add: has_room_def close_handle_def manager_updates)

lemma run_connect:
  "run_call 7 sid order (connect_call p) m =
     Some (case rdp_connect sid p m of (Ok info, m') \<Rightarrow> (Ok (Some info), m') | (Err e, m') \<Rightarrow> (Err e, m'))"
  by (auto simp: connect_call_def rdp_connect_def find_existing_def new_info_def numeral_eq_Suc split: option.splits sum.splits)

lemma run_disconnect:
  assumes "has_room s m"
  shows "run_call 3 sid order (CTake s) m = Some (Ok None, snd (rdp_disconnect s m))"
  using assms by (simp add: rdp_disconnect_def close_handle_def numeral_eq_Suc split: option.split)

lemma run_close_all:
  "distinct ss \<Longrightarrow> list_all (\<lambda>s. has_room s m) ss \<Longrightarrow>
     run_call (Suc (length ss)) sid order (CCloseAll ss) m = Some (Ok None, (fold close_handle ss m)\<lparr>rm_index := Map.empty\<rparr>)"
proof (induction ss arbitrary: m)
  case Nil
  then show ?case by simp
next
  case (Cons s ss)
  have "list_all (\<lambda>s'. has_room s' (close_handle s m)) ss"
    using Cons.prems unfolding list_all_iff by (metis distinct.simps(2) has_room_close list.set_intros(2))
  with Cons show ?case by simp
qed

lemma run_disconnect_all:
  "distinct order \<Longrightarrow> list_all (\<lambda>s. has_room s m) order \<Longrightarrow>
     run_call (length order + 2) sid order CDrain m = Some (Ok None, disconnect_all order m)"
proof -
  assume ok: "distinct order" "list_all (\<lambda>s. has_room s m) order"
  let ?m = "m\<lparr>rm_sessions := Map.empty\<rparr>"
  have "run_call (length order + 2) sid order CDrain m = run_call (Suc (length order)) sid order (CCloseAll order) ?m"
    by simp
  also have "\<dots> = Some (Ok None, (fold close_handle order ?m)\<lparr>rm_index := Map.empty\<rparr>)"
    using ok by (intro run_close_all) simp_all
  finally show ?thesis by (simp add: disconnect_all_def)
qed

section \<open>The invariants\<close>

fun reported :: "rdp_phase \<Rightarrow> (rdp_error, unit) result option" where
  "reported RRunning = None"
| "reported (RFinished r) = None"
| "reported (RReported r) = Some r"
| "reported (RUnlisted r) = Some r"
| "reported (RUnindexed r) = Some r"

definition outcome :: "rdp_manager \<Rightarrow> string \<Rightarrow> (rdp_error, unit) result option" where
  "outcome m sid = (case rm_tasks m sid of None \<Rightarrow> None | Some t \<Rightarrow> reported (rk_phase t))"

definition info_of :: "rdp_manager \<Rightarrow> string \<Rightarrow> rdp_session_info option" where
  "info_of m sid = map_option rk_info (rm_tasks m sid)"

definition status_of :: "string \<Rightarrow> rdp_manager \<Rightarrow> rdp_status_event list" where
  "status_of sid m = filter (\<lambda>e. re_session_id e = sid) (rm_status m)"

definition errors_of :: "string \<Rightarrow> rdp_manager \<Rightarrow> rdp_error_event list" where
  "errors_of sid m = filter (\<lambda>e. rx_session_id e = Some sid) (rm_errors m)"

fun final_status_events :: "string \<Rightarrow> (rdp_error, unit) result option \<Rightarrow> rdp_status_event list" where
  "final_status_events sid None = []"
| "final_status_events sid (Some r) =
     [\<lparr>re_session_id = sid, re_status = fst (rdp_final r), re_message = Some (snd (rdp_final r))\<rparr>]"

fun final_error_events :: "string \<Rightarrow> (rdp_error, unit) result option \<Rightarrow> rdp_error_event list" where
  "final_error_events sid (Some (Err e)) =
     [\<lparr>rx_session_id = Some sid, rx_message = rdp_error_to_string e, rx_code = ''UNKNOWN''\<rparr>]"
| "final_error_events sid _ = []"

definition reports :: "rdp_manager \<Rightarrow> string \<Rightarrow> bool" where
  "reports m sid \<longleftrightarrow>
     (\<exists>progress. status_of sid m = progress @ final_status_events sid (outcome m sid) \<and>
        (\<forall>e \<in> set progress. re_status e \<in> {RdpConnecting, RdpConnected})) \<and>
     errors_of sid m = final_error_events sid (outcome m sid)"

definition tables :: "rdp_manager \<Rightarrow> bool" where
  "tables m \<longleftrightarrow>
     (\<forall>sid i. rm_sessions m sid = Some i \<longrightarrow> info_of m sid = Some i) \<and>
     (\<forall>sid i. info_of m sid = Some i \<longrightarrow> ri_id i = sid) \<and>
     (\<forall>pid sid. rm_index m pid = Some sid \<longrightarrow> (\<exists>i. info_of m sid = Some i \<and> ri_profile_id i = pid))"

fun call_info :: "rdp_call \<Rightarrow> rdp_session_info option" where
  "call_info (CInsertSession i) = Some i"
| "call_info (CInsertIndex i) = Some i"
| "call_info _ = None"

definition world_ok :: "rdp_world \<Rightarrow> bool" where
  "world_ok w \<longleftrightarrow>
     (\<forall>sid. reports (snd w) sid) \<and> tables (snd w) \<and>
     (\<forall>n c i. fst w n = Some c \<longrightarrow> call_info c = Some i \<longrightarrow> info_of (snd w) (ri_id i) = Some i)"

lemma reports_frame:
  "rm_status m' = rm_status m \<Longrightarrow> rm_errors m' = rm_errors m \<Longrightarrow> outcome m' = outcome m \<Longrightarrow> reports m' sid = reports m sid"
  by (simp add: reports_def status_of_def errors_of_def)

lemma outcome_update:
  "(\<And>t. rk_phase (f t) = rk_phase t) \<Longrightarrow> outcome (update_task sid f m) = outcome m"
  by (auto simp: outcome_def update_task_def fun_eq_iff split: option.splits)

lemma info_of_update:
  "(\<And>t. rk_info (f t) = rk_info t) \<Longrightarrow> info_of (update_task sid f m) = info_of m"
  by (auto simp: info_of_def update_task_def fun_eq_iff option.map_comp comp_def)

lemma outcome_frame [simp]:
  "outcome (set_session s x m) = outcome m" "outcome (set_index pid y m) = outcome m"
  "outcome (m\<lparr>rm_sessions := f\<rparr>) = outcome m" "outcome (m\<lparr>rm_index := g\<rparr>) = outcome m"
  "outcome (m\<lparr>rm_status := h\<rparr>) = outcome m" "outcome (m\<lparr>rm_errors := e\<rparr>) = outcome m"
  "outcome (cancel_task s m) = outcome m" "outcome (snd (rdp_send s cmd m)) = outcome m"
  "outcome (close_handle s m) = outcome m"
  by (simp_all add: close_handle_def rdp_send_def cancel_task_def outcome_update)
     (simp_all add: outcome_def set_session_def set_index_def fun_eq_iff)

lemma info_frame [simp]:
  "info_of (set_session s x m) = info_of m" "info_of (set_index pid y m) = info_of m"
  "info_of (m\<lparr>rm_sessions := f\<rparr>) = info_of m" "info_of (m\<lparr>rm_index := g\<rparr>) = info_of m"
  "info_of (m\<lparr>rm_status := h\<rparr>) = info_of m" "info_of (m\<lparr>rm_errors := e\<rparr>) = info_of m"
  "info_of (cancel_task s m) = info_of m" "info_of (snd (rdp_send s cmd m)) = info_of m"
  "info_of (close_handle s m) = info_of m"
  by (simp_all add: close_handle_def rdp_send_def cancel_task_def info_of_update)
     (simp_all add: info_of_def set_session_def set_index_def fun_eq_iff)

lemma events_frame [simp]:
  "rm_status (set_session s x m) = rm_status m" "rm_status (set_index pid y m) = rm_status m"
  "rm_status (cancel_task s m) = rm_status m" "rm_status (snd (rdp_send s cmd m)) = rm_status m"
  "rm_status (close_handle s m) = rm_status m" "rm_status (update_task s f m) = rm_status m"
  "rm_status (rdp_spawn s p m) = rm_status m"
  "rm_errors (set_session s x m) = rm_errors m" "rm_errors (set_index pid y m) = rm_errors m"
  "rm_errors (cancel_task s m) = rm_errors m" "rm_errors (snd (rdp_send s cmd m)) = rm_errors m"
  "rm_errors (close_handle s m) = rm_errors m" "rm_errors (update_task s f m) = rm_errors m"
  "rm_errors (rdp_spawn s p m) = rm_errors m"
  by (simp_all add: close_handle_def manager_updates)

lemma tables_frame [simp]:
  "rm_sessions (set_session s x m) = (rm_sessions m)(s := x)" "rm_sessions (set_index pid y m) = rm_sessions m"
  "rm_sessions (cancel_task s m) = rm_sessions m" "rm_sessions (snd (rdp_send s cmd m)) = rm_sessions m"
  "rm_sessions (close_handle s m) = rm_sessions m" "rm_sessions (update_task s f m) = rm_sessions m"
  "rm_sessions (rdp_spawn s p m) = rm_sessions m"
  "rm_index (set_session s x m) = rm_index m" "rm_index (set_index pid y m) = (rm_index m)(pid := y)"
  "rm_index (cancel_task s m) = rm_index m" "rm_index (snd (rdp_send s cmd m)) = rm_index m"
  "rm_index (close_handle s m) = rm_index m" "rm_index (update_task s f m) = rm_index m"
  "rm_index (rdp_spawn s p m) = rm_index m"
  by (simp_all add: close_handle_def manager_updates)

lemma spawn_frame:
  assumes "rm_tasks m sid = None"
  shows "outcome (rdp_spawn sid p m) = outcome m" "info_of (rdp_spawn sid p m) = (info_of m)(sid \<mapsto> new_info sid p)"
    "info_of m sid = None"
  using assms by (auto simp: outcome_def info_of_def rdp_spawn_def fun_eq_iff)

lemma new_info_simps [simp]: "ri_id (new_info sid p) = sid" "ri_profile_id (new_info sid p) = rp_id p"
  by (simp_all add: new_info_def)

lemma snd_rdp_send_eq: "rdp_send s cmd m = (r, m') \<Longrightarrow> m' = snd (rdp_send s cmd m)"
  by simp

lemma tables_index:
  "tables m \<Longrightarrow> rm_index m pid = Some sid \<Longrightarrow> \<exists>i. info_of m sid = Some i \<and> ri_profile_id i = pid"
  by (simp add: tables_def)

lemma tables_shrink:
  assumes "tables m" "rm_sessions m' \<subseteq>\<^sub>m rm_sessions m" "rm_index m' \<subseteq>\<^sub>m rm_index m" "info_of m' = info_of m"
  shows "tables m'"
proof -
  have s: "rm_sessions m s = Some i" if "rm_sessions m' s = Some i" for s i
    using that assms(2) by (metis domI map_le_def)
  have x: "rm_index m p = Some s" if "rm_index m' p = Some s" for p s
    using that assms(3) by (metis domI map_le_def)
  show ?thesis using assms(1) by (auto simp: tables_def assms(4) dest: s x)
qed

lemma call_step_events:
  assumes "call_step sid order c m = Some (c', m')" "rm_tasks m sid = None"
  shows "rm_status m' = rm_status m" "rm_errors m' = rm_errors m" "outcome m' = outcome m"
    "info_of m \<subseteq>\<^sub>m info_of m'"
  using assms(1) spawn_frame [OF assms(2)]
  by (cases "(sid, order, c, m)" rule: call_step.cases;
      auto split: option.splits if_splits prod.splits sum.splits dest!: snd_rdp_send_eq simp: map_le_def)+

lemma tables_spawn:
  assumes "rm_tasks m sid = None" "tables m"
  shows "tables (rdp_spawn sid p m)"
proof -
  have "rm_sessions m sid = None"
  proof (rule ccontr)
    assume "rm_sessions m sid \<noteq> None"
    then obtain i where "rm_sessions m sid = Some i" by blast
    with assms(2) have "info_of m sid = Some i" by (simp add: tables_def)
    with spawn_frame(3) [OF assms(1)] show False by simp
  qed
  moreover have "rm_index m pid \<noteq> Some sid" for pid
    using tables_index [OF assms(2), of pid sid] spawn_frame(3) [OF assms(1)] by auto
  ultimately show ?thesis
    unfolding tables_def tables_frame spawn_frame(2) [OF assms(1)]
    using assms(2) [unfolded tables_def] by (auto simp: fun_upd_def)
qed

lemma tables_insert:
  assumes "tables m" "info_of m s = Some i"
  shows "tables (set_session s (Some i) m)" "tables (set_index (ri_profile_id i) (Some s) m)"
  using assms(2) assms(1) [unfolded tables_def] unfolding tables_def tables_frame info_frame
  by (simp_all add: fun_upd_def)

lemma call_step_tables:
  assumes "call_step sid order c m = Some (c', m')" "rm_tasks m sid = None" "tables m"
    and "\<And>i. call_info c = Some i \<Longrightarrow> info_of m (ri_id i) = Some i"
  shows "tables m'" "call_info c' = Some i \<Longrightarrow> info_of m' (ri_id i) = Some i"
proof -
  note fresh = spawn_frame [OF assms(2)]
  show "tables m'"
  proof (cases c)
    case (CStart p)
    with assms(1) tables_spawn [OF assms(2,3), of p] show ?thesis by auto
  next
    case (CInsertSession i)
    with assms(4) [of i] have "info_of m (ri_id i) = Some i" by simp
    with CInsertSession assms(1) tables_insert(1) [OF assms(3)] show ?thesis by auto
  next
    case (CInsertIndex i)
    with assms(4) [of i] have "info_of m (ri_id i) = Some i" by simp
    with CInsertIndex assms(1) tables_insert(2) [OF assms(3)] show ?thesis by auto
  next
    case (CCloseAll ss)
    with assms(1) show ?thesis
      by (cases ss) (auto split: if_splits intro!: tables_shrink [OF assms(3)])
  qed (use assms(1) in \<open>auto split: option.splits if_splits prod.splits sum.splits dest!: snd_rdp_send_eq
         simp: map_le_def intro!: tables_shrink [OF assms(3)]\<close>)
  show "info_of m' (ri_id i) = Some i" if "call_info c' = Some i"
    using that assms(1) assms(4) [of i] fresh
    by (cases "(sid, order, c, m)" rule: call_step.cases)
       (auto split: option.splits if_splits prod.splits sum.splits)
qed

lemma reports_progress:
  assumes "reports m sid" "outcome m s = None" "st \<in> {RdpConnecting, RdpConnected}"
  shows "reports (m\<lparr>rm_status := rm_status m @ [\<lparr>re_session_id = s, re_status = st, re_message = msg\<rparr>]\<rparr>) sid"
  using assms by (cases "s = sid") (auto simp: reports_def status_of_def errors_of_def)

lemma reports_report:
  assumes "reports m sid" "rm_tasks m s = Some t" "rk_phase t = RFinished r"
  shows "reports (rdp_report s r m) sid"
proof -
  have o: "outcome (rdp_report s r m) = (outcome m)(s \<mapsto> r)" and n: "outcome m s = None"
    using assms(2,3) by (auto simp: outcome_def rdp_report_def update_task_def fun_eq_iff)
  have e: "status_of x (rdp_report s r m) = status_of x m @ (if x = s then final_status_events s (Some r) else [])"
    "errors_of x (rdp_report s r m) = errors_of x m @ (if x = s then final_error_events s (Some r) else [])" for x
    by (cases r; simp add: status_of_def errors_of_def rdp_report_def)+
  show ?thesis using assms(1) n by (auto simp: reports_def o e)
qed

lemma world_ok_frame:
  assumes "world_ok (cs, m)" "rm_status m' = rm_status m" "rm_errors m' = rm_errors m" "outcome m' = outcome m"
    and "rm_sessions m' \<subseteq>\<^sub>m rm_sessions m" "rm_index m' \<subseteq>\<^sub>m rm_index m" "info_of m' = info_of m"
  shows "world_ok (cs, m')"
proof -
  have "tables m'" using assms(1) by (intro tables_shrink [OF _ assms(5-7)]) (simp add: world_ok_def)
  with assms(1) show ?thesis by (simp add: world_ok_def assms(7) reports_frame [OF assms(2-4)])
qed

lemma world_ok_step:
  assumes "rdp_mstep w l w'" "world_ok w"
  shows "world_ok w'"
  using assms
proof (induction rule: rdp_mstep.cases)
  case (m_call cs n c m)
  then show ?case by (cases c) (auto simp: world_ok_def)
next
  case (m_step cs n c m sid order c' m')
  note step = call_step_events [OF m_step(7,5)]
  have t: "tables m" "\<And>i. call_info c = Some i \<Longrightarrow> info_of m (ri_id i) = Some i"
    using m_step by (auto simp: world_ok_def)
  have "info_of m' (ri_id i) = Some i" if "cs k = Some d" "call_info d = Some i" for k d i
  proof -
    have "info_of m (ri_id i) = Some i" using that m_step by (simp add: world_ok_def)
    with step(4) show ?thesis unfolding map_le_def by (metis domI)
  qed
  with m_step call_step_tables [OF m_step(7,5) t] show ?case
    by (auto simp: world_ok_def reports_frame [OF step(1-3)])
next
  case (m_receive m sid t cmd rest cs)
  then show ?case by (auto intro!: world_ok_frame [of cs m] simp: outcome_update info_of_update)
next
  case (m_runtime_status m sid t st cs msg)
  then have "outcome m sid = None" by (simp add: outcome_def)
  with m_runtime_status show ?case
    by (auto simp: world_ok_def reports_progress intro!: tables_shrink [of m])
next
  case (m_finish m sid t r cs)
  have "outcome (update_task sid (\<lambda>t. t\<lparr>rk_phase := RFinished r\<rparr>) m) = outcome m"
    using m_finish by (auto simp: outcome_def update_task_def fun_eq_iff)
  with m_finish show ?case by (auto intro!: world_ok_frame [of cs m] simp: info_of_update)
next
  case (m_report m sid t r cs)
  have "tables (rdp_report sid r m)" "info_of (rdp_report sid r m) = info_of m"
    using m_report by (auto simp: rdp_report_def info_of_update world_ok_def intro!: tables_shrink [of m])
  with m_report show ?case by (simp add: world_ok_def reports_report)
next
  case (m_unlist m sid t r cs)
  have "outcome (rdp_unlist sid r m) = outcome m"
    using m_unlist by (auto simp: outcome_def rdp_unlist_def update_task_def set_session_def fun_eq_iff)
  with m_unlist show ?case
    by (auto intro!: world_ok_frame [of cs m] simp: rdp_unlist_def info_of_update map_le_def)
next
  case (m_unindex m sid t r cs)
  have "outcome (rdp_unindex sid pid r m) = outcome m" for pid
    using m_unindex by (auto simp: outcome_def rdp_unindex_def update_task_def set_index_def fun_eq_iff)
  with m_unindex show ?case
    by (auto intro!: world_ok_frame [of cs m] simp: rdp_unindex_def info_of_update map_le_def)
next
  case (m_drop cs m)
  then show ?case
    by (auto intro!: world_ok_frame [of cs m] simp: drop_manager_def outcome_def info_of_def fun_eq_iff)
qed

interpretation rdp_machine: machine_invariant rdp_mstep world_ok
  by unfold_locales (rule world_ok_step)

lemma world_ok_new: "world_ok (Map.empty, rdp_new)"
  by (simp add: world_ok_def rdp_new_def reports_def tables_def status_of_def errors_of_def outcome_def info_of_def)

lemma reachable_world: "steps rdp_mstep (Map.empty, rdp_new) ls (cs, m) \<Longrightarrow> reports m sid \<and> tables m"
  using rdp_machine.steps_inv [OF _ world_ok_new] by (fastforce simp: world_ok_def)

section \<open>The specification of sessions\<close>

fun report_of_rdp_status :: "rdp_connection_status \<Rightarrow> session_report" where
  "report_of_rdp_status RdpDisconnected = Ended_well"
| "report_of_rdp_status RdpErrored = Ended_badly"
| "report_of_rdp_status _ = Working"

definition rdp_reports :: "rdp_world \<Rightarrow> (string \<times> session_report) list" where
  "rdp_reports w = map (\<lambda>e. (re_session_id e, report_of_rdp_status (re_status e))) (rm_status (snd w))"

definition rdp_life :: "rdp_world \<Rightarrow> string \<Rightarrow> life" where
  "rdp_life w sid =
     (if info_of (snd w) sid = None then Unstarted else if outcome (snd w) sid = None then Live else Over)"

lemma call_step_info:
  assumes "call_step sid order c m = Some (c', m')" "rm_tasks m sid = None"
  shows "info_of m' = info_of m \<or> (\<exists>i. info_of m' = (info_of m)(sid \<mapsto> i))"
  using assms(1) spawn_frame [OF assms(2)]
  by (cases "(sid, order, c, m)" rule: call_step.cases;
      auto split: option.splits if_splits prod.splits sum.splits dest!: snd_rdp_send_eq)

text \<open>The steps that neither start a session nor report anything.\<close>

lemma silent_refines:
  assumes "info_of (snd w') = info_of (snd w)" "outcome (snd w') = outcome (snd w)" "rm_status (snd w') = rm_status (snd w)"
  shows "\<exists>es. steps life_step (rdp_life w) es (rdp_life w') \<and> rdp_reports w' = rdp_reports w @ concat (map visible es)"
proof -
  have "rdp_life w' = rdp_life w" by (simp add: rdp_life_def assms fun_eq_iff)
  then show ?thesis by (intro exI [of _ "[]"]) (simp add: rdp_reports_def assms)
qed

lemma rdp_refines:
  assumes "rdp_mstep w l w'"
  shows "\<exists>es. steps life_step (rdp_life w) es (rdp_life w') \<and> rdp_reports w' = rdp_reports w @ concat (map visible es)"
  using assms
proof cases
  case (m_call cs n c m)
  then show ?thesis by (intro silent_refines) simp_all
next
  case (m_step cs n c m sid order c' m')
  note step = call_step_events [OF m_step(7,5)]
  have fresh: "rdp_life w sid = Unstarted" "info_of m sid = None" "outcome m sid = None"
    using m_step by (simp_all add: rdp_life_def info_of_def outcome_def)
  from call_step_info [OF m_step(7,5)] show ?thesis
  proof (elim disjE exE)
    assume "info_of m' = info_of m"
    then show ?thesis using m_step step by (intro silent_refines) simp_all
  next
    fix i assume i: "info_of m' = (info_of m)(sid \<mapsto> i)"
    then have "rdp_life w' = (rdp_life w)(sid := Live)"
      using m_step step fresh by (auto simp: rdp_life_def fun_eq_iff)
    then show ?thesis using m_step step fresh
      by (intro exI [of _ "[Begins sid]"]) (auto simp: rdp_reports_def intro: life_start)
  qed
next
  case (m_receive m sid t cmd rest cs)
  then show ?thesis by (intro silent_refines) (simp_all add: outcome_update info_of_update)
next
  case (m_runtime_status m sid t st cs msg)
  then have "rdp_life w sid = Live" by (simp add: rdp_life_def outcome_def info_of_def)
  moreover have "rdp_life w' = rdp_life w" using m_runtime_status by (simp add: rdp_life_def fun_eq_iff)
  moreover have "report_of_rdp_status st = Working" using m_runtime_status by auto
  ultimately show ?thesis using m_runtime_status
    by (intro exI [of _ "[Reports sid Working]"]) (auto simp: rdp_reports_def intro: life_working)
next
  case (m_finish m sid t r cs)
  then show ?thesis
    by (intro silent_refines) (auto simp: info_of_def outcome_def update_task_def fun_eq_iff)
next
  case (m_report m sid t r cs)
  then have "rdp_life w sid = Live" by (simp add: rdp_life_def outcome_def info_of_def)
  moreover have "rdp_life w' = (rdp_life w)(sid := Over)"
    using m_report by (auto simp: rdp_life_def outcome_def info_of_def rdp_report_def update_task_def fun_eq_iff)
  moreover have "report_of_rdp_status (fst (rdp_final r)) \<noteq> Working" by (cases r) simp_all
  ultimately show ?thesis using m_report
    by (intro exI [of _ "[Reports sid (report_of_rdp_status (fst (rdp_final r)))]"])
       (auto simp: rdp_reports_def rdp_report_def intro: life_end)
next
  case (m_unlist m sid t r cs)
  then show ?thesis
    by (intro silent_refines)
       (auto simp: rdp_unlist_def info_of_def outcome_def update_task_def set_session_def fun_eq_iff)
next
  case (m_unindex m sid t r cs)
  then show ?thesis
    by (intro silent_refines)
       (auto simp: rdp_unindex_def info_of_def outcome_def update_task_def set_index_def fun_eq_iff)
next
  case (m_drop cs m)
  then show ?thesis
    by (intro silent_refines) (simp_all add: drop_manager_def outcome_def info_of_def fun_eq_iff)
qed

interpretation rdp_sessions: session_refinement rdp_mstep rdp_life rdp_reports
  by unfold_locales (rule rdp_refines)

section \<open>Whole calls as runs of the machine\<close>

lemma steps_trans: "steps R s ls t \<Longrightarrow> steps R t ms u \<Longrightarrow> steps R s (ls @ ms) u"
  by (auto simp: steps_append)

lemma steps_connect:
  assumes "rdp_validate p = Ok ()" "cs n = None" "rm_index m (rp_id p) = None" "rm_tasks m sid = None"
    and "rm_tasks m other = None" "other \<noteq> sid"
  shows "steps rdp_mstep (cs, m)
    [MCall n (CReadIndex p), MStep n sid [], MStep n sid [], MStep n other [], MStep n other []]
    (cs(n \<mapsto> CReturn (Ok (Some (new_info sid p)))), snd (rdp_connect sid p m))"
  using assms
  by (simp add: rdp_mstep_simps rdp_connect_def find_existing_def rdp_spawn_def set_session_def)

lemma steps_disconnect:
  assumes "cs n = None" "rm_sessions m s = Some info" "has_room s m" "rm_tasks m other = None" "other \<noteq> s"
  shows "steps rdp_mstep (cs, m) [MCall n (CTake s), MStep n other [], MStep n other [], MStep n other []]
    (cs(n \<mapsto> CReturn (Ok None)), snd (rdp_disconnect s m))"
  using assms
  by (simp add: rdp_mstep_simps rdp_disconnect_def close_handle_def)
     (simp add: manager_updates)

definition task_ends :: "string \<Rightarrow> rdp_profile \<Rightarrow> rdp_manager \<Rightarrow> rdp_manager" where
  "task_ends sid p m =
     rdp_unindex sid (rp_id p) (Ok ()) (rdp_unlist sid (Ok ()) (rdp_report sid (Ok ())
       (update_task sid (\<lambda>t. t\<lparr>rk_phase := RFinished (Ok ())\<rparr>) m)))"

lemma steps_task_ends:
  assumes "rm_tasks m sid = Some t" "rk_phase t = RRunning"
  shows "steps rdp_mstep (cs, m) [MFinish sid (Ok ()), MReport sid, MUnlist sid, MUnindex sid]
    (cs, task_ends sid (rk_profile t) m)"
  using assms
  by (simp add: rdp_mstep_simps task_ends_def)
     (simp add: rdp_unindex_def rdp_unlist_def rdp_report_def manager_updates)

section \<open>Properties\<close>

text \<open>
  C29: every RDP session reports its end exactly once. In every reachable state, whatever calls and
  tasks interleave, the status events of a session are connecting and connected ones followed,
  once its task has reported and not before, by a single final one: disconnected after a normal
  end, error after a failure; an error event exists exactly after a failure.
\<close>

theorem rdp_sessions_report_once:
  assumes "steps rdp_mstep (Map.empty, rdp_new) ls (cs, m)"
  shows "(\<exists>progress. status_of sid m = progress @ final_status_events sid (outcome m sid) \<and>
      list_all (\<lambda>e. re_status e = RdpConnecting \<or> re_status e = RdpConnected) progress) \<and>
    errors_of sid m = final_error_events sid (outcome m sid)"
  using reachable_world [OF assms, of sid] by (auto simp: reports_def list_all_iff)

text \<open>
  C30: the two tables of the manager agree with the tasks in every reachable state: a listed
  session is the one of the task with its identifier, the entry of a profile names a session of
  that profile, and so a connection call never hands out a session of another profile.
\<close>

theorem connect_returns_a_session_of_the_profile:
  assumes "steps rdp_mstep (Map.empty, rdp_new) ls (cs, m)"
  shows "(rm_sessions m sid = Some i \<longrightarrow> ri_id i = sid \<and> (\<exists>t. rm_tasks m sid = Some t \<and> rk_info t = i)) \<and>
    (get_active_session_for_profile pid m = Some sid \<longrightarrow>
      (\<exists>t. rm_tasks m sid = Some t \<and> ri_profile_id (rk_info t) = pid)) \<and>
    (rdp_connect new p m = (Ok j, m') \<longrightarrow> ri_profile_id j = rp_id p)"
proof (intro conjI impI)
  have t: "tables m" using reachable_world [OF assms] by simp
  show "ri_id i = sid" "\<exists>t. rm_tasks m sid = Some t \<and> rk_info t = i" if "rm_sessions m sid = Some i"
  proof -
    have i: "info_of m sid = Some i" using t that by (simp add: tables_def)
    then show "ri_id i = sid" using t by (simp add: tables_def)
    from i show "\<exists>t. rm_tasks m sid = Some t \<and> rk_info t = i" by (auto simp: info_of_def)
  qed
  show "\<exists>t. rm_tasks m sid = Some t \<and> ri_profile_id (rk_info t) = pid"
    if "get_active_session_for_profile pid m = Some sid"
    using tables_index [OF t, of pid sid] that by (auto simp: get_active_session_for_profile_def info_of_def)
  have s: "ri_profile_id j = rp_id p" if "rm_index m (rp_id p) = Some sid" "rm_sessions m sid = Some j" for sid
  proof -
    have "info_of m sid = Some j" using t that(2) by (simp add: tables_def)
    with tables_index [OF t that(1)] show ?thesis by simp
  qed
  show "ri_profile_id j = rp_id p" if "rdp_connect new p m = (Ok j, m')"
    using that s by (auto simp: rdp_connect_def find_existing_def split: sum.splits option.splits if_splits)
qed

text \<open>
  Connecting a profile again while its session runs starts nothing: the second call returns
  the session of the first one and leaves the manager as it is.
\<close>

theorem connecting_again_returns_the_running_session:
  assumes "rdp_connect sid p m = (Ok i, m1)"
  shows "rdp_connect sid' p m1 = (Ok i, m1)"
  using assms
  by (auto simp: rdp_connect_def find_existing_def task_open_def manager_updates
           split: sum.splits option.splits if_splits)

text \<open>
  Disconnecting always succeeds; afterwards the session is not active, further input is
  ignored without an error, a second call changes nothing, the task of the session has been told
  to stop, and the profile is free for a new session.
\<close>

theorem disconnected_sessions_ignore_input:
  assumes "rdp_disconnect sid m = (r, m')"
  shows "r = Ok () \<and> \<not> is_session_active sid m' \<and> send_input sid cmd m' = (Ok (), m') \<and>
      rdp_disconnect sid m' = (Ok (), m')"
    and "rm_sessions m sid = Some info \<Longrightarrow> rm_tasks m sid = Some t \<Longrightarrow>
      get_active_session_for_profile (ri_profile_id info) m' = None \<and>
      (\<exists>t'. rm_tasks m' sid = Some t' \<and> rk_cancelled t' \<and>
         rk_queue t' = rk_queue t @ (if rk_phase t = RRunning then [RdpDisconnect] else []))"
  using assms
  by (auto simp: rdp_disconnect_def is_session_active_def send_input_def get_active_session_for_profile_def
        close_handle_def task_open_def manager_updates split: option.splits)

text \<open>
  A call runs as the sequence of its critical sections: taken one after the other with
  nothing in between, they give what the call as a whole gives. A connection is done after at
  most seven of them; a disconnection, of one or of all sessions, needs room in the channels.
\<close>

theorem calls_are_their_critical_sections:
  "run_call 7 sid order (connect_call p) m =
     Some (case rdp_connect sid p m of (Ok info, m') \<Rightarrow> (Ok (Some info), m') | (Err e, m') \<Rightarrow> (Err e, m')) \<and>
   (has_room s m \<longrightarrow> run_call 3 sid order (CTake s) m = Some (Ok None, snd (rdp_disconnect s m))) \<and>
   (distinct order \<and> list_all (\<lambda>s. has_room s m) order \<longrightarrow>
     run_call (length order + 2) sid order CDrain m = Some (Ok None, disconnect_all order m))"
  using run_connect run_disconnect run_disconnect_all by blast

text \<open>
  The run in which a profile is connected (session 1), disconnected, connected again (session 2), the task
  of session 1 cleans up only then, and the profile is connected once more. Every call returns before
  the next one is made.
\<close>

definition reconnected :: "rdp_profile \<Rightarrow> rdp_label list" where
  "reconnected p =
     [MCall 0 (CReadIndex p), MStep 0 ''1'' [], MStep 0 ''1'' [], MStep 0 ''x'' [], MStep 0 ''x'' []] @
     [MCall 1 (CTake ''1''), MStep 1 ''x'' [], MStep 1 ''x'' [], MStep 1 ''x'' []] @
     [MCall 2 (CReadIndex p), MStep 2 ''2'' [], MStep 2 ''2'' [], MStep 2 ''x'' [], MStep 2 ''x'' []]"

definition cleans_up :: "rdp_label list" where
  "cleans_up = [MFinish ''1'' (Ok ()), MReport ''1'', MUnlist ''1'', MUnindex ''1'']"

definition reconnected_state :: "rdp_profile \<Rightarrow> rdp_manager" where
  "reconnected_state p = snd (rdp_connect ''2'' p (snd (rdp_disconnect ''1'' (snd (rdp_connect ''1'' p rdp_new)))))"

lemmas reconnect_defs = rdp_connect_def find_existing_def rdp_disconnect_def close_handle_def manager_updates
  task_open_def has_room_def rdp_new_def task_ends_def rdp_unindex_def rdp_unlist_def rdp_report_def

lemma steps_reconnected:
  assumes "rdp_validate p = Ok ()"
  shows "\<exists>r1 r2. steps rdp_mstep (Map.empty, rdp_new) (reconnected p)
    ([0 \<mapsto> r1, 1 \<mapsto> r2, 2 \<mapsto> CReturn (Ok (Some (new_info ''2'' p)))], reconnected_state p)"
proof -
  let ?m1 = "snd (rdp_connect ''1'' p rdp_new)"
  let ?m2 = "snd (rdp_disconnect ''1'' ?m1)"
  obtain r1 where 1: "steps rdp_mstep (Map.empty, rdp_new)
      [MCall 0 (CReadIndex p), MStep 0 ''1'' [], MStep 0 ''1'' [], MStep 0 ''x'' [], MStep 0 ''x'' []] ([0 \<mapsto> r1], ?m1)"
    using steps_connect [of p Map.empty 0 rdp_new "''1''" "''x''"] assms by (simp add: rdp_new_def del: steps_Cons_iff)
  obtain r2 where 2: "steps rdp_mstep ([0 \<mapsto> r1], ?m1)
      [MCall 1 (CTake ''1''), MStep 1 ''x'' [], MStep 1 ''x'' [], MStep 1 ''x'' []] ([0 \<mapsto> r1, 1 \<mapsto> r2], ?m2)"
  proof (rule that, rule steps_disconnect)
    show "rm_sessions ?m1 ''1'' = Some (new_info ''1'' p)" "has_room ''1'' ?m1" "rm_tasks ?m1 ''x'' = None"
      using assms by (simp_all add: reconnect_defs)
  qed simp_all
  have "steps rdp_mstep ([0 \<mapsto> r1, 1 \<mapsto> r2], ?m2)
      [MCall 2 (CReadIndex p), MStep 2 ''2'' [], MStep 2 ''2'' [], MStep 2 ''x'' [], MStep 2 ''x'' []]
      ([0 \<mapsto> r1, 1 \<mapsto> r2](2 \<mapsto> CReturn (Ok (Some (new_info ''2'' p)))), reconnected_state p)"
    unfolding reconnected_state_def
  proof (rule steps_connect)
    show "rm_index ?m2 (rp_id p) = None" "rm_tasks ?m2 ''2'' = None" "rm_tasks ?m2 ''x'' = None"
      using assms by (simp_all add: reconnect_defs)
  qed (use assms in simp_all)
  from steps_trans [OF 1 steps_trans [OF 2 this]] show ?thesis unfolding reconnected_def by blast
qed

text \<open>
  C37: reconnecting right after a disconnection can leave two running sessions of one profile. The
  task of the closed session, when it ends, removes whatever the index holds for its profile,
  here the entry of the session that replaced it. So after the clean-up a connection starts a third
  session beside the second, which still runs; the same connection before the clean-up
  returns the second.
\<close>

theorem late_cleanup_allows_duplicate_sessions:
  assumes "rdp_validate p = Ok ()"
  shows "(\<exists>cs m. steps rdp_mstep (Map.empty, rdp_new) (reconnected p @ cleans_up @
       [MCall 3 (CReadIndex p), MStep 3 ''3'' [], MStep 3 ''3'' [], MStep 3 ''x'' [], MStep 3 ''x'' []]) (cs, m) \<and>
      cs 2 = Some (CReturn (Ok (Some (new_info ''2'' p)))) \<and> cs 3 = Some (CReturn (Ok (Some (new_info ''3'' p)))) \<and>
      task_open m ''2'' \<and> task_open m ''3'' \<and>
      rm_sessions m ''2'' = Some (new_info ''2'' p) \<and> rm_sessions m ''3'' = Some (new_info ''3'' p)) \<and>
    (\<exists>cs m. steps rdp_mstep (Map.empty, rdp_new) (reconnected p @
       [MCall 3 (CReadIndex p), MStep 3 ''3'' [], MStep 3 ''3'' []]) (cs, m) \<and>
      cs 3 = Some (CReturn (Ok (Some (new_info ''2'' p)))))"
proof
  let ?m3 = "reconnected_state p"
  let ?m4 = "task_ends ''1'' p ?m3"
  let ?m5 = "snd (rdp_connect ''3'' p ?m4)"
  note defs = reconnected_state_def reconnect_defs assms
  obtain r1 r2 where run: "steps rdp_mstep (Map.empty, rdp_new) (reconnected p)
      ([0 \<mapsto> r1, 1 \<mapsto> r2, 2 \<mapsto> CReturn (Ok (Some (new_info ''2'' p)))], ?m3)"
    using steps_reconnected [OF assms] by blast
  let ?cs = "[0 \<mapsto> r1, 1 \<mapsto> r2, 2 \<mapsto> CReturn (Ok (Some (new_info ''2'' p)))]"
  have "rm_tasks ?m3 ''1'' = Some \<lparr>rk_info = new_info ''1'' p, rk_profile = p, rk_phase = RRunning,
      rk_cancelled = True, rk_queue = [RdpDisconnect]\<rparr>"
    by (simp add: defs)
  from steps_task_ends [OF this] have 4: "steps rdp_mstep (?cs, ?m3) cleans_up (?cs, ?m4)"
    by (simp add: cleans_up_def del: steps_Cons_iff)
  have 5: "steps rdp_mstep (?cs, ?m4)
      [MCall 3 (CReadIndex p), MStep 3 ''3'' [], MStep 3 ''3'' [], MStep 3 ''x'' [], MStep 3 ''x'' []]
      (?cs(3 \<mapsto> CReturn (Ok (Some (new_info ''3'' p)))), ?m5)"
  proof (rule steps_connect)
    show "rm_index ?m4 (rp_id p) = None" "rm_tasks ?m4 ''3'' = None" "rm_tasks ?m4 ''x'' = None"
      by (simp_all add: defs)
  qed (simp_all add: assms)
  have ends: "task_open ?m5 ''2''" "task_open ?m5 ''3''" "rm_sessions ?m5 ''2'' = Some (new_info ''2'' p)"
    "rm_sessions ?m5 ''3'' = Some (new_info ''3'' p)"
    by (simp_all add: defs)
  from steps_trans [OF run steps_trans [OF 4 5]] ends
  show "\<exists>cs m. steps rdp_mstep (Map.empty, rdp_new) (reconnected p @ cleans_up @
       [MCall 3 (CReadIndex p), MStep 3 ''3'' [], MStep 3 ''3'' [], MStep 3 ''x'' [], MStep 3 ''x'' []]) (cs, m) \<and>
      cs 2 = Some (CReturn (Ok (Some (new_info ''2'' p)))) \<and> cs 3 = Some (CReturn (Ok (Some (new_info ''3'' p)))) \<and>
      task_open m ''2'' \<and> task_open m ''3'' \<and>
      rm_sessions m ''2'' = Some (new_info ''2'' p) \<and> rm_sessions m ''3'' = Some (new_info ''3'' p)"
    by (intro exI [of _ "?cs(3 \<mapsto> CReturn (Ok (Some (new_info ''3'' p))))"] exI [of _ ?m5]) simp
  have "rm_index ?m3 (rp_id p) = Some ''2''" "rm_sessions ?m3 ''2'' = Some (new_info ''2'' p)" "task_open ?m3 ''2''"
    "rm_tasks ?m3 ''3'' = None"
    by (simp_all add: defs)
  then have "steps rdp_mstep (?cs, ?m3) [MCall 3 (CReadIndex p), MStep 3 ''3'' [], MStep 3 ''3'' []]
      (?cs(3 \<mapsto> CReturn (Ok (Some (new_info ''2'' p)))), ?m3)"
    by (auto simp: rdp_mstep_simps assms)
  from steps_trans [OF run this]
  show "\<exists>cs m. steps rdp_mstep (Map.empty, rdp_new) (reconnected p @
       [MCall 3 (CReadIndex p), MStep 3 ''3'' [], MStep 3 ''3'' []]) (cs, m) \<and>
      cs 3 = Some (CReturn (Ok (Some (new_info ''2'' p))))"
    by (intro exI [of _ "?cs(3 \<mapsto> CReturn (Ok (Some (new_info ''2'' p))))"] exI [of _ ?m3]) simp
qed

section \<open>Witnesses\<close>

definition demo_rdp :: rdp_profile where
  "demo_rdp = default_profile\<lparr>rp_id := ''p'', rp_host := ''h'', rp_username := ''u''\<rparr>"

lemma demo_rdp_valid: "rdp_validate demo_rdp = Ok ()" "rp_id demo_rdp = ''p''"
  by code_simp+

theorem late_cleanup_allows_duplicate_sessions_witness:
  "\<exists>cs m. steps rdp_mstep (Map.empty, rdp_new) (reconnected demo_rdp @ cleans_up @
       [MCall 3 (CReadIndex demo_rdp), MStep 3 ''3'' [], MStep 3 ''3'' [], MStep 3 ''x'' [], MStep 3 ''x'' []]) (cs, m) \<and>
     task_open m ''2'' \<and> task_open m ''3'' \<and>
     rm_sessions m ''2'' = Some (new_info ''2'' demo_rdp) \<and> rm_sessions m ''3'' = Some (new_info ''3'' demo_rdp) \<and>
     ri_profile_id (new_info ''2'' demo_rdp) = ''p'' \<and> ri_profile_id (new_info ''3'' demo_rdp) = ''p''"
proof -
  have "ri_profile_id (new_info s demo_rdp) = ''p''" for s using demo_rdp_valid(2) by (simp add: new_info_def)
  with late_cleanup_allows_duplicate_sessions [OF demo_rdp_valid(1), THEN conjunct1] show ?thesis by blast
qed

lemma demo_connected:
  "steps rdp_mstep (Map.empty, rdp_new)
     [MCall 0 (CReadIndex demo_rdp), MStep 0 ''1'' [], MStep 0 ''1'' [], MStep 0 ''x'' [], MStep 0 ''x'' []]
     (Map.empty(0 \<mapsto> CReturn (Ok (Some (new_info ''1'' demo_rdp)))), snd (rdp_connect ''1'' demo_rdp rdp_new))"
  by (rule steps_connect) (simp_all add: demo_rdp_valid rdp_new_def)

lemma demo_connect_eq:
  "rdp_connect ''1'' demo_rdp rdp_new = (Ok (new_info ''1'' demo_rdp), snd (rdp_connect ''1'' demo_rdp rdp_new))"
  "rm_sessions (snd (rdp_connect ''1'' demo_rdp rdp_new)) ''1'' = Some (new_info ''1'' demo_rdp)"
  "rm_tasks (snd (rdp_connect ''1'' demo_rdp rdp_new)) ''1'' =
     Some \<lparr>rk_info = new_info ''1'' demo_rdp, rk_profile = demo_rdp, rk_phase = RRunning, rk_cancelled = False, rk_queue = []\<rparr>"
  by (simp_all add: rdp_connect_def find_existing_def rdp_new_def demo_rdp_valid manager_updates)

theorem rdp_sessions_report_once_witness:
  "let m = task_ends ''1'' demo_rdp (snd (rdp_connect ''1'' demo_rdp rdp_new)) in
   errors_of ''1'' m = [] \<and> (\<exists>progress. status_of ''1'' m = progress @
     [\<lparr>re_session_id = ''1'', re_status = RdpDisconnected, re_message = Some ''disconnected normally''\<rparr>])"
proof -
  let ?m1 = "snd (rdp_connect ''1'' demo_rdp rdp_new)"
  let ?m = "task_ends ''1'' demo_rdp ?m1"
  have "steps rdp_mstep (cs, ?m1) [MFinish ''1'' (Ok ()), MReport ''1'', MUnlist ''1'', MUnindex ''1''] (cs, ?m)" for cs
    using steps_task_ends [OF demo_connect_eq(3), of cs] by (simp del: steps_Cons_iff)
  note run = steps_trans [OF demo_connected this]
  have "outcome ?m ''1'' = Some (Ok ())"
    using demo_connect_eq(3)
    by (simp add: outcome_def task_ends_def rdp_unindex_def rdp_unlist_def rdp_report_def manager_updates)
  with rdp_sessions_report_once [OF run, of "''1''"] show ?thesis by auto
qed

theorem connect_returns_a_session_of_the_profile_witness:
  "\<exists>m j. rdp_connect ''2'' demo_rdp m = (Ok j, m) \<and> ri_profile_id j = ''p'' \<and> ri_id j = ''1''"
proof -
  let ?m = "snd (rdp_connect ''1'' demo_rdp rdp_new)"
  have "rdp_connect ''2'' demo_rdp ?m = (Ok (new_info ''1'' demo_rdp), ?m)"
    by (simp add: rdp_connect_def find_existing_def rdp_new_def demo_rdp_valid manager_updates task_open_def)
  moreover have "ri_profile_id (new_info ''1'' demo_rdp) = ''p''"
    using connect_returns_a_session_of_the_profile [OF demo_connected] calculation by (fastforce simp: demo_rdp_valid)
  ultimately show ?thesis by (intro exI [of _ ?m] exI [of _ "new_info ''1'' demo_rdp"]) simp
qed

theorem connecting_again_returns_the_running_session_witness:
  "rdp_connect ''2'' demo_rdp (snd (rdp_connect ''1'' demo_rdp rdp_new)) =
     (Ok (new_info ''1'' demo_rdp), snd (rdp_connect ''1'' demo_rdp rdp_new))"
  by (rule connecting_again_returns_the_running_session [OF demo_connect_eq(1)])

theorem disconnected_sessions_ignore_input_witness:
  "\<exists>m'. rdp_disconnect ''1'' (snd (rdp_connect ''1'' demo_rdp rdp_new)) = (Ok (), m') \<and>
     send_input ''1'' (MouseMove 1 2) m' = (Ok (), m') \<and> get_active_session_for_profile ''p'' m' = None"
proof -
  let ?m = "snd (rdp_connect ''1'' demo_rdp rdp_new)"
  obtain r m' where d: "rdp_disconnect ''1'' ?m = (r, m')" by fastforce
  from disconnected_sessions_ignore_input(1) [OF d] disconnected_sessions_ignore_input(2) [OF d demo_connect_eq(2,3)]
  show ?thesis by (simp add: d demo_rdp_valid)
qed

theorem calls_are_their_critical_sections_witness:
  "run_call 3 ''x'' [] (CTake ''1'') (snd (rdp_connect ''1'' demo_rdp rdp_new)) =
     Some (Ok None, snd (rdp_disconnect ''1'' (snd (rdp_connect ''1'' demo_rdp rdp_new))))"
  by (rule calls_are_their_critical_sections [THEN conjunct2, THEN conjunct1, THEN mp])
     (simp add: has_room_def demo_connect_eq(3))

end
