(* ===== verification/Sse_Codec.thy ===== *)
theory Sse_Codec
  imports Rust_Str
begin

text \<open>
  The wire format between the Dart application and the two Rust crates, as the generated
  \<^verbatim>\<open>frb_generated.rs\<close> and \<^verbatim>\<open>frb_generated.dart\<close> write and read it: the primitive types, strings, vectors
  and options, on both sides. The byte buffers are library code and parameters: \<open>rust_cursor\<close> is the
  cursor with the \<^verbatim>\<open>byteorder\<close> extensions, \<open>dart_buffer\<close> the buffer of the Dart package. A decoder
  maps the bytes ahead to a value and the bytes that remain, or panics (\<open>None\<close>). A Dart integer
  stands for a value in the range of its Rust type.
\<close>

section \<open>Decoders\<close>

type_synonym 'a decoder = "bytes \<Rightarrow> ('a \<times> bytes) option"
type_synonym i32 = "32 word"

definition dec_return :: "'a \<Rightarrow> 'a decoder" where
  "dec_return x b = Some (x, b)"

definition dec_panic :: "'a decoder" where
  "dec_panic b = None"

definition dec_bind :: "'a decoder \<Rightarrow> ('a \<Rightarrow> 'b decoder) \<Rightarrow> 'b decoder" where
  "dec_bind d f b = Option.bind (d b) (\<lambda>(x, b'). f x b')"

fun dec_times :: "nat \<Rightarrow> 'a decoder \<Rightarrow> 'a list decoder" where
  "dec_times 0 d = dec_return []"
| "dec_times (Suc n) d = dec_bind d (\<lambda>x. dec_bind (dec_times n d) (\<lambda>xs. dec_return (x # xs)))"

section \<open>The Rust side\<close>

record rust_cursor =
  rc_write_u8 :: "u8 \<Rightarrow> bytes"
  rc_write_u16 :: "u16 \<Rightarrow> bytes"
  rc_write_u32 :: "u32 \<Rightarrow> bytes"
  rc_write_u64 :: "u64 \<Rightarrow> bytes"
  rc_write_i16 :: "i16 \<Rightarrow> bytes"
  rc_write_i32 :: "i32 \<Rightarrow> bytes"
  rc_write_i64 :: "64 word \<Rightarrow> bytes"
  rc_read_u8 :: "u8 decoder"
  rc_read_u16 :: "u16 decoder"
  rc_read_u32 :: "u32 decoder"
  rc_read_u64 :: "u64 decoder"
  rc_read_i16 :: "i16 decoder"
  rc_read_i32 :: "i32 decoder"
  rc_read_i64 :: "64 word decoder"
  rc_end :: "bytes \<Rightarrow> bool"

text \<open>\<^verbatim>\<open>rc_end\<close>: whether \<^verbatim>\<open>deserializer.end()\<close> accepts the bytes that are left.\<close>

definition sse_decode_u8 :: "rust_cursor \<Rightarrow> u8 decoder" where
  "sse_decode_u8 c = rc_read_u8 c"

definition sse_decode_u16 :: "rust_cursor \<Rightarrow> u16 decoder" where
  "sse_decode_u16 c = rc_read_u16 c"

definition sse_decode_u32 :: "rust_cursor \<Rightarrow> u32 decoder" where
  "sse_decode_u32 c = rc_read_u32 c"

definition sse_decode_u64 :: "rust_cursor \<Rightarrow> u64 decoder" where
  "sse_decode_u64 c = rc_read_u64 c"

definition sse_decode_i16 :: "rust_cursor \<Rightarrow> i16 decoder" where
  "sse_decode_i16 c = rc_read_i16 c"

definition sse_decode_i32 :: "rust_cursor \<Rightarrow> i32 decoder" where
  "sse_decode_i32 c = rc_read_i32 c"

definition sse_decode_i64 :: "rust_cursor \<Rightarrow> int decoder" where
  "sse_decode_i64 c = dec_bind (rc_read_i64 c) (\<lambda>w. dec_return (sint w))"

definition sse_decode_bool :: "rust_cursor \<Rightarrow> bool decoder" where
  "sse_decode_bool c = dec_bind (rc_read_u8 c) (\<lambda>b. dec_return (b \<noteq> 0))"

definition sse_decode_unit :: "rust_cursor \<Rightarrow> unit decoder" where
  "sse_decode_unit c = dec_return ()"

text \<open>
  \<^verbatim>\<open>Vec::with_capacity(len_ as usize)\<close> panics for a negative length, which becomes a size beyond what
  a vector can hold.
\<close>

definition sse_decode_vec :: "rust_cursor \<Rightarrow> 'a decoder \<Rightarrow> 'a list decoder" where
  "sse_decode_vec c d = dec_bind (sse_decode_i32 c) (\<lambda>len. if sint len < 0 then dec_panic else dec_times (unat len) d)"

definition sse_decode_option :: "rust_cursor \<Rightarrow> 'a decoder \<Rightarrow> 'a option decoder" where
  "sse_decode_option c d =
     dec_bind (sse_decode_bool c) (\<lambda>b. if b then dec_bind d (\<lambda>x. dec_return (Some x)) else dec_return None)"

definition sse_decode_vec_u8 :: "rust_cursor \<Rightarrow> bytes decoder" where
  "sse_decode_vec_u8 c = sse_decode_vec c (sse_decode_u8 c)"

definition sse_decode_string :: "rust_cursor \<Rightarrow> string decoder" where
  "sse_decode_string c =
     dec_bind (sse_decode_vec_u8 c)
       (\<lambda>inner. case from_utf8 inner of Some s \<Rightarrow> dec_return s | None \<Rightarrow> dec_panic)"

definition sse_decode_option_string :: "rust_cursor \<Rightarrow> string option decoder" where
  "sse_decode_option_string c = sse_decode_option c (sse_decode_string c)"

definition sse_encode_u8 :: "rust_cursor \<Rightarrow> u8 \<Rightarrow> bytes" where
  "sse_encode_u8 c x = rc_write_u8 c x"

definition sse_encode_u16 :: "rust_cursor \<Rightarrow> u16 \<Rightarrow> bytes" where
  "sse_encode_u16 c x = rc_write_u16 c x"

definition sse_encode_u32 :: "rust_cursor \<Rightarrow> u32 \<Rightarrow> bytes" where
  "sse_encode_u32 c x = rc_write_u32 c x"

definition sse_encode_u64 :: "rust_cursor \<Rightarrow> u64 \<Rightarrow> bytes" where
  "sse_encode_u64 c x = rc_write_u64 c x"

definition sse_encode_i16 :: "rust_cursor \<Rightarrow> i16 \<Rightarrow> bytes" where
  "sse_encode_i16 c x = rc_write_i16 c x"

definition sse_encode_i32 :: "rust_cursor \<Rightarrow> i32 \<Rightarrow> bytes" where
  "sse_encode_i32 c x = rc_write_i32 c x"

definition sse_encode_i64 :: "rust_cursor \<Rightarrow> int \<Rightarrow> bytes" where
  "sse_encode_i64 c x = rc_write_i64 c (word_of_int x)"

definition sse_encode_bool :: "rust_cursor \<Rightarrow> bool \<Rightarrow> bytes" where
  "sse_encode_bool c b = rc_write_u8 c (if b then 1 else 0)"

definition sse_encode_unit :: "rust_cursor \<Rightarrow> unit \<Rightarrow> bytes" where
  "sse_encode_unit c x = []"

definition sse_encode_vec :: "rust_cursor \<Rightarrow> ('a \<Rightarrow> bytes) \<Rightarrow> 'a list \<Rightarrow> bytes" where
  "sse_encode_vec c e xs = sse_encode_i32 c (of_nat (length xs)) @ concat (map e xs)"

definition sse_encode_option :: "rust_cursor \<Rightarrow> ('a \<Rightarrow> bytes) \<Rightarrow> 'a option \<Rightarrow> bytes" where
  "sse_encode_option c e x =
     sse_encode_bool c (x \<noteq> None) @ (case x of Some value \<Rightarrow> e value | None \<Rightarrow> [])"

definition sse_encode_vec_u8 :: "rust_cursor \<Rightarrow> bytes \<Rightarrow> bytes" where
  "sse_encode_vec_u8 c xs = sse_encode_vec c (sse_encode_u8 c) xs"

definition sse_encode_string :: "rust_cursor \<Rightarrow> string \<Rightarrow> bytes" where
  "sse_encode_string c s = sse_encode_vec_u8 c (str_bytes s)"

definition sse_encode_option_string :: "rust_cursor \<Rightarrow> string option \<Rightarrow> bytes" where
  "sse_encode_option_string c x = sse_encode_option c (sse_encode_string c) x"

text \<open>\<^verbatim>\<open>anyhow::Error\<close> crosses as its \<^verbatim>\<open>Debug\<close> text, and comes back as an error with that message.\<close>

definition sse_encode_error :: "rust_cursor \<Rightarrow> ('e \<Rightarrow> string) \<Rightarrow> 'e \<Rightarrow> bytes" where
  "sse_encode_error c dbg e = sse_encode_string c (dbg e)"

definition sse_decode_error :: "rust_cursor \<Rightarrow> (string \<Rightarrow> 'e) \<Rightarrow> 'e decoder" where
  "sse_decode_error c anyhow = dec_bind (sse_decode_string c) (\<lambda>inner. dec_return (anyhow inner))"

text \<open>A stream sink is the text it is deserialised from.\<close>

definition sse_decode_stream_sink :: "rust_cursor \<Rightarrow> (string \<Rightarrow> 'sink) \<Rightarrow> 'sink decoder" where
  "sse_decode_stream_sink c deserialize = dec_bind (sse_decode_string c) (\<lambda>inner. dec_return (deserialize inner))"

section \<open>The Dart side\<close>

record dart_buffer =
  db_putUint8 :: "u8 \<Rightarrow> bytes"
  db_putUint16 :: "u16 \<Rightarrow> bytes"
  db_putUint32 :: "u32 \<Rightarrow> bytes"
  db_putBigUint64 :: "u64 \<Rightarrow> bytes"
  db_putInt16 :: "i16 \<Rightarrow> bytes"
  db_putInt32 :: "i32 \<Rightarrow> bytes"
  db_putPlatformInt64 :: "64 word \<Rightarrow> bytes"
  db_putUint8List :: "bytes \<Rightarrow> bytes"
  db_getUint8 :: "u8 decoder"
  db_getUint16 :: "u16 decoder"
  db_getUint32 :: "u32 decoder"
  db_getBigUint64 :: "u64 decoder"
  db_getInt16 :: "i16 decoder"
  db_getInt32 :: "i32 decoder"
  db_getPlatformInt64 :: "64 word decoder"
  db_getUint8List :: "int \<Rightarrow> bytes decoder"

definition dart_encode_u_8 :: "dart_buffer \<Rightarrow> u8 \<Rightarrow> bytes" where
  "dart_encode_u_8 b x = db_putUint8 b x"

definition dart_encode_u_16 :: "dart_buffer \<Rightarrow> u16 \<Rightarrow> bytes" where
  "dart_encode_u_16 b x = db_putUint16 b x"

definition dart_encode_u_32 :: "dart_buffer \<Rightarrow> u32 \<Rightarrow> bytes" where
  "dart_encode_u_32 b x = db_putUint32 b x"

definition dart_encode_u_64 :: "dart_buffer \<Rightarrow> u64 \<Rightarrow> bytes" where
  "dart_encode_u_64 b x = db_putBigUint64 b x"

definition dart_encode_i_16 :: "dart_buffer \<Rightarrow> i16 \<Rightarrow> bytes" where
  "dart_encode_i_16 b x = db_putInt16 b x"

definition dart_encode_i_32 :: "dart_buffer \<Rightarrow> i32 \<Rightarrow> bytes" where
  "dart_encode_i_32 b x = db_putInt32 b x"

definition dart_encode_bool :: "dart_buffer \<Rightarrow> bool \<Rightarrow> bytes" where
  "dart_encode_bool b x = db_putUint8 b (if x then 1 else 0)"

definition dart_encode_list_prim_u_8 :: "dart_buffer \<Rightarrow> bytes \<Rightarrow> bytes" where
  "dart_encode_list_prim_u_8 b xs = dart_encode_i_32 b (of_nat (length xs)) @ db_putUint8List b xs"

definition dart_encode_String :: "dart_buffer \<Rightarrow> string \<Rightarrow> bytes" where
  "dart_encode_String b s = dart_encode_list_prim_u_8 b (str_bytes s)"

definition dart_encode_opt_String :: "dart_buffer \<Rightarrow> string option \<Rightarrow> bytes" where
  "dart_encode_opt_String b x =
     dart_encode_bool b (x \<noteq> None) @ (case x of Some s \<Rightarrow> dart_encode_String b s | None \<Rightarrow> [])"

definition dart_encode_list_String :: "dart_buffer \<Rightarrow> string list \<Rightarrow> bytes" where
  "dart_encode_list_String b xs = dart_encode_i_32 b (of_nat (length xs)) @ concat (map (dart_encode_String b) xs)"

definition dart_decode_u_8 :: "dart_buffer \<Rightarrow> u8 decoder" where
  "dart_decode_u_8 b = db_getUint8 b"

definition dart_decode_u_16 :: "dart_buffer \<Rightarrow> u16 decoder" where
  "dart_decode_u_16 b = db_getUint16 b"

definition dart_decode_u_32 :: "dart_buffer \<Rightarrow> u32 decoder" where
  "dart_decode_u_32 b = db_getUint32 b"

definition dart_decode_u_64 :: "dart_buffer \<Rightarrow> u64 decoder" where
  "dart_decode_u_64 b = db_getBigUint64 b"

definition dart_decode_i_32 :: "dart_buffer \<Rightarrow> i32 decoder" where
  "dart_decode_i_32 b = db_getInt32 b"

definition dart_decode_i_64 :: "dart_buffer \<Rightarrow> int decoder" where
  "dart_decode_i_64 b = dec_bind (db_getPlatformInt64 b) (\<lambda>w. dec_return (sint w))"

definition dart_decode_bool :: "dart_buffer \<Rightarrow> bool decoder" where
  "dart_decode_bool b = dec_bind (db_getUint8 b) (\<lambda>x. dec_return (x \<noteq> 0))"

definition dart_decode_unit :: "dart_buffer \<Rightarrow> unit decoder" where
  "dart_decode_unit b = dec_return ()"

definition dart_decode_list_prim_u_8 :: "dart_buffer \<Rightarrow> bytes decoder" where
  "dart_decode_list_prim_u_8 b = dec_bind (dart_decode_i_32 b) (\<lambda>len. db_getUint8List b (sint len))"

text \<open>\<^verbatim>\<open>utf8.decoder.convert\<close> refuses malformed text, and discards a byte order mark at its start.\<close>

definition byte_order_mark :: string where
  "byte_order_mark = map byte_char [0xEF, 0xBB, 0xBF]"

definition drop_bom :: "string \<Rightarrow> string" where
  "drop_bom s = (if take 3 s = byte_order_mark then drop 3 s else s)"

lemma drop_bom_id: "take 3 s \<noteq> byte_order_mark \<Longrightarrow> drop_bom s = s"
  by (simp add: drop_bom_def)

lemma drop_bom_mark: "drop_bom (byte_order_mark @ s) = s"
  by (simp add: drop_bom_def byte_order_mark_def)

definition dart_decode_String :: "dart_buffer \<Rightarrow> string decoder" where
  "dart_decode_String b =
     dec_bind (dart_decode_list_prim_u_8 b)
       (\<lambda>inner. case from_utf8 inner of Some s \<Rightarrow> dec_return (drop_bom s) | None \<Rightarrow> dec_panic)"

text \<open>A loop \<^verbatim>\<open>for (var idx_ = 0; idx_ < len_; ++idx_)\<close> does nothing for a negative length.\<close>

definition dart_decode_list :: "dart_buffer \<Rightarrow> 'a decoder \<Rightarrow> 'a list decoder" where
  "dart_decode_list b d = dec_bind (dart_decode_i_32 b) (\<lambda>len. dec_times (nat (sint len)) d)"

definition dart_decode_opt :: "dart_buffer \<Rightarrow> 'a decoder \<Rightarrow> 'a option decoder" where
  "dart_decode_opt b d =
     dec_bind (dart_decode_bool b) (\<lambda>x. if x then dec_bind d (\<lambda>y. dec_return (Some y)) else dec_return None)"

definition dart_decode_opt_String :: "dart_buffer \<Rightarrow> string option decoder" where
  "dart_decode_opt_String b = dart_decode_opt b (dart_decode_String b)"

section \<open>Calls\<close>

text \<open>
  A wire function decodes its arguments, requires the message to end there, runs the function of the
  API and sends back what it returns, or panics on the way to the call (\<open>wire_call\<close>, where \<open>run\<close>
  runs the call and packs its result: \<open>run_wire_call\<close> below). \<^verbatim>\<open>transform_result_sse\<close> wraps the encoded
  value or error for the way back; how it marks the two is library code, as is the Dart function
  that tells them apart.
\<close>

definition dec_map :: "('a \<Rightarrow> 'b) \<Rightarrow> 'a decoder \<Rightarrow> 'b decoder" where
  "dec_map f d = dec_bind d (\<lambda>x. dec_return (f x))"

definition wire_call :: "rust_cursor \<Rightarrow> ('call \<Rightarrow> 'a) \<Rightarrow> 'call decoder \<Rightarrow> bytes \<Rightarrow> 'a option" where
  "wire_call c run d message =
     (case d message of Some (call, rest) \<Rightarrow> if rc_end c rest then Some (run call) else None | None \<Rightarrow> None)"

record 'm sse_frames =
  fr_success :: "bytes \<Rightarrow> 'm"
  fr_error :: "bytes \<Rightarrow> 'm"
  fr_open :: "'m \<Rightarrow> bytes + bytes"

definition frames_ok :: "'m sse_frames \<Rightarrow> bool" where
  "frames_ok fr \<longleftrightarrow> (\<forall>b. fr_open fr (fr_success fr b) = Inr b) \<and> (\<forall>b. fr_open fr (fr_error fr b) = Inl b)"

definition run_wire_call ::
  "'m sse_frames \<Rightarrow> ('e \<Rightarrow> bytes) \<Rightarrow> ('r \<Rightarrow> bytes) \<Rightarrow> ('call \<Rightarrow> ('w, 'e, 'r) io) \<Rightarrow> 'call \<Rightarrow> 'w \<Rightarrow> 'm \<times> 'w" where
  "run_wire_call fr encode_error encode_ok api call w =
     (case api call w of
        (Ok r, w') \<Rightarrow> (fr_success fr (encode_ok r), w')
      | (Err e, w') \<Rightarrow> (fr_error fr (encode_error e), w'))"

text \<open>What a Dart task makes of the reply: \<open>decodeErrorData\<close> may be absent.\<close>

definition dart_receive ::
  "'m sse_frames \<Rightarrow> 'r decoder \<Rightarrow> string decoder option \<Rightarrow> 'm \<Rightarrow> (string, 'r) result option" where
  "dart_receive fr decode_success decode_error m =
     (case fr_open fr m of
        Inr b \<Rightarrow> map_option (\<lambda>(r, rest). Ok r) (decode_success b)
      | Inl b \<Rightarrow> (case decode_error of
          None \<Rightarrow> None
        | Some d \<Rightarrow> map_option (\<lambda>(e, rest). Err e) (d b)))"

section \<open>What the buffers promise each other\<close>

text \<open>
  Both libraries document the same native byte order: what the one writes the other reads back,
  leaving the bytes that follow, and the cursor accepts the end of a message that was read in full.
\<close>

definition dart_to_rust :: "dart_buffer \<Rightarrow> rust_cursor \<Rightarrow> bool" where
  "dart_to_rust b c \<longleftrightarrow>
     (\<forall>x rest. rc_read_u8 c (db_putUint8 b x @ rest) = Some (x, rest)) \<and>
     (\<forall>x rest. rc_read_u16 c (db_putUint16 b x @ rest) = Some (x, rest)) \<and>
     (\<forall>x rest. rc_read_u32 c (db_putUint32 b x @ rest) = Some (x, rest)) \<and>
     (\<forall>x rest. rc_read_i16 c (db_putInt16 b x @ rest) = Some (x, rest)) \<and>
     (\<forall>x rest. rc_read_i32 c (db_putInt32 b x @ rest) = Some (x, rest)) \<and>
     (\<forall>x xs rest. rc_read_u8 c (db_putUint8List b (x # xs) @ rest) = Some (x, db_putUint8List b xs @ rest)) \<and>
     db_putUint8List b [] = [] \<and> rc_end c []"

definition rust_to_dart :: "rust_cursor \<Rightarrow> dart_buffer \<Rightarrow> bool" where
  "rust_to_dart c b \<longleftrightarrow>
     (\<forall>x rest. db_getUint8 b (rc_write_u8 c x @ rest) = Some (x, rest)) \<and>
     (\<forall>x rest. db_getUint16 b (rc_write_u16 c x @ rest) = Some (x, rest)) \<and>
     (\<forall>x rest. db_getUint32 b (rc_write_u32 c x @ rest) = Some (x, rest)) \<and>
     (\<forall>x rest. db_getBigUint64 b (rc_write_u64 c x @ rest) = Some (x, rest)) \<and>
     (\<forall>x rest. db_getInt32 b (rc_write_i32 c x @ rest) = Some (x, rest)) \<and>
     (\<forall>x rest. db_getPlatformInt64 b (rc_write_i64 c x @ rest) = Some (x, rest)) \<and>
     (\<forall>xs rest. db_getUint8List b (int (length xs)) (concat (map (rc_write_u8 c) xs) @ rest) = Some (xs, rest))"

text \<open>
  The values that cross unharmed: text that is valid UTF-8, and sequences whose length fits the
  signed 32-bit count in front of them.
\<close>

definition str_ok :: "string \<Rightarrow> bool" where
  "str_ok s \<longleftrightarrow> utf8_valid (str_bytes s) \<and> length s < 2 ^ 31"

definition list_ok :: "('a \<Rightarrow> bool) \<Rightarrow> 'a list \<Rightarrow> bool" where
  "list_ok good xs \<longleftrightarrow> length xs < 2 ^ 31 \<and> list_all good xs"

definition bytes_ok :: "bytes \<Rightarrow> bool" where
  "bytes_ok xs \<longleftrightarrow> length xs < 2 ^ 31"

definition i64_ok :: "int \<Rightarrow> bool" where
  "i64_ok x \<longleftrightarrow> - (2 ^ 63) \<le> x \<and> x < 2 ^ 63"

named_theorems to_rust \<open>what Dart writes, Rust reads\<close>
named_theorems to_dart \<open>what Rust writes, Dart reads\<close>
named_theorems decoded_ok \<open>what Rust decodes is well-formed\<close>

section \<open>Interfaces\<close>

text \<open>
  A reader: of every value \<open>good\<close>, the one side's decoder gets from the other side's encoding the value
  \<open>shown\<close>. A codec shows every good value as it is. And a decoder that only delivers values of a kind,
  whatever bytes it is given.
\<close>

locale wire_reader =
  fixes enc :: "'a \<Rightarrow> bytes"
    and dec :: "'b decoder"
    and good :: "'a \<Rightarrow> bool"
    and shown :: "'a \<Rightarrow> 'b"
  assumes reads: "good x \<Longrightarrow> dec (enc x @ rest) = Some (shown x, rest)"
begin

lemma reads_last: "good x \<Longrightarrow> dec (enc x) = Some (shown x, [])"
  using reads [of x "[]"] by simp

lemma reads_times:
  "list_all good xs \<Longrightarrow> dec_times (length xs) dec (concat (map enc xs) @ rest) = Some (map shown xs, rest)"
  by (induction xs) (simp_all add: dec_return_def dec_bind_def reads)

end

locale wire_codec =
  fixes enc :: "'a \<Rightarrow> bytes"
    and dec :: "'a decoder"
    and good :: "'a \<Rightarrow> bool"
  assumes decodes: "good x \<Longrightarrow> dec (enc x @ rest) = Some (x, rest)"

sublocale wire_codec \<subseteq> reading: wire_reader enc dec good "\<lambda>x. x"
  by unfold_locales (rule decodes)

context wire_codec
begin

lemma decodes_last: "good x \<Longrightarrow> dec (enc x) = Some (x, [])"
  by (rule reading.reads_last)

lemma decodes_times:
  "list_all good xs \<Longrightarrow> dec_times (length xs) dec (concat (map enc xs) @ rest) = Some (xs, rest)"
  using reading.reads_times [of xs rest] by simp

text \<open>The encodings of a type are prefix-free: none is the start of another.\<close>

lemma prefix_free: "good x \<Longrightarrow> good y \<Longrightarrow> enc x @ r = enc y @ r' \<Longrightarrow> x = y \<and> r = r'"
  using decodes [of x r] decodes [of y r'] by (metis Pair_inject option.inject)

end

locale typed_decoder =
  fixes dec :: "'a decoder"
    and good :: "'a \<Rightarrow> bool"
  assumes typed: "dec b = Some (x, rest) \<Longrightarrow> good x"
begin

lemma typed_times: "dec_times n dec b = Some (xs, rest) \<Longrightarrow> length xs = n \<and> list_all good xs"
  by (induction n arbitrary: b xs rest)
     (auto simp: dec_bind_def dec_return_def bind_eq_Some_conv dest: typed)

end

lemmas decoder_simps = dec_bind_def dec_return_def dec_panic_def

lemma sint_length: "n < 2 ^ 31 \<Longrightarrow> sint (of_nat n :: i32) = int n"
  by (simp add: signed_of_nat signed_take_bit_int_eq_self)

lemma unat_length: "n < 2 ^ 31 \<Longrightarrow> unat (of_nat n :: i32) = n"
  by (simp add: unsigned_of_nat take_bit_nat_eq_self)

lemma length_of_i32:
  assumes "\<not> sint (len :: i32) < 0"
  shows "unat len < 2 ^ 31"
proof -
  have "sint len < 2 ^ 31" using sint_lt [of len] by simp
  then have "uint len = sint len" using assms by (simp add: uint_sint take_bit_int_eq_self)
  with \<open>sint len < 2 ^ 31\<close> show ?thesis by (simp add: unat_eq_nat_uint nat_less_iff)
qed

section \<open>From Dart to Rust\<close>

lemma d2r_words [to_rust]:
  "dart_to_rust b c \<Longrightarrow> sse_decode_u8 c (dart_encode_u_8 b x1 @ rest) = Some (x1, rest)"
  "dart_to_rust b c \<Longrightarrow> sse_decode_u16 c (dart_encode_u_16 b x2 @ rest) = Some (x2, rest)"
  "dart_to_rust b c \<Longrightarrow> sse_decode_u32 c (dart_encode_u_32 b x3 @ rest) = Some (x3, rest)"
  "dart_to_rust b c \<Longrightarrow> sse_decode_i16 c (dart_encode_i_16 b x4 @ rest) = Some (x4, rest)"
  "dart_to_rust b c \<Longrightarrow> sse_decode_i32 c (dart_encode_i_32 b x5 @ rest) = Some (x5, rest)"
  "dart_to_rust b c \<Longrightarrow> sse_decode_bool c (dart_encode_bool b x6 @ rest) = Some (x6, rest)"
  by (simp_all add: dart_to_rust_def sse_decode_u8_def sse_decode_u16_def sse_decode_u32_def sse_decode_i16_def
      sse_decode_i32_def sse_decode_bool_def dart_encode_u_8_def dart_encode_u_16_def dart_encode_u_32_def
      dart_encode_i_16_def dart_encode_i_32_def dart_encode_bool_def decoder_simps)

lemma d2r_bytes_times:
  "dart_to_rust b c \<Longrightarrow> dec_times (length xs) (sse_decode_u8 c) (db_putUint8List b xs @ rest) = Some (xs, rest)"
  by (induction xs) (simp_all add: dart_to_rust_def sse_decode_u8_def decoder_simps)

lemma d2r_bytes [to_rust]:
  "dart_to_rust b c \<Longrightarrow> bytes_ok xs \<Longrightarrow>
     sse_decode_vec_u8 c (dart_encode_list_prim_u_8 b xs @ rest) = Some (xs, rest)"
  by (simp add: sse_decode_vec_u8_def sse_decode_vec_def dart_encode_list_prim_u_8_def dec_bind_def d2r_words
      bytes_ok_def sint_length unat_length d2r_bytes_times)

lemma from_utf8_str: "str_ok s \<Longrightarrow> from_utf8 (str_bytes s) = Some s"
  by (simp add: str_ok_def from_utf8_def str_bytes_def comp_def)

lemma str_ok_length: "str_ok s \<Longrightarrow> bytes_ok (str_bytes s)"
  by (simp add: str_ok_def bytes_ok_def str_bytes_def)

lemma length_str_bytes [simp]: "length (str_bytes s) = length s"
  by (simp add: str_bytes_def)

interpretation d2r_string: wire_codec "dart_encode_String b" "sse_decode_string c" "\<lambda>s. dart_to_rust b c \<and> str_ok s"
  for b c
  by unfold_locales
     (simp add: sse_decode_string_def dart_encode_String_def dec_bind_def d2r_bytes from_utf8_str dec_return_def str_ok_length)

lemma d2r_option:
  assumes "wire_codec e d good" "dart_to_rust b c" "pred_option good x"
  shows "sse_decode_option c d (dart_encode_bool b (x \<noteq> None) @ (case x of Some y \<Rightarrow> e y | None \<Rightarrow> []) @ rest) = Some (x, rest)"
  using assms wire_codec.decodes [OF assms(1)]
  by (cases x) (simp_all add: sse_decode_option_def decoder_simps d2r_words)

lemma d2r_vec:
  assumes "wire_codec e d good" "dart_to_rust b c" "list_ok good xs"
  shows "sse_decode_vec c d (dart_encode_i_32 b (of_nat (length xs)) @ concat (map e xs) @ rest) = Some (xs, rest)"
  using assms wire_codec.decodes_times [OF assms(1), of xs rest]
  by (simp add: sse_decode_vec_def decoder_simps d2r_words sint_length unat_length list_ok_def)

section \<open>From Rust to Dart\<close>

lemma r2d_words [to_dart]:
  "rust_to_dart c b \<Longrightarrow> dart_decode_u_8 b (sse_encode_u8 c x1 @ rest) = Some (x1, rest)"
  "rust_to_dart c b \<Longrightarrow> dart_decode_u_16 b (sse_encode_u16 c x2 @ rest) = Some (x2, rest)"
  "rust_to_dart c b \<Longrightarrow> dart_decode_u_32 b (sse_encode_u32 c x3 @ rest) = Some (x3, rest)"
  "rust_to_dart c b \<Longrightarrow> dart_decode_u_64 b (sse_encode_u64 c x4 @ rest) = Some (x4, rest)"
  "rust_to_dart c b \<Longrightarrow> dart_decode_i_32 b (sse_encode_i32 c x5 @ rest) = Some (x5, rest)"
  "rust_to_dart c b \<Longrightarrow> dart_decode_bool b (sse_encode_bool c x6 @ rest) = Some (x6, rest)"
  by (simp_all add: rust_to_dart_def dart_decode_u_8_def dart_decode_u_16_def dart_decode_u_32_def dart_decode_u_64_def
      dart_decode_i_32_def dart_decode_bool_def sse_encode_u8_def sse_encode_u16_def sse_encode_u32_def
      sse_encode_u64_def sse_encode_i32_def sse_encode_bool_def decoder_simps)

lemma r2d_i64 [to_dart]:
  "rust_to_dart c b \<Longrightarrow> i64_ok x \<Longrightarrow> dart_decode_i_64 b (sse_encode_i64 c x @ rest) = Some (x, rest)"
  by (simp add: rust_to_dart_def dart_decode_i_64_def sse_encode_i64_def decoder_simps i64_ok_def
      sint_sbintrunc' signed_take_bit_int_eq_self)

lemma r2d_unit [to_dart]: "dart_decode_unit b (sse_encode_unit c x @ rest) = Some (x, rest)"
  by (simp add: dart_decode_unit_def sse_encode_unit_def dec_return_def)

lemma r2d_bytes [to_dart]:
  "rust_to_dart c b \<Longrightarrow> bytes_ok xs \<Longrightarrow>
     dart_decode_list_prim_u_8 b (sse_encode_vec_u8 c xs @ rest) = Some (xs, rest)"
  by (simp add: dart_decode_list_prim_u_8_def sse_encode_vec_u8_def sse_encode_vec_def dec_bind_def r2d_words
      bytes_ok_def sint_length)
     (simp add: rust_to_dart_def sse_encode_u8_def [abs_def])

text \<open>A string of Rust is shown in Dart without a byte order mark at its start.\<close>

interpretation r2d_string: wire_reader "sse_encode_string c" "dart_decode_String b" "\<lambda>s. rust_to_dart c b \<and> str_ok s" drop_bom
  for b c
  by unfold_locales
     (simp add: dart_decode_String_def sse_encode_string_def dec_bind_def r2d_bytes from_utf8_str dec_return_def str_ok_length)

lemma r2d_option:
  assumes "wire_reader e d good shown" "rust_to_dart c b" "pred_option good x"
  shows "dart_decode_opt b d (sse_encode_option c e x @ rest) = Some (map_option shown x, rest)"
  using assms wire_reader.reads [OF assms(1)]
  by (cases x) (simp_all add: dart_decode_opt_def sse_encode_option_def decoder_simps r2d_words)

lemma r2d_list:
  assumes "wire_reader e d good shown" "rust_to_dart c b" "list_ok good xs"
  shows "dart_decode_list b d (sse_encode_vec c e xs @ rest) = Some (map shown xs, rest)"
  using assms wire_reader.reads_times [OF assms(1), of xs rest]
  by (simp add: dart_decode_list_def sse_encode_vec_def decoder_simps r2d_words sint_length list_ok_def)

section \<open>What Rust decodes\<close>

lemma typed_vec:
  assumes "typed_decoder d good" "sse_decode_vec c d bs = Some (xs, rest)"
  shows "list_ok good xs"
  using assms(2) typed_decoder.typed_times [OF assms(1)] length_of_i32
  by (auto simp: sse_decode_vec_def list_ok_def decoder_simps bind_eq_Some_conv split: if_splits)

lemma typed_option:
  assumes "typed_decoder d good" "sse_decode_option c d bs = Some (x, rest)"
  shows "pred_option good x"
  using assms(2) typed_decoder.typed [OF assms(1)]
  by (auto simp: sse_decode_option_def decoder_simps bind_eq_Some_conv split: if_splits)

interpretation any_u8: typed_decoder "sse_decode_u8 c" "\<lambda>_. True" for c
  by unfold_locales simp

lemma typed_bytes [decoded_ok]: "sse_decode_vec_u8 c bs = Some (xs, rest) \<Longrightarrow> bytes_ok xs"
  unfolding sse_decode_vec_u8_def by (drule typed_vec [OF any_u8.typed_decoder_axioms]) (simp add: list_ok_def bytes_ok_def)

interpretation decoded_string: typed_decoder "sse_decode_string c" str_ok for c
proof unfold_locales
  fix bs s rest
  assume "sse_decode_string c bs = Some (s, rest)"
  then obtain inner where "sse_decode_vec_u8 c bs = Some (inner, rest)" "from_utf8 inner = Some s"
    by (auto simp: sse_decode_string_def decoder_simps bind_eq_Some_conv split: option.splits)
  with typed_bytes [OF this(1)] show "str_ok s"
    by (auto simp: str_ok_def bytes_ok_def from_utf8_def str_bytes_def comp_def split: if_splits)
qed

lemma typed_option_string [decoded_ok]:
  "sse_decode_option_string c bs = Some (x, rest) \<Longrightarrow> pred_option str_ok x"
  unfolding sse_decode_option_string_def by (rule typed_option [OF decoded_string.typed_decoder_axioms])

lemma typed_sink [decoded_ok]: "sse_decode_stream_sink c id bs = Some (x, rest) \<Longrightarrow> str_ok x"
  by (auto simp: sse_decode_stream_sink_def decoder_simps bind_eq_Some_conv dest: decoded_string.typed)

declare d2r_string.decodes [to_rust] d2r_string.decodes_last [to_rust] r2d_string.reads [to_dart]
  r2d_string.reads_last [to_dart] decoded_string.typed [decoded_ok]

lemma d2r_option_string [to_rust]:
  "dart_to_rust b c \<Longrightarrow> pred_option str_ok x \<Longrightarrow>
     sse_decode_option_string c (dart_encode_opt_String b x @ rest) = Some (x, rest)"
  unfolding sse_decode_option_string_def dart_encode_opt_String_def append_assoc
  by (rule d2r_option [OF d2r_string.wire_codec_axioms]) (auto simp: pred_option_def)

lemma d2r_vec_string [to_rust]:
  "dart_to_rust b c \<Longrightarrow> list_ok str_ok x \<Longrightarrow>
     sse_decode_vec c (sse_decode_string c) (dart_encode_list_String b x @ rest) = Some (x, rest)"
  unfolding dart_encode_list_String_def append_assoc
  by (rule d2r_vec [OF d2r_string.wire_codec_axioms]) (auto simp: list_ok_def list_all_iff)

lemma d2r_sink [to_rust]:
  "dart_to_rust b c \<Longrightarrow> str_ok x \<Longrightarrow> sse_decode_stream_sink c id (dart_encode_String b x @ rest) = Some (x, rest)"
  by (simp add: sse_decode_stream_sink_def decoder_simps d2r_string.decodes)

lemma r2d_option_string [to_dart]:
  "rust_to_dart c b \<Longrightarrow> pred_option str_ok x \<Longrightarrow>
     dart_decode_opt_String b (sse_encode_option_string c x @ rest) = Some (map_option drop_bom x, rest)"
  unfolding dart_decode_opt_String_def sse_encode_option_string_def
  by (rule r2d_option [OF r2d_string.wire_reader_axioms]) (auto simp: pred_option_def)


text \<open>The last argument of a call, with nothing behind it.\<close>

lemmas d2r_last [to_rust] =
  d2r_words [where rest = "[]", unfolded append_Nil2] d2r_bytes [where rest = "[]", unfolded append_Nil2]
  d2r_option_string [where rest = "[]", unfolded append_Nil2] d2r_vec_string [where rest = "[]", unfolded append_Nil2]
  d2r_sink [where rest = "[]", unfolded append_Nil2]

lemmas r2d_last [to_dart] =
  r2d_words [where rest = "[]", unfolded append_Nil2] r2d_bytes [where rest = "[]", unfolded append_Nil2]
  r2d_unit [where rest = "[]", unfolded append_Nil2] r2d_option_string [where rest = "[]", unfolded append_Nil2]

lemma rc_end_Nil: "dart_to_rust b c \<Longrightarrow> rc_end c []"
  by (simp add: dart_to_rust_def)

section \<open>Calls across the bridge\<close>

lemma wire_call_decoded:
  "rc_end c [] \<Longrightarrow> d message = Some (call, []) \<Longrightarrow> wire_call c run d message = Some (run call)"
  by (simp add: wire_call_def)

lemma wire_call_run: "wire_call c run d message = map_option run (wire_call c id d message)"
  by (simp add: wire_call_def split: option.splits)

lemma wire_call_typed: "typed_decoder d good \<Longrightarrow> wire_call c id d message = Some call \<Longrightarrow> good call"
  by (auto simp: wire_call_def typed_decoder.typed split: option.splits if_splits)

text \<open>A result that the decoder of its call can read comes back as the decoder shows it.\<close>

lemma reply_received:
  assumes "frames_ok fr" "api call w = (r, w')"
    and "\<And>x. r = Ok x \<Longrightarrow> decode_success (encode_ok x) = Some (shown x, [])"
    and "\<And>e. r = Err e \<Longrightarrow> decode_error = Some d \<and> d (encode_error e) = Some (text e, [])"
  shows "dart_receive fr decode_success decode_error (fst (run_wire_call fr encode_error encode_ok api call w)) =
    Some (map_sum text shown r) \<and> snd (run_wire_call fr encode_error encode_ok api call w) = w'"
  using assms by (cases r) (simp_all add: dart_receive_def run_wire_call_def frames_ok_def)

section \<open>From Rust to Rust\<close>

text \<open>Rust also decodes every type it encodes, though a program uses only one of the two.\<close>

definition rust_to_rust :: "rust_cursor \<Rightarrow> bool" where
  "rust_to_rust c \<longleftrightarrow>
     (\<forall>x rest. rc_read_u8 c (rc_write_u8 c x @ rest) = Some (x, rest)) \<and>
     (\<forall>x rest. rc_read_u16 c (rc_write_u16 c x @ rest) = Some (x, rest)) \<and>
     (\<forall>x rest. rc_read_u32 c (rc_write_u32 c x @ rest) = Some (x, rest)) \<and>
     (\<forall>x rest. rc_read_u64 c (rc_write_u64 c x @ rest) = Some (x, rest)) \<and>
     (\<forall>x rest. rc_read_i16 c (rc_write_i16 c x @ rest) = Some (x, rest)) \<and>
     (\<forall>x rest. rc_read_i32 c (rc_write_i32 c x @ rest) = Some (x, rest)) \<and>
     (\<forall>x rest. rc_read_i64 c (rc_write_i64 c x @ rest) = Some (x, rest))"

named_theorems to_self \<open>what Rust writes, Rust reads\<close>

lemma r2r_words [to_self]:
  "rust_to_rust c \<Longrightarrow> sse_decode_u8 c (sse_encode_u8 c x1 @ rest) = Some (x1, rest)"
  "rust_to_rust c \<Longrightarrow> sse_decode_u16 c (sse_encode_u16 c x2 @ rest) = Some (x2, rest)"
  "rust_to_rust c \<Longrightarrow> sse_decode_u32 c (sse_encode_u32 c x3 @ rest) = Some (x3, rest)"
  "rust_to_rust c \<Longrightarrow> sse_decode_u64 c (sse_encode_u64 c x4 @ rest) = Some (x4, rest)"
  "rust_to_rust c \<Longrightarrow> sse_decode_i16 c (sse_encode_i16 c x5 @ rest) = Some (x5, rest)"
  "rust_to_rust c \<Longrightarrow> sse_decode_i32 c (sse_encode_i32 c x6 @ rest) = Some (x6, rest)"
  "rust_to_rust c \<Longrightarrow> sse_decode_bool c (sse_encode_bool c x7 @ rest) = Some (x7, rest)"
  by (simp_all add: rust_to_rust_def sse_decode_u8_def sse_decode_u16_def sse_decode_u32_def sse_decode_u64_def
      sse_decode_i16_def sse_decode_i32_def sse_decode_bool_def sse_encode_u8_def sse_encode_u16_def sse_encode_u32_def
      sse_encode_u64_def sse_encode_i16_def sse_encode_i32_def sse_encode_bool_def decoder_simps)

lemma r2r_i64 [to_self]:
  "rust_to_rust c \<Longrightarrow> i64_ok x \<Longrightarrow> sse_decode_i64 c (sse_encode_i64 c x @ rest) = Some (x, rest)"
  by (simp add: rust_to_rust_def sse_decode_i64_def sse_encode_i64_def decoder_simps i64_ok_def
      sint_sbintrunc' signed_take_bit_int_eq_self)

lemma r2r_unit [to_self]: "sse_decode_unit c (sse_encode_unit c x @ rest) = Some (x, rest)"
  by (simp add: sse_decode_unit_def sse_encode_unit_def dec_return_def)

lemma r2r_option:
  assumes "wire_codec e d good" "rust_to_rust c" "pred_option good x"
  shows "sse_decode_option c d (sse_encode_option c e x @ rest) = Some (x, rest)"
  using assms wire_codec.decodes [OF assms(1)]
  by (cases x) (simp_all add: sse_decode_option_def sse_encode_option_def decoder_simps r2r_words)

lemma r2r_vec:
  assumes "wire_codec e d good" "rust_to_rust c" "list_ok good xs"
  shows "sse_decode_vec c d (sse_encode_vec c e xs @ rest) = Some (xs, rest)"
  using assms wire_codec.decodes_times [OF assms(1), of xs rest]
  by (simp add: sse_decode_vec_def sse_encode_vec_def decoder_simps r2r_words sint_length unat_length list_ok_def)

interpretation r2r_u8: wire_codec "sse_encode_u8 c" "sse_decode_u8 c" "\<lambda>x. rust_to_rust c" for c
  by unfold_locales (rule r2r_words)

lemma r2r_bytes [to_self]:
  "rust_to_rust c \<Longrightarrow> bytes_ok xs \<Longrightarrow> sse_decode_vec_u8 c (sse_encode_vec_u8 c xs @ rest) = Some (xs, rest)"
  unfolding sse_decode_vec_u8_def sse_encode_vec_u8_def
  by (rule r2r_vec [OF r2r_u8.wire_codec_axioms]) (auto simp: list_ok_def list_all_iff bytes_ok_def)

interpretation r2r_string: wire_codec "sse_encode_string c" "sse_decode_string c" "\<lambda>s. rust_to_rust c \<and> str_ok s" for c
  by unfold_locales
     (simp add: sse_decode_string_def sse_encode_string_def dec_bind_def r2r_bytes from_utf8_str dec_return_def str_ok_length)

declare r2r_string.decodes [to_self]

lemma r2r_option_string [to_self]:
  "rust_to_rust c \<Longrightarrow> pred_option str_ok x \<Longrightarrow>
     sse_decode_option_string c (sse_encode_option_string c x @ rest) = Some (x, rest)"
  unfolding sse_decode_option_string_def sse_encode_option_string_def
  by (rule r2r_option [OF r2r_string.wire_codec_axioms]) (auto simp: pred_option_def)

section \<open>A pair of buffers\<close>

text \<open>Buffers that keep the laws: little-endian words on both sides, and one tag byte in front of a reply.\<close>

fun le_put :: "nat \<Rightarrow> nat \<Rightarrow> bytes" where
  "le_put 0 x = []"
| "le_put (Suc n) x = of_nat x # le_put n (x div 256)"

fun le_get :: "nat \<Rightarrow> nat decoder" where
  "le_get 0 = dec_return 0"
| "le_get (Suc n) = (\<lambda>b. case b of [] \<Rightarrow> None | y # b' \<Rightarrow> dec_map (\<lambda>x. unat y + 256 * x) (le_get n) b')"

definition le_write :: "nat \<Rightarrow> 'l::len word \<Rightarrow> bytes" where
  "le_write n x = le_put n (unat x)"

definition le_read :: "nat \<Rightarrow> 'l::len word decoder" where
  "le_read n = dec_map of_nat (le_get n)"

definition le_cursor :: rust_cursor where
  "le_cursor = \<lparr>rc_write_u8 = le_write 1, rc_write_u16 = le_write 2, rc_write_u32 = le_write 4, rc_write_u64 = le_write 8,
     rc_write_i16 = le_write 2, rc_write_i32 = le_write 4, rc_write_i64 = le_write 8,
     rc_read_u8 = le_read 1, rc_read_u16 = le_read 2, rc_read_u32 = le_read 4, rc_read_u64 = le_read 8,
     rc_read_i16 = le_read 2, rc_read_i32 = le_read 4, rc_read_i64 = le_read 8, rc_end = (\<lambda>b. b = [])\<rparr>"

definition le_buffer :: dart_buffer where
  "le_buffer = \<lparr>db_putUint8 = le_write 1, db_putUint16 = le_write 2, db_putUint32 = le_write 4, db_putBigUint64 = le_write 8,
     db_putInt16 = le_write 2, db_putInt32 = le_write 4, db_putPlatformInt64 = le_write 8, db_putUint8List = id,
     db_getUint8 = le_read 1, db_getUint16 = le_read 2, db_getUint32 = le_read 4, db_getBigUint64 = le_read 8,
     db_getInt16 = le_read 2, db_getInt32 = le_read 4, db_getPlatformInt64 = le_read 8,
     db_getUint8List = (\<lambda>n b. if n < 0 \<or> int (length b) < n then None else Some (take (nat n) b, drop (nat n) b))\<rparr>"

definition tag_frames :: "bytes sse_frames" where
  "tag_frames = \<lparr>fr_success = (\<lambda>b. 0 # b), fr_error = (\<lambda>b. 1 # b),
     fr_open = (\<lambda>m. case m of [] \<Rightarrow> Inl [] | t # b \<Rightarrow> if t = 0 then Inr b else Inl b)\<rparr>"

lemma le_get_put: "x < 256 ^ n \<Longrightarrow> le_get n (le_put n x @ rest) = Some (x, rest)"
  by (induction n arbitrary: x)
     (simp_all add: decoder_simps dec_map_def unsigned_of_nat take_bit_eq_mod less_mult_imp_div_less mult.commute)

lemma le_read_write [simp]:
  "LENGTH('l) = 8 * n \<Longrightarrow> le_read n (le_write n x @ rest) = Some (x :: 'l::len word, rest)"
proof -
  assume "LENGTH('l) = 8 * n"
  moreover have "unat x < 2 ^ LENGTH('l)" by (rule unsigned_less)
  ultimately show ?thesis
    using le_get_put [of "unat x" n rest] by (simp add: le_read_def le_write_def dec_map_def decoder_simps power_mult)
qed

lemma le_byte [simp]: "le_write (Suc 0) (x :: u8) = [x]" "le_read (Suc 0) (x # rest) = Some (x :: u8, rest)"
  by (simp_all add: le_write_def le_read_def dec_map_def decoder_simps)

lemma le_buffers: "dart_to_rust le_buffer le_cursor" "rust_to_dart le_cursor le_buffer" "rust_to_rust le_cursor"
  by (simp_all add: dart_to_rust_def rust_to_dart_def rust_to_rust_def le_buffer_def le_cursor_def le_byte [abs_def]
      cong: map_cong)

lemma str_ok_ascii: "list_all (\<lambda>x. char_byte x < 0x80) s \<Longrightarrow> length s < 2 ^ 31 \<Longrightarrow> str_ok s"
  by (auto simp: str_ok_def str_bytes_def list_all_iff intro!: utf8_valid_ascii)

lemma tag_frames_ok: "frames_ok tag_frames"
  by (simp add: frames_ok_def tag_frames_def)

end
