(* ===== verification/Ssh_Bridge.thy ===== *)
theory Ssh_Bridge
  imports Sse_Codec Ssh_Api
begin

text \<open>
  The bridge between the Dart application and \<^verbatim>\<open>portix_serv\<close>: \<^verbatim>\<open>frb_generated.rs\<close> of the crate and
  \<^verbatim>\<open>rust/frb_generated.dart\<close> of the application. Encoders and decoders of every type, one wire
  function per function of \<^verbatim>\<open>api/ssh.rs\<close> and \<^verbatim>\<open>api/sftp.rs\<close>, the dispatcher, the Dart methods that
  call them, and what comes back.
\<close>

section \<open>Types in Rust\<close>

definition sse_decode_auth_prompt :: "rust_cursor \<Rightarrow> (string \<times> bool) decoder" where
  "sse_decode_auth_prompt c =
     dec_bind (sse_decode_string c) (\<lambda>prompt.
     dec_bind (sse_decode_bool c) (\<lambda>echo.
     dec_return (prompt, echo)))"

definition sse_encode_auth_prompt :: "rust_cursor \<Rightarrow> string \<times> bool \<Rightarrow> bytes" where
  "sse_encode_auth_prompt c x =
     sse_encode_string c (fst x) @
     sse_encode_bool c (snd x)"

definition sse_decode_vec_auth_prompt :: "rust_cursor \<Rightarrow> ((string \<times> bool) list) decoder" where
  "sse_decode_vec_auth_prompt c = sse_decode_vec c (sse_decode_auth_prompt c)"

definition sse_encode_vec_auth_prompt :: "rust_cursor \<Rightarrow> (string \<times> bool) list \<Rightarrow> bytes" where
  "sse_encode_vec_auth_prompt c x = sse_encode_vec c (sse_encode_auth_prompt c) x"

definition sse_decode_auth_prompt_round :: "rust_cursor \<Rightarrow> auth_prompt_round decoder" where
  "sse_decode_auth_prompt_round c =
     dec_bind (sse_decode_string c) (\<lambda>name.
     dec_bind (sse_decode_string c) (\<lambda>instructions.
     dec_bind (sse_decode_vec_auth_prompt c) (\<lambda>prompts.
     dec_return \<lparr>ap_name = name, ap_instructions = instructions, ap_prompts = prompts\<rparr>)))"

definition sse_encode_auth_prompt_round :: "rust_cursor \<Rightarrow> auth_prompt_round \<Rightarrow> bytes" where
  "sse_encode_auth_prompt_round c x =
     sse_encode_string c (ap_name x) @
     sse_encode_string c (ap_instructions x) @
     sse_encode_vec_auth_prompt c (ap_prompts x)"

definition sse_decode_connection_status :: "rust_cursor \<Rightarrow> connection_status decoder" where
  "sse_decode_connection_status c =
     dec_bind (sse_decode_i32 c) (\<lambda>inner.
       if inner = 0 then dec_return Disconnected
       else if inner = 1 then dec_return Connecting
       else if inner = 2 then dec_return Connected
       else if inner = 3 then dec_return Error_status
       else dec_panic)"

definition sse_encode_connection_status :: "rust_cursor \<Rightarrow> connection_status \<Rightarrow> bytes" where
  "sse_encode_connection_status c x =
     sse_encode_i32 c (case x of Disconnected \<Rightarrow> 0 | Connecting \<Rightarrow> 1 | Connected \<Rightarrow> 2 | Error_status \<Rightarrow> 3)"

definition sse_decode_forward_info :: "rust_cursor \<Rightarrow> forward_info decoder" where
  "sse_decode_forward_info c =
     dec_bind (sse_decode_string c) (\<lambda>ident.
     dec_bind (sse_decode_string c) (\<lambda>profile_id.
     dec_bind (sse_decode_u16 c) (\<lambda>local_port.
     dec_bind (sse_decode_string c) (\<lambda>remote_host.
     dec_bind (sse_decode_u16 c) (\<lambda>remote_port.
     dec_bind (sse_decode_bool c) (\<lambda>socks.
     dec_bind (sse_decode_bool c) (\<lambda>reverse.
     dec_return \<lparr>fi_id = ident, fi_profile_id = profile_id, fi_local_port = local_port,
        fi_remote_host = remote_host, fi_remote_port = remote_port, fi_socks = socks,
        fi_reverse = reverse\<rparr>)))))))"

definition sse_encode_forward_info :: "rust_cursor \<Rightarrow> forward_info \<Rightarrow> bytes" where
  "sse_encode_forward_info c x =
     sse_encode_string c (fi_id x) @
     sse_encode_string c (fi_profile_id x) @
     sse_encode_u16 c (fi_local_port x) @
     sse_encode_string c (fi_remote_host x) @
     sse_encode_u16 c (fi_remote_port x) @
     sse_encode_bool c (fi_socks x) @
     sse_encode_bool c (fi_reverse x)"

definition sse_decode_option_u32 :: "rust_cursor \<Rightarrow> (u32 option) decoder" where
  "sse_decode_option_u32 c = sse_decode_option c (sse_decode_u32 c)"

definition sse_encode_option_u32 :: "rust_cursor \<Rightarrow> u32 option \<Rightarrow> bytes" where
  "sse_encode_option_u32 c x = sse_encode_option c (sse_encode_u32 c) x"

definition sse_decode_host_key_info :: "rust_cursor \<Rightarrow> host_key_info decoder" where
  "sse_decode_host_key_info c =
     dec_bind (sse_decode_string c) (\<lambda>algorithm.
     dec_bind (sse_decode_string c) (\<lambda>fingerprint.
     dec_bind (sse_decode_option_u32 c) (\<lambda>changed_line.
     dec_return \<lparr>hi_algorithm = algorithm, hi_fingerprint = fingerprint, hi_changed_line = changed_line\<rparr>)))"

definition sse_encode_host_key_info :: "rust_cursor \<Rightarrow> host_key_info \<Rightarrow> bytes" where
  "sse_encode_host_key_info c x =
     sse_encode_string c (hi_algorithm x) @
     sse_encode_string c (hi_fingerprint x) @
     sse_encode_option_u32 c (hi_changed_line x)"

definition sse_decode_vec_string :: "rust_cursor \<Rightarrow> (string list) decoder" where
  "sse_decode_vec_string c = sse_decode_vec c (sse_decode_string c)"

definition sse_encode_vec_string :: "rust_cursor \<Rightarrow> string list \<Rightarrow> bytes" where
  "sse_encode_vec_string c x = sse_encode_vec c (sse_encode_string c) x"

definition sse_decode_vec_forward_info :: "rust_cursor \<Rightarrow> (forward_info list) decoder" where
  "sse_decode_vec_forward_info c = sse_decode_vec c (sse_decode_forward_info c)"

definition sse_encode_vec_forward_info :: "rust_cursor \<Rightarrow> forward_info list \<Rightarrow> bytes" where
  "sse_encode_vec_forward_info c x = sse_encode_vec c (sse_encode_forward_info c) x"

definition sse_decode_remote_file_entry :: "rust_cursor \<Rightarrow> remote_file_entry decoder" where
  "sse_decode_remote_file_entry c =
     dec_bind (sse_decode_string c) (\<lambda>name.
     dec_bind (sse_decode_string c) (\<lambda>path.
     dec_bind (sse_decode_bool c) (\<lambda>is_directory.
     dec_bind (sse_decode_u64 c) (\<lambda>size_bytes.
     dec_bind (sse_decode_i64 c) (\<lambda>modified_unix_seconds.
     dec_bind (sse_decode_u32 c) (\<lambda>mode.
     dec_return \<lparr>fe_name = name, fe_path = path, fe_is_directory = is_directory, fe_size_bytes = size_bytes,
        fe_modified_unix_seconds = modified_unix_seconds, fe_mode = mode\<rparr>))))))"

definition sse_encode_remote_file_entry :: "rust_cursor \<Rightarrow> remote_file_entry \<Rightarrow> bytes" where
  "sse_encode_remote_file_entry c x =
     sse_encode_string c (fe_name x) @
     sse_encode_string c (fe_path x) @
     sse_encode_bool c (fe_is_directory x) @
     sse_encode_u64 c (fe_size_bytes x) @
     sse_encode_i64 c (fe_modified_unix_seconds x) @
     sse_encode_u32 c (fe_mode x)"

definition sse_decode_vec_remote_file_entry :: "rust_cursor \<Rightarrow> (remote_file_entry list) decoder" where
  "sse_decode_vec_remote_file_entry c = sse_decode_vec c (sse_decode_remote_file_entry c)"

definition sse_encode_vec_remote_file_entry :: "rust_cursor \<Rightarrow> remote_file_entry list \<Rightarrow> bytes" where
  "sse_encode_vec_remote_file_entry c x = sse_encode_vec c (sse_encode_remote_file_entry c) x"

definition sse_decode_option_auth_prompt_round :: "rust_cursor \<Rightarrow> (auth_prompt_round option) decoder" where
  "sse_decode_option_auth_prompt_round c = sse_decode_option c (sse_decode_auth_prompt_round c)"

definition sse_encode_option_auth_prompt_round :: "rust_cursor \<Rightarrow> auth_prompt_round option \<Rightarrow> bytes" where
  "sse_encode_option_auth_prompt_round c x = sse_encode_option c (sse_encode_auth_prompt_round c) x"

definition sse_decode_option_host_key_info :: "rust_cursor \<Rightarrow> (host_key_info option) decoder" where
  "sse_decode_option_host_key_info c = sse_decode_option c (sse_decode_host_key_info c)"

definition sse_encode_option_host_key_info :: "rust_cursor \<Rightarrow> host_key_info option \<Rightarrow> bytes" where
  "sse_encode_option_host_key_info c x = sse_encode_option c (sse_encode_host_key_info c) x"

definition sse_decode_remote_system_snapshot :: "rust_cursor \<Rightarrow> remote_system_snapshot decoder" where
  "sse_decode_remote_system_snapshot c =
     dec_bind (sse_decode_string c) (\<lambda>os.
     dec_bind (sse_decode_string c) (\<lambda>hostname.
     dec_bind (sse_decode_string c) (\<lambda>uptime.
     dec_bind (sse_decode_string c) (\<lambda>memory.
     dec_bind (sse_decode_string c) (\<lambda>disk.
     dec_bind (sse_decode_u64 c) (\<lambda>memory_used_bytes.
     dec_bind (sse_decode_u64 c) (\<lambda>memory_free_bytes.
     dec_bind (sse_decode_u64 c) (\<lambda>memory_total_bytes.
     dec_bind (sse_decode_u64 c) (\<lambda>disk_used_bytes.
     dec_bind (sse_decode_u64 c) (\<lambda>disk_free_bytes.
     dec_bind (sse_decode_u64 c) (\<lambda>disk_total_bytes.
     dec_return \<lparr>rs_os = os, rs_hostname = hostname, rs_uptime = uptime, rs_memory = memory, rs_disk = disk,
        rs_memory_used_bytes = memory_used_bytes, rs_memory_free_bytes = memory_free_bytes,
        rs_memory_total_bytes = memory_total_bytes, rs_disk_used_bytes = disk_used_bytes,
        rs_disk_free_bytes = disk_free_bytes, rs_disk_total_bytes = disk_total_bytes\<rparr>)))))))))))"

definition sse_encode_remote_system_snapshot :: "rust_cursor \<Rightarrow> remote_system_snapshot \<Rightarrow> bytes" where
  "sse_encode_remote_system_snapshot c x =
     sse_encode_string c (rs_os x) @
     sse_encode_string c (rs_hostname x) @
     sse_encode_string c (rs_uptime x) @
     sse_encode_string c (rs_memory x) @
     sse_encode_string c (rs_disk x) @
     sse_encode_u64 c (rs_memory_used_bytes x) @
     sse_encode_u64 c (rs_memory_free_bytes x) @
     sse_encode_u64 c (rs_memory_total_bytes x) @
     sse_encode_u64 c (rs_disk_used_bytes x) @
     sse_encode_u64 c (rs_disk_free_bytes x) @
     sse_encode_u64 c (rs_disk_total_bytes x)"

definition sse_decode_session_info :: "rust_cursor \<Rightarrow> session_info decoder" where
  "sse_decode_session_info c =
     dec_bind (sse_decode_string c) (\<lambda>ident.
     dec_bind (sse_decode_string c) (\<lambda>profile_id.
     dec_bind (sse_decode_connection_status c) (\<lambda>status.
     dec_return \<lparr>si_id = ident, si_profile_id = profile_id, si_status = status\<rparr>)))"

definition sse_encode_session_info :: "rust_cursor \<Rightarrow> session_info \<Rightarrow> bytes" where
  "sse_encode_session_info c x =
     sse_encode_string c (si_id x) @
     sse_encode_string c (si_profile_id x) @
     sse_encode_connection_status c (si_status x)"

definition sse_decode_transfer_progress :: "rust_cursor \<Rightarrow> transfer_progress decoder" where
  "sse_decode_transfer_progress c =
     dec_bind (sse_decode_u64 c) (\<lambda>done.
     dec_bind (sse_decode_u64 c) (\<lambda>total.
     dec_return \<lparr>tp_done = done, tp_total = total\<rparr>))"

definition sse_encode_transfer_progress :: "rust_cursor \<Rightarrow> transfer_progress \<Rightarrow> bytes" where
  "sse_encode_transfer_progress c x =
     sse_encode_u64 c (tp_done x) @
     sse_encode_u64 c (tp_total x)"

text \<open>
  A profile is read recursively through its jump hosts, as deep as the bytes say: whether that ends
  depends on the bytes (\<open>None\<close> also when it does not). A \<^verbatim>\<open>Box\<close> crosses as what it holds.
\<close>

lemma dec_bind_mono [partial_function_mono]:
  assumes "\<And>b. mono_option (\<lambda>f. B f b)" "\<And>x b. mono_option (\<lambda>f. C f x b)"
  shows "mono_option (\<lambda>f. dec_bind (B f) (C f) b)"
  unfolding dec_bind_def by (intro bind_mono assms) (auto simp: split_beta intro: assms)

lemma sse_decode_option_mono [partial_function_mono]:
  assumes "\<And>b. mono_option (\<lambda>f. B f b)"
  shows "mono_option (\<lambda>f. sse_decode_option c (B f) b)"
proof -
  have "mono_option (\<lambda>f. (if t then dec_bind (B f) (\<lambda>x. dec_return (Some x)) else dec_return None) b)" for t b
    by (cases t) (simp_all add: dec_bind_mono assms option.const_mono)
  then show ?thesis unfolding sse_decode_option_def by (intro dec_bind_mono) (simp_all add: option.const_mono)
qed

partial_function (option) sse_decode_ssh_profile :: "rust_cursor \<Rightarrow> bytes \<Rightarrow> (ssh_profile \<times> bytes) option" where
  "sse_decode_ssh_profile c bs =
     dec_bind (sse_decode_string c) (\<lambda>ident.
     dec_bind (sse_decode_string c) (\<lambda>name.
     dec_bind (sse_decode_string c) (\<lambda>host.
     dec_bind (sse_decode_u16 c) (\<lambda>port.
     dec_bind (sse_decode_string c) (\<lambda>username.
     dec_bind (sse_decode_option_string c) (\<lambda>password.
     dec_bind (sse_decode_option_string c) (\<lambda>private_key_path.
     dec_bind (sse_decode_option_string c) (\<lambda>key_passphrase.
     dec_bind (sse_decode_option c (\<lambda>bs. sse_decode_ssh_profile c bs)) (\<lambda>jump_host.
     dec_bind (sse_decode_bool c) (\<lambda>forward_agent.
     dec_bind (sse_decode_option_string c) (\<lambda>command.
     dec_return (SshProfile ident name host port username password private_key_path key_passphrase jump_host
       forward_agent command)))))))))))) bs"

definition sse_decode_box_ssh_profile :: "rust_cursor \<Rightarrow> ssh_profile decoder" where
  "sse_decode_box_ssh_profile c = sse_decode_ssh_profile c"

definition sse_decode_option_box_ssh_profile :: "rust_cursor \<Rightarrow> ssh_profile option decoder" where
  "sse_decode_option_box_ssh_profile c = sse_decode_option c (sse_decode_box_ssh_profile c)"

fun sse_encode_ssh_profile :: "rust_cursor \<Rightarrow> ssh_profile \<Rightarrow> bytes" where
  "sse_encode_ssh_profile c (SshProfile ident name host port username password private_key_path key_passphrase jump_host
       forward_agent command) =
     sse_encode_string c ident @
     sse_encode_string c name @
     sse_encode_string c host @
     sse_encode_u16 c port @
     sse_encode_string c username @
     sse_encode_option_string c password @
     sse_encode_option_string c private_key_path @
     sse_encode_option_string c key_passphrase @
     (sse_encode_bool c (jump_host \<noteq> None) @
      (case jump_host of Some value \<Rightarrow> sse_encode_ssh_profile c value | None \<Rightarrow> [])) @
     sse_encode_bool c forward_agent @
     sse_encode_option_string c command"

definition sse_encode_box_ssh_profile :: "rust_cursor \<Rightarrow> ssh_profile \<Rightarrow> bytes" where
  "sse_encode_box_ssh_profile c x = sse_encode_ssh_profile c x"

definition sse_encode_option_box_ssh_profile :: "rust_cursor \<Rightarrow> ssh_profile option \<Rightarrow> bytes" where
  "sse_encode_option_box_ssh_profile c x = sse_encode_option c (sse_encode_box_ssh_profile c) x"

section \<open>Types in Dart\<close>

definition dart_decode_connection_status :: "dart_buffer \<Rightarrow> connection_status decoder" where
  "dart_decode_connection_status b =
     dec_bind (dart_decode_i_32 b) (\<lambda>inner.
       let values = [Disconnected, Connecting, Connected, Error_status] in
       if 0 \<le> sint inner \<and> sint inner < int (length values) then dec_return (values ! nat (sint inner)) else dec_panic)"

definition dart_decode_session_info :: "dart_buffer \<Rightarrow> session_info decoder" where
  "dart_decode_session_info b =
     dec_bind (dart_decode_String b) (\<lambda>ident.
     dec_bind (dart_decode_String b) (\<lambda>profile_id.
     dec_bind (dart_decode_connection_status b) (\<lambda>status.
     dec_return \<lparr>si_id = ident, si_profile_id = profile_id, si_status = status\<rparr>)))"

definition dart_decode_remote_system_snapshot :: "dart_buffer \<Rightarrow> remote_system_snapshot decoder" where
  "dart_decode_remote_system_snapshot b =
     dec_bind (dart_decode_String b) (\<lambda>os.
     dec_bind (dart_decode_String b) (\<lambda>hostname.
     dec_bind (dart_decode_String b) (\<lambda>uptime.
     dec_bind (dart_decode_String b) (\<lambda>memory.
     dec_bind (dart_decode_String b) (\<lambda>disk.
     dec_bind (dart_decode_u_64 b) (\<lambda>memory_used_bytes.
     dec_bind (dart_decode_u_64 b) (\<lambda>memory_free_bytes.
     dec_bind (dart_decode_u_64 b) (\<lambda>memory_total_bytes.
     dec_bind (dart_decode_u_64 b) (\<lambda>disk_used_bytes.
     dec_bind (dart_decode_u_64 b) (\<lambda>disk_free_bytes.
     dec_bind (dart_decode_u_64 b) (\<lambda>disk_total_bytes.
     dec_return \<lparr>rs_os = os, rs_hostname = hostname, rs_uptime = uptime, rs_memory = memory, rs_disk = disk,
        rs_memory_used_bytes = memory_used_bytes, rs_memory_free_bytes = memory_free_bytes,
        rs_memory_total_bytes = memory_total_bytes, rs_disk_used_bytes = disk_used_bytes,
        rs_disk_free_bytes = disk_free_bytes, rs_disk_total_bytes = disk_total_bytes\<rparr>)))))))))))"

definition dart_decode_forward_info :: "dart_buffer \<Rightarrow> forward_info decoder" where
  "dart_decode_forward_info b =
     dec_bind (dart_decode_String b) (\<lambda>ident.
     dec_bind (dart_decode_String b) (\<lambda>profile_id.
     dec_bind (dart_decode_u_16 b) (\<lambda>local_port.
     dec_bind (dart_decode_String b) (\<lambda>remote_host.
     dec_bind (dart_decode_u_16 b) (\<lambda>remote_port.
     dec_bind (dart_decode_bool b) (\<lambda>socks.
     dec_bind (dart_decode_bool b) (\<lambda>reverse.
     dec_return \<lparr>fi_id = ident, fi_profile_id = profile_id, fi_local_port = local_port,
        fi_remote_host = remote_host, fi_remote_port = remote_port, fi_socks = socks,
        fi_reverse = reverse\<rparr>)))))))"

definition dart_decode_list_forward_info :: "dart_buffer \<Rightarrow> (forward_info list) decoder" where
  "dart_decode_list_forward_info b = dart_decode_list b (dart_decode_forward_info b)"

definition dart_decode_auth_prompt :: "dart_buffer \<Rightarrow> (string \<times> bool) decoder" where
  "dart_decode_auth_prompt b =
     dec_bind (dart_decode_String b) (\<lambda>prompt.
     dec_bind (dart_decode_bool b) (\<lambda>echo.
     dec_return (prompt, echo)))"

definition dart_decode_list_auth_prompt :: "dart_buffer \<Rightarrow> ((string \<times> bool) list) decoder" where
  "dart_decode_list_auth_prompt b = dart_decode_list b (dart_decode_auth_prompt b)"

definition dart_decode_auth_prompt_round :: "dart_buffer \<Rightarrow> auth_prompt_round decoder" where
  "dart_decode_auth_prompt_round b =
     dec_bind (dart_decode_String b) (\<lambda>name.
     dec_bind (dart_decode_String b) (\<lambda>instructions.
     dec_bind (dart_decode_list_auth_prompt b) (\<lambda>prompts.
     dec_return \<lparr>ap_name = name, ap_instructions = instructions, ap_prompts = prompts\<rparr>)))"

definition dart_decode_opt_auth_prompt_round :: "dart_buffer \<Rightarrow> (auth_prompt_round option) decoder" where
  "dart_decode_opt_auth_prompt_round b = dart_decode_opt b (dart_decode_auth_prompt_round b)"

definition dart_decode_opt_u_32 :: "dart_buffer \<Rightarrow> (u32 option) decoder" where
  "dart_decode_opt_u_32 b = dart_decode_opt b (dart_decode_u_32 b)"

definition dart_decode_host_key_info :: "dart_buffer \<Rightarrow> host_key_info decoder" where
  "dart_decode_host_key_info b =
     dec_bind (dart_decode_String b) (\<lambda>algorithm.
     dec_bind (dart_decode_String b) (\<lambda>fingerprint.
     dec_bind (dart_decode_opt_u_32 b) (\<lambda>changed_line.
     dec_return \<lparr>hi_algorithm = algorithm, hi_fingerprint = fingerprint, hi_changed_line = changed_line\<rparr>)))"

definition dart_decode_opt_host_key_info :: "dart_buffer \<Rightarrow> (host_key_info option) decoder" where
  "dart_decode_opt_host_key_info b = dart_decode_opt b (dart_decode_host_key_info b)"

definition dart_decode_remote_file_entry :: "dart_buffer \<Rightarrow> remote_file_entry decoder" where
  "dart_decode_remote_file_entry b =
     dec_bind (dart_decode_String b) (\<lambda>name.
     dec_bind (dart_decode_String b) (\<lambda>path.
     dec_bind (dart_decode_bool b) (\<lambda>is_directory.
     dec_bind (dart_decode_u_64 b) (\<lambda>size_bytes.
     dec_bind (dart_decode_i_64 b) (\<lambda>modified_unix_seconds.
     dec_bind (dart_decode_u_32 b) (\<lambda>mode.
     dec_return \<lparr>fe_name = name, fe_path = path, fe_is_directory = is_directory, fe_size_bytes = size_bytes,
        fe_modified_unix_seconds = modified_unix_seconds, fe_mode = mode\<rparr>))))))"

definition dart_decode_list_remote_file_entry :: "dart_buffer \<Rightarrow> (remote_file_entry list) decoder" where
  "dart_decode_list_remote_file_entry b = dart_decode_list b (dart_decode_remote_file_entry b)"

definition dart_decode_transfer_progress :: "dart_buffer \<Rightarrow> transfer_progress decoder" where
  "dart_decode_transfer_progress b =
     dec_bind (dart_decode_u_64 b) (\<lambda>done.
     dec_bind (dart_decode_u_64 b) (\<lambda>total.
     dec_return \<lparr>tp_done = done, tp_total = total\<rparr>))"

fun dart_encode_ssh_profile :: "dart_buffer \<Rightarrow> ssh_profile \<Rightarrow> bytes" where
  "dart_encode_ssh_profile b (SshProfile ident name host port username password private_key_path key_passphrase jump_host
       forward_agent command) =
     dart_encode_String b ident @
     dart_encode_String b name @
     dart_encode_String b host @
     dart_encode_u_16 b port @
     dart_encode_String b username @
     dart_encode_opt_String b password @
     dart_encode_opt_String b private_key_path @
     dart_encode_opt_String b key_passphrase @
     (dart_encode_bool b (jump_host \<noteq> None) @
      (case jump_host of Some self \<Rightarrow> dart_encode_ssh_profile b self | None \<Rightarrow> [])) @
     dart_encode_bool b forward_agent @
     dart_encode_opt_String b command"

definition dart_encode_opt_box_ssh_profile :: "dart_buffer \<Rightarrow> ssh_profile option \<Rightarrow> bytes" where
  "dart_encode_opt_box_ssh_profile b x =
     dart_encode_bool b (x \<noteq> None) @ (case x of Some self \<Rightarrow> dart_encode_ssh_profile b self | None \<Rightarrow> [])"

text \<open>The values that cross unharmed.\<close>

definition auth_prompt_ok :: "string \<times> bool \<Rightarrow> bool" where
  "auth_prompt_ok x \<longleftrightarrow>
     str_ok (fst x)"

definition auth_prompt_round_ok :: "auth_prompt_round \<Rightarrow> bool" where
  "auth_prompt_round_ok x \<longleftrightarrow>
     str_ok (ap_name x) \<and>
     str_ok (ap_instructions x) \<and>
     list_ok auth_prompt_ok (ap_prompts x)"

definition forward_info_ok :: "forward_info \<Rightarrow> bool" where
  "forward_info_ok x \<longleftrightarrow>
     str_ok (fi_id x) \<and>
     str_ok (fi_profile_id x) \<and>
     str_ok (fi_remote_host x)"

definition host_key_info_ok :: "host_key_info \<Rightarrow> bool" where
  "host_key_info_ok x \<longleftrightarrow>
     str_ok (hi_algorithm x) \<and>
     str_ok (hi_fingerprint x)"

definition remote_file_entry_ok :: "remote_file_entry \<Rightarrow> bool" where
  "remote_file_entry_ok x \<longleftrightarrow>
     str_ok (fe_name x) \<and>
     str_ok (fe_path x) \<and>
     i64_ok (fe_modified_unix_seconds x)"

definition remote_system_snapshot_ok :: "remote_system_snapshot \<Rightarrow> bool" where
  "remote_system_snapshot_ok x \<longleftrightarrow>
     str_ok (rs_os x) \<and>
     str_ok (rs_hostname x) \<and>
     str_ok (rs_uptime x) \<and>
     str_ok (rs_memory x) \<and>
     str_ok (rs_disk x)"

definition session_info_ok :: "session_info \<Rightarrow> bool" where
  "session_info_ok x \<longleftrightarrow>
     str_ok (si_id x) \<and>
     str_ok (si_profile_id x)"

text \<open>What Dart makes of them: every string without a byte order mark at its start.\<close>

definition shown_auth_prompt :: "string \<times> bool \<Rightarrow> string \<times> bool" where
  "shown_auth_prompt x =
     (drop_bom (fst x), snd x)"

definition shown_auth_prompt_round :: "auth_prompt_round \<Rightarrow> auth_prompt_round" where
  "shown_auth_prompt_round x =
     \<lparr>ap_name = drop_bom (ap_name x), ap_instructions = drop_bom (ap_instructions x),
        ap_prompts = map shown_auth_prompt (ap_prompts x)\<rparr>"

definition shown_forward_info :: "forward_info \<Rightarrow> forward_info" where
  "shown_forward_info x =
     \<lparr>fi_id = drop_bom (fi_id x), fi_profile_id = drop_bom (fi_profile_id x),
        fi_local_port = fi_local_port x, fi_remote_host = drop_bom (fi_remote_host x),
        fi_remote_port = fi_remote_port x, fi_socks = fi_socks x, fi_reverse = fi_reverse x\<rparr>"

definition shown_host_key_info :: "host_key_info \<Rightarrow> host_key_info" where
  "shown_host_key_info x =
     \<lparr>hi_algorithm = drop_bom (hi_algorithm x), hi_fingerprint = drop_bom (hi_fingerprint x),
        hi_changed_line = hi_changed_line x\<rparr>"

definition shown_remote_file_entry :: "remote_file_entry \<Rightarrow> remote_file_entry" where
  "shown_remote_file_entry x =
     \<lparr>fe_name = drop_bom (fe_name x), fe_path = drop_bom (fe_path x),
        fe_is_directory = fe_is_directory x, fe_size_bytes = fe_size_bytes x,
        fe_modified_unix_seconds = fe_modified_unix_seconds x, fe_mode = fe_mode x\<rparr>"

definition shown_remote_system_snapshot :: "remote_system_snapshot \<Rightarrow> remote_system_snapshot" where
  "shown_remote_system_snapshot x =
     \<lparr>rs_os = drop_bom (rs_os x), rs_hostname = drop_bom (rs_hostname x),
        rs_uptime = drop_bom (rs_uptime x), rs_memory = drop_bom (rs_memory x),
        rs_disk = drop_bom (rs_disk x), rs_memory_used_bytes = rs_memory_used_bytes x,
        rs_memory_free_bytes = rs_memory_free_bytes x,
        rs_memory_total_bytes = rs_memory_total_bytes x, rs_disk_used_bytes = rs_disk_used_bytes x,
        rs_disk_free_bytes = rs_disk_free_bytes x, rs_disk_total_bytes = rs_disk_total_bytes x\<rparr>"

definition shown_session_info :: "session_info \<Rightarrow> session_info" where
  "shown_session_info x =
     \<lparr>si_id = drop_bom (si_id x), si_profile_id = drop_bom (si_profile_id x), si_status = si_status x\<rparr>"

fun ssh_profile_ok :: "ssh_profile \<Rightarrow> bool" where
  "ssh_profile_ok (SshProfile ident name host port username password private_key_path key_passphrase jump_host
       forward_agent command) \<longleftrightarrow>
     str_ok ident \<and> str_ok name \<and> str_ok host \<and> str_ok username \<and> pred_option str_ok password \<and>
     pred_option str_ok private_key_path \<and> pred_option str_ok key_passphrase \<and>
     (case jump_host of Some p \<Rightarrow> ssh_profile_ok p | None \<Rightarrow> True) \<and> pred_option str_ok command"

section \<open>Calls and replies\<close>

datatype ssh_api_call =
    Api_answer_auth_prompts string u16 "string list"
  | Api_connect ssh_profile u32 u32
  | Api_connection_status_stream string
  | Api_disconnect string
  | Api_error_event_stream string
  | Api_exec_on_profile ssh_profile string "string option"
  | Api_generate_ed25519_key string string "string option"
  | Api_init_app
  | Api_list_local_forwards
  | Api_pending_auth_prompts string u16
  | Api_pending_host_key string u16
  | Api_remote_system_snapshot string
  | Api_resize_terminal string u32 u32
  | Api_send_terminal_input string bytes
  | Api_sftp_chmod string string u32
  | Api_sftp_connect ssh_profile
  | Api_sftp_copy string string string
  | Api_sftp_create_dir string string
  | Api_sftp_create_file string string
  | Api_sftp_disconnect string
  | Api_sftp_download string string string string
  | Api_sftp_is_alive string
  | Api_sftp_list string string
  | Api_sftp_read string string
  | Api_sftp_remove string string
  | Api_sftp_rename string string string
  | Api_sftp_resolve string string
  | Api_sftp_upload string string string string
  | Api_sftp_write string string bytes
  | Api_start_local_forward ssh_profile u16 string u16
  | Api_start_remote_forward ssh_profile u16 string u16
  | Api_start_socks_proxy ssh_profile u16
  | Api_stop_local_forward string
  | Api_terminal_output_stream string
  | Api_trust_host_key string u16 string

definition wire__crate__api__ssh__answer_auth_prompts_impl :: "rust_cursor \<Rightarrow> (ssh_api_call \<Rightarrow> 'a) \<Rightarrow> bytes \<Rightarrow> 'a option" where
  "wire__crate__api__ssh__answer_auth_prompts_impl c run = wire_call c run (
     dec_bind (sse_decode_string c) (\<lambda>api_host.
     dec_bind (sse_decode_u16 c) (\<lambda>api_port.
     dec_bind (sse_decode_vec_string c) (\<lambda>api_answers.
     dec_return (Api_answer_auth_prompts api_host api_port api_answers)))))"

definition wire__crate__api__ssh__connect_impl :: "rust_cursor \<Rightarrow> (ssh_api_call \<Rightarrow> 'a) \<Rightarrow> bytes \<Rightarrow> 'a option" where
  "wire__crate__api__ssh__connect_impl c run = wire_call c run (
     dec_bind (sse_decode_ssh_profile c) (\<lambda>api_profile.
     dec_bind (sse_decode_u32 c) (\<lambda>api_cols.
     dec_bind (sse_decode_u32 c) (\<lambda>api_rows.
     dec_return (Api_connect api_profile api_cols api_rows)))))"

definition wire__crate__api__ssh__connection_status_stream_impl :: "rust_cursor \<Rightarrow> (ssh_api_call \<Rightarrow> 'a) \<Rightarrow> bytes \<Rightarrow> 'a option" where
  "wire__crate__api__ssh__connection_status_stream_impl c run = wire_call c run (
     dec_bind (sse_decode_stream_sink c id) (\<lambda>api_sink.
     dec_return (Api_connection_status_stream api_sink)))"

definition wire__crate__api__ssh__disconnect_impl :: "rust_cursor \<Rightarrow> (ssh_api_call \<Rightarrow> 'a) \<Rightarrow> bytes \<Rightarrow> 'a option" where
  "wire__crate__api__ssh__disconnect_impl c run = wire_call c run (
     dec_bind (sse_decode_string c) (\<lambda>api_session_id.
     dec_return (Api_disconnect api_session_id)))"

definition wire__crate__api__ssh__error_event_stream_impl :: "rust_cursor \<Rightarrow> (ssh_api_call \<Rightarrow> 'a) \<Rightarrow> bytes \<Rightarrow> 'a option" where
  "wire__crate__api__ssh__error_event_stream_impl c run = wire_call c run (
     dec_bind (sse_decode_stream_sink c id) (\<lambda>api_sink.
     dec_return (Api_error_event_stream api_sink)))"

definition wire__crate__api__ssh__exec_on_profile_impl :: "rust_cursor \<Rightarrow> (ssh_api_call \<Rightarrow> 'a) \<Rightarrow> bytes \<Rightarrow> 'a option" where
  "wire__crate__api__ssh__exec_on_profile_impl c run = wire_call c run (
     dec_bind (sse_decode_ssh_profile c) (\<lambda>api_profile.
     dec_bind (sse_decode_string c) (\<lambda>api_command.
     dec_bind (sse_decode_option_string c) (\<lambda>api_input.
     dec_return (Api_exec_on_profile api_profile api_command api_input)))))"

definition wire__crate__api__ssh__generate_ed25519_key_impl :: "rust_cursor \<Rightarrow> (ssh_api_call \<Rightarrow> 'a) \<Rightarrow> bytes \<Rightarrow> 'a option" where
  "wire__crate__api__ssh__generate_ed25519_key_impl c run = wire_call c run (
     dec_bind (sse_decode_string c) (\<lambda>api_path.
     dec_bind (sse_decode_string c) (\<lambda>api_comment.
     dec_bind (sse_decode_option_string c) (\<lambda>api_passphrase.
     dec_return (Api_generate_ed25519_key api_path api_comment api_passphrase)))))"

definition wire__crate__api__ssh__init_app_impl :: "rust_cursor \<Rightarrow> (ssh_api_call \<Rightarrow> 'a) \<Rightarrow> bytes \<Rightarrow> 'a option" where
  "wire__crate__api__ssh__init_app_impl c run = wire_call c run (
     dec_return Api_init_app)"

definition wire__crate__api__ssh__list_local_forwards_impl :: "rust_cursor \<Rightarrow> (ssh_api_call \<Rightarrow> 'a) \<Rightarrow> bytes \<Rightarrow> 'a option" where
  "wire__crate__api__ssh__list_local_forwards_impl c run = wire_call c run (
     dec_return Api_list_local_forwards)"

definition wire__crate__api__ssh__pending_auth_prompts_impl :: "rust_cursor \<Rightarrow> (ssh_api_call \<Rightarrow> 'a) \<Rightarrow> bytes \<Rightarrow> 'a option" where
  "wire__crate__api__ssh__pending_auth_prompts_impl c run = wire_call c run (
     dec_bind (sse_decode_string c) (\<lambda>api_host.
     dec_bind (sse_decode_u16 c) (\<lambda>api_port.
     dec_return (Api_pending_auth_prompts api_host api_port))))"

definition wire__crate__api__ssh__pending_host_key_impl :: "rust_cursor \<Rightarrow> (ssh_api_call \<Rightarrow> 'a) \<Rightarrow> bytes \<Rightarrow> 'a option" where
  "wire__crate__api__ssh__pending_host_key_impl c run = wire_call c run (
     dec_bind (sse_decode_string c) (\<lambda>api_host.
     dec_bind (sse_decode_u16 c) (\<lambda>api_port.
     dec_return (Api_pending_host_key api_host api_port))))"

definition wire__crate__api__ssh__remote_system_snapshot_impl :: "rust_cursor \<Rightarrow> (ssh_api_call \<Rightarrow> 'a) \<Rightarrow> bytes \<Rightarrow> 'a option" where
  "wire__crate__api__ssh__remote_system_snapshot_impl c run = wire_call c run (
     dec_bind (sse_decode_string c) (\<lambda>api_session_id.
     dec_return (Api_remote_system_snapshot api_session_id)))"

definition wire__crate__api__ssh__resize_terminal_impl :: "rust_cursor \<Rightarrow> (ssh_api_call \<Rightarrow> 'a) \<Rightarrow> bytes \<Rightarrow> 'a option" where
  "wire__crate__api__ssh__resize_terminal_impl c run = wire_call c run (
     dec_bind (sse_decode_string c) (\<lambda>api_session_id.
     dec_bind (sse_decode_u32 c) (\<lambda>api_cols.
     dec_bind (sse_decode_u32 c) (\<lambda>api_rows.
     dec_return (Api_resize_terminal api_session_id api_cols api_rows)))))"

definition wire__crate__api__ssh__send_terminal_input_impl :: "rust_cursor \<Rightarrow> (ssh_api_call \<Rightarrow> 'a) \<Rightarrow> bytes \<Rightarrow> 'a option" where
  "wire__crate__api__ssh__send_terminal_input_impl c run = wire_call c run (
     dec_bind (sse_decode_string c) (\<lambda>api_session_id.
     dec_bind (sse_decode_vec_u8 c) (\<lambda>api_data.
     dec_return (Api_send_terminal_input api_session_id api_data))))"

definition wire__crate__api__sftp__sftp_chmod_impl :: "rust_cursor \<Rightarrow> (ssh_api_call \<Rightarrow> 'a) \<Rightarrow> bytes \<Rightarrow> 'a option" where
  "wire__crate__api__sftp__sftp_chmod_impl c run = wire_call c run (
     dec_bind (sse_decode_string c) (\<lambda>api_session_id.
     dec_bind (sse_decode_string c) (\<lambda>api_path.
     dec_bind (sse_decode_u32 c) (\<lambda>api_mode.
     dec_return (Api_sftp_chmod api_session_id api_path api_mode)))))"

definition wire__crate__api__sftp__sftp_connect_impl :: "rust_cursor \<Rightarrow> (ssh_api_call \<Rightarrow> 'a) \<Rightarrow> bytes \<Rightarrow> 'a option" where
  "wire__crate__api__sftp__sftp_connect_impl c run = wire_call c run (
     dec_bind (sse_decode_ssh_profile c) (\<lambda>api_profile.
     dec_return (Api_sftp_connect api_profile)))"

definition wire__crate__api__sftp__sftp_copy_impl :: "rust_cursor \<Rightarrow> (ssh_api_call \<Rightarrow> 'a) \<Rightarrow> bytes \<Rightarrow> 'a option" where
  "wire__crate__api__sftp__sftp_copy_impl c run = wire_call c run (
     dec_bind (sse_decode_string c) (\<lambda>api_session_id.
     dec_bind (sse_decode_string c) (\<lambda>api_from.
     dec_bind (sse_decode_string c) (\<lambda>api_to.
     dec_return (Api_sftp_copy api_session_id api_from api_to)))))"

definition wire__crate__api__sftp__sftp_create_dir_impl :: "rust_cursor \<Rightarrow> (ssh_api_call \<Rightarrow> 'a) \<Rightarrow> bytes \<Rightarrow> 'a option" where
  "wire__crate__api__sftp__sftp_create_dir_impl c run = wire_call c run (
     dec_bind (sse_decode_string c) (\<lambda>api_session_id.
     dec_bind (sse_decode_string c) (\<lambda>api_path.
     dec_return (Api_sftp_create_dir api_session_id api_path))))"

definition wire__crate__api__sftp__sftp_create_file_impl :: "rust_cursor \<Rightarrow> (ssh_api_call \<Rightarrow> 'a) \<Rightarrow> bytes \<Rightarrow> 'a option" where
  "wire__crate__api__sftp__sftp_create_file_impl c run = wire_call c run (
     dec_bind (sse_decode_string c) (\<lambda>api_session_id.
     dec_bind (sse_decode_string c) (\<lambda>api_path.
     dec_return (Api_sftp_create_file api_session_id api_path))))"

definition wire__crate__api__sftp__sftp_disconnect_impl :: "rust_cursor \<Rightarrow> (ssh_api_call \<Rightarrow> 'a) \<Rightarrow> bytes \<Rightarrow> 'a option" where
  "wire__crate__api__sftp__sftp_disconnect_impl c run = wire_call c run (
     dec_bind (sse_decode_string c) (\<lambda>api_session_id.
     dec_return (Api_sftp_disconnect api_session_id)))"

definition wire__crate__api__sftp__sftp_download_impl :: "rust_cursor \<Rightarrow> (ssh_api_call \<Rightarrow> 'a) \<Rightarrow> bytes \<Rightarrow> 'a option" where
  "wire__crate__api__sftp__sftp_download_impl c run = wire_call c run (
     dec_bind (sse_decode_string c) (\<lambda>api_session_id.
     dec_bind (sse_decode_string c) (\<lambda>api_remote_path.
     dec_bind (sse_decode_string c) (\<lambda>api_local_path.
     dec_bind (sse_decode_stream_sink c id) (\<lambda>api_sink.
     dec_return (Api_sftp_download api_session_id api_remote_path api_local_path api_sink))))))"

definition wire__crate__api__sftp__sftp_is_alive_impl :: "rust_cursor \<Rightarrow> (ssh_api_call \<Rightarrow> 'a) \<Rightarrow> bytes \<Rightarrow> 'a option" where
  "wire__crate__api__sftp__sftp_is_alive_impl c run = wire_call c run (
     dec_bind (sse_decode_string c) (\<lambda>api_session_id.
     dec_return (Api_sftp_is_alive api_session_id)))"

definition wire__crate__api__sftp__sftp_list_impl :: "rust_cursor \<Rightarrow> (ssh_api_call \<Rightarrow> 'a) \<Rightarrow> bytes \<Rightarrow> 'a option" where
  "wire__crate__api__sftp__sftp_list_impl c run = wire_call c run (
     dec_bind (sse_decode_string c) (\<lambda>api_session_id.
     dec_bind (sse_decode_string c) (\<lambda>api_path.
     dec_return (Api_sftp_list api_session_id api_path))))"

definition wire__crate__api__sftp__sftp_read_impl :: "rust_cursor \<Rightarrow> (ssh_api_call \<Rightarrow> 'a) \<Rightarrow> bytes \<Rightarrow> 'a option" where
  "wire__crate__api__sftp__sftp_read_impl c run = wire_call c run (
     dec_bind (sse_decode_string c) (\<lambda>api_session_id.
     dec_bind (sse_decode_string c) (\<lambda>api_path.
     dec_return (Api_sftp_read api_session_id api_path))))"

definition wire__crate__api__sftp__sftp_remove_impl :: "rust_cursor \<Rightarrow> (ssh_api_call \<Rightarrow> 'a) \<Rightarrow> bytes \<Rightarrow> 'a option" where
  "wire__crate__api__sftp__sftp_remove_impl c run = wire_call c run (
     dec_bind (sse_decode_string c) (\<lambda>api_session_id.
     dec_bind (sse_decode_string c) (\<lambda>api_path.
     dec_return (Api_sftp_remove api_session_id api_path))))"

definition wire__crate__api__sftp__sftp_rename_impl :: "rust_cursor \<Rightarrow> (ssh_api_call \<Rightarrow> 'a) \<Rightarrow> bytes \<Rightarrow> 'a option" where
  "wire__crate__api__sftp__sftp_rename_impl c run = wire_call c run (
     dec_bind (sse_decode_string c) (\<lambda>api_session_id.
     dec_bind (sse_decode_string c) (\<lambda>api_from.
     dec_bind (sse_decode_string c) (\<lambda>api_to.
     dec_return (Api_sftp_rename api_session_id api_from api_to)))))"

definition wire__crate__api__sftp__sftp_resolve_impl :: "rust_cursor \<Rightarrow> (ssh_api_call \<Rightarrow> 'a) \<Rightarrow> bytes \<Rightarrow> 'a option" where
  "wire__crate__api__sftp__sftp_resolve_impl c run = wire_call c run (
     dec_bind (sse_decode_string c) (\<lambda>api_session_id.
     dec_bind (sse_decode_string c) (\<lambda>api_path.
     dec_return (Api_sftp_resolve api_session_id api_path))))"

definition wire__crate__api__sftp__sftp_upload_impl :: "rust_cursor \<Rightarrow> (ssh_api_call \<Rightarrow> 'a) \<Rightarrow> bytes \<Rightarrow> 'a option" where
  "wire__crate__api__sftp__sftp_upload_impl c run = wire_call c run (
     dec_bind (sse_decode_string c) (\<lambda>api_session_id.
     dec_bind (sse_decode_string c) (\<lambda>api_local_path.
     dec_bind (sse_decode_string c) (\<lambda>api_remote_path.
     dec_bind (sse_decode_stream_sink c id) (\<lambda>api_sink.
     dec_return (Api_sftp_upload api_session_id api_local_path api_remote_path api_sink))))))"

definition wire__crate__api__sftp__sftp_write_impl :: "rust_cursor \<Rightarrow> (ssh_api_call \<Rightarrow> 'a) \<Rightarrow> bytes \<Rightarrow> 'a option" where
  "wire__crate__api__sftp__sftp_write_impl c run = wire_call c run (
     dec_bind (sse_decode_string c) (\<lambda>api_session_id.
     dec_bind (sse_decode_string c) (\<lambda>api_path.
     dec_bind (sse_decode_vec_u8 c) (\<lambda>api_data.
     dec_return (Api_sftp_write api_session_id api_path api_data)))))"

definition wire__crate__api__ssh__start_local_forward_impl :: "rust_cursor \<Rightarrow> (ssh_api_call \<Rightarrow> 'a) \<Rightarrow> bytes \<Rightarrow> 'a option" where
  "wire__crate__api__ssh__start_local_forward_impl c run = wire_call c run (
     dec_bind (sse_decode_ssh_profile c) (\<lambda>api_profile.
     dec_bind (sse_decode_u16 c) (\<lambda>api_local_port.
     dec_bind (sse_decode_string c) (\<lambda>api_remote_host.
     dec_bind (sse_decode_u16 c) (\<lambda>api_remote_port.
     dec_return (Api_start_local_forward api_profile api_local_port api_remote_host api_remote_port))))))"

definition wire__crate__api__ssh__start_remote_forward_impl :: "rust_cursor \<Rightarrow> (ssh_api_call \<Rightarrow> 'a) \<Rightarrow> bytes \<Rightarrow> 'a option" where
  "wire__crate__api__ssh__start_remote_forward_impl c run = wire_call c run (
     dec_bind (sse_decode_ssh_profile c) (\<lambda>api_profile.
     dec_bind (sse_decode_u16 c) (\<lambda>api_remote_port.
     dec_bind (sse_decode_string c) (\<lambda>api_local_host.
     dec_bind (sse_decode_u16 c) (\<lambda>api_local_port.
     dec_return (Api_start_remote_forward api_profile api_remote_port api_local_host api_local_port))))))"

definition wire__crate__api__ssh__start_socks_proxy_impl :: "rust_cursor \<Rightarrow> (ssh_api_call \<Rightarrow> 'a) \<Rightarrow> bytes \<Rightarrow> 'a option" where
  "wire__crate__api__ssh__start_socks_proxy_impl c run = wire_call c run (
     dec_bind (sse_decode_ssh_profile c) (\<lambda>api_profile.
     dec_bind (sse_decode_u16 c) (\<lambda>api_local_port.
     dec_return (Api_start_socks_proxy api_profile api_local_port))))"

definition wire__crate__api__ssh__stop_local_forward_impl :: "rust_cursor \<Rightarrow> (ssh_api_call \<Rightarrow> 'a) \<Rightarrow> bytes \<Rightarrow> 'a option" where
  "wire__crate__api__ssh__stop_local_forward_impl c run = wire_call c run (
     dec_bind (sse_decode_string c) (\<lambda>api_id.
     dec_return (Api_stop_local_forward api_id)))"

definition wire__crate__api__ssh__terminal_output_stream_impl :: "rust_cursor \<Rightarrow> (ssh_api_call \<Rightarrow> 'a) \<Rightarrow> bytes \<Rightarrow> 'a option" where
  "wire__crate__api__ssh__terminal_output_stream_impl c run = wire_call c run (
     dec_bind (sse_decode_stream_sink c id) (\<lambda>api_sink.
     dec_return (Api_terminal_output_stream api_sink)))"

definition wire__crate__api__ssh__trust_host_key_impl :: "rust_cursor \<Rightarrow> (ssh_api_call \<Rightarrow> 'a) \<Rightarrow> bytes \<Rightarrow> 'a option" where
  "wire__crate__api__ssh__trust_host_key_impl c run = wire_call c run (
     dec_bind (sse_decode_string c) (\<lambda>api_host.
     dec_bind (sse_decode_u16 c) (\<lambda>api_port.
     dec_bind (sse_decode_string c) (\<lambda>api_fingerprint.
     dec_return (Api_trust_host_key api_host api_port api_fingerprint)))))"

definition pde_ffi_dispatcher_primary_impl :: "rust_cursor \<Rightarrow> (ssh_api_call \<Rightarrow> 'a) \<Rightarrow> int \<Rightarrow> bytes \<Rightarrow> 'a option" where
  "pde_ffi_dispatcher_primary_impl c run func_id message =
    (if func_id = 1 then wire__crate__api__ssh__answer_auth_prompts_impl c run message
     else if func_id = 2 then wire__crate__api__ssh__connect_impl c run message
     else if func_id = 3 then wire__crate__api__ssh__connection_status_stream_impl c run message
     else if func_id = 4 then wire__crate__api__ssh__disconnect_impl c run message
     else if func_id = 5 then wire__crate__api__ssh__error_event_stream_impl c run message
     else if func_id = 6 then wire__crate__api__ssh__exec_on_profile_impl c run message
     else if func_id = 7 then wire__crate__api__ssh__generate_ed25519_key_impl c run message
     else if func_id = 8 then wire__crate__api__ssh__init_app_impl c run message
     else if func_id = 9 then wire__crate__api__ssh__list_local_forwards_impl c run message
     else if func_id = 10 then wire__crate__api__ssh__pending_auth_prompts_impl c run message
     else if func_id = 11 then wire__crate__api__ssh__pending_host_key_impl c run message
     else if func_id = 12 then wire__crate__api__ssh__remote_system_snapshot_impl c run message
     else if func_id = 13 then wire__crate__api__ssh__resize_terminal_impl c run message
     else if func_id = 14 then wire__crate__api__ssh__send_terminal_input_impl c run message
     else if func_id = 15 then wire__crate__api__sftp__sftp_chmod_impl c run message
     else if func_id = 16 then wire__crate__api__sftp__sftp_connect_impl c run message
     else if func_id = 17 then wire__crate__api__sftp__sftp_copy_impl c run message
     else if func_id = 18 then wire__crate__api__sftp__sftp_create_dir_impl c run message
     else if func_id = 19 then wire__crate__api__sftp__sftp_create_file_impl c run message
     else if func_id = 20 then wire__crate__api__sftp__sftp_disconnect_impl c run message
     else if func_id = 21 then wire__crate__api__sftp__sftp_download_impl c run message
     else if func_id = 22 then wire__crate__api__sftp__sftp_is_alive_impl c run message
     else if func_id = 23 then wire__crate__api__sftp__sftp_list_impl c run message
     else if func_id = 24 then wire__crate__api__sftp__sftp_read_impl c run message
     else if func_id = 25 then wire__crate__api__sftp__sftp_remove_impl c run message
     else if func_id = 26 then wire__crate__api__sftp__sftp_rename_impl c run message
     else if func_id = 27 then wire__crate__api__sftp__sftp_resolve_impl c run message
     else if func_id = 28 then wire__crate__api__sftp__sftp_upload_impl c run message
     else if func_id = 29 then wire__crate__api__sftp__sftp_write_impl c run message
     else if func_id = 30 then wire__crate__api__ssh__start_local_forward_impl c run message
     else if func_id = 31 then wire__crate__api__ssh__start_remote_forward_impl c run message
     else if func_id = 32 then wire__crate__api__ssh__start_socks_proxy_impl c run message
     else if func_id = 33 then wire__crate__api__ssh__stop_local_forward_impl c run message
     else if func_id = 34 then wire__crate__api__ssh__terminal_output_stream_impl c run message
     else if func_id = 35 then wire__crate__api__ssh__trust_host_key_impl c run message
     else None)"

fun ssh_dart_call :: "dart_buffer \<Rightarrow> ssh_api_call \<Rightarrow> int \<times> bytes" where
  "ssh_dart_call b (Api_answer_auth_prompts host port answers) =
     (1, dart_encode_String b host @
      dart_encode_u_16 b port @
      dart_encode_list_String b answers)"
| "ssh_dart_call b (Api_connect profile cols rows) =
     (2, dart_encode_ssh_profile b profile @
      dart_encode_u_32 b cols @
      dart_encode_u_32 b rows)"
| "ssh_dart_call b (Api_connection_status_stream sink) = (3, dart_encode_String b sink)"
| "ssh_dart_call b (Api_disconnect session_id) = (4, dart_encode_String b session_id)"
| "ssh_dart_call b (Api_error_event_stream sink) = (5, dart_encode_String b sink)"
| "ssh_dart_call b (Api_exec_on_profile profile command input) =
     (6, dart_encode_ssh_profile b profile @
      dart_encode_String b command @
      dart_encode_opt_String b input)"
| "ssh_dart_call b (Api_generate_ed25519_key path comment passphrase) =
     (7, dart_encode_String b path @
      dart_encode_String b comment @
      dart_encode_opt_String b passphrase)"
| "ssh_dart_call b Api_init_app = (8, [])"
| "ssh_dart_call b Api_list_local_forwards = (9, [])"
| "ssh_dart_call b (Api_pending_auth_prompts host port) =
     (10, dart_encode_String b host @
      dart_encode_u_16 b port)"
| "ssh_dart_call b (Api_pending_host_key host port) =
     (11, dart_encode_String b host @
      dart_encode_u_16 b port)"
| "ssh_dart_call b (Api_remote_system_snapshot session_id) = (12, dart_encode_String b session_id)"
| "ssh_dart_call b (Api_resize_terminal session_id cols rows) =
     (13, dart_encode_String b session_id @
      dart_encode_u_32 b cols @
      dart_encode_u_32 b rows)"
| "ssh_dart_call b (Api_send_terminal_input session_id data) =
     (14, dart_encode_String b session_id @
      dart_encode_list_prim_u_8 b data)"
| "ssh_dart_call b (Api_sftp_chmod session_id path mode) =
     (15, dart_encode_String b session_id @
      dart_encode_String b path @
      dart_encode_u_32 b mode)"
| "ssh_dart_call b (Api_sftp_connect profile) = (16, dart_encode_ssh_profile b profile)"
| "ssh_dart_call b (Api_sftp_copy session_id src dst) =
     (17, dart_encode_String b session_id @
      dart_encode_String b src @
      dart_encode_String b dst)"
| "ssh_dart_call b (Api_sftp_create_dir session_id path) =
     (18, dart_encode_String b session_id @
      dart_encode_String b path)"
| "ssh_dart_call b (Api_sftp_create_file session_id path) =
     (19, dart_encode_String b session_id @
      dart_encode_String b path)"
| "ssh_dart_call b (Api_sftp_disconnect session_id) = (20, dart_encode_String b session_id)"
| "ssh_dart_call b (Api_sftp_download session_id remote_path local_path sink) =
     (21, dart_encode_String b session_id @
      dart_encode_String b remote_path @
      dart_encode_String b local_path @
      dart_encode_String b sink)"
| "ssh_dart_call b (Api_sftp_is_alive session_id) = (22, dart_encode_String b session_id)"
| "ssh_dart_call b (Api_sftp_list session_id path) =
     (23, dart_encode_String b session_id @
      dart_encode_String b path)"
| "ssh_dart_call b (Api_sftp_read session_id path) =
     (24, dart_encode_String b session_id @
      dart_encode_String b path)"
| "ssh_dart_call b (Api_sftp_remove session_id path) =
     (25, dart_encode_String b session_id @
      dart_encode_String b path)"
| "ssh_dart_call b (Api_sftp_rename session_id src dst) =
     (26, dart_encode_String b session_id @
      dart_encode_String b src @
      dart_encode_String b dst)"
| "ssh_dart_call b (Api_sftp_resolve session_id path) =
     (27, dart_encode_String b session_id @
      dart_encode_String b path)"
| "ssh_dart_call b (Api_sftp_upload session_id local_path remote_path sink) =
     (28, dart_encode_String b session_id @
      dart_encode_String b local_path @
      dart_encode_String b remote_path @
      dart_encode_String b sink)"
| "ssh_dart_call b (Api_sftp_write session_id path data) =
     (29, dart_encode_String b session_id @
      dart_encode_String b path @
      dart_encode_list_prim_u_8 b data)"
| "ssh_dart_call b (Api_start_local_forward profile local_port remote_host remote_port) =
     (30, dart_encode_ssh_profile b profile @
      dart_encode_u_16 b local_port @
      dart_encode_String b remote_host @
      dart_encode_u_16 b remote_port)"
| "ssh_dart_call b (Api_start_remote_forward profile remote_port local_host local_port) =
     (31, dart_encode_ssh_profile b profile @
      dart_encode_u_16 b remote_port @
      dart_encode_String b local_host @
      dart_encode_u_16 b local_port)"
| "ssh_dart_call b (Api_start_socks_proxy profile local_port) =
     (32, dart_encode_ssh_profile b profile @
      dart_encode_u_16 b local_port)"
| "ssh_dart_call b (Api_stop_local_forward ident) = (33, dart_encode_String b ident)"
| "ssh_dart_call b (Api_terminal_output_stream sink) = (34, dart_encode_String b sink)"
| "ssh_dart_call b (Api_trust_host_key host port fingerprint) =
     (35, dart_encode_String b host @
      dart_encode_u_16 b port @
      dart_encode_String b fingerprint)"

datatype ssh_reply =
    Ssh_unit_reply
  | Ssh_session_info_reply session_info
  | Ssh_string_reply string
  | Ssh_vec_forward_info_reply "forward_info list"
  | Ssh_option_auth_prompt_round_reply "auth_prompt_round option"
  | Ssh_option_host_key_info_reply "host_key_info option"
  | Ssh_remote_system_snapshot_reply remote_system_snapshot
  | Ssh_bool_reply bool
  | Ssh_vec_remote_file_entry_reply "remote_file_entry list"
  | Ssh_vec_u8_reply bytes
  | Ssh_forward_info_reply forward_info

fun ssh_encode_reply :: "rust_cursor \<Rightarrow> ssh_reply \<Rightarrow> bytes" where
  "ssh_encode_reply c Ssh_unit_reply = sse_encode_unit c ()"
| "ssh_encode_reply c (Ssh_session_info_reply x) = sse_encode_session_info c x"
| "ssh_encode_reply c (Ssh_string_reply x) = sse_encode_string c x"
| "ssh_encode_reply c (Ssh_vec_forward_info_reply x) = sse_encode_vec_forward_info c x"
| "ssh_encode_reply c (Ssh_option_auth_prompt_round_reply x) = sse_encode_option_auth_prompt_round c x"
| "ssh_encode_reply c (Ssh_option_host_key_info_reply x) = sse_encode_option_host_key_info c x"
| "ssh_encode_reply c (Ssh_remote_system_snapshot_reply x) = sse_encode_remote_system_snapshot c x"
| "ssh_encode_reply c (Ssh_bool_reply x) = sse_encode_bool c x"
| "ssh_encode_reply c (Ssh_vec_remote_file_entry_reply x) = sse_encode_vec_remote_file_entry c x"
| "ssh_encode_reply c (Ssh_vec_u8_reply x) = sse_encode_vec_u8 c x"
| "ssh_encode_reply c (Ssh_forward_info_reply x) = sse_encode_forward_info c x"

datatype ssh_reply_type = Ssh_unit_type | Ssh_session_info_type | Ssh_string_type | Ssh_vec_forward_info_type | Ssh_option_auth_prompt_round_type | Ssh_option_host_key_info_type | Ssh_remote_system_snapshot_type | Ssh_bool_type | Ssh_vec_remote_file_entry_type | Ssh_vec_u8_type | Ssh_forward_info_type

fun type_of_ssh_reply :: "ssh_reply \<Rightarrow> ssh_reply_type" where
  "type_of_ssh_reply Ssh_unit_reply = Ssh_unit_type"
| "type_of_ssh_reply (Ssh_session_info_reply _) = Ssh_session_info_type"
| "type_of_ssh_reply (Ssh_string_reply _) = Ssh_string_type"
| "type_of_ssh_reply (Ssh_vec_forward_info_reply _) = Ssh_vec_forward_info_type"
| "type_of_ssh_reply (Ssh_option_auth_prompt_round_reply _) = Ssh_option_auth_prompt_round_type"
| "type_of_ssh_reply (Ssh_option_host_key_info_reply _) = Ssh_option_host_key_info_type"
| "type_of_ssh_reply (Ssh_remote_system_snapshot_reply _) = Ssh_remote_system_snapshot_type"
| "type_of_ssh_reply (Ssh_bool_reply _) = Ssh_bool_type"
| "type_of_ssh_reply (Ssh_vec_remote_file_entry_reply _) = Ssh_vec_remote_file_entry_type"
| "type_of_ssh_reply (Ssh_vec_u8_reply _) = Ssh_vec_u8_type"
| "type_of_ssh_reply (Ssh_forward_info_reply _) = Ssh_forward_info_type"

definition ssh_returns :: "ssh_api_call \<Rightarrow> ssh_reply_type" where
  "ssh_returns call =
     (case call of
        Api_answer_auth_prompts _ _ _ \<Rightarrow> Ssh_unit_type
      | Api_connect _ _ _ \<Rightarrow> Ssh_session_info_type
      | Api_connection_status_stream _ \<Rightarrow> Ssh_unit_type
      | Api_disconnect _ \<Rightarrow> Ssh_unit_type
      | Api_error_event_stream _ \<Rightarrow> Ssh_unit_type
      | Api_exec_on_profile _ _ _ \<Rightarrow> Ssh_string_type
      | Api_generate_ed25519_key _ _ _ \<Rightarrow> Ssh_string_type
      | Api_init_app \<Rightarrow> Ssh_unit_type
      | Api_list_local_forwards \<Rightarrow> Ssh_vec_forward_info_type
      | Api_pending_auth_prompts _ _ \<Rightarrow> Ssh_option_auth_prompt_round_type
      | Api_pending_host_key _ _ \<Rightarrow> Ssh_option_host_key_info_type
      | Api_remote_system_snapshot _ \<Rightarrow> Ssh_remote_system_snapshot_type
      | Api_resize_terminal _ _ _ \<Rightarrow> Ssh_unit_type
      | Api_send_terminal_input _ _ \<Rightarrow> Ssh_unit_type
      | Api_sftp_chmod _ _ _ \<Rightarrow> Ssh_unit_type
      | Api_sftp_connect _ \<Rightarrow> Ssh_string_type
      | Api_sftp_copy _ _ _ \<Rightarrow> Ssh_unit_type
      | Api_sftp_create_dir _ _ \<Rightarrow> Ssh_unit_type
      | Api_sftp_create_file _ _ \<Rightarrow> Ssh_unit_type
      | Api_sftp_disconnect _ \<Rightarrow> Ssh_unit_type
      | Api_sftp_download _ _ _ _ \<Rightarrow> Ssh_unit_type
      | Api_sftp_is_alive _ \<Rightarrow> Ssh_bool_type
      | Api_sftp_list _ _ \<Rightarrow> Ssh_vec_remote_file_entry_type
      | Api_sftp_read _ _ \<Rightarrow> Ssh_vec_u8_type
      | Api_sftp_remove _ _ \<Rightarrow> Ssh_unit_type
      | Api_sftp_rename _ _ _ \<Rightarrow> Ssh_unit_type
      | Api_sftp_resolve _ _ \<Rightarrow> Ssh_string_type
      | Api_sftp_upload _ _ _ _ \<Rightarrow> Ssh_unit_type
      | Api_sftp_write _ _ _ \<Rightarrow> Ssh_unit_type
      | Api_start_local_forward _ _ _ _ \<Rightarrow> Ssh_forward_info_type
      | Api_start_remote_forward _ _ _ _ \<Rightarrow> Ssh_forward_info_type
      | Api_start_socks_proxy _ _ \<Rightarrow> Ssh_forward_info_type
      | Api_stop_local_forward _ \<Rightarrow> Ssh_unit_type
      | Api_terminal_output_stream _ \<Rightarrow> Ssh_unit_type
      | Api_trust_host_key _ _ _ \<Rightarrow> Ssh_unit_type)"

definition ssh_fallible :: "ssh_api_call \<Rightarrow> bool" where
  "ssh_fallible call \<longleftrightarrow>
     (case call of
        Api_answer_auth_prompts _ _ _ \<Rightarrow> False
      | Api_connect _ _ _ \<Rightarrow> True
      | Api_connection_status_stream _ \<Rightarrow> True
      | Api_disconnect _ \<Rightarrow> True
      | Api_error_event_stream _ \<Rightarrow> True
      | Api_exec_on_profile _ _ _ \<Rightarrow> True
      | Api_generate_ed25519_key _ _ _ \<Rightarrow> True
      | Api_init_app \<Rightarrow> False
      | Api_list_local_forwards \<Rightarrow> False
      | Api_pending_auth_prompts _ _ \<Rightarrow> False
      | Api_pending_host_key _ _ \<Rightarrow> False
      | Api_remote_system_snapshot _ \<Rightarrow> True
      | Api_resize_terminal _ _ _ \<Rightarrow> True
      | Api_send_terminal_input _ _ \<Rightarrow> True
      | Api_sftp_chmod _ _ _ \<Rightarrow> True
      | Api_sftp_connect _ \<Rightarrow> True
      | Api_sftp_copy _ _ _ \<Rightarrow> True
      | Api_sftp_create_dir _ _ \<Rightarrow> True
      | Api_sftp_create_file _ _ \<Rightarrow> True
      | Api_sftp_disconnect _ \<Rightarrow> False
      | Api_sftp_download _ _ _ _ \<Rightarrow> False
      | Api_sftp_is_alive _ \<Rightarrow> False
      | Api_sftp_list _ _ \<Rightarrow> True
      | Api_sftp_read _ _ \<Rightarrow> True
      | Api_sftp_remove _ _ \<Rightarrow> True
      | Api_sftp_rename _ _ _ \<Rightarrow> True
      | Api_sftp_resolve _ _ \<Rightarrow> True
      | Api_sftp_upload _ _ _ _ \<Rightarrow> False
      | Api_sftp_write _ _ _ \<Rightarrow> True
      | Api_start_local_forward _ _ _ _ \<Rightarrow> True
      | Api_start_remote_forward _ _ _ _ \<Rightarrow> True
      | Api_start_socks_proxy _ _ \<Rightarrow> True
      | Api_stop_local_forward _ \<Rightarrow> False
      | Api_terminal_output_stream _ \<Rightarrow> True
      | Api_trust_host_key _ _ _ \<Rightarrow> True)"

definition ssh_dart_success :: "dart_buffer \<Rightarrow> ssh_api_call \<Rightarrow> ssh_reply decoder" where
  "ssh_dart_success b call =
     (case call of
        Api_answer_auth_prompts _ _ _ \<Rightarrow> dec_map (\<lambda>_. Ssh_unit_reply) (dart_decode_unit b)
      | Api_connect _ _ _ \<Rightarrow> dec_map Ssh_session_info_reply (dart_decode_session_info b)
      | Api_connection_status_stream _ \<Rightarrow> dec_map (\<lambda>_. Ssh_unit_reply) (dart_decode_unit b)
      | Api_disconnect _ \<Rightarrow> dec_map (\<lambda>_. Ssh_unit_reply) (dart_decode_unit b)
      | Api_error_event_stream _ \<Rightarrow> dec_map (\<lambda>_. Ssh_unit_reply) (dart_decode_unit b)
      | Api_exec_on_profile _ _ _ \<Rightarrow> dec_map Ssh_string_reply (dart_decode_String b)
      | Api_generate_ed25519_key _ _ _ \<Rightarrow> dec_map Ssh_string_reply (dart_decode_String b)
      | Api_init_app \<Rightarrow> dec_map (\<lambda>_. Ssh_unit_reply) (dart_decode_unit b)
      | Api_list_local_forwards \<Rightarrow> dec_map Ssh_vec_forward_info_reply (dart_decode_list_forward_info b)
      | Api_pending_auth_prompts _ _ \<Rightarrow> dec_map Ssh_option_auth_prompt_round_reply (dart_decode_opt_auth_prompt_round b)
      | Api_pending_host_key _ _ \<Rightarrow> dec_map Ssh_option_host_key_info_reply (dart_decode_opt_host_key_info b)
      | Api_remote_system_snapshot _ \<Rightarrow> dec_map Ssh_remote_system_snapshot_reply (dart_decode_remote_system_snapshot b)
      | Api_resize_terminal _ _ _ \<Rightarrow> dec_map (\<lambda>_. Ssh_unit_reply) (dart_decode_unit b)
      | Api_send_terminal_input _ _ \<Rightarrow> dec_map (\<lambda>_. Ssh_unit_reply) (dart_decode_unit b)
      | Api_sftp_chmod _ _ _ \<Rightarrow> dec_map (\<lambda>_. Ssh_unit_reply) (dart_decode_unit b)
      | Api_sftp_connect _ \<Rightarrow> dec_map Ssh_string_reply (dart_decode_String b)
      | Api_sftp_copy _ _ _ \<Rightarrow> dec_map (\<lambda>_. Ssh_unit_reply) (dart_decode_unit b)
      | Api_sftp_create_dir _ _ \<Rightarrow> dec_map (\<lambda>_. Ssh_unit_reply) (dart_decode_unit b)
      | Api_sftp_create_file _ _ \<Rightarrow> dec_map (\<lambda>_. Ssh_unit_reply) (dart_decode_unit b)
      | Api_sftp_disconnect _ \<Rightarrow> dec_map (\<lambda>_. Ssh_unit_reply) (dart_decode_unit b)
      | Api_sftp_download _ _ _ _ \<Rightarrow> dec_map (\<lambda>_. Ssh_unit_reply) (dart_decode_unit b)
      | Api_sftp_is_alive _ \<Rightarrow> dec_map Ssh_bool_reply (dart_decode_bool b)
      | Api_sftp_list _ _ \<Rightarrow> dec_map Ssh_vec_remote_file_entry_reply (dart_decode_list_remote_file_entry b)
      | Api_sftp_read _ _ \<Rightarrow> dec_map Ssh_vec_u8_reply (dart_decode_list_prim_u_8 b)
      | Api_sftp_remove _ _ \<Rightarrow> dec_map (\<lambda>_. Ssh_unit_reply) (dart_decode_unit b)
      | Api_sftp_rename _ _ _ \<Rightarrow> dec_map (\<lambda>_. Ssh_unit_reply) (dart_decode_unit b)
      | Api_sftp_resolve _ _ \<Rightarrow> dec_map Ssh_string_reply (dart_decode_String b)
      | Api_sftp_upload _ _ _ _ \<Rightarrow> dec_map (\<lambda>_. Ssh_unit_reply) (dart_decode_unit b)
      | Api_sftp_write _ _ _ \<Rightarrow> dec_map (\<lambda>_. Ssh_unit_reply) (dart_decode_unit b)
      | Api_start_local_forward _ _ _ _ \<Rightarrow> dec_map Ssh_forward_info_reply (dart_decode_forward_info b)
      | Api_start_remote_forward _ _ _ _ \<Rightarrow> dec_map Ssh_forward_info_reply (dart_decode_forward_info b)
      | Api_start_socks_proxy _ _ \<Rightarrow> dec_map Ssh_forward_info_reply (dart_decode_forward_info b)
      | Api_stop_local_forward _ \<Rightarrow> dec_map (\<lambda>_. Ssh_unit_reply) (dart_decode_unit b)
      | Api_terminal_output_stream _ \<Rightarrow> dec_map (\<lambda>_. Ssh_unit_reply) (dart_decode_unit b)
      | Api_trust_host_key _ _ _ \<Rightarrow> dec_map (\<lambda>_. Ssh_unit_reply) (dart_decode_unit b))"

definition ssh_dart_error :: "dart_buffer \<Rightarrow> ssh_api_call \<Rightarrow> string decoder option" where
  "ssh_dart_error b call =
     (case call of
        Api_answer_auth_prompts _ _ _ \<Rightarrow> None
      | Api_connect _ _ _ \<Rightarrow> Some (dart_decode_String b)
      | Api_connection_status_stream _ \<Rightarrow> Some (dart_decode_String b)
      | Api_disconnect _ \<Rightarrow> Some (dart_decode_String b)
      | Api_error_event_stream _ \<Rightarrow> Some (dart_decode_String b)
      | Api_exec_on_profile _ _ _ \<Rightarrow> Some (dart_decode_String b)
      | Api_generate_ed25519_key _ _ _ \<Rightarrow> Some (dart_decode_String b)
      | Api_init_app \<Rightarrow> None
      | Api_list_local_forwards \<Rightarrow> None
      | Api_pending_auth_prompts _ _ \<Rightarrow> None
      | Api_pending_host_key _ _ \<Rightarrow> None
      | Api_remote_system_snapshot _ \<Rightarrow> Some (dart_decode_String b)
      | Api_resize_terminal _ _ _ \<Rightarrow> Some (dart_decode_String b)
      | Api_send_terminal_input _ _ \<Rightarrow> Some (dart_decode_String b)
      | Api_sftp_chmod _ _ _ \<Rightarrow> Some (dart_decode_String b)
      | Api_sftp_connect _ \<Rightarrow> Some (dart_decode_String b)
      | Api_sftp_copy _ _ _ \<Rightarrow> Some (dart_decode_String b)
      | Api_sftp_create_dir _ _ \<Rightarrow> Some (dart_decode_String b)
      | Api_sftp_create_file _ _ \<Rightarrow> Some (dart_decode_String b)
      | Api_sftp_disconnect _ \<Rightarrow> None
      | Api_sftp_download _ _ _ _ \<Rightarrow> None
      | Api_sftp_is_alive _ \<Rightarrow> None
      | Api_sftp_list _ _ \<Rightarrow> Some (dart_decode_String b)
      | Api_sftp_read _ _ \<Rightarrow> Some (dart_decode_String b)
      | Api_sftp_remove _ _ \<Rightarrow> Some (dart_decode_String b)
      | Api_sftp_rename _ _ _ \<Rightarrow> Some (dart_decode_String b)
      | Api_sftp_resolve _ _ \<Rightarrow> Some (dart_decode_String b)
      | Api_sftp_upload _ _ _ _ \<Rightarrow> None
      | Api_sftp_write _ _ _ \<Rightarrow> Some (dart_decode_String b)
      | Api_start_local_forward _ _ _ _ \<Rightarrow> Some (dart_decode_String b)
      | Api_start_remote_forward _ _ _ _ \<Rightarrow> Some (dart_decode_String b)
      | Api_start_socks_proxy _ _ \<Rightarrow> Some (dart_decode_String b)
      | Api_stop_local_forward _ \<Rightarrow> None
      | Api_terminal_output_stream _ \<Rightarrow> Some (dart_decode_String b)
      | Api_trust_host_key _ _ _ \<Rightarrow> Some (dart_decode_String b))"

definition ssh_call_ok :: "ssh_api_call \<Rightarrow> bool" where
  "ssh_call_ok call \<longleftrightarrow>
     (case call of
        Api_answer_auth_prompts host _ answers \<Rightarrow> str_ok host \<and> list_ok str_ok answers
      | Api_connect profile _ _ \<Rightarrow> ssh_profile_ok profile
      | Api_connection_status_stream sink \<Rightarrow> str_ok sink
      | Api_disconnect session_id \<Rightarrow> str_ok session_id
      | Api_error_event_stream sink \<Rightarrow> str_ok sink
      | Api_exec_on_profile profile command input \<Rightarrow> ssh_profile_ok profile \<and> str_ok command \<and> pred_option str_ok input
      | Api_generate_ed25519_key path comment passphrase \<Rightarrow> str_ok path \<and> str_ok comment \<and> pred_option str_ok passphrase
      | Api_init_app \<Rightarrow> True
      | Api_list_local_forwards \<Rightarrow> True
      | Api_pending_auth_prompts host _ \<Rightarrow> str_ok host
      | Api_pending_host_key host _ \<Rightarrow> str_ok host
      | Api_remote_system_snapshot session_id \<Rightarrow> str_ok session_id
      | Api_resize_terminal session_id _ _ \<Rightarrow> str_ok session_id
      | Api_send_terminal_input session_id data \<Rightarrow> str_ok session_id \<and> bytes_ok data
      | Api_sftp_chmod session_id path _ \<Rightarrow> str_ok session_id \<and> str_ok path
      | Api_sftp_connect profile \<Rightarrow> ssh_profile_ok profile
      | Api_sftp_copy session_id src dst \<Rightarrow> str_ok session_id \<and> str_ok src \<and> str_ok dst
      | Api_sftp_create_dir session_id path \<Rightarrow> str_ok session_id \<and> str_ok path
      | Api_sftp_create_file session_id path \<Rightarrow> str_ok session_id \<and> str_ok path
      | Api_sftp_disconnect session_id \<Rightarrow> str_ok session_id
      | Api_sftp_download session_id remote_path local_path sink \<Rightarrow> str_ok session_id \<and> str_ok remote_path \<and> str_ok local_path \<and> str_ok sink
      | Api_sftp_is_alive session_id \<Rightarrow> str_ok session_id
      | Api_sftp_list session_id path \<Rightarrow> str_ok session_id \<and> str_ok path
      | Api_sftp_read session_id path \<Rightarrow> str_ok session_id \<and> str_ok path
      | Api_sftp_remove session_id path \<Rightarrow> str_ok session_id \<and> str_ok path
      | Api_sftp_rename session_id src dst \<Rightarrow> str_ok session_id \<and> str_ok src \<and> str_ok dst
      | Api_sftp_resolve session_id path \<Rightarrow> str_ok session_id \<and> str_ok path
      | Api_sftp_upload session_id local_path remote_path sink \<Rightarrow> str_ok session_id \<and> str_ok local_path \<and> str_ok remote_path \<and> str_ok sink
      | Api_sftp_write session_id path data \<Rightarrow> str_ok session_id \<and> str_ok path \<and> bytes_ok data
      | Api_start_local_forward profile _ remote_host _ \<Rightarrow> ssh_profile_ok profile \<and> str_ok remote_host
      | Api_start_remote_forward profile _ local_host _ \<Rightarrow> ssh_profile_ok profile \<and> str_ok local_host
      | Api_start_socks_proxy profile _ \<Rightarrow> ssh_profile_ok profile
      | Api_stop_local_forward ident \<Rightarrow> str_ok ident
      | Api_terminal_output_stream sink \<Rightarrow> str_ok sink
      | Api_trust_host_key host _ fingerprint \<Rightarrow> str_ok host \<and> str_ok fingerprint)"

text \<open>What Dart shows of a result: every string without a byte order mark at its start.\<close>

fun shown_ssh_reply :: "ssh_reply \<Rightarrow> ssh_reply" where
  "shown_ssh_reply Ssh_unit_reply = Ssh_unit_reply"
| "shown_ssh_reply (Ssh_session_info_reply x) = Ssh_session_info_reply (shown_session_info x)"
| "shown_ssh_reply (Ssh_string_reply x) = Ssh_string_reply (drop_bom x)"
| "shown_ssh_reply (Ssh_vec_forward_info_reply x) = Ssh_vec_forward_info_reply (map shown_forward_info x)"
| "shown_ssh_reply (Ssh_option_auth_prompt_round_reply x) = Ssh_option_auth_prompt_round_reply (map_option shown_auth_prompt_round x)"
| "shown_ssh_reply (Ssh_option_host_key_info_reply x) = Ssh_option_host_key_info_reply (map_option shown_host_key_info x)"
| "shown_ssh_reply (Ssh_remote_system_snapshot_reply x) = Ssh_remote_system_snapshot_reply (shown_remote_system_snapshot x)"
| "shown_ssh_reply (Ssh_bool_reply x) = Ssh_bool_reply x"
| "shown_ssh_reply (Ssh_vec_remote_file_entry_reply x) = Ssh_vec_remote_file_entry_reply (map shown_remote_file_entry x)"
| "shown_ssh_reply (Ssh_vec_u8_reply x) = Ssh_vec_u8_reply x"
| "shown_ssh_reply (Ssh_forward_info_reply x) = Ssh_forward_info_reply (shown_forward_info x)"

definition ssh_reply_ok :: "ssh_reply \<Rightarrow> bool" where
  "ssh_reply_ok r \<longleftrightarrow>
     (case r of
        Ssh_unit_reply \<Rightarrow> True
      | Ssh_session_info_reply x \<Rightarrow> session_info_ok x
      | Ssh_string_reply x \<Rightarrow> str_ok x
      | Ssh_vec_forward_info_reply x \<Rightarrow> list_ok forward_info_ok x
      | Ssh_option_auth_prompt_round_reply x \<Rightarrow> pred_option auth_prompt_round_ok x
      | Ssh_option_host_key_info_reply x \<Rightarrow> pred_option host_key_info_ok x
      | Ssh_remote_system_snapshot_reply x \<Rightarrow> remote_system_snapshot_ok x
      | Ssh_bool_reply x \<Rightarrow> True
      | Ssh_vec_remote_file_entry_reply x \<Rightarrow> list_ok remote_file_entry_ok x
      | Ssh_vec_u8_reply x \<Rightarrow> bytes_ok x
      | Ssh_forward_info_reply x \<Rightarrow> forward_info_ok x)"

section \<open>Every type across the bridge\<close>

interpretation r2d_auth_prompt: wire_reader "sse_encode_auth_prompt c" "dart_decode_auth_prompt b" "\<lambda>x. rust_to_dart c b \<and> auth_prompt_ok x" shown_auth_prompt for b c
  by unfold_locales (simp add: dart_decode_auth_prompt_def sse_encode_auth_prompt_def auth_prompt_ok_def shown_auth_prompt_def decoder_simps to_dart)

declare r2d_auth_prompt.reads [to_dart] r2d_auth_prompt.reads_last [to_dart]

interpretation r2d_vec_auth_prompt: wire_reader "sse_encode_vec_auth_prompt c" "dart_decode_list_auth_prompt b" "\<lambda>x. rust_to_dart c b \<and> list_ok auth_prompt_ok x" "map shown_auth_prompt" for b c
  by unfold_locales
     (unfold dart_decode_list_auth_prompt_def sse_encode_vec_auth_prompt_def, rule r2d_list [OF r2d_auth_prompt.wire_reader_axioms], auto simp: list_ok_def list_all_iff pred_option_def)

declare r2d_vec_auth_prompt.reads [to_dart] r2d_vec_auth_prompt.reads_last [to_dart]

interpretation r2d_auth_prompt_round: wire_reader "sse_encode_auth_prompt_round c" "dart_decode_auth_prompt_round b" "\<lambda>x. rust_to_dart c b \<and> auth_prompt_round_ok x" shown_auth_prompt_round for b c
  by unfold_locales (simp add: dart_decode_auth_prompt_round_def sse_encode_auth_prompt_round_def auth_prompt_round_ok_def shown_auth_prompt_round_def decoder_simps to_dart)

declare r2d_auth_prompt_round.reads [to_dart] r2d_auth_prompt_round.reads_last [to_dart]

interpretation r2d_connection_status: wire_codec "sse_encode_connection_status c" "dart_decode_connection_status b" "\<lambda>x. rust_to_dart c b" for b c
  by unfold_locales (case_tac x; simp add: dart_decode_connection_status_def sse_encode_connection_status_def decoder_simps to_dart)

declare r2d_connection_status.decodes [to_dart] r2d_connection_status.decodes_last [to_dart]

interpretation r2d_forward_info: wire_reader "sse_encode_forward_info c" "dart_decode_forward_info b" "\<lambda>x. rust_to_dart c b \<and> forward_info_ok x" shown_forward_info for b c
  by unfold_locales (simp add: dart_decode_forward_info_def sse_encode_forward_info_def forward_info_ok_def shown_forward_info_def decoder_simps to_dart)

declare r2d_forward_info.reads [to_dart] r2d_forward_info.reads_last [to_dart]

interpretation r2d_option_u32: wire_codec "sse_encode_option_u32 c" "dart_decode_opt_u_32 b" "\<lambda>x. rust_to_dart c b" for b c
  by unfold_locales (case_tac x; simp add: dart_decode_opt_u_32_def sse_encode_option_u32_def sse_encode_option_def dart_decode_opt_def decoder_simps to_dart)

declare r2d_option_u32.decodes [to_dart] r2d_option_u32.decodes_last [to_dart]

interpretation r2d_host_key_info: wire_reader "sse_encode_host_key_info c" "dart_decode_host_key_info b" "\<lambda>x. rust_to_dart c b \<and> host_key_info_ok x" shown_host_key_info for b c
  by unfold_locales (simp add: dart_decode_host_key_info_def sse_encode_host_key_info_def host_key_info_ok_def shown_host_key_info_def decoder_simps to_dart)

declare r2d_host_key_info.reads [to_dart] r2d_host_key_info.reads_last [to_dart]

interpretation r2d_vec_forward_info: wire_reader "sse_encode_vec_forward_info c" "dart_decode_list_forward_info b" "\<lambda>x. rust_to_dart c b \<and> list_ok forward_info_ok x" "map shown_forward_info" for b c
  by unfold_locales
     (unfold dart_decode_list_forward_info_def sse_encode_vec_forward_info_def, rule r2d_list [OF r2d_forward_info.wire_reader_axioms], auto simp: list_ok_def list_all_iff pred_option_def)

declare r2d_vec_forward_info.reads [to_dart] r2d_vec_forward_info.reads_last [to_dart]

interpretation r2d_remote_file_entry: wire_reader "sse_encode_remote_file_entry c" "dart_decode_remote_file_entry b" "\<lambda>x. rust_to_dart c b \<and> remote_file_entry_ok x" shown_remote_file_entry for b c
  by unfold_locales (simp add: dart_decode_remote_file_entry_def sse_encode_remote_file_entry_def remote_file_entry_ok_def shown_remote_file_entry_def decoder_simps to_dart)

declare r2d_remote_file_entry.reads [to_dart] r2d_remote_file_entry.reads_last [to_dart]

interpretation r2d_vec_remote_file_entry: wire_reader "sse_encode_vec_remote_file_entry c" "dart_decode_list_remote_file_entry b" "\<lambda>x. rust_to_dart c b \<and> list_ok remote_file_entry_ok x" "map shown_remote_file_entry" for b c
  by unfold_locales
     (unfold dart_decode_list_remote_file_entry_def sse_encode_vec_remote_file_entry_def, rule r2d_list [OF r2d_remote_file_entry.wire_reader_axioms], auto simp: list_ok_def list_all_iff pred_option_def)

declare r2d_vec_remote_file_entry.reads [to_dart] r2d_vec_remote_file_entry.reads_last [to_dart]

interpretation r2d_option_auth_prompt_round: wire_reader "sse_encode_option_auth_prompt_round c" "dart_decode_opt_auth_prompt_round b" "\<lambda>x. rust_to_dart c b \<and> pred_option auth_prompt_round_ok x" "map_option shown_auth_prompt_round" for b c
  by unfold_locales
     (unfold dart_decode_opt_auth_prompt_round_def sse_encode_option_auth_prompt_round_def, rule r2d_option [OF r2d_auth_prompt_round.wire_reader_axioms], auto simp: list_ok_def list_all_iff pred_option_def)

declare r2d_option_auth_prompt_round.reads [to_dart] r2d_option_auth_prompt_round.reads_last [to_dart]

interpretation r2d_option_host_key_info: wire_reader "sse_encode_option_host_key_info c" "dart_decode_opt_host_key_info b" "\<lambda>x. rust_to_dart c b \<and> pred_option host_key_info_ok x" "map_option shown_host_key_info" for b c
  by unfold_locales
     (unfold dart_decode_opt_host_key_info_def sse_encode_option_host_key_info_def, rule r2d_option [OF r2d_host_key_info.wire_reader_axioms], auto simp: list_ok_def list_all_iff pred_option_def)

declare r2d_option_host_key_info.reads [to_dart] r2d_option_host_key_info.reads_last [to_dart]

interpretation r2d_remote_system_snapshot: wire_reader "sse_encode_remote_system_snapshot c" "dart_decode_remote_system_snapshot b" "\<lambda>x. rust_to_dart c b \<and> remote_system_snapshot_ok x" shown_remote_system_snapshot for b c
  by unfold_locales (simp add: dart_decode_remote_system_snapshot_def sse_encode_remote_system_snapshot_def remote_system_snapshot_ok_def shown_remote_system_snapshot_def decoder_simps to_dart)

declare r2d_remote_system_snapshot.reads [to_dart] r2d_remote_system_snapshot.reads_last [to_dart]

interpretation r2d_session_info: wire_reader "sse_encode_session_info c" "dart_decode_session_info b" "\<lambda>x. rust_to_dart c b \<and> session_info_ok x" shown_session_info for b c
  by unfold_locales (simp add: dart_decode_session_info_def sse_encode_session_info_def session_info_ok_def shown_session_info_def decoder_simps to_dart)

declare r2d_session_info.reads [to_dart] r2d_session_info.reads_last [to_dart]

interpretation r2d_transfer_progress: wire_codec "sse_encode_transfer_progress c" "dart_decode_transfer_progress b" "\<lambda>x. rust_to_dart c b" for b c
  by unfold_locales (simp add: dart_decode_transfer_progress_def sse_encode_transfer_progress_def decoder_simps to_dart)

declare r2d_transfer_progress.decodes [to_dart] r2d_transfer_progress.decodes_last [to_dart]

interpretation r2r_auth_prompt: wire_codec "sse_encode_auth_prompt c" "sse_decode_auth_prompt c" "\<lambda>x. rust_to_rust c \<and> auth_prompt_ok x" for c
  by unfold_locales (simp add: sse_decode_auth_prompt_def sse_encode_auth_prompt_def auth_prompt_ok_def decoder_simps to_self)

declare r2r_auth_prompt.decodes [to_self] r2r_auth_prompt.decodes_last [to_self]

interpretation r2r_vec_auth_prompt: wire_codec "sse_encode_vec_auth_prompt c" "sse_decode_vec_auth_prompt c" "\<lambda>x. rust_to_rust c \<and> list_ok auth_prompt_ok x" for c
  by unfold_locales
     (unfold sse_decode_vec_auth_prompt_def sse_encode_vec_auth_prompt_def, rule r2r_vec [OF r2r_auth_prompt.wire_codec_axioms], auto simp: list_ok_def list_all_iff pred_option_def)

declare r2r_vec_auth_prompt.decodes [to_self] r2r_vec_auth_prompt.decodes_last [to_self]

interpretation r2r_auth_prompt_round: wire_codec "sse_encode_auth_prompt_round c" "sse_decode_auth_prompt_round c" "\<lambda>x. rust_to_rust c \<and> auth_prompt_round_ok x" for c
  by unfold_locales (simp add: sse_decode_auth_prompt_round_def sse_encode_auth_prompt_round_def auth_prompt_round_ok_def decoder_simps to_self)

declare r2r_auth_prompt_round.decodes [to_self] r2r_auth_prompt_round.decodes_last [to_self]

interpretation r2r_connection_status: wire_codec "sse_encode_connection_status c" "sse_decode_connection_status c" "\<lambda>x. rust_to_rust c" for c
  by unfold_locales (case_tac x; simp add: sse_decode_connection_status_def sse_encode_connection_status_def decoder_simps to_self)

declare r2r_connection_status.decodes [to_self] r2r_connection_status.decodes_last [to_self]

interpretation r2r_forward_info: wire_codec "sse_encode_forward_info c" "sse_decode_forward_info c" "\<lambda>x. rust_to_rust c \<and> forward_info_ok x" for c
  by unfold_locales (simp add: sse_decode_forward_info_def sse_encode_forward_info_def forward_info_ok_def decoder_simps to_self)

declare r2r_forward_info.decodes [to_self] r2r_forward_info.decodes_last [to_self]

interpretation r2r_option_u32: wire_codec "sse_encode_option_u32 c" "sse_decode_option_u32 c" "\<lambda>x. rust_to_rust c" for c
  by unfold_locales (case_tac x; simp add: sse_decode_option_u32_def sse_encode_option_u32_def sse_encode_option_def sse_decode_option_def decoder_simps to_self)

declare r2r_option_u32.decodes [to_self] r2r_option_u32.decodes_last [to_self]

interpretation r2r_host_key_info: wire_codec "sse_encode_host_key_info c" "sse_decode_host_key_info c" "\<lambda>x. rust_to_rust c \<and> host_key_info_ok x" for c
  by unfold_locales (simp add: sse_decode_host_key_info_def sse_encode_host_key_info_def host_key_info_ok_def decoder_simps to_self)

declare r2r_host_key_info.decodes [to_self] r2r_host_key_info.decodes_last [to_self]

interpretation r2r_vec_string: wire_codec "sse_encode_vec_string c" "sse_decode_vec_string c" "\<lambda>x. rust_to_rust c \<and> list_ok str_ok x" for c
  by unfold_locales
     (unfold sse_decode_vec_string_def sse_encode_vec_string_def, rule r2r_vec [OF r2r_string.wire_codec_axioms], auto simp: list_ok_def list_all_iff pred_option_def)

declare r2r_vec_string.decodes [to_self] r2r_vec_string.decodes_last [to_self]

interpretation r2r_vec_forward_info: wire_codec "sse_encode_vec_forward_info c" "sse_decode_vec_forward_info c" "\<lambda>x. rust_to_rust c \<and> list_ok forward_info_ok x" for c
  by unfold_locales
     (unfold sse_decode_vec_forward_info_def sse_encode_vec_forward_info_def, rule r2r_vec [OF r2r_forward_info.wire_codec_axioms], auto simp: list_ok_def list_all_iff pred_option_def)

declare r2r_vec_forward_info.decodes [to_self] r2r_vec_forward_info.decodes_last [to_self]

interpretation r2r_remote_file_entry: wire_codec "sse_encode_remote_file_entry c" "sse_decode_remote_file_entry c" "\<lambda>x. rust_to_rust c \<and> remote_file_entry_ok x" for c
  by unfold_locales (simp add: sse_decode_remote_file_entry_def sse_encode_remote_file_entry_def remote_file_entry_ok_def decoder_simps to_self)

declare r2r_remote_file_entry.decodes [to_self] r2r_remote_file_entry.decodes_last [to_self]

interpretation r2r_vec_remote_file_entry: wire_codec "sse_encode_vec_remote_file_entry c" "sse_decode_vec_remote_file_entry c" "\<lambda>x. rust_to_rust c \<and> list_ok remote_file_entry_ok x" for c
  by unfold_locales
     (unfold sse_decode_vec_remote_file_entry_def sse_encode_vec_remote_file_entry_def, rule r2r_vec [OF r2r_remote_file_entry.wire_codec_axioms], auto simp: list_ok_def list_all_iff pred_option_def)

declare r2r_vec_remote_file_entry.decodes [to_self] r2r_vec_remote_file_entry.decodes_last [to_self]

interpretation r2r_option_auth_prompt_round: wire_codec "sse_encode_option_auth_prompt_round c" "sse_decode_option_auth_prompt_round c" "\<lambda>x. rust_to_rust c \<and> pred_option auth_prompt_round_ok x" for c
  by unfold_locales
     (unfold sse_decode_option_auth_prompt_round_def sse_encode_option_auth_prompt_round_def, rule r2r_option [OF r2r_auth_prompt_round.wire_codec_axioms], auto simp: list_ok_def list_all_iff pred_option_def)

declare r2r_option_auth_prompt_round.decodes [to_self] r2r_option_auth_prompt_round.decodes_last [to_self]

interpretation r2r_option_host_key_info: wire_codec "sse_encode_option_host_key_info c" "sse_decode_option_host_key_info c" "\<lambda>x. rust_to_rust c \<and> pred_option host_key_info_ok x" for c
  by unfold_locales
     (unfold sse_decode_option_host_key_info_def sse_encode_option_host_key_info_def, rule r2r_option [OF r2r_host_key_info.wire_codec_axioms], auto simp: list_ok_def list_all_iff pred_option_def)

declare r2r_option_host_key_info.decodes [to_self] r2r_option_host_key_info.decodes_last [to_self]

interpretation r2r_remote_system_snapshot: wire_codec "sse_encode_remote_system_snapshot c" "sse_decode_remote_system_snapshot c" "\<lambda>x. rust_to_rust c \<and> remote_system_snapshot_ok x" for c
  by unfold_locales (simp add: sse_decode_remote_system_snapshot_def sse_encode_remote_system_snapshot_def remote_system_snapshot_ok_def decoder_simps to_self)

declare r2r_remote_system_snapshot.decodes [to_self] r2r_remote_system_snapshot.decodes_last [to_self]

interpretation r2r_session_info: wire_codec "sse_encode_session_info c" "sse_decode_session_info c" "\<lambda>x. rust_to_rust c \<and> session_info_ok x" for c
  by unfold_locales (simp add: sse_decode_session_info_def sse_encode_session_info_def session_info_ok_def decoder_simps to_self)

declare r2r_session_info.decodes [to_self] r2r_session_info.decodes_last [to_self]

interpretation r2r_transfer_progress: wire_codec "sse_encode_transfer_progress c" "sse_decode_transfer_progress c" "\<lambda>x. rust_to_rust c" for c
  by unfold_locales (simp add: sse_decode_transfer_progress_def sse_encode_transfer_progress_def decoder_simps to_self)

declare r2r_transfer_progress.decodes [to_self] r2r_transfer_progress.decodes_last [to_self]

text \<open>The profile and its jump hosts, by induction along the chain.\<close>

lemma ssh_profile_d2r:
  "dart_to_rust b c \<Longrightarrow> ssh_profile_ok p \<Longrightarrow> sse_decode_ssh_profile c (dart_encode_ssh_profile b p @ rest) = Some (p, rest)"
proof (induction p arbitrary: rest)
  case (SshProfile i n h po u pw pk kp j fa cm)
  then show ?case
    by (subst sse_decode_ssh_profile.simps)
       (cases j; simp add: decoder_simps sse_decode_option_def to_rust)
qed

interpretation d2r_ssh_profile: wire_codec "dart_encode_ssh_profile b" "sse_decode_ssh_profile c"
  "\<lambda>p. dart_to_rust b c \<and> ssh_profile_ok p" for b c
  by unfold_locales (simp add: ssh_profile_d2r)

declare d2r_ssh_profile.decodes [to_rust] d2r_ssh_profile.decodes_last [to_rust]

lemma ssh_profile_r2r:
  "rust_to_rust c \<Longrightarrow> ssh_profile_ok p \<Longrightarrow> sse_decode_ssh_profile c (sse_encode_ssh_profile c p @ rest) = Some (p, rest)"
proof (induction p arbitrary: rest)
  case (SshProfile i n h po u pw pk kp j fa cm)
  then show ?case
    by (subst sse_decode_ssh_profile.simps)
       (cases j; simp add: decoder_simps sse_decode_option_def to_self)
qed

lemma ssh_profile_typed: "sse_decode_ssh_profile c bs = Some r \<Longrightarrow> ssh_profile_ok (fst r)"
proof (rule sse_decode_ssh_profile.raw_induct [where P = "\<lambda>c bs r. ssh_profile_ok (fst r)"])
  fix f :: "rust_cursor \<Rightarrow> ssh_profile decoder" and c bs r
  assume "\<And>c bs r. f c bs = Some r \<Longrightarrow> ssh_profile_ok (fst r)"
  then have "typed_decoder (f c) ssh_profile_ok" by unfold_locales fastforce
  then have jump: "sse_decode_option c (f c) b = Some (Some q, b') \<Longrightarrow> ssh_profile_ok q" for b q b'
    by (fastforce dest: typed_option)
  assume "dec_bind (sse_decode_string c) (\<lambda>ident.
     dec_bind (sse_decode_string c) (\<lambda>name.
     dec_bind (sse_decode_string c) (\<lambda>host.
     dec_bind (sse_decode_u16 c) (\<lambda>port.
     dec_bind (sse_decode_string c) (\<lambda>username.
     dec_bind (sse_decode_option_string c) (\<lambda>password.
     dec_bind (sse_decode_option_string c) (\<lambda>private_key_path.
     dec_bind (sse_decode_option_string c) (\<lambda>key_passphrase.
     dec_bind (sse_decode_option c (\<lambda>bs. f c bs)) (\<lambda>jump_host.
     dec_bind (sse_decode_bool c) (\<lambda>forward_agent.
     dec_bind (sse_decode_option_string c) (\<lambda>command.
     dec_return (SshProfile ident name host port username password private_key_path key_passphrase jump_host
       forward_agent command)))))))))))) bs = Some r"
  then show "ssh_profile_ok (fst r)"
    by (auto simp: decoder_simps bind_eq_Some_conv split: option.splits)
       (blast intro: decoded_ok jump)+
qed

interpretation decoded_ssh_profile: typed_decoder "sse_decode_ssh_profile c" ssh_profile_ok for c
  by unfold_locales (drule ssh_profile_typed, simp)

declare decoded_ssh_profile.typed [decoded_ok]

lemmas ssh_wire_defs =
  wire__crate__api__ssh__answer_auth_prompts_impl_def
  wire__crate__api__ssh__connect_impl_def
  wire__crate__api__ssh__connection_status_stream_impl_def
  wire__crate__api__ssh__disconnect_impl_def
  wire__crate__api__ssh__error_event_stream_impl_def
  wire__crate__api__ssh__exec_on_profile_impl_def
  wire__crate__api__ssh__generate_ed25519_key_impl_def
  wire__crate__api__ssh__init_app_impl_def
  wire__crate__api__ssh__list_local_forwards_impl_def
  wire__crate__api__ssh__pending_auth_prompts_impl_def
  wire__crate__api__ssh__pending_host_key_impl_def
  wire__crate__api__ssh__remote_system_snapshot_impl_def
  wire__crate__api__ssh__resize_terminal_impl_def
  wire__crate__api__ssh__send_terminal_input_impl_def
  wire__crate__api__sftp__sftp_chmod_impl_def
  wire__crate__api__sftp__sftp_connect_impl_def
  wire__crate__api__sftp__sftp_copy_impl_def
  wire__crate__api__sftp__sftp_create_dir_impl_def
  wire__crate__api__sftp__sftp_create_file_impl_def
  wire__crate__api__sftp__sftp_disconnect_impl_def
  wire__crate__api__sftp__sftp_download_impl_def
  wire__crate__api__sftp__sftp_is_alive_impl_def
  wire__crate__api__sftp__sftp_list_impl_def
  wire__crate__api__sftp__sftp_read_impl_def
  wire__crate__api__sftp__sftp_remove_impl_def
  wire__crate__api__sftp__sftp_rename_impl_def
  wire__crate__api__sftp__sftp_resolve_impl_def
  wire__crate__api__sftp__sftp_upload_impl_def
  wire__crate__api__sftp__sftp_write_impl_def
  wire__crate__api__ssh__start_local_forward_impl_def
  wire__crate__api__ssh__start_remote_forward_impl_def
  wire__crate__api__ssh__start_socks_proxy_impl_def
  wire__crate__api__ssh__stop_local_forward_impl_def
  wire__crate__api__ssh__terminal_output_stream_impl_def
  wire__crate__api__ssh__trust_host_key_impl_def

interpretation decoded_vec_string: typed_decoder "sse_decode_vec_string c" "list_ok str_ok" for c
  by unfold_locales (simp add: sse_decode_vec_string_def typed_vec [OF decoded_string.typed_decoder_axioms])

declare decoded_vec_string.typed [decoded_ok] d2r_vec_string [folded sse_decode_vec_string_def, to_rust]

lemmas ssh_last [to_rust] = d2r_vec_string [where rest = "[]", unfolded append_Nil2, folded sse_decode_vec_string_def]

section \<open>Calls across the bridge\<close>

lemma ssh_call_delivered:
  assumes "dart_to_rust b c" "ssh_call_ok call"
  shows "pde_ffi_dispatcher_primary_impl c run (fst (ssh_dart_call b call)) (snd (ssh_dart_call b call)) = Some (run call)"
  using assms
  by (cases call)
     (simp_all add: pde_ffi_dispatcher_primary_impl_def ssh_wire_defs wire_call_def decoder_simps ssh_call_ok_def
       rc_end_Nil to_rust)

lemma ssh_dispatch_run:
  "pde_ffi_dispatcher_primary_impl c run func_id message =
     map_option run (pde_ffi_dispatcher_primary_impl c id func_id message)"
  by (simp add: pde_ffi_dispatcher_primary_impl_def ssh_wire_defs wire_call_run [where run = run])

lemma ssh_dispatch_known:
  "pde_ffi_dispatcher_primary_impl c run func_id message = Some x \<Longrightarrow> 1 \<le> func_id \<and> func_id \<le> 35"
  by (auto simp: pde_ffi_dispatcher_primary_impl_def split: if_splits)

lemma ssh_dispatch_typed:
  "pde_ffi_dispatcher_primary_impl c id func_id message = Some call \<Longrightarrow> ssh_call_ok call"
  by (auto simp: pde_ffi_dispatcher_primary_impl_def ssh_wire_defs wire_call_def decoder_simps bind_eq_Some_conv
      ssh_call_ok_def split: if_splits option.splits)
     (blast intro: decoded_ok)+

lemma ssh_reply_decoded:
  assumes "rust_to_dart c b" "type_of_ssh_reply x = ssh_returns call" "ssh_reply_ok x"
  shows "ssh_dart_success b call (ssh_encode_reply c x) = Some (shown_ssh_reply x, [])"
  using assms
  by (cases call; cases x) (simp_all add: ssh_dart_success_def ssh_returns_def ssh_reply_ok_def dec_map_def decoder_simps to_dart)

lemma ssh_fallible_dart: "ssh_fallible call \<Longrightarrow> ssh_dart_error b call = Some (dart_decode_String b)"
  by (cases call) (simp_all add: ssh_fallible_def ssh_dart_error_def)

section \<open>Properties\<close>

text \<open>
  C35: a call of the Dart application on the SSH crate arrives as made and its result comes back as
  returned, less a byte order mark at the start of a string. The bytes Dart sends under a function
  number make Rust run that API function, on exactly those arguments, whatever chain of jump hosts
  a profile has; every well-formed value the function may return is decoded by Dart as that value,
  and when the function may fail, Dart decodes the text of the error. Its decoder discards U+FEFF
  at the start of a string, an output or a file name too, and nothing else: any other string is
  shown exactly.
\<close>

theorem ssh_calls_cross_the_bridge:
  assumes "dart_to_rust b c" "rust_to_dart c b" "frames_ok fr" "ssh_call_ok call"
  shows "pde_ffi_dispatcher_primary_impl c run (fst (ssh_dart_call b call)) (snd (ssh_dart_call b call)) = Some (run call) \<and>
    (type_of_ssh_reply x = ssh_returns call \<and> ssh_reply_ok x \<longrightarrow>
      dart_receive fr (ssh_dart_success b call) (ssh_dart_error b call) (fr_success fr (ssh_encode_reply c x)) =
        Some (Ok (shown_ssh_reply x))) \<and>
    (ssh_fallible call \<and> str_ok (dbg e) \<longrightarrow>
      dart_receive fr (ssh_dart_success b call) (ssh_dart_error b call) (fr_error fr (sse_encode_error c dbg e)) =
        Some (Err (drop_bom (dbg e))))"
  using assms
  by (simp add: ssh_call_delivered dart_receive_def frames_ok_def ssh_reply_decoded ssh_fallible_dart sse_encode_error_def
      to_dart)

lemma demo_ssh_call_ok: "ssh_call_ok (Api_exec_on_profile inner_profile ''ls'' None)"
  by (simp add: ssh_call_ok_def inner_profile_def gate_profile_def str_ok_ascii char_byte_def)

theorem ssh_calls_cross_the_bridge_witness:
  "pde_ffi_dispatcher_primary_impl le_cursor id (fst (ssh_dart_call le_buffer (Api_exec_on_profile inner_profile ''ls'' None)))
      (snd (ssh_dart_call le_buffer (Api_exec_on_profile inner_profile ''ls'' None))) =
      Some (Api_exec_on_profile inner_profile ''ls'' None) \<and>
    dart_receive tag_frames (ssh_dart_success le_buffer (Api_exec_on_profile inner_profile ''ls'' None))
      (ssh_dart_error le_buffer (Api_exec_on_profile inner_profile ''ls'' None))
      (fr_success tag_frames (ssh_encode_reply le_cursor (Ssh_string_reply (byte_order_mark @ ''out'')))) =
      Some (Ok (Ssh_string_reply ''out'')) \<and>
    dart_receive tag_frames (ssh_dart_success le_buffer (Api_exec_on_profile inner_profile ''ls'' None))
      (ssh_dart_error le_buffer (Api_exec_on_profile inner_profile ''ls'' None))
      (fr_error tag_frames (sse_encode_error le_cursor id ''refused'')) = Some (Err ''refused'')"
proof -
  have "utf8_valid (str_bytes (byte_order_mark @ ''out''))" "drop_bom ''refused'' = ''refused''"
    by code_simp+
  moreover from this(1) have "str_ok (byte_order_mark @ ''out'')" by (simp add: str_ok_def byte_order_mark_def)
  ultimately show ?thesis
    using ssh_calls_cross_the_bridge [OF le_buffers(1,2) tag_frames_ok demo_ssh_call_ok, where run = id and dbg = id
        and e = "''refused''" and x = "Ssh_string_reply (byte_order_mark @ ''out'')"]
    by (simp add: ssh_fallible_def ssh_returns_def ssh_reply_ok_def drop_bom_mark str_ok_ascii char_byte_def)
qed

end
