(* ===== verification/Rdp_Bridge.thy ===== *)
theory Rdp_Bridge
  imports Sse_Codec Rdp_Sessions
begin

text \<open>
  The bridge between the Dart application and \<^verbatim>\<open>portix_rdp\<close>: \<^verbatim>\<open>frb_generated.rs\<close> of the crate and
  \<^verbatim>\<open>rust_rdp/frb_generated.dart\<close> of the application. Encoders and decoders of every type, one wire
  function per API function, the dispatcher, the Dart methods that call them, and what comes back.
\<close>

section \<open>Types in Rust\<close>

definition sse_decode_rdp_connection_status :: "rust_cursor \<Rightarrow> rdp_connection_status decoder" where
  "sse_decode_rdp_connection_status c =
     dec_bind (sse_decode_i32 c) (\<lambda>inner.
       if inner = 0 then dec_return RdpDisconnected
       else if inner = 1 then dec_return RdpConnecting
       else if inner = 2 then dec_return RdpConnected
       else if inner = 3 then dec_return RdpErrored
       else dec_panic)"

definition sse_encode_rdp_connection_status :: "rust_cursor \<Rightarrow> rdp_connection_status \<Rightarrow> bytes" where
  "sse_encode_rdp_connection_status c x =
     sse_encode_i32 c (case x of RdpDisconnected \<Rightarrow> 0 | RdpConnecting \<Rightarrow> 1 | RdpConnected \<Rightarrow> 2 | RdpErrored \<Rightarrow> 3)"

definition sse_decode_rdp_error_event :: "rust_cursor \<Rightarrow> rdp_error_event decoder" where
  "sse_decode_rdp_error_event c =
     dec_bind (sse_decode_option_string c) (\<lambda>session_id.
     dec_bind (sse_decode_string c) (\<lambda>message.
     dec_bind (sse_decode_string c) (\<lambda>code.
     dec_return \<lparr>rx_session_id = session_id, rx_message = message, rx_code = code\<rparr>)))"

definition sse_encode_rdp_error_event :: "rust_cursor \<Rightarrow> rdp_error_event \<Rightarrow> bytes" where
  "sse_encode_rdp_error_event c x =
     sse_encode_option_string c (rx_session_id x) @
     sse_encode_string c (rx_message x) @
     sse_encode_string c (rx_code x)"

definition sse_decode_rdp_frame_event :: "rust_cursor \<Rightarrow> rdp_frame_event decoder" where
  "sse_decode_rdp_frame_event c =
     dec_bind (sse_decode_string c) (\<lambda>session_id.
     dec_bind (sse_decode_vec_u8 c) (\<lambda>data.
     dec_bind (sse_decode_u32 c) (\<lambda>width.
     dec_bind (sse_decode_u32 c) (\<lambda>height.
     dec_bind (sse_decode_u32 c) (\<lambda>x.
     dec_bind (sse_decode_u32 c) (\<lambda>y.
     dec_bind (sse_decode_u64 c) (\<lambda>frame_id.
     dec_return \<lparr>rf_session_id = session_id, rf_data = data, rf_width = width, rf_height = height, rf_x = x,
        rf_y = y, rf_frame_id = frame_id\<rparr>)))))))"

definition sse_encode_rdp_frame_event :: "rust_cursor \<Rightarrow> rdp_frame_event \<Rightarrow> bytes" where
  "sse_encode_rdp_frame_event c x =
     sse_encode_string c (rf_session_id x) @
     sse_encode_vec_u8 c (rf_data x) @
     sse_encode_u32 c (rf_width x) @
     sse_encode_u32 c (rf_height x) @
     sse_encode_u32 c (rf_x x) @
     sse_encode_u32 c (rf_y x) @
     sse_encode_u64 c (rf_frame_id x)"

definition sse_decode_rdp_profile :: "rust_cursor \<Rightarrow> rdp_profile decoder" where
  "sse_decode_rdp_profile c =
     dec_bind (sse_decode_string c) (\<lambda>ident.
     dec_bind (sse_decode_string c) (\<lambda>name.
     dec_bind (sse_decode_string c) (\<lambda>host.
     dec_bind (sse_decode_u16 c) (\<lambda>port.
     dec_bind (sse_decode_string c) (\<lambda>username.
     dec_bind (sse_decode_option_string c) (\<lambda>password.
     dec_bind (sse_decode_option_string c) (\<lambda>domain.
     dec_bind (sse_decode_u16 c) (\<lambda>desktop_width.
     dec_bind (sse_decode_u16 c) (\<lambda>desktop_height.
     dec_bind (sse_decode_bool c) (\<lambda>full_screen.
     dec_bind (sse_decode_bool c) (\<lambda>enable_cred_ssp.
     dec_bind (sse_decode_option_string c) (\<lambda>alternate_shell.
     dec_bind (sse_decode_option_string c) (\<lambda>source_rdp_content.
     dec_bind (sse_decode_option_string c) (\<lambda>passthru_username.
     dec_bind (sse_decode_bool c) (\<lambda>redirect_drives.
     dec_bind (sse_decode_bool c) (\<lambda>redirect_clipboard.
     dec_bind (sse_decode_option_string c) (\<lambda>local_share_path.
     dec_bind (sse_decode_string c) (\<lambda>local_share_name.
     dec_return \<lparr>rp_id = ident, rp_name = name, rp_host = host, rp_port = port, rp_username = username,
        rp_password = password, rp_domain = domain, rp_desktop_width = desktop_width,
        rp_desktop_height = desktop_height, rp_full_screen = full_screen,
        rp_enable_cred_ssp = enable_cred_ssp, rp_alternate_shell = alternate_shell,
        rp_source_rdp_content = source_rdp_content, rp_passthru_username = passthru_username,
        rp_redirect_drives = redirect_drives, rp_redirect_clipboard = redirect_clipboard,
        rp_local_share_path = local_share_path, rp_local_share_name = local_share_name\<rparr>))))))))))))))))))"

definition sse_encode_rdp_profile :: "rust_cursor \<Rightarrow> rdp_profile \<Rightarrow> bytes" where
  "sse_encode_rdp_profile c x =
     sse_encode_string c (rp_id x) @
     sse_encode_string c (rp_name x) @
     sse_encode_string c (rp_host x) @
     sse_encode_u16 c (rp_port x) @
     sse_encode_string c (rp_username x) @
     sse_encode_option_string c (rp_password x) @
     sse_encode_option_string c (rp_domain x) @
     sse_encode_u16 c (rp_desktop_width x) @
     sse_encode_u16 c (rp_desktop_height x) @
     sse_encode_bool c (rp_full_screen x) @
     sse_encode_bool c (rp_enable_cred_ssp x) @
     sse_encode_option_string c (rp_alternate_shell x) @
     sse_encode_option_string c (rp_source_rdp_content x) @
     sse_encode_option_string c (rp_passthru_username x) @
     sse_encode_bool c (rp_redirect_drives x) @
     sse_encode_bool c (rp_redirect_clipboard x) @
     sse_encode_option_string c (rp_local_share_path x) @
     sse_encode_string c (rp_local_share_name x)"

definition sse_decode_rdp_session_info :: "rust_cursor \<Rightarrow> rdp_session_info decoder" where
  "sse_decode_rdp_session_info c =
     dec_bind (sse_decode_string c) (\<lambda>ident.
     dec_bind (sse_decode_string c) (\<lambda>profile_id.
     dec_bind (sse_decode_rdp_connection_status c) (\<lambda>status.
     dec_return \<lparr>ri_id = ident, ri_profile_id = profile_id, ri_status = status\<rparr>)))"

definition sse_encode_rdp_session_info :: "rust_cursor \<Rightarrow> rdp_session_info \<Rightarrow> bytes" where
  "sse_encode_rdp_session_info c x =
     sse_encode_string c (ri_id x) @
     sse_encode_string c (ri_profile_id x) @
     sse_encode_rdp_connection_status c (ri_status x)"

definition sse_decode_rdp_status_event :: "rust_cursor \<Rightarrow> rdp_status_event decoder" where
  "sse_decode_rdp_status_event c =
     dec_bind (sse_decode_string c) (\<lambda>session_id.
     dec_bind (sse_decode_rdp_connection_status c) (\<lambda>status.
     dec_bind (sse_decode_option_string c) (\<lambda>message.
     dec_return \<lparr>re_session_id = session_id, re_status = status, re_message = message\<rparr>)))"

definition sse_encode_rdp_status_event :: "rust_cursor \<Rightarrow> rdp_status_event \<Rightarrow> bytes" where
  "sse_encode_rdp_status_event c x =
     sse_encode_string c (re_session_id x) @
     sse_encode_rdp_connection_status c (re_status x) @
     sse_encode_option_string c (re_message x)"

section \<open>Types in Dart\<close>

definition dart_decode_rdp_connection_status :: "dart_buffer \<Rightarrow> rdp_connection_status decoder" where
  "dart_decode_rdp_connection_status b =
     dec_bind (dart_decode_i_32 b) (\<lambda>inner.
       let values = [RdpDisconnected, RdpConnecting, RdpConnected, RdpErrored] in
       if 0 \<le> sint inner \<and> sint inner < int (length values) then dec_return (values ! nat (sint inner)) else dec_panic)"

definition dart_decode_rdp_session_info :: "dart_buffer \<Rightarrow> rdp_session_info decoder" where
  "dart_decode_rdp_session_info b =
     dec_bind (dart_decode_String b) (\<lambda>ident.
     dec_bind (dart_decode_String b) (\<lambda>profile_id.
     dec_bind (dart_decode_rdp_connection_status b) (\<lambda>status.
     dec_return \<lparr>ri_id = ident, ri_profile_id = profile_id, ri_status = status\<rparr>)))"

definition dart_decode_rdp_error_event :: "dart_buffer \<Rightarrow> rdp_error_event decoder" where
  "dart_decode_rdp_error_event b =
     dec_bind (dart_decode_opt_String b) (\<lambda>session_id.
     dec_bind (dart_decode_String b) (\<lambda>message.
     dec_bind (dart_decode_String b) (\<lambda>code.
     dec_return \<lparr>rx_session_id = session_id, rx_message = message, rx_code = code\<rparr>)))"

definition dart_decode_rdp_frame_event :: "dart_buffer \<Rightarrow> rdp_frame_event decoder" where
  "dart_decode_rdp_frame_event b =
     dec_bind (dart_decode_String b) (\<lambda>session_id.
     dec_bind (dart_decode_list_prim_u_8 b) (\<lambda>data.
     dec_bind (dart_decode_u_32 b) (\<lambda>width.
     dec_bind (dart_decode_u_32 b) (\<lambda>height.
     dec_bind (dart_decode_u_32 b) (\<lambda>x.
     dec_bind (dart_decode_u_32 b) (\<lambda>y.
     dec_bind (dart_decode_u_64 b) (\<lambda>frame_id.
     dec_return \<lparr>rf_session_id = session_id, rf_data = data, rf_width = width, rf_height = height, rf_x = x,
        rf_y = y, rf_frame_id = frame_id\<rparr>)))))))"

definition dart_decode_rdp_status_event :: "dart_buffer \<Rightarrow> rdp_status_event decoder" where
  "dart_decode_rdp_status_event b =
     dec_bind (dart_decode_String b) (\<lambda>session_id.
     dec_bind (dart_decode_rdp_connection_status b) (\<lambda>status.
     dec_bind (dart_decode_opt_String b) (\<lambda>message.
     dec_return \<lparr>re_session_id = session_id, re_status = status, re_message = message\<rparr>)))"

definition dart_encode_rdp_profile :: "dart_buffer \<Rightarrow> rdp_profile \<Rightarrow> bytes" where
  "dart_encode_rdp_profile b x =
     dart_encode_String b (rp_id x) @
     dart_encode_String b (rp_name x) @
     dart_encode_String b (rp_host x) @
     dart_encode_u_16 b (rp_port x) @
     dart_encode_String b (rp_username x) @
     dart_encode_opt_String b (rp_password x) @
     dart_encode_opt_String b (rp_domain x) @
     dart_encode_u_16 b (rp_desktop_width x) @
     dart_encode_u_16 b (rp_desktop_height x) @
     dart_encode_bool b (rp_full_screen x) @
     dart_encode_bool b (rp_enable_cred_ssp x) @
     dart_encode_opt_String b (rp_alternate_shell x) @
     dart_encode_opt_String b (rp_source_rdp_content x) @
     dart_encode_opt_String b (rp_passthru_username x) @
     dart_encode_bool b (rp_redirect_drives x) @
     dart_encode_bool b (rp_redirect_clipboard x) @
     dart_encode_opt_String b (rp_local_share_path x) @
     dart_encode_String b (rp_local_share_name x)"

text \<open>The values that cross unharmed.\<close>

definition rdp_error_event_ok :: "rdp_error_event \<Rightarrow> bool" where
  "rdp_error_event_ok x \<longleftrightarrow>
     pred_option str_ok (rx_session_id x) \<and>
     str_ok (rx_message x) \<and>
     str_ok (rx_code x)"

definition rdp_frame_event_ok :: "rdp_frame_event \<Rightarrow> bool" where
  "rdp_frame_event_ok x \<longleftrightarrow>
     str_ok (rf_session_id x) \<and>
     bytes_ok (rf_data x)"

definition rdp_profile_ok :: "rdp_profile \<Rightarrow> bool" where
  "rdp_profile_ok x \<longleftrightarrow>
     str_ok (rp_id x) \<and>
     str_ok (rp_name x) \<and>
     str_ok (rp_host x) \<and>
     str_ok (rp_username x) \<and>
     pred_option str_ok (rp_password x) \<and>
     pred_option str_ok (rp_domain x) \<and>
     pred_option str_ok (rp_alternate_shell x) \<and>
     pred_option str_ok (rp_source_rdp_content x) \<and>
     pred_option str_ok (rp_passthru_username x) \<and>
     pred_option str_ok (rp_local_share_path x) \<and>
     str_ok (rp_local_share_name x)"

definition rdp_session_info_ok :: "rdp_session_info \<Rightarrow> bool" where
  "rdp_session_info_ok x \<longleftrightarrow>
     str_ok (ri_id x) \<and>
     str_ok (ri_profile_id x)"

definition rdp_status_event_ok :: "rdp_status_event \<Rightarrow> bool" where
  "rdp_status_event_ok x \<longleftrightarrow>
     str_ok (re_session_id x) \<and>
     pred_option str_ok (re_message x)"

text \<open>What Dart makes of them: every string without a byte order mark at its start.\<close>

definition shown_rdp_error_event :: "rdp_error_event \<Rightarrow> rdp_error_event" where
  "shown_rdp_error_event x =
     \<lparr>rx_session_id = map_option drop_bom (rx_session_id x), rx_message = drop_bom (rx_message x),
        rx_code = drop_bom (rx_code x)\<rparr>"

definition shown_rdp_frame_event :: "rdp_frame_event \<Rightarrow> rdp_frame_event" where
  "shown_rdp_frame_event x =
     \<lparr>rf_session_id = drop_bom (rf_session_id x), rf_data = rf_data x, rf_width = rf_width x,
        rf_height = rf_height x, rf_x = rf_x x, rf_y = rf_y x, rf_frame_id = rf_frame_id x\<rparr>"

definition shown_rdp_session_info :: "rdp_session_info \<Rightarrow> rdp_session_info" where
  "shown_rdp_session_info x =
     \<lparr>ri_id = drop_bom (ri_id x), ri_profile_id = drop_bom (ri_profile_id x), ri_status = ri_status x\<rparr>"

definition shown_rdp_status_event :: "rdp_status_event \<Rightarrow> rdp_status_event" where
  "shown_rdp_status_event x =
     \<lparr>re_session_id = drop_bom (re_session_id x), re_status = re_status x,
        re_message = map_option drop_bom (re_message x)\<rparr>"

section \<open>Calls and replies\<close>

datatype rdp_api_call =
    Api_init_rdp_app
  | Api_rdp_connect rdp_profile
  | Api_rdp_disconnect string
  | Api_rdp_error_stream string
  | Api_rdp_frame_stream string
  | Api_rdp_parse_file string "string option"
  | Api_rdp_send_keyboard_input string u16 bool
  | Api_rdp_send_mouse_button string u16 u16 u8 bool
  | Api_rdp_send_mouse_move string u16 u16
  | Api_rdp_send_mouse_wheel string u16 u16 i16 bool
  | Api_rdp_status_stream string

definition wire__crate__api__init_rdp_app_impl :: "rust_cursor \<Rightarrow> (rdp_api_call \<Rightarrow> 'a) \<Rightarrow> bytes \<Rightarrow> 'a option" where
  "wire__crate__api__init_rdp_app_impl c run = wire_call c run (
     dec_return Api_init_rdp_app)"

definition wire__crate__api__rdp_connect_impl :: "rust_cursor \<Rightarrow> (rdp_api_call \<Rightarrow> 'a) \<Rightarrow> bytes \<Rightarrow> 'a option" where
  "wire__crate__api__rdp_connect_impl c run = wire_call c run (
     dec_bind (sse_decode_rdp_profile c) (\<lambda>api_profile.
     dec_return (Api_rdp_connect api_profile)))"

definition wire__crate__api__rdp_disconnect_impl :: "rust_cursor \<Rightarrow> (rdp_api_call \<Rightarrow> 'a) \<Rightarrow> bytes \<Rightarrow> 'a option" where
  "wire__crate__api__rdp_disconnect_impl c run = wire_call c run (
     dec_bind (sse_decode_string c) (\<lambda>api_session_id.
     dec_return (Api_rdp_disconnect api_session_id)))"

definition wire__crate__api__rdp_error_stream_impl :: "rust_cursor \<Rightarrow> (rdp_api_call \<Rightarrow> 'a) \<Rightarrow> bytes \<Rightarrow> 'a option" where
  "wire__crate__api__rdp_error_stream_impl c run = wire_call c run (
     dec_bind (sse_decode_stream_sink c id) (\<lambda>api_sink.
     dec_return (Api_rdp_error_stream api_sink)))"

definition wire__crate__api__rdp_frame_stream_impl :: "rust_cursor \<Rightarrow> (rdp_api_call \<Rightarrow> 'a) \<Rightarrow> bytes \<Rightarrow> 'a option" where
  "wire__crate__api__rdp_frame_stream_impl c run = wire_call c run (
     dec_bind (sse_decode_stream_sink c id) (\<lambda>api_sink.
     dec_return (Api_rdp_frame_stream api_sink)))"

definition wire__crate__api__rdp_parse_file_impl :: "rust_cursor \<Rightarrow> (rdp_api_call \<Rightarrow> 'a) \<Rightarrow> bytes \<Rightarrow> 'a option" where
  "wire__crate__api__rdp_parse_file_impl c run = wire_call c run (
     dec_bind (sse_decode_string c) (\<lambda>api_rdp_content.
     dec_bind (sse_decode_option_string c) (\<lambda>api_profile_name.
     dec_return (Api_rdp_parse_file api_rdp_content api_profile_name))))"

definition wire__crate__api__rdp_send_keyboard_input_impl :: "rust_cursor \<Rightarrow> (rdp_api_call \<Rightarrow> 'a) \<Rightarrow> bytes \<Rightarrow> 'a option" where
  "wire__crate__api__rdp_send_keyboard_input_impl c run = wire_call c run (
     dec_bind (sse_decode_string c) (\<lambda>api_session_id.
     dec_bind (sse_decode_u16 c) (\<lambda>api_scancode.
     dec_bind (sse_decode_bool c) (\<lambda>api_down.
     dec_return (Api_rdp_send_keyboard_input api_session_id api_scancode api_down)))))"

definition wire__crate__api__rdp_send_mouse_button_impl :: "rust_cursor \<Rightarrow> (rdp_api_call \<Rightarrow> 'a) \<Rightarrow> bytes \<Rightarrow> 'a option" where
  "wire__crate__api__rdp_send_mouse_button_impl c run = wire_call c run (
     dec_bind (sse_decode_string c) (\<lambda>api_session_id.
     dec_bind (sse_decode_u16 c) (\<lambda>api_x.
     dec_bind (sse_decode_u16 c) (\<lambda>api_y.
     dec_bind (sse_decode_u8 c) (\<lambda>api_button.
     dec_bind (sse_decode_bool c) (\<lambda>api_down.
     dec_return (Api_rdp_send_mouse_button api_session_id api_x api_y api_button api_down)))))))"

definition wire__crate__api__rdp_send_mouse_move_impl :: "rust_cursor \<Rightarrow> (rdp_api_call \<Rightarrow> 'a) \<Rightarrow> bytes \<Rightarrow> 'a option" where
  "wire__crate__api__rdp_send_mouse_move_impl c run = wire_call c run (
     dec_bind (sse_decode_string c) (\<lambda>api_session_id.
     dec_bind (sse_decode_u16 c) (\<lambda>api_x.
     dec_bind (sse_decode_u16 c) (\<lambda>api_y.
     dec_return (Api_rdp_send_mouse_move api_session_id api_x api_y)))))"

definition wire__crate__api__rdp_send_mouse_wheel_impl :: "rust_cursor \<Rightarrow> (rdp_api_call \<Rightarrow> 'a) \<Rightarrow> bytes \<Rightarrow> 'a option" where
  "wire__crate__api__rdp_send_mouse_wheel_impl c run = wire_call c run (
     dec_bind (sse_decode_string c) (\<lambda>api_session_id.
     dec_bind (sse_decode_u16 c) (\<lambda>api_x.
     dec_bind (sse_decode_u16 c) (\<lambda>api_y.
     dec_bind (sse_decode_i16 c) (\<lambda>api_delta.
     dec_bind (sse_decode_bool c) (\<lambda>api_is_vertical.
     dec_return (Api_rdp_send_mouse_wheel api_session_id api_x api_y api_delta api_is_vertical)))))))"

definition wire__crate__api__rdp_status_stream_impl :: "rust_cursor \<Rightarrow> (rdp_api_call \<Rightarrow> 'a) \<Rightarrow> bytes \<Rightarrow> 'a option" where
  "wire__crate__api__rdp_status_stream_impl c run = wire_call c run (
     dec_bind (sse_decode_stream_sink c id) (\<lambda>api_sink.
     dec_return (Api_rdp_status_stream api_sink)))"

definition pde_ffi_dispatcher_primary_impl :: "rust_cursor \<Rightarrow> (rdp_api_call \<Rightarrow> 'a) \<Rightarrow> int \<Rightarrow> bytes \<Rightarrow> 'a option" where
  "pde_ffi_dispatcher_primary_impl c run func_id message =
    (if func_id = 1 then wire__crate__api__init_rdp_app_impl c run message
     else if func_id = 2 then wire__crate__api__rdp_connect_impl c run message
     else if func_id = 3 then wire__crate__api__rdp_disconnect_impl c run message
     else if func_id = 4 then wire__crate__api__rdp_error_stream_impl c run message
     else if func_id = 5 then wire__crate__api__rdp_frame_stream_impl c run message
     else if func_id = 6 then wire__crate__api__rdp_parse_file_impl c run message
     else if func_id = 7 then wire__crate__api__rdp_send_keyboard_input_impl c run message
     else if func_id = 8 then wire__crate__api__rdp_send_mouse_button_impl c run message
     else if func_id = 9 then wire__crate__api__rdp_send_mouse_move_impl c run message
     else if func_id = 10 then wire__crate__api__rdp_send_mouse_wheel_impl c run message
     else if func_id = 11 then wire__crate__api__rdp_status_stream_impl c run message
     else None)"

fun rdp_dart_call :: "dart_buffer \<Rightarrow> rdp_api_call \<Rightarrow> int \<times> bytes" where
  "rdp_dart_call b Api_init_rdp_app = (1, [])"
| "rdp_dart_call b (Api_rdp_connect profile) = (2, dart_encode_rdp_profile b profile)"
| "rdp_dart_call b (Api_rdp_disconnect session_id) = (3, dart_encode_String b session_id)"
| "rdp_dart_call b (Api_rdp_error_stream sink) = (4, dart_encode_String b sink)"
| "rdp_dart_call b (Api_rdp_frame_stream sink) = (5, dart_encode_String b sink)"
| "rdp_dart_call b (Api_rdp_parse_file rdp_content profile_name) =
     (6, dart_encode_String b rdp_content @
      dart_encode_opt_String b profile_name)"
| "rdp_dart_call b (Api_rdp_send_keyboard_input session_id scancode down) =
     (7, dart_encode_String b session_id @
      dart_encode_u_16 b scancode @
      dart_encode_bool b down)"
| "rdp_dart_call b (Api_rdp_send_mouse_button session_id x y button down) =
     (8, dart_encode_String b session_id @
      dart_encode_u_16 b x @
      dart_encode_u_16 b y @
      dart_encode_u_8 b button @
      dart_encode_bool b down)"
| "rdp_dart_call b (Api_rdp_send_mouse_move session_id x y) =
     (9, dart_encode_String b session_id @
      dart_encode_u_16 b x @
      dart_encode_u_16 b y)"
| "rdp_dart_call b (Api_rdp_send_mouse_wheel session_id x y delta is_vertical) =
     (10, dart_encode_String b session_id @
      dart_encode_u_16 b x @
      dart_encode_u_16 b y @
      dart_encode_i_16 b delta @
      dart_encode_bool b is_vertical)"
| "rdp_dart_call b (Api_rdp_status_stream sink) = (11, dart_encode_String b sink)"

datatype rdp_reply =
    Rdp_unit_reply
  | Rdp_session_info_reply rdp_session_info

fun rdp_encode_reply :: "rust_cursor \<Rightarrow> rdp_reply \<Rightarrow> bytes" where
  "rdp_encode_reply c Rdp_unit_reply = sse_encode_unit c ()"
| "rdp_encode_reply c (Rdp_session_info_reply x) = sse_encode_rdp_session_info c x"

datatype rdp_reply_type = Rdp_unit_type | Rdp_session_info_type

fun type_of_rdp_reply :: "rdp_reply \<Rightarrow> rdp_reply_type" where
  "type_of_rdp_reply Rdp_unit_reply = Rdp_unit_type"
| "type_of_rdp_reply (Rdp_session_info_reply _) = Rdp_session_info_type"

definition rdp_returns :: "rdp_api_call \<Rightarrow> rdp_reply_type" where
  "rdp_returns call =
     (case call of
        Api_init_rdp_app \<Rightarrow> Rdp_unit_type
      | Api_rdp_connect _ \<Rightarrow> Rdp_session_info_type
      | Api_rdp_disconnect _ \<Rightarrow> Rdp_unit_type
      | Api_rdp_error_stream _ \<Rightarrow> Rdp_unit_type
      | Api_rdp_frame_stream _ \<Rightarrow> Rdp_unit_type
      | Api_rdp_parse_file _ _ \<Rightarrow> Rdp_session_info_type
      | Api_rdp_send_keyboard_input _ _ _ \<Rightarrow> Rdp_unit_type
      | Api_rdp_send_mouse_button _ _ _ _ _ \<Rightarrow> Rdp_unit_type
      | Api_rdp_send_mouse_move _ _ _ \<Rightarrow> Rdp_unit_type
      | Api_rdp_send_mouse_wheel _ _ _ _ _ \<Rightarrow> Rdp_unit_type
      | Api_rdp_status_stream _ \<Rightarrow> Rdp_unit_type)"

definition rdp_fallible :: "rdp_api_call \<Rightarrow> bool" where
  "rdp_fallible call \<longleftrightarrow>
     (case call of
        Api_init_rdp_app \<Rightarrow> False
      | Api_rdp_connect _ \<Rightarrow> True
      | Api_rdp_disconnect _ \<Rightarrow> True
      | Api_rdp_error_stream _ \<Rightarrow> True
      | Api_rdp_frame_stream _ \<Rightarrow> True
      | Api_rdp_parse_file _ _ \<Rightarrow> True
      | Api_rdp_send_keyboard_input _ _ _ \<Rightarrow> True
      | Api_rdp_send_mouse_button _ _ _ _ _ \<Rightarrow> True
      | Api_rdp_send_mouse_move _ _ _ \<Rightarrow> True
      | Api_rdp_send_mouse_wheel _ _ _ _ _ \<Rightarrow> True
      | Api_rdp_status_stream _ \<Rightarrow> True)"

definition rdp_dart_success :: "dart_buffer \<Rightarrow> rdp_api_call \<Rightarrow> rdp_reply decoder" where
  "rdp_dart_success b call =
     (case call of
        Api_init_rdp_app \<Rightarrow> dec_map (\<lambda>_. Rdp_unit_reply) (dart_decode_unit b)
      | Api_rdp_connect _ \<Rightarrow> dec_map Rdp_session_info_reply (dart_decode_rdp_session_info b)
      | Api_rdp_disconnect _ \<Rightarrow> dec_map (\<lambda>_. Rdp_unit_reply) (dart_decode_unit b)
      | Api_rdp_error_stream _ \<Rightarrow> dec_map (\<lambda>_. Rdp_unit_reply) (dart_decode_unit b)
      | Api_rdp_frame_stream _ \<Rightarrow> dec_map (\<lambda>_. Rdp_unit_reply) (dart_decode_unit b)
      | Api_rdp_parse_file _ _ \<Rightarrow> dec_map Rdp_session_info_reply (dart_decode_rdp_session_info b)
      | Api_rdp_send_keyboard_input _ _ _ \<Rightarrow> dec_map (\<lambda>_. Rdp_unit_reply) (dart_decode_unit b)
      | Api_rdp_send_mouse_button _ _ _ _ _ \<Rightarrow> dec_map (\<lambda>_. Rdp_unit_reply) (dart_decode_unit b)
      | Api_rdp_send_mouse_move _ _ _ \<Rightarrow> dec_map (\<lambda>_. Rdp_unit_reply) (dart_decode_unit b)
      | Api_rdp_send_mouse_wheel _ _ _ _ _ \<Rightarrow> dec_map (\<lambda>_. Rdp_unit_reply) (dart_decode_unit b)
      | Api_rdp_status_stream _ \<Rightarrow> dec_map (\<lambda>_. Rdp_unit_reply) (dart_decode_unit b))"

definition rdp_dart_error :: "dart_buffer \<Rightarrow> rdp_api_call \<Rightarrow> string decoder option" where
  "rdp_dart_error b call =
     (case call of
        Api_init_rdp_app \<Rightarrow> None
      | Api_rdp_connect _ \<Rightarrow> Some (dart_decode_String b)
      | Api_rdp_disconnect _ \<Rightarrow> Some (dart_decode_String b)
      | Api_rdp_error_stream _ \<Rightarrow> Some (dart_decode_String b)
      | Api_rdp_frame_stream _ \<Rightarrow> Some (dart_decode_String b)
      | Api_rdp_parse_file _ _ \<Rightarrow> Some (dart_decode_String b)
      | Api_rdp_send_keyboard_input _ _ _ \<Rightarrow> Some (dart_decode_String b)
      | Api_rdp_send_mouse_button _ _ _ _ _ \<Rightarrow> Some (dart_decode_String b)
      | Api_rdp_send_mouse_move _ _ _ \<Rightarrow> Some (dart_decode_String b)
      | Api_rdp_send_mouse_wheel _ _ _ _ _ \<Rightarrow> Some (dart_decode_String b)
      | Api_rdp_status_stream _ \<Rightarrow> Some (dart_decode_String b))"

definition rdp_call_ok :: "rdp_api_call \<Rightarrow> bool" where
  "rdp_call_ok call \<longleftrightarrow>
     (case call of
        Api_init_rdp_app \<Rightarrow> True
      | Api_rdp_connect profile \<Rightarrow> rdp_profile_ok profile
      | Api_rdp_disconnect session_id \<Rightarrow> str_ok session_id
      | Api_rdp_error_stream sink \<Rightarrow> str_ok sink
      | Api_rdp_frame_stream sink \<Rightarrow> str_ok sink
      | Api_rdp_parse_file rdp_content profile_name \<Rightarrow> str_ok rdp_content \<and> pred_option str_ok profile_name
      | Api_rdp_send_keyboard_input session_id _ _ \<Rightarrow> str_ok session_id
      | Api_rdp_send_mouse_button session_id _ _ _ _ \<Rightarrow> str_ok session_id
      | Api_rdp_send_mouse_move session_id _ _ \<Rightarrow> str_ok session_id
      | Api_rdp_send_mouse_wheel session_id _ _ _ _ \<Rightarrow> str_ok session_id
      | Api_rdp_status_stream sink \<Rightarrow> str_ok sink)"

text \<open>What Dart shows of a result: every string without a byte order mark at its start.\<close>

fun shown_rdp_reply :: "rdp_reply \<Rightarrow> rdp_reply" where
  "shown_rdp_reply Rdp_unit_reply = Rdp_unit_reply"
| "shown_rdp_reply (Rdp_session_info_reply x) = Rdp_session_info_reply (shown_rdp_session_info x)"

definition rdp_reply_ok :: "rdp_reply \<Rightarrow> bool" where
  "rdp_reply_ok r \<longleftrightarrow>
     (case r of
        Rdp_unit_reply \<Rightarrow> True
      | Rdp_session_info_reply x \<Rightarrow> rdp_session_info_ok x)"

text \<open>
  The functions of \<^verbatim>\<open>api.rs\<close> behind the calls. A stream call subscribes to the events, spawns a task that
  forwards them to the sink, and returns at once: the reply is modelled, the subscription is not.
  \<^verbatim>\<open>init_rdp_app\<close> sets up logging. \<open>fresh\<close> is the identifier a new session would get.
\<close>

fun rdp_api :: "(string \<Rightarrow> string) \<Rightarrow> string \<Rightarrow> rdp_api_call \<Rightarrow> (rdp_manager, rdp_error, rdp_reply) io" where
  "rdp_api uni fresh Api_init_rdp_app = io_ok Rdp_unit_reply"
| "rdp_api uni fresh (Api_rdp_connect profile) =
     io_bind (api_rdp_connect fresh profile) (\<lambda>info. io_ok (Rdp_session_info_reply info))"
| "rdp_api uni fresh (Api_rdp_disconnect session_id) =
     io_bind (api_rdp_disconnect session_id) (\<lambda>_. io_ok Rdp_unit_reply)"
| "rdp_api uni fresh (Api_rdp_error_stream sink) = io_ok Rdp_unit_reply"
| "rdp_api uni fresh (Api_rdp_frame_stream sink) = io_ok Rdp_unit_reply"
| "rdp_api uni fresh (Api_rdp_parse_file rdp_content profile_name) =
     io_bind (io_of (rdp_parse_file uni fresh rdp_content profile_name)) (\<lambda>info. io_ok (Rdp_session_info_reply info))"
| "rdp_api uni fresh (Api_rdp_send_keyboard_input session_id scancode down) =
     io_bind (rdp_send_keyboard_input session_id scancode down) (\<lambda>_. io_ok Rdp_unit_reply)"
| "rdp_api uni fresh (Api_rdp_send_mouse_button session_id x y button down) =
     io_bind (rdp_send_mouse_button session_id x y button down) (\<lambda>_. io_ok Rdp_unit_reply)"
| "rdp_api uni fresh (Api_rdp_send_mouse_move session_id x y) =
     io_bind (rdp_send_mouse_move session_id x y) (\<lambda>_. io_ok Rdp_unit_reply)"
| "rdp_api uni fresh (Api_rdp_send_mouse_wheel session_id x y delta is_vertical) =
     io_bind (rdp_send_mouse_wheel session_id x y delta is_vertical) (\<lambda>_. io_ok Rdp_unit_reply)"
| "rdp_api uni fresh (Api_rdp_status_stream sink) = io_ok Rdp_unit_reply"


section \<open>Every type across the bridge\<close>

interpretation d2r_rdp_profile: wire_codec "dart_encode_rdp_profile b" "sse_decode_rdp_profile c" "\<lambda>x. dart_to_rust b c \<and> rdp_profile_ok x" for b c
  by unfold_locales (simp add: sse_decode_rdp_profile_def dart_encode_rdp_profile_def rdp_profile_ok_def decoder_simps to_rust)

declare d2r_rdp_profile.decodes [to_rust] d2r_rdp_profile.decodes_last [to_rust]

interpretation r2d_rdp_connection_status: wire_codec "sse_encode_rdp_connection_status c" "dart_decode_rdp_connection_status b" "\<lambda>x. rust_to_dart c b" for b c
  by unfold_locales (case_tac x; simp add: dart_decode_rdp_connection_status_def sse_encode_rdp_connection_status_def decoder_simps to_dart)

declare r2d_rdp_connection_status.decodes [to_dart] r2d_rdp_connection_status.decodes_last [to_dart]

interpretation r2d_rdp_error_event: wire_reader "sse_encode_rdp_error_event c" "dart_decode_rdp_error_event b" "\<lambda>x. rust_to_dart c b \<and> rdp_error_event_ok x" shown_rdp_error_event for b c
  by unfold_locales (simp add: dart_decode_rdp_error_event_def sse_encode_rdp_error_event_def rdp_error_event_ok_def shown_rdp_error_event_def decoder_simps to_dart)

declare r2d_rdp_error_event.reads [to_dart] r2d_rdp_error_event.reads_last [to_dart]

interpretation r2d_rdp_frame_event: wire_reader "sse_encode_rdp_frame_event c" "dart_decode_rdp_frame_event b" "\<lambda>x. rust_to_dart c b \<and> rdp_frame_event_ok x" shown_rdp_frame_event for b c
  by unfold_locales (simp add: dart_decode_rdp_frame_event_def sse_encode_rdp_frame_event_def rdp_frame_event_ok_def shown_rdp_frame_event_def decoder_simps to_dart)

declare r2d_rdp_frame_event.reads [to_dart] r2d_rdp_frame_event.reads_last [to_dart]

interpretation r2d_rdp_session_info: wire_reader "sse_encode_rdp_session_info c" "dart_decode_rdp_session_info b" "\<lambda>x. rust_to_dart c b \<and> rdp_session_info_ok x" shown_rdp_session_info for b c
  by unfold_locales (simp add: dart_decode_rdp_session_info_def sse_encode_rdp_session_info_def rdp_session_info_ok_def shown_rdp_session_info_def decoder_simps to_dart)

declare r2d_rdp_session_info.reads [to_dart] r2d_rdp_session_info.reads_last [to_dart]

interpretation r2d_rdp_status_event: wire_reader "sse_encode_rdp_status_event c" "dart_decode_rdp_status_event b" "\<lambda>x. rust_to_dart c b \<and> rdp_status_event_ok x" shown_rdp_status_event for b c
  by unfold_locales (simp add: dart_decode_rdp_status_event_def sse_encode_rdp_status_event_def rdp_status_event_ok_def shown_rdp_status_event_def decoder_simps to_dart)

declare r2d_rdp_status_event.reads [to_dart] r2d_rdp_status_event.reads_last [to_dart]

interpretation r2r_rdp_connection_status: wire_codec "sse_encode_rdp_connection_status c" "sse_decode_rdp_connection_status c" "\<lambda>x. rust_to_rust c" for c
  by unfold_locales (case_tac x; simp add: sse_decode_rdp_connection_status_def sse_encode_rdp_connection_status_def decoder_simps to_self)

declare r2r_rdp_connection_status.decodes [to_self] r2r_rdp_connection_status.decodes_last [to_self]

interpretation r2r_rdp_error_event: wire_codec "sse_encode_rdp_error_event c" "sse_decode_rdp_error_event c" "\<lambda>x. rust_to_rust c \<and> rdp_error_event_ok x" for c
  by unfold_locales (simp add: sse_decode_rdp_error_event_def sse_encode_rdp_error_event_def rdp_error_event_ok_def decoder_simps to_self)

declare r2r_rdp_error_event.decodes [to_self] r2r_rdp_error_event.decodes_last [to_self]

interpretation r2r_rdp_frame_event: wire_codec "sse_encode_rdp_frame_event c" "sse_decode_rdp_frame_event c" "\<lambda>x. rust_to_rust c \<and> rdp_frame_event_ok x" for c
  by unfold_locales (simp add: sse_decode_rdp_frame_event_def sse_encode_rdp_frame_event_def rdp_frame_event_ok_def decoder_simps to_self)

declare r2r_rdp_frame_event.decodes [to_self] r2r_rdp_frame_event.decodes_last [to_self]

interpretation r2r_rdp_profile: wire_codec "sse_encode_rdp_profile c" "sse_decode_rdp_profile c" "\<lambda>x. rust_to_rust c \<and> rdp_profile_ok x" for c
  by unfold_locales (simp add: sse_decode_rdp_profile_def sse_encode_rdp_profile_def rdp_profile_ok_def decoder_simps to_self)

declare r2r_rdp_profile.decodes [to_self] r2r_rdp_profile.decodes_last [to_self]

interpretation r2r_rdp_session_info: wire_codec "sse_encode_rdp_session_info c" "sse_decode_rdp_session_info c" "\<lambda>x. rust_to_rust c \<and> rdp_session_info_ok x" for c
  by unfold_locales (simp add: sse_decode_rdp_session_info_def sse_encode_rdp_session_info_def rdp_session_info_ok_def decoder_simps to_self)

declare r2r_rdp_session_info.decodes [to_self] r2r_rdp_session_info.decodes_last [to_self]

interpretation r2r_rdp_status_event: wire_codec "sse_encode_rdp_status_event c" "sse_decode_rdp_status_event c" "\<lambda>x. rust_to_rust c \<and> rdp_status_event_ok x" for c
  by unfold_locales (simp add: sse_decode_rdp_status_event_def sse_encode_rdp_status_event_def rdp_status_event_ok_def decoder_simps to_self)

declare r2r_rdp_status_event.decodes [to_self] r2r_rdp_status_event.decodes_last [to_self]

interpretation decoded_rdp_profile: typed_decoder "sse_decode_rdp_profile c" rdp_profile_ok for c
  by unfold_locales
     (auto simp: sse_decode_rdp_profile_def rdp_profile_ok_def decoder_simps bind_eq_Some_conv intro: decoded_ok)

declare decoded_rdp_profile.typed [decoded_ok]

lemmas rdp_wire_defs =
  wire__crate__api__init_rdp_app_impl_def
  wire__crate__api__rdp_connect_impl_def
  wire__crate__api__rdp_disconnect_impl_def
  wire__crate__api__rdp_error_stream_impl_def
  wire__crate__api__rdp_frame_stream_impl_def
  wire__crate__api__rdp_parse_file_impl_def
  wire__crate__api__rdp_send_keyboard_input_impl_def
  wire__crate__api__rdp_send_mouse_button_impl_def
  wire__crate__api__rdp_send_mouse_move_impl_def
  wire__crate__api__rdp_send_mouse_wheel_impl_def
  wire__crate__api__rdp_status_stream_impl_def

section \<open>Calls across the bridge\<close>

lemma rdp_call_delivered:
  assumes "dart_to_rust b c" "rdp_call_ok call"
  shows "pde_ffi_dispatcher_primary_impl c run (fst (rdp_dart_call b call)) (snd (rdp_dart_call b call)) = Some (run call)"
  using assms
  by (cases call)
     (simp_all add: pde_ffi_dispatcher_primary_impl_def rdp_wire_defs wire_call_def decoder_simps rdp_call_ok_def
       rc_end_Nil to_rust)

lemma rdp_dispatch_run:
  "pde_ffi_dispatcher_primary_impl c run func_id message =
     map_option run (pde_ffi_dispatcher_primary_impl c id func_id message)"
  by (simp add: pde_ffi_dispatcher_primary_impl_def rdp_wire_defs wire_call_run [where run = run])

lemma rdp_dispatch_known:
  "pde_ffi_dispatcher_primary_impl c run func_id message = Some x \<Longrightarrow> 1 \<le> func_id \<and> func_id \<le> 11"
  by (auto simp: pde_ffi_dispatcher_primary_impl_def split: if_splits)

lemma rdp_dispatch_typed:
  "pde_ffi_dispatcher_primary_impl c id func_id message = Some call \<Longrightarrow> rdp_call_ok call"
  by (auto simp: pde_ffi_dispatcher_primary_impl_def rdp_wire_defs wire_call_def decoder_simps bind_eq_Some_conv
      rdp_call_ok_def split: if_splits option.splits)
     (blast intro: decoded_ok)+

text \<open>The sessions in the table have well-formed descriptions, since they were made from well-formed profiles.\<close>

definition infos_ok :: "rdp_manager \<Rightarrow> bool" where
  "infos_ok m \<longleftrightarrow> (\<forall>sid i. rm_sessions m sid = Some i \<longrightarrow> rdp_session_info_ok i)"

lemma infos_ok_send: "infos_ok (snd (send_input sid cmd m)) = infos_ok m"
  by (auto simp: infos_ok_def send_input_def split: option.splits)

lemma infos_ok_connect:
  assumes "rdp_connect fresh p m = (r, m')" "infos_ok m" "str_ok fresh" "rdp_profile_ok p"
  shows "infos_ok m' \<and> (\<forall>i. r = Ok i \<longrightarrow> rdp_session_info_ok i)"
proof -
  have new: "rdp_session_info_ok (new_info fresh p)"
    using assms(3,4) by (simp add: rdp_session_info_ok_def rdp_profile_ok_def)
  with assms(1,2) show ?thesis
    by (auto simp: rdp_connect_def find_existing_def infos_ok_def split: sum.splits option.splits prod.splits if_splits)
qed

lemma rdp_api_typed:
  assumes "rdp_api uni fresh call m = (r, m')" "rdp_call_ok call" "str_ok fresh" "infos_ok m"
  shows "infos_ok m' \<and> (\<forall>x. r = Ok x \<longrightarrow> type_of_rdp_reply x = rdp_returns call \<and> rdp_reply_ok x) \<and>
    (\<forall>e. r = Err e \<longrightarrow> rdp_fallible call)"
proof -
  have sent: "infos_ok (snd (send_input sid cmd m))" for sid cmd using assms(4) by (simp add: infos_ok_send)
  have gone: "infos_ok (snd (rdp_disconnect sid m))" for sid
    using assms(4) by (auto simp: infos_ok_def rdp_disconnect_def split: option.splits if_splits)
  note api_defs = api_rdp_connect_def api_rdp_disconnect_def rdp_send_keyboard_input_def rdp_send_mouse_button_def
    rdp_send_mouse_move_def rdp_send_mouse_wheel_def send_keyboard_input_def send_mouse_button_def
    send_mouse_move_def send_mouse_wheel_def
  note kinds = rdp_returns_def rdp_reply_ok_def rdp_fallible_def
  show ?thesis
  proof (cases call)
    case (Api_rdp_connect p)
    then show ?thesis
      using assms infos_ok_connect [OF _ assms(4,3), of p]
      by (cases "rdp_connect fresh p m")
         (auto simp: kinds api_defs io_bind_def rdp_call_ok_def split: sum.splits)
  next
    case (Api_rdp_parse_file content name)
    then show ?thesis
      using assms
      by (auto simp: kinds io_bind_def rdp_parse_file_def parse_rdp_file_content_def and_then_def
          rdp_session_info_ok_def split: sum.splits prod.splits)
  next
    case (Api_rdp_disconnect sid)
    then show ?thesis
      using assms gone [of sid]
      by (cases "rdp_disconnect sid m") (auto simp: kinds api_defs io_bind_def split: sum.splits)
  next
    case (Api_rdp_send_keyboard_input sid k d)
    then show ?thesis
      using assms sent [of sid "KeyboardInput k d"]
      by (cases "send_input sid (KeyboardInput k d) m") (auto simp: kinds api_defs io_bind_def split: sum.splits)
  next
    case (Api_rdp_send_mouse_button sid x y k d)
    then show ?thesis
      using assms sent [of sid "MouseButton x y k d"]
      by (cases "send_input sid (MouseButton x y k d) m") (auto simp: kinds api_defs io_bind_def split: sum.splits)
  next
    case (Api_rdp_send_mouse_move sid x y)
    then show ?thesis
      using assms sent [of sid "MouseMove x y"]
      by (cases "send_input sid (MouseMove x y) m") (auto simp: kinds api_defs io_bind_def split: sum.splits)
  next
    case (Api_rdp_send_mouse_wheel sid x y z v)
    then show ?thesis
      using assms sent [of sid "MouseWheel x y z v"]
      by (cases "send_input sid (MouseWheel x y z v) m") (auto simp: kinds api_defs io_bind_def split: sum.splits)
  qed (use assms in \<open>auto simp: kinds\<close>)
qed

lemma rdp_reply_decoded:
  assumes "rust_to_dart c b" "type_of_rdp_reply x = rdp_returns call" "rdp_reply_ok x"
  shows "rdp_dart_success b call (rdp_encode_reply c x) = Some (shown_rdp_reply x, [])"
  using assms
  by (cases call; cases x) (simp_all add: rdp_dart_success_def rdp_returns_def rdp_reply_ok_def dec_map_def decoder_simps to_dart)

lemma rdp_fallible_dart: "rdp_fallible call \<Longrightarrow> rdp_dart_error b call = Some (dart_decode_String b)"
  by (cases call) (simp_all add: rdp_fallible_def rdp_dart_error_def)

section \<open>Properties\<close>

text \<open>
  C34: a call of the Dart application on the RDP crate arrives as made and its result comes back as
  returned, less a byte order mark at the start of a string. For well-formed arguments, the bytes
  Dart sends under its function number make Rust run that API function on those arguments, and from
  the reply Dart decodes the value or the error text of that function, with the state it left. Its
  decoder discards U+FEFF at the start of a string and nothing else: any other string is shown
  exactly. The sessions listed stay well-formed, so this holds from call to call.
\<close>

theorem rdp_calls_cross_the_bridge:
  assumes "dart_to_rust b c" "rust_to_dart c b" "frames_ok fr" "\<And>e. str_ok (dbg e)"
    and "rdp_call_ok call" "str_ok fresh" "infos_ok m"
    and "rdp_api uni fresh call m = (r, m')"
  shows "\<exists>reply. pde_ffi_dispatcher_primary_impl c
        (\<lambda>call. run_wire_call fr (sse_encode_error c dbg) (rdp_encode_reply c) (rdp_api uni fresh) call m)
        (fst (rdp_dart_call b call)) (snd (rdp_dart_call b call)) = Some (reply, m') \<and>
      dart_receive fr (rdp_dart_success b call) (rdp_dart_error b call) reply =
        Some (case r of Ok x \<Rightarrow> Ok (shown_rdp_reply x) | Err e \<Rightarrow> Err (drop_bom (dbg e))) \<and>
      infos_ok m'"
proof -
  note typed = rdp_api_typed [OF assms(8,5,6,7)]
  have "dart_receive fr (rdp_dart_success b call) (rdp_dart_error b call)
      (fst (run_wire_call fr (sse_encode_error c dbg) (rdp_encode_reply c) (rdp_api uni fresh) call m)) =
        Some (map_sum (\<lambda>e. drop_bom (dbg e)) shown_rdp_reply r) \<and>
    snd (run_wire_call fr (sse_encode_error c dbg) (rdp_encode_reply c) (rdp_api uni fresh) call m) = m'"
    by (rule reply_received [where d = "dart_decode_String b" and api = "rdp_api uni fresh" and r = r and w' = m'])
       (use typed assms(2,3,4,8) in \<open>auto simp: rdp_reply_decoded rdp_fallible_dart sse_encode_error_def to_dart\<close>)
  then show ?thesis
    using typed by (cases r) (auto simp: rdp_call_delivered [OF assms(1,5)] prod_eq_iff)
qed

definition marked_rdp :: rdp_profile where
  "marked_rdp = demo_rdp\<lparr>rp_id := byte_order_mark @ ''p''\<rparr>"

lemma demo_rdp_ok: "rdp_call_ok (Api_rdp_connect marked_rdp)" "str_ok ''1''"
proof -
  have "utf8_valid (str_bytes (byte_order_mark @ ''p''))" by code_simp
  then have "str_ok (byte_order_mark @ ''p'')" by (simp add: str_ok_def byte_order_mark_def)
  then show "rdp_call_ok (Api_rdp_connect marked_rdp)" "str_ok ''1''"
    by (simp_all add: rdp_call_ok_def rdp_profile_ok_def marked_rdp_def demo_rdp_def default_profile_def str_ok_ascii char_byte_def)
qed

lemma infos_ok_new: "infos_ok rdp_new"
  by (simp add: infos_ok_def rdp_new_def)

theorem rdp_calls_cross_the_bridge_witness:
  "\<exists>reply. pde_ffi_dispatcher_primary_impl le_cursor
        (\<lambda>call. run_wire_call tag_frames (sse_encode_error le_cursor (\<lambda>_. ''refused'')) (rdp_encode_reply le_cursor)
          (rdp_api id ''1'') call rdp_new)
        2 (dart_encode_rdp_profile le_buffer marked_rdp) = Some (reply, snd (rdp_connect ''1'' marked_rdp rdp_new)) \<and>
      dart_receive tag_frames (rdp_dart_success le_buffer (Api_rdp_connect marked_rdp))
        (rdp_dart_error le_buffer (Api_rdp_connect marked_rdp)) reply =
        Some (Ok (Rdp_session_info_reply (new_info ''1'' demo_rdp))) \<and>
      rm_index (snd (rdp_connect ''1'' marked_rdp rdp_new)) (byte_order_mark @ ''p'') = Some ''1''"
proof -
  have valid: "rdp_validate marked_rdp = Ok ()" by code_simp
  have run: "rdp_api id ''1'' (Api_rdp_connect marked_rdp) rdp_new =
      (Ok (Rdp_session_info_reply (new_info ''1'' marked_rdp)), snd (rdp_connect ''1'' marked_rdp rdp_new))"
    by (simp add: rdp_connect_def find_existing_def rdp_new_def valid manager_updates api_rdp_connect_def io_bind_def)
  have "rm_index (snd (rdp_connect ''1'' marked_rdp rdp_new)) (byte_order_mark @ ''p'') = Some ''1''"
    by (simp add: rdp_connect_def find_existing_def rdp_new_def valid manager_updates) (simp add: marked_rdp_def)
  moreover have "shown_rdp_reply (Rdp_session_info_reply (new_info ''1'' marked_rdp)) =
      Rdp_session_info_reply (new_info ''1'' demo_rdp)"
    by code_simp
  moreover have "str_ok ''refused''" by (simp add: str_ok_ascii char_byte_def)
  ultimately show ?thesis
    using rdp_calls_cross_the_bridge [OF le_buffers(1,2) tag_frames_ok _ demo_rdp_ok infos_ok_new run,
        where dbg = "\<lambda>_. ''refused''"]
    by fastforce
qed

end
