(* ===== verification/Dco_Codec.thy ===== *)
theory Dco_Codec
  imports Ssh_Api Rdp_Sessions
begin

text \<open>
  The second codec in \<^verbatim>\<open>frb_generated.rs\<close> and \<^verbatim>\<open>frb_generated.dart\<close> of both crates: values as Dart
  objects instead of bytes. A struct becomes the list of its fields (\<^verbatim>\<open>IntoDart::into_dart\<close>), and
  Dart takes it apart by position (\<^verbatim>\<open>dco_decode\<close>), throwing (\<open>None\<close>) when the list has another length. The
  objects are library code: \<open>dart_abi\<close> has the conversions of the library's own types and the casts of
  Dart.
\<close>

section \<open>Objects\<close>

record 'd dart_abi =
  abi_string :: "string \<Rightarrow> 'd"
  abi_bool :: "bool \<Rightarrow> 'd"
  abi_u16 :: "u16 \<Rightarrow> 'd"
  abi_u32 :: "u32 \<Rightarrow> 'd"
  abi_u64 :: "u64 \<Rightarrow> 'd"
  abi_i32 :: "32 word \<Rightarrow> 'd"
  abi_i64 :: "int \<Rightarrow> 'd"
  abi_bytes :: "bytes \<Rightarrow> 'd"
  abi_list :: "'d list \<Rightarrow> 'd"
  abi_null :: 'd
  as_String :: "'d \<Rightarrow> string option"
  as_bool :: "'d \<Rightarrow> bool option"
  as_u16 :: "'d \<Rightarrow> u16 option"
  as_u32 :: "'d \<Rightarrow> u32 option"
  as_u64 :: "'d \<Rightarrow> u64 option"
  as_i32 :: "'d \<Rightarrow> 32 word option"
  as_i64 :: "'d \<Rightarrow> int option"
  as_Uint8List :: "'d \<Rightarrow> bytes option"
  as_List :: "'d \<Rightarrow> 'd list option"
  is_null :: "'d \<Rightarrow> bool"

text \<open>The library converts a vector element by element, and an absent value to the null object.\<close>

definition into_dart_vec :: "'d dart_abi \<Rightarrow> ('a \<Rightarrow> 'd) \<Rightarrow> 'a list \<Rightarrow> 'd" where
  "into_dart_vec D f xs = abi_list D (map f xs)"

definition into_dart_option :: "'d dart_abi \<Rightarrow> ('a \<Rightarrow> 'd) \<Rightarrow> 'a option \<Rightarrow> 'd" where
  "into_dart_option D f x = (case x of Some y \<Rightarrow> f y | None \<Rightarrow> abi_null D)"

definition dco_decode_String :: "'d dart_abi \<Rightarrow> 'd \<Rightarrow> string option" where
  "dco_decode_String D raw = as_String D raw"

definition dco_decode_bool :: "'d dart_abi \<Rightarrow> 'd \<Rightarrow> bool option" where
  "dco_decode_bool D raw = as_bool D raw"

definition dco_decode_u_16 :: "'d dart_abi \<Rightarrow> 'd \<Rightarrow> u16 option" where
  "dco_decode_u_16 D raw = as_u16 D raw"

definition dco_decode_u_32 :: "'d dart_abi \<Rightarrow> 'd \<Rightarrow> u32 option" where
  "dco_decode_u_32 D raw = as_u32 D raw"

definition dco_decode_u_64 :: "'d dart_abi \<Rightarrow> 'd \<Rightarrow> u64 option" where
  "dco_decode_u_64 D raw = as_u64 D raw"

definition dco_decode_i_64 :: "'d dart_abi \<Rightarrow> 'd \<Rightarrow> int option" where
  "dco_decode_i_64 D raw = as_i64 D raw"

definition dco_decode_list_prim_u_8 :: "'d dart_abi \<Rightarrow> 'd \<Rightarrow> bytes option" where
  "dco_decode_list_prim_u_8 D raw = as_Uint8List D raw"

definition dco_decode_list :: "'d dart_abi \<Rightarrow> ('d \<Rightarrow> 'a option) \<Rightarrow> 'd \<Rightarrow> 'a list option" where
  "dco_decode_list D f raw = Option.bind (as_List D raw) (\<lambda>xs. those (map f xs))"

definition dco_decode_opt :: "'d dart_abi \<Rightarrow> ('d \<Rightarrow> 'a option) \<Rightarrow> 'd \<Rightarrow> 'a option option" where
  "dco_decode_opt D f raw = (if is_null D raw then Some None else map_option Some (f raw))"

section \<open>The types of both crates\<close>

definition into_dart_auth_prompt :: "'d dart_abi \<Rightarrow> string \<times> bool \<Rightarrow> 'd" where
  "into_dart_auth_prompt D x =
     abi_list D [abi_string D (fst x),
      abi_bool D (snd x)]"

definition dco_decode_auth_prompt :: "'d dart_abi \<Rightarrow> 'd \<Rightarrow> (string \<times> bool) option" where
  "dco_decode_auth_prompt D raw =
     Option.bind (as_List D raw) (\<lambda>arr. if length arr \<noteq> 2 then None else
       Option.bind (dco_decode_String D (arr ! 0)) (\<lambda>prompt.
       Option.bind (dco_decode_bool D (arr ! 1)) (\<lambda>echo.
       Some (prompt, echo))))"

definition into_dart_auth_prompt_round :: "'d dart_abi \<Rightarrow> auth_prompt_round \<Rightarrow> 'd" where
  "into_dart_auth_prompt_round D x =
     abi_list D [abi_string D (ap_name x),
      abi_string D (ap_instructions x),
      into_dart_vec D (into_dart_auth_prompt D) (ap_prompts x)]"

definition dco_decode_auth_prompt_round :: "'d dart_abi \<Rightarrow> 'd \<Rightarrow> auth_prompt_round option" where
  "dco_decode_auth_prompt_round D raw =
     Option.bind (as_List D raw) (\<lambda>arr. if length arr \<noteq> 3 then None else
       Option.bind (dco_decode_String D (arr ! 0)) (\<lambda>name.
       Option.bind (dco_decode_String D (arr ! 1)) (\<lambda>instructions.
       Option.bind (dco_decode_list D (dco_decode_auth_prompt D) (arr ! 2)) (\<lambda>prompts.
       Some \<lparr>ap_name = name, ap_instructions = instructions, ap_prompts = prompts\<rparr>))))"

definition into_dart_connection_status :: "'d dart_abi \<Rightarrow> connection_status \<Rightarrow> 'd" where
  "into_dart_connection_status D x = abi_i32 D (case x of Disconnected \<Rightarrow> 0 | Connecting \<Rightarrow> 1 | Connected \<Rightarrow> 2 | Error_status \<Rightarrow> 3)"

definition dco_decode_connection_status :: "'d dart_abi \<Rightarrow> 'd \<Rightarrow> connection_status option" where
  "dco_decode_connection_status D raw =
     Option.bind (as_i32 D raw) (\<lambda>inner.
       let values = [Disconnected, Connecting, Connected, Error_status] in
       if 0 \<le> sint inner \<and> sint inner < int (length values) then Some (values ! nat (sint inner)) else None)"

definition into_dart_forward_info :: "'d dart_abi \<Rightarrow> forward_info \<Rightarrow> 'd" where
  "into_dart_forward_info D x =
     abi_list D [abi_string D (fi_id x),
      abi_string D (fi_profile_id x),
      abi_u16 D (fi_local_port x),
      abi_string D (fi_remote_host x),
      abi_u16 D (fi_remote_port x),
      abi_bool D (fi_socks x),
      abi_bool D (fi_reverse x)]"

definition dco_decode_forward_info :: "'d dart_abi \<Rightarrow> 'd \<Rightarrow> forward_info option" where
  "dco_decode_forward_info D raw =
     Option.bind (as_List D raw) (\<lambda>arr. if length arr \<noteq> 7 then None else
       Option.bind (dco_decode_String D (arr ! 0)) (\<lambda>ident.
       Option.bind (dco_decode_String D (arr ! 1)) (\<lambda>profile_id.
       Option.bind (dco_decode_u_16 D (arr ! 2)) (\<lambda>local_port.
       Option.bind (dco_decode_String D (arr ! 3)) (\<lambda>remote_host.
       Option.bind (dco_decode_u_16 D (arr ! 4)) (\<lambda>remote_port.
       Option.bind (dco_decode_bool D (arr ! 5)) (\<lambda>socks.
       Option.bind (dco_decode_bool D (arr ! 6)) (\<lambda>reverse.
       Some \<lparr>fi_id = ident, fi_profile_id = profile_id, fi_local_port = local_port,
        fi_remote_host = remote_host, fi_remote_port = remote_port, fi_socks = socks,
        fi_reverse = reverse\<rparr>))))))))"

definition into_dart_host_key_info :: "'d dart_abi \<Rightarrow> host_key_info \<Rightarrow> 'd" where
  "into_dart_host_key_info D x =
     abi_list D [abi_string D (hi_algorithm x),
      abi_string D (hi_fingerprint x),
      into_dart_option D (abi_u32 D) (hi_changed_line x)]"

definition dco_decode_host_key_info :: "'d dart_abi \<Rightarrow> 'd \<Rightarrow> host_key_info option" where
  "dco_decode_host_key_info D raw =
     Option.bind (as_List D raw) (\<lambda>arr. if length arr \<noteq> 3 then None else
       Option.bind (dco_decode_String D (arr ! 0)) (\<lambda>algorithm.
       Option.bind (dco_decode_String D (arr ! 1)) (\<lambda>fingerprint.
       Option.bind (dco_decode_opt D (dco_decode_u_32 D) (arr ! 2)) (\<lambda>changed_line.
       Some \<lparr>hi_algorithm = algorithm, hi_fingerprint = fingerprint, hi_changed_line = changed_line\<rparr>))))"

definition into_dart_remote_file_entry :: "'d dart_abi \<Rightarrow> remote_file_entry \<Rightarrow> 'd" where
  "into_dart_remote_file_entry D x =
     abi_list D [abi_string D (fe_name x),
      abi_string D (fe_path x),
      abi_bool D (fe_is_directory x),
      abi_u64 D (fe_size_bytes x),
      abi_i64 D (fe_modified_unix_seconds x),
      abi_u32 D (fe_mode x)]"

definition dco_decode_remote_file_entry :: "'d dart_abi \<Rightarrow> 'd \<Rightarrow> remote_file_entry option" where
  "dco_decode_remote_file_entry D raw =
     Option.bind (as_List D raw) (\<lambda>arr. if length arr \<noteq> 6 then None else
       Option.bind (dco_decode_String D (arr ! 0)) (\<lambda>name.
       Option.bind (dco_decode_String D (arr ! 1)) (\<lambda>path.
       Option.bind (dco_decode_bool D (arr ! 2)) (\<lambda>is_directory.
       Option.bind (dco_decode_u_64 D (arr ! 3)) (\<lambda>size_bytes.
       Option.bind (dco_decode_i_64 D (arr ! 4)) (\<lambda>modified_unix_seconds.
       Option.bind (dco_decode_u_32 D (arr ! 5)) (\<lambda>mode.
       Some \<lparr>fe_name = name, fe_path = path, fe_is_directory = is_directory, fe_size_bytes = size_bytes,
        fe_modified_unix_seconds = modified_unix_seconds, fe_mode = mode\<rparr>)))))))"

definition into_dart_remote_system_snapshot :: "'d dart_abi \<Rightarrow> remote_system_snapshot \<Rightarrow> 'd" where
  "into_dart_remote_system_snapshot D x =
     abi_list D [abi_string D (rs_os x),
      abi_string D (rs_hostname x),
      abi_string D (rs_uptime x),
      abi_string D (rs_memory x),
      abi_string D (rs_disk x),
      abi_u64 D (rs_memory_used_bytes x),
      abi_u64 D (rs_memory_free_bytes x),
      abi_u64 D (rs_memory_total_bytes x),
      abi_u64 D (rs_disk_used_bytes x),
      abi_u64 D (rs_disk_free_bytes x),
      abi_u64 D (rs_disk_total_bytes x)]"

definition dco_decode_remote_system_snapshot :: "'d dart_abi \<Rightarrow> 'd \<Rightarrow> remote_system_snapshot option" where
  "dco_decode_remote_system_snapshot D raw =
     Option.bind (as_List D raw) (\<lambda>arr. if length arr \<noteq> 11 then None else
       Option.bind (dco_decode_String D (arr ! 0)) (\<lambda>os.
       Option.bind (dco_decode_String D (arr ! 1)) (\<lambda>hostname.
       Option.bind (dco_decode_String D (arr ! 2)) (\<lambda>uptime.
       Option.bind (dco_decode_String D (arr ! 3)) (\<lambda>memory.
       Option.bind (dco_decode_String D (arr ! 4)) (\<lambda>disk.
       Option.bind (dco_decode_u_64 D (arr ! 5)) (\<lambda>memory_used_bytes.
       Option.bind (dco_decode_u_64 D (arr ! 6)) (\<lambda>memory_free_bytes.
       Option.bind (dco_decode_u_64 D (arr ! 7)) (\<lambda>memory_total_bytes.
       Option.bind (dco_decode_u_64 D (arr ! 8)) (\<lambda>disk_used_bytes.
       Option.bind (dco_decode_u_64 D (arr ! 9)) (\<lambda>disk_free_bytes.
       Option.bind (dco_decode_u_64 D (arr ! 10)) (\<lambda>disk_total_bytes.
       Some \<lparr>rs_os = os, rs_hostname = hostname, rs_uptime = uptime, rs_memory = memory, rs_disk = disk,
        rs_memory_used_bytes = memory_used_bytes, rs_memory_free_bytes = memory_free_bytes,
        rs_memory_total_bytes = memory_total_bytes, rs_disk_used_bytes = disk_used_bytes,
        rs_disk_free_bytes = disk_free_bytes, rs_disk_total_bytes = disk_total_bytes\<rparr>))))))))))))"

definition into_dart_session_info :: "'d dart_abi \<Rightarrow> session_info \<Rightarrow> 'd" where
  "into_dart_session_info D x =
     abi_list D [abi_string D (si_id x),
      abi_string D (si_profile_id x),
      into_dart_connection_status D (si_status x)]"

definition dco_decode_session_info :: "'d dart_abi \<Rightarrow> 'd \<Rightarrow> session_info option" where
  "dco_decode_session_info D raw =
     Option.bind (as_List D raw) (\<lambda>arr. if length arr \<noteq> 3 then None else
       Option.bind (dco_decode_String D (arr ! 0)) (\<lambda>ident.
       Option.bind (dco_decode_String D (arr ! 1)) (\<lambda>profile_id.
       Option.bind (dco_decode_connection_status D (arr ! 2)) (\<lambda>status.
       Some \<lparr>si_id = ident, si_profile_id = profile_id, si_status = status\<rparr>))))"

fun into_dart_ssh_profile :: "'d dart_abi \<Rightarrow> ssh_profile \<Rightarrow> 'd" where
  "into_dart_ssh_profile D (SshProfile ident name host port username password private_key_path key_passphrase jump_host forward_agent command) =
     abi_list D [abi_string D ident,
      abi_string D name,
      abi_string D host,
      abi_u16 D port,
      abi_string D username,
      into_dart_option D (abi_string D) password,
      into_dart_option D (abi_string D) private_key_path,
      into_dart_option D (abi_string D) key_passphrase,
      (case jump_host of Some q \<Rightarrow> into_dart_ssh_profile D q | None \<Rightarrow> abi_null D),
      abi_bool D forward_agent,
      into_dart_option D (abi_string D) command]"

partial_function (option) dco_decode_ssh_profile :: "'d dart_abi \<Rightarrow> 'd \<Rightarrow> ssh_profile option" where
  "dco_decode_ssh_profile D raw =
     Option.bind (as_List D raw) (\<lambda>arr. if length arr \<noteq> 11 then None else
       Option.bind (dco_decode_String D (arr ! 0)) (\<lambda>ident.
       Option.bind (dco_decode_String D (arr ! 1)) (\<lambda>name.
       Option.bind (dco_decode_String D (arr ! 2)) (\<lambda>host.
       Option.bind (dco_decode_u_16 D (arr ! 3)) (\<lambda>port.
       Option.bind (dco_decode_String D (arr ! 4)) (\<lambda>username.
       Option.bind (dco_decode_opt D (dco_decode_String D) (arr ! 5)) (\<lambda>password.
       Option.bind (dco_decode_opt D (dco_decode_String D) (arr ! 6)) (\<lambda>private_key_path.
       Option.bind (dco_decode_opt D (dco_decode_String D) (arr ! 7)) (\<lambda>key_passphrase.
       Option.bind (if is_null D (arr ! 8) then Some None
          else Option.bind (dco_decode_ssh_profile D (arr ! 8)) (\<lambda>q. Some (Some q))) (\<lambda>jump_host.
       Option.bind (dco_decode_bool D (arr ! 9)) (\<lambda>forward_agent.
       Option.bind (dco_decode_opt D (dco_decode_String D) (arr ! 10)) (\<lambda>command.
       Some (SshProfile ident name host port username password private_key_path key_passphrase jump_host forward_agent command)))))))))))))"

definition into_dart_transfer_progress :: "'d dart_abi \<Rightarrow> transfer_progress \<Rightarrow> 'd" where
  "into_dart_transfer_progress D x =
     abi_list D [abi_u64 D (tp_done x),
      abi_u64 D (tp_total x)]"

definition dco_decode_transfer_progress :: "'d dart_abi \<Rightarrow> 'd \<Rightarrow> transfer_progress option" where
  "dco_decode_transfer_progress D raw =
     Option.bind (as_List D raw) (\<lambda>arr. if length arr \<noteq> 2 then None else
       Option.bind (dco_decode_u_64 D (arr ! 0)) (\<lambda>done.
       Option.bind (dco_decode_u_64 D (arr ! 1)) (\<lambda>total.
       Some \<lparr>tp_done = done, tp_total = total\<rparr>)))"

definition into_dart_rdp_connection_status :: "'d dart_abi \<Rightarrow> rdp_connection_status \<Rightarrow> 'd" where
  "into_dart_rdp_connection_status D x = abi_i32 D (case x of RdpDisconnected \<Rightarrow> 0 | RdpConnecting \<Rightarrow> 1 | RdpConnected \<Rightarrow> 2 | RdpErrored \<Rightarrow> 3)"

definition dco_decode_rdp_connection_status :: "'d dart_abi \<Rightarrow> 'd \<Rightarrow> rdp_connection_status option" where
  "dco_decode_rdp_connection_status D raw =
     Option.bind (as_i32 D raw) (\<lambda>inner.
       let values = [RdpDisconnected, RdpConnecting, RdpConnected, RdpErrored] in
       if 0 \<le> sint inner \<and> sint inner < int (length values) then Some (values ! nat (sint inner)) else None)"

definition into_dart_rdp_error_event :: "'d dart_abi \<Rightarrow> rdp_error_event \<Rightarrow> 'd" where
  "into_dart_rdp_error_event D x =
     abi_list D [into_dart_option D (abi_string D) (rx_session_id x),
      abi_string D (rx_message x),
      abi_string D (rx_code x)]"

definition dco_decode_rdp_error_event :: "'d dart_abi \<Rightarrow> 'd \<Rightarrow> rdp_error_event option" where
  "dco_decode_rdp_error_event D raw =
     Option.bind (as_List D raw) (\<lambda>arr. if length arr \<noteq> 3 then None else
       Option.bind (dco_decode_opt D (dco_decode_String D) (arr ! 0)) (\<lambda>session_id.
       Option.bind (dco_decode_String D (arr ! 1)) (\<lambda>message.
       Option.bind (dco_decode_String D (arr ! 2)) (\<lambda>code.
       Some \<lparr>rx_session_id = session_id, rx_message = message, rx_code = code\<rparr>))))"

definition into_dart_rdp_frame_event :: "'d dart_abi \<Rightarrow> rdp_frame_event \<Rightarrow> 'd" where
  "into_dart_rdp_frame_event D x =
     abi_list D [abi_string D (rf_session_id x),
      abi_bytes D (rf_data x),
      abi_u32 D (rf_width x),
      abi_u32 D (rf_height x),
      abi_u32 D (rf_x x),
      abi_u32 D (rf_y x),
      abi_u64 D (rf_frame_id x)]"

definition dco_decode_rdp_frame_event :: "'d dart_abi \<Rightarrow> 'd \<Rightarrow> rdp_frame_event option" where
  "dco_decode_rdp_frame_event D raw =
     Option.bind (as_List D raw) (\<lambda>arr. if length arr \<noteq> 7 then None else
       Option.bind (dco_decode_String D (arr ! 0)) (\<lambda>session_id.
       Option.bind (dco_decode_list_prim_u_8 D (arr ! 1)) (\<lambda>data.
       Option.bind (dco_decode_u_32 D (arr ! 2)) (\<lambda>width.
       Option.bind (dco_decode_u_32 D (arr ! 3)) (\<lambda>height.
       Option.bind (dco_decode_u_32 D (arr ! 4)) (\<lambda>x.
       Option.bind (dco_decode_u_32 D (arr ! 5)) (\<lambda>y.
       Option.bind (dco_decode_u_64 D (arr ! 6)) (\<lambda>frame_id.
       Some \<lparr>rf_session_id = session_id, rf_data = data, rf_width = width, rf_height = height, rf_x = x,
        rf_y = y, rf_frame_id = frame_id\<rparr>))))))))"

definition into_dart_rdp_profile :: "'d dart_abi \<Rightarrow> rdp_profile \<Rightarrow> 'd" where
  "into_dart_rdp_profile D x =
     abi_list D [abi_string D (rp_id x),
      abi_string D (rp_name x),
      abi_string D (rp_host x),
      abi_u16 D (rp_port x),
      abi_string D (rp_username x),
      into_dart_option D (abi_string D) (rp_password x),
      into_dart_option D (abi_string D) (rp_domain x),
      abi_u16 D (rp_desktop_width x),
      abi_u16 D (rp_desktop_height x),
      abi_bool D (rp_full_screen x),
      abi_bool D (rp_enable_cred_ssp x),
      into_dart_option D (abi_string D) (rp_alternate_shell x),
      into_dart_option D (abi_string D) (rp_source_rdp_content x),
      into_dart_option D (abi_string D) (rp_passthru_username x),
      abi_bool D (rp_redirect_drives x),
      abi_bool D (rp_redirect_clipboard x),
      into_dart_option D (abi_string D) (rp_local_share_path x),
      abi_string D (rp_local_share_name x)]"

definition dco_decode_rdp_profile :: "'d dart_abi \<Rightarrow> 'd \<Rightarrow> rdp_profile option" where
  "dco_decode_rdp_profile D raw =
     Option.bind (as_List D raw) (\<lambda>arr. if length arr \<noteq> 18 then None else
       Option.bind (dco_decode_String D (arr ! 0)) (\<lambda>ident.
       Option.bind (dco_decode_String D (arr ! 1)) (\<lambda>name.
       Option.bind (dco_decode_String D (arr ! 2)) (\<lambda>host.
       Option.bind (dco_decode_u_16 D (arr ! 3)) (\<lambda>port.
       Option.bind (dco_decode_String D (arr ! 4)) (\<lambda>username.
       Option.bind (dco_decode_opt D (dco_decode_String D) (arr ! 5)) (\<lambda>password.
       Option.bind (dco_decode_opt D (dco_decode_String D) (arr ! 6)) (\<lambda>domain.
       Option.bind (dco_decode_u_16 D (arr ! 7)) (\<lambda>desktop_width.
       Option.bind (dco_decode_u_16 D (arr ! 8)) (\<lambda>desktop_height.
       Option.bind (dco_decode_bool D (arr ! 9)) (\<lambda>full_screen.
       Option.bind (dco_decode_bool D (arr ! 10)) (\<lambda>enable_cred_ssp.
       Option.bind (dco_decode_opt D (dco_decode_String D) (arr ! 11)) (\<lambda>alternate_shell.
       Option.bind (dco_decode_opt D (dco_decode_String D) (arr ! 12)) (\<lambda>source_rdp_content.
       Option.bind (dco_decode_opt D (dco_decode_String D) (arr ! 13)) (\<lambda>passthru_username.
       Option.bind (dco_decode_bool D (arr ! 14)) (\<lambda>redirect_drives.
       Option.bind (dco_decode_bool D (arr ! 15)) (\<lambda>redirect_clipboard.
       Option.bind (dco_decode_opt D (dco_decode_String D) (arr ! 16)) (\<lambda>local_share_path.
       Option.bind (dco_decode_String D (arr ! 17)) (\<lambda>local_share_name.
       Some \<lparr>rp_id = ident, rp_name = name, rp_host = host, rp_port = port, rp_username = username,
        rp_password = password, rp_domain = domain, rp_desktop_width = desktop_width,
        rp_desktop_height = desktop_height, rp_full_screen = full_screen,
        rp_enable_cred_ssp = enable_cred_ssp, rp_alternate_shell = alternate_shell,
        rp_source_rdp_content = source_rdp_content, rp_passthru_username = passthru_username,
        rp_redirect_drives = redirect_drives, rp_redirect_clipboard = redirect_clipboard,
        rp_local_share_path = local_share_path, rp_local_share_name = local_share_name\<rparr>)))))))))))))))))))"

definition into_dart_rdp_session_info :: "'d dart_abi \<Rightarrow> rdp_session_info \<Rightarrow> 'd" where
  "into_dart_rdp_session_info D x =
     abi_list D [abi_string D (ri_id x),
      abi_string D (ri_profile_id x),
      into_dart_rdp_connection_status D (ri_status x)]"

definition dco_decode_rdp_session_info :: "'d dart_abi \<Rightarrow> 'd \<Rightarrow> rdp_session_info option" where
  "dco_decode_rdp_session_info D raw =
     Option.bind (as_List D raw) (\<lambda>arr. if length arr \<noteq> 3 then None else
       Option.bind (dco_decode_String D (arr ! 0)) (\<lambda>ident.
       Option.bind (dco_decode_String D (arr ! 1)) (\<lambda>profile_id.
       Option.bind (dco_decode_rdp_connection_status D (arr ! 2)) (\<lambda>status.
       Some \<lparr>ri_id = ident, ri_profile_id = profile_id, ri_status = status\<rparr>))))"

definition into_dart_rdp_status_event :: "'d dart_abi \<Rightarrow> rdp_status_event \<Rightarrow> 'd" where
  "into_dart_rdp_status_event D x =
     abi_list D [abi_string D (re_session_id x),
      into_dart_rdp_connection_status D (re_status x),
      into_dart_option D (abi_string D) (re_message x)]"

definition dco_decode_rdp_status_event :: "'d dart_abi \<Rightarrow> 'd \<Rightarrow> rdp_status_event option" where
  "dco_decode_rdp_status_event D raw =
     Option.bind (as_List D raw) (\<lambda>arr. if length arr \<noteq> 3 then None else
       Option.bind (dco_decode_String D (arr ! 0)) (\<lambda>session_id.
       Option.bind (dco_decode_rdp_connection_status D (arr ! 1)) (\<lambda>status.
       Option.bind (dco_decode_opt D (dco_decode_String D) (arr ! 2)) (\<lambda>message.
       Some \<lparr>re_session_id = session_id, re_status = status, re_message = message\<rparr>))))"

section \<open>What crosses as an object comes back\<close>

text \<open>What the library promises: a cast undoes the conversion, and only the null object is null.\<close>

definition abi_ok :: "'d dart_abi \<Rightarrow> bool" where
  "abi_ok D \<longleftrightarrow>
     (\<forall>x. as_String D (abi_string D x) = Some x) \<and> (\<forall>x. as_bool D (abi_bool D x) = Some x) \<and>
     (\<forall>x. as_u16 D (abi_u16 D x) = Some x) \<and> (\<forall>x. as_u32 D (abi_u32 D x) = Some x) \<and>
     (\<forall>x. as_u64 D (abi_u64 D x) = Some x) \<and> (\<forall>x. as_i32 D (abi_i32 D x) = Some x) \<and>
     (\<forall>x. as_i64 D (abi_i64 D x) = Some x) \<and> (\<forall>x. as_Uint8List D (abi_bytes D x) = Some x) \<and>
     (\<forall>xs. as_List D (abi_list D xs) = Some xs) \<and> is_null D (abi_null D) \<and>
     (\<forall>x. \<not> is_null D (abi_string D x)) \<and> (\<forall>x. \<not> is_null D (abi_u32 D x)) \<and> (\<forall>xs. \<not> is_null D (abi_list D xs))"

locale object_codec =
  fixes enc :: "'a \<Rightarrow> 'd"
    and un :: "'d \<Rightarrow> 'a option"
    and law :: bool
  assumes decodes: "law \<Longrightarrow> un (enc x) = Some x"
begin

lemma injective: "law \<Longrightarrow> enc x = enc y \<Longrightarrow> x = y"
  by (metis decodes option.inject)

lemma decodes_list: "law \<Longrightarrow> those (map (un \<circ> enc) xs) = Some xs"
  by (induction xs) (simp_all add: decodes)

end

named_theorems objects \<open>what Rust turns into an object, Dart takes apart\<close>

lemma object_simps [objects]:
  "abi_ok D \<Longrightarrow> dco_decode_String D (abi_string D x1) = Some x1" "abi_ok D \<Longrightarrow> dco_decode_bool D (abi_bool D x2) = Some x2"
  "abi_ok D \<Longrightarrow> dco_decode_u_16 D (abi_u16 D x3) = Some x3" "abi_ok D \<Longrightarrow> dco_decode_u_32 D (abi_u32 D x4) = Some x4"
  "abi_ok D \<Longrightarrow> dco_decode_u_64 D (abi_u64 D x5) = Some x5" "abi_ok D \<Longrightarrow> dco_decode_i_64 D (abi_i64 D x6) = Some x6"
  "abi_ok D \<Longrightarrow> dco_decode_list_prim_u_8 D (abi_bytes D x7) = Some x7" "abi_ok D \<Longrightarrow> as_List D (abi_list D x8) = Some x8"
  unfolding abi_ok_def dco_decode_String_def dco_decode_bool_def dco_decode_u_16_def dco_decode_u_32_def
    dco_decode_u_64_def dco_decode_i_64_def dco_decode_list_prim_u_8_def
  by blast+

lemma object_list:
  assumes "object_codec enc un (abi_ok D)" "abi_ok D"
  shows "dco_decode_list D un (into_dart_vec D enc xs) = Some xs"
  using object_codec.decodes_list [OF assms(1,2)] assms(2) by (simp add: dco_decode_list_def into_dart_vec_def objects)

lemma object_option:
  assumes "object_codec enc un (abi_ok D)" "abi_ok D" "\<And>y. \<not> is_null D (enc y)"
  shows "dco_decode_opt D un (into_dart_option D enc x) = Some x"
  using object_codec.decodes [OF assms(1,2)] assms(2,3)
  by (cases x) (simp_all add: dco_decode_opt_def into_dart_option_def abi_ok_def)

interpretation obj_string: object_codec "abi_string D" "dco_decode_String D" "abi_ok D" for D
  by unfold_locales (rule objects)

interpretation obj_u32: object_codec "abi_u32 D" "dco_decode_u_32 D" "abi_ok D" for D
  by unfold_locales (rule objects)

lemma not_null [objects]:
  "abi_ok D \<Longrightarrow> \<not> is_null D (abi_string D x)" "abi_ok D \<Longrightarrow> \<not> is_null D (abi_u32 D y)" "abi_ok D \<Longrightarrow> \<not> is_null D (abi_list D zs)"
  "abi_ok D \<Longrightarrow> is_null D (abi_null D)"
  by (simp_all add: abi_ok_def)

lemmas [objects] = object_option [OF obj_string.object_codec_axioms] object_option [OF obj_u32.object_codec_axioms]
  object_list [OF obj_string.object_codec_axioms]

interpretation obj_auth_prompt: object_codec "into_dart_auth_prompt D" "dco_decode_auth_prompt D" "abi_ok D" for D
  by unfold_locales (simp add: into_dart_auth_prompt_def dco_decode_auth_prompt_def objects)

lemmas [objects] = obj_auth_prompt.decodes object_list [OF obj_auth_prompt.object_codec_axioms]

interpretation obj_auth_prompt_round: object_codec "into_dart_auth_prompt_round D" "dco_decode_auth_prompt_round D" "abi_ok D" for D
  by unfold_locales (simp add: into_dart_auth_prompt_round_def dco_decode_auth_prompt_round_def objects)

lemmas [objects] = obj_auth_prompt_round.decodes object_list [OF obj_auth_prompt_round.object_codec_axioms]

interpretation obj_connection_status: object_codec "into_dart_connection_status D" "dco_decode_connection_status D" "abi_ok D" for D
  by unfold_locales (case_tac x; simp add: into_dart_connection_status_def dco_decode_connection_status_def abi_ok_def)

lemmas [objects] = obj_connection_status.decodes object_list [OF obj_connection_status.object_codec_axioms]

interpretation obj_forward_info: object_codec "into_dart_forward_info D" "dco_decode_forward_info D" "abi_ok D" for D
  by unfold_locales (simp add: into_dart_forward_info_def dco_decode_forward_info_def objects)

lemmas [objects] = obj_forward_info.decodes object_list [OF obj_forward_info.object_codec_axioms]

interpretation obj_host_key_info: object_codec "into_dart_host_key_info D" "dco_decode_host_key_info D" "abi_ok D" for D
  by unfold_locales (simp add: into_dart_host_key_info_def dco_decode_host_key_info_def objects)

lemmas [objects] = obj_host_key_info.decodes object_list [OF obj_host_key_info.object_codec_axioms]

interpretation obj_remote_file_entry: object_codec "into_dart_remote_file_entry D" "dco_decode_remote_file_entry D" "abi_ok D" for D
  by unfold_locales (simp add: into_dart_remote_file_entry_def dco_decode_remote_file_entry_def objects)

lemmas [objects] = obj_remote_file_entry.decodes object_list [OF obj_remote_file_entry.object_codec_axioms]

interpretation obj_remote_system_snapshot: object_codec "into_dart_remote_system_snapshot D" "dco_decode_remote_system_snapshot D" "abi_ok D" for D
  by unfold_locales (simp add: into_dart_remote_system_snapshot_def dco_decode_remote_system_snapshot_def objects)

lemmas [objects] = obj_remote_system_snapshot.decodes object_list [OF obj_remote_system_snapshot.object_codec_axioms]

interpretation obj_session_info: object_codec "into_dart_session_info D" "dco_decode_session_info D" "abi_ok D" for D
  by unfold_locales (simp add: into_dart_session_info_def dco_decode_session_info_def objects)

lemmas [objects] = obj_session_info.decodes object_list [OF obj_session_info.object_codec_axioms]

interpretation obj_transfer_progress: object_codec "into_dart_transfer_progress D" "dco_decode_transfer_progress D" "abi_ok D" for D
  by unfold_locales (simp add: into_dart_transfer_progress_def dco_decode_transfer_progress_def objects)

lemmas [objects] = obj_transfer_progress.decodes object_list [OF obj_transfer_progress.object_codec_axioms]

interpretation obj_rdp_connection_status: object_codec "into_dart_rdp_connection_status D" "dco_decode_rdp_connection_status D" "abi_ok D" for D
  by unfold_locales (case_tac x; simp add: into_dart_rdp_connection_status_def dco_decode_rdp_connection_status_def abi_ok_def)

lemmas [objects] = obj_rdp_connection_status.decodes object_list [OF obj_rdp_connection_status.object_codec_axioms]

interpretation obj_rdp_error_event: object_codec "into_dart_rdp_error_event D" "dco_decode_rdp_error_event D" "abi_ok D" for D
  by unfold_locales (simp add: into_dart_rdp_error_event_def dco_decode_rdp_error_event_def objects)

lemmas [objects] = obj_rdp_error_event.decodes object_list [OF obj_rdp_error_event.object_codec_axioms]

interpretation obj_rdp_frame_event: object_codec "into_dart_rdp_frame_event D" "dco_decode_rdp_frame_event D" "abi_ok D" for D
  by unfold_locales (simp add: into_dart_rdp_frame_event_def dco_decode_rdp_frame_event_def objects)

lemmas [objects] = obj_rdp_frame_event.decodes object_list [OF obj_rdp_frame_event.object_codec_axioms]

interpretation obj_rdp_profile: object_codec "into_dart_rdp_profile D" "dco_decode_rdp_profile D" "abi_ok D" for D
  by unfold_locales (simp add: into_dart_rdp_profile_def dco_decode_rdp_profile_def objects)

lemmas [objects] = obj_rdp_profile.decodes object_list [OF obj_rdp_profile.object_codec_axioms]

interpretation obj_rdp_session_info: object_codec "into_dart_rdp_session_info D" "dco_decode_rdp_session_info D" "abi_ok D" for D
  by unfold_locales (simp add: into_dart_rdp_session_info_def dco_decode_rdp_session_info_def objects)

lemmas [objects] = obj_rdp_session_info.decodes object_list [OF obj_rdp_session_info.object_codec_axioms]

interpretation obj_rdp_status_event: object_codec "into_dart_rdp_status_event D" "dco_decode_rdp_status_event D" "abi_ok D" for D
  by unfold_locales (simp add: into_dart_rdp_status_event_def dco_decode_rdp_status_event_def objects)

lemmas [objects] = obj_rdp_status_event.decodes object_list [OF obj_rdp_status_event.object_codec_axioms]

lemma ssh_profile_object: "abi_ok D \<Longrightarrow> dco_decode_ssh_profile D (into_dart_ssh_profile D p) = Some p"
proof (induction p)
  case (SshProfile i n h po u pw pk kp j fa cm)
  have "\<not> is_null D (into_dart_ssh_profile D q)" for q using SshProfile.prems by (cases q) (simp add: objects)
  then show ?case
    using SshProfile by (subst dco_decode_ssh_profile.simps) (cases j; simp add: objects)
qed

interpretation obj_ssh_profile: object_codec "into_dart_ssh_profile D" "dco_decode_ssh_profile D" "abi_ok D" for D
  by unfold_locales (rule ssh_profile_object)

text \<open>Objects with a tag and a payload keep these promises.\<close>

datatype dart_object = DString string | DBool bool | DInt int | DBytes bytes | DList "dart_object list" | DNull

definition tagged_abi :: "dart_object dart_abi" where
  "tagged_abi =
     \<lparr>abi_string = DString, abi_bool = DBool, abi_u16 = \<lambda>x. DInt (uint x), abi_u32 = \<lambda>x. DInt (uint x),
      abi_u64 = \<lambda>x. DInt (uint x), abi_i32 = \<lambda>x. DInt (sint x), abi_i64 = DInt, abi_bytes = DBytes,
      abi_list = DList, abi_null = DNull,
      as_String = \<lambda>d. case d of DString x \<Rightarrow> Some x | _ \<Rightarrow> None, as_bool = \<lambda>d. case d of DBool x \<Rightarrow> Some x | _ \<Rightarrow> None,
      as_u16 = \<lambda>d. case d of DInt x \<Rightarrow> Some (word_of_int x) | _ \<Rightarrow> None,
      as_u32 = \<lambda>d. case d of DInt x \<Rightarrow> Some (word_of_int x) | _ \<Rightarrow> None,
      as_u64 = \<lambda>d. case d of DInt x \<Rightarrow> Some (word_of_int x) | _ \<Rightarrow> None,
      as_i32 = \<lambda>d. case d of DInt x \<Rightarrow> Some (word_of_int x) | _ \<Rightarrow> None,
      as_i64 = \<lambda>d. case d of DInt x \<Rightarrow> Some x | _ \<Rightarrow> None, as_Uint8List = \<lambda>d. case d of DBytes x \<Rightarrow> Some x | _ \<Rightarrow> None,
      as_List = \<lambda>d. case d of DList x \<Rightarrow> Some x | _ \<Rightarrow> None, is_null = \<lambda>d. case d of DNull \<Rightarrow> True | _ \<Rightarrow> False\<rparr>"

lemma tagged_abi_ok: "abi_ok tagged_abi"
  by (simp add: abi_ok_def tagged_abi_def)

text \<open>Two profiles that Dart cannot tell apart are the same profile.\<close>

lemma profiles_differ_as_objects:
  "into_dart_ssh_profile tagged_abi p = into_dart_ssh_profile tagged_abi q \<longleftrightarrow> p = q"
  using obj_ssh_profile.injective [OF tagged_abi_ok] by blast

end
