(* ===== verification/Spec2Isabelle.thy ===== *)
theory Spec2Isabelle
  imports Ssh_Api Sftp_Sessions Sftp_Upload Sftp_Tree Rdp_Sessions Ssh_Bridge Rdp_Bridge Dco_Codec
begin

text \<open>
  A verification library for Portix, a desktop client for SSH, SFTP, tunnels and RDP. The program's
  core is two Rust crates under \<^verbatim>\<open>src/\<close>: \<^verbatim>\<open>portix_serv\<close> (SSH) and \<^verbatim>\<open>portix_rdp\<close> (RDP). A Flutter
  application calls their API modules and listens to their event streams.

  \<^bold>\<open>The parts and their theories.\<close>

  \<^item> \<^verbatim>\<open>Portix_Prelude\<close>: results and errors (\<open>result\<close>), computations over a world (\<open>io\<close>), select loops
    driven by the list of events they take (\<open>run_loop\<close>), labelled runs (\<open>steps\<close>), and the interfaces
    \<open>loop_invariant\<close>, \<open>machine_invariant\<close> and \<open>registry\<close>. \<^verbatim>\<open>Rust_Str\<close>: the string functions of the
    Rust standard library the code uses.
  \<^item> \<^verbatim>\<open>Ssh_Domain\<close>: \<^verbatim>\<open>portix_serv/src/domain\<close>, profiles, errors, sessions and events.
  \<^item> \<^verbatim>\<open>Host_Keys\<close>: \<^verbatim>\<open>host_keys.rs\<close>; the machine \<open>hk_step\<close> of checks and trust requests over
    \<^verbatim>\<open>known_hosts\<close> and the pending keys.
  \<^item> \<^verbatim>\<open>Keyboard_Interactive\<close>: \<^verbatim>\<open>keyboard_interactive.rs\<close>; the rounds of a login, what is answered from
    the password and what waits for the user.
  \<^item> \<^verbatim>\<open>Ssh_Connect\<close>: the first half of \<^verbatim>\<open>ssh_client.rs\<close>; \<open>connect_forwarding_to\<close> recurses over jump
    hosts, checks each server's key with \<^verbatim>\<open>Host_Keys\<close> and logs in.
  \<^item> \<^verbatim>\<open>Ssh_Runtime\<close>: the other half of \<^verbatim>\<open>ssh_client.rs\<close>; the loop of a terminal session (\<open>term_step\<close>),
    one remote command (\<open>run_exec\<close>) and the background worker of a profile (\<open>worker_step\<close>).
  \<^item> \<^verbatim>\<open>Session_Spec\<close>: the specification of sessions (\<open>life_step\<close>) that both managers implement, and the
    interface \<open>session_refinement\<close> for a machine that does.
  \<^item> \<^verbatim>\<open>Ssh_Sessions\<close>: \<^verbatim>\<open>application/session_manager.rs\<close>; sessions, their tasks and calls as the machine
    \<open>sm_step\<close>, whose tasks run the start and the loop of \<^verbatim>\<open>Ssh_Runtime\<close> (\<open>runtime_start\<close>, \<open>term_step\<close>) step by
    step; the platform detection and the system snapshot with its scripts and parser.
  \<^item> \<^verbatim>\<open>Sftp_Client\<close>: \<^verbatim>\<open>sftp_client.rs\<close>; every file operation, with the SFTP library as a record of
    calls. \<^verbatim>\<open>Sftp_Upload\<close>: what a finished upload leaves on a file server.
    \<^verbatim>\<open>Sftp_Tree\<close>: what recursive deletion and copying do to the tree of a file server, over the interfaces
    \<open>listing_server\<close>, \<open>removing_server\<close> and \<open>copying_server\<close>. \<^verbatim>\<open>Sftp_Sessions\<close>: \<^verbatim>\<open>sftp_manager.rs\<close> and \<^verbatim>\<open>api/sftp.rs\<close>.
  \<^item> \<^verbatim>\<open>Port_Forward\<close>: \<^verbatim>\<open>port_forward.rs\<close>; the SOCKS5 handshake over bytes, the accept loop and the
    table of tunnels as the machine \<open>tn_step\<close>. \<^verbatim>\<open>Ssh_Api\<close>: \<^verbatim>\<open>api/ssh.rs\<close>.
  \<^item> \<^verbatim>\<open>Rdp_Domain\<close>: \<^verbatim>\<open>portix_rdp/src/domain\<close> with the parser of \<^verbatim>\<open>.rdp\<close> files. \<^verbatim>\<open>Rdp_Clipboard\<close>:
    \<^verbatim>\<open>clipboard.rs\<close>. \<^verbatim>\<open>Rdp_License\<close>: \<^verbatim>\<open>license_cache.rs\<close>, both caches behind the interface
    \<open>license_cache\<close>.
  \<^item> \<^verbatim>\<open>Rdp_Client\<close>: \<^verbatim>\<open>rdp_client.rs\<close> and \<^verbatim>\<open>rdpsnd.rs\<close>; connecting with its retry policy
    (\<open>connect_policy\<close>, \<open>try_connect\<close>), the license repair, the session loop (\<open>rdp_step\<close>), input
    and frames.
  \<^item> \<^verbatim>\<open>Rdp_Sessions\<close>: \<^verbatim>\<open>application/session_manager.rs\<close> and \<^verbatim>\<open>api.rs\<close> of \<^verbatim>\<open>portix_rdp\<close>; every call cut
    into its critical sections (\<open>call_step\<close>) and interleaved with the session tasks by
    \<open>rdp_mstep\<close>.
  \<^item> \<^verbatim>\<open>Sse_Codec\<close>: what the two \<^verbatim>\<open>frb_generated.rs\<close> and their counterparts \<^verbatim>\<open>frb_generated.dart\<close> share,
    the codecs of words, strings, vectors and options on both sides; its interfaces are \<open>wire_codec\<close>
    (one side decodes what the other encodes), \<open>wire_reader\<close> (what the other side makes of it) and
    \<open>typed_decoder\<close> (only well-formed values come out).
    \<^verbatim>\<open>Ssh_Bridge\<close>, \<^verbatim>\<open>Rdp_Bridge\<close>: the bridge of each crate, with the codec of every type, one wire
    function per API function, the dispatcher by function number
    (\<^verbatim>\<open>pde_ffi_dispatcher_primary_impl\<close>) and the Dart methods that call them. \<^verbatim>\<open>Dco_Codec\<close>: the other codec of both files, which turns every
    type into a Dart object and back, under the interface \<open>object_codec\<close>.

  This theory joins them: the connection of \<^verbatim>\<open>Ssh_Connect\<close> under SFTP and tunnels, the import of
  a profile under the RDP connection policy, the two session managers under one specification, and
  the two dispatchers.

  \<^bold>\<open>How code becomes definitions.\<close> A struct is a record, an enum a datatype, \<^verbatim>\<open>Result\<close> a sum with
  \<open>Err\<close> and \<open>Ok\<close>, a fixed-width integer a word, a string a list of characters that are its UTF-8
  bytes. An \<^verbatim>\<open>async fn\<close> maps a world to a result and the world it leaves. Global maps behind a lock
  are maps in a state record; where the code takes locks one after the other or runs tasks
  concurrently, the critical sections are the steps of a relation, and the properties hold for
  every interleaving. Library code (russh, russh_sftp, ironrdp, tokio, serde, the operating system)
  is a parameter: a record with one field for each call the code makes. What a property needs of
  it is a hypothesis of that property, and its witness gives a concrete library.

  \<^bold>\<open>What is shown.\<close> Trust: a server is accepted exactly when \<^verbatim>\<open>known_hosts\<close> records its key, every jump
  host is checked, only confirmed keys are recorded, changed keys never; files and tunnels, remote
  forwards included, inherit this. Logins: the password only answers password prompts, answered
  rounds resume. Sessions: in every interleaving of calls, tasks and runtimes exactly one final
  status each, what is typed reaches the server in order and unlost while the session runs, and
  both managers refine one specification. A terminal shows every byte the server sends up to the
  first message that ends it. Commands: the worker answers every request once, runs a command at
  most twice and for exactly its own profile. Files: deletion stays inside the folder and always
  ends, on a file server it removes exactly the subtree of the path the server resolves, copying
  reproduces the subtree and nothing else, listings hold safe names only, finished transfers leave
  the right content, also when they resume, and failed ones do not damage the old file. Tunnels:
  the SOCKS5 handshake round trip, what may be piped, the table. RDP: NLA is never dropped, parsed
  PSM profiles always use it, frames are faithful copies, the clipboard announces no text it got
  from the server unless writing it failed, and stays private when it is not shared. Bridges: a
  call of the application arrives as made and its result comes back as returned, less a byte
  order mark at the start of a string, and whatever bytes arrive, an API function only runs on
  well-formed arguments. Five theorems show defects: an exit status after the end of file is lost,
  the license repair loses its state, a late cleanup lets a profile have two sessions, copying a
  folder into itself never ends, and deleting a symbolic link deletes what it points to.

  \<^bold>\<open>Fuel.\<close> Recursive deletion and copy take fuel because the depth of a folder is up to the server.
  \<open>deleting_always_ends\<close> shows that some fuel suffices for a deletion on any folder of a file server,
  \<open>remove_deletes_exactly_the_subtree\<close> and \<open>copy_reproduces_the_subtree\<close> that fuel above the height of the
  subtree does. A keyboard-interactive
  exchange and the repairing finalisation take as many rounds as the server asks for; out of fuel
  means the call has not returned (for the finalisation its timeout). The decoder of an SSH profile
  follows its jump hosts as far as the bytes say and is a partial function; on every encoded profile
  it returns. Everything else is total.

  \<^bold>\<open>Not modelled.\<close> Of the generated bridges the declarations of the foreign functions and the empty
  dispatcher of synchronous calls; of the Flutter application everything
  but its side of the bridges; log
  output; timing, beyond ticks and timeouts as events; the bounded broadcast channels, whose lag
  is an event of the streams; the connections inside an established tunnel, which are byte copies
  of the library.
\<close>

section \<open>Connections across components\<close>

text \<open>
  What the managers may rely on when they connect a profile: \<open>trust\<close> is the part of the world that
  says which servers are trusted, and a connection that comes up has found every server on the way
  trusted by it. SFTP connections and tunnels inherit this.
\<close>

locale verified_dial =
  fixes dial_up :: "ssh_profile \<Rightarrow> ('w, portix_error, 's) io"
    and trust :: "'w \<Rightarrow> 'f"
    and trusted :: "'f \<Rightarrow> ssh_profile \<Rightarrow> bool"
  assumes dial_trusted: "dial_up p w = (Ok s, w') \<Longrightarrow> q \<in> set (hops p) \<Longrightarrow> trusted (trust w) q"
begin

lemma sftp_trusted:
  assumes "sftp_manager_connect ops dial_up cid p st = (Ok c, st')" "q \<in> set (hops p)"
  shows "trusted (trust (sa_world st)) q"
proof -
  from assms(1) obtain s w' where "dial_up p (sa_world st) = (Ok s, w')"
    by (auto simp: sftp_manager_connect_def io_bind_eq_Ok on_world_def split: prod.splits)
  then show ?thesis using assms(2) by (rule dial_trusted)
qed

lemma tunnel_trusted:
  assumes keep: "\<forall>f. keeps (\<lambda>w. trust w = f) (bind port) \<and> keeps (\<lambda>w. trust w = f) addr"
    and started: "start bind addr (\<lambda>p. io_bind (dial_up p) (\<lambda>_. io_ok ())) fid p port dest t = (Ok lf, t')"
    and hop: "q \<in> set (hops p)"
  shows "trusted (trust (tn_world t)) q"
proof -
  from started obtain x w1 y w2 s w3 where
    run: "bind port (tn_world t) = (Ok x, w1)" "addr w1 = (Ok y, w2)" "dial_up p w2 = (Ok s, w3)"
    by (auto simp: start_def io_bind_eq_Ok on_tunnel_world_eq_Ok case_prod_beta)
  have "trust w1 = trust (tn_world t)" "trust w2 = trust w1"
    using keepsD [of "\<lambda>w. trust w = trust (tn_world t)" "bind port" "tn_world t"]
      keepsD [of "\<lambda>w. trust w = trust w1" addr w1] keep run(1,2) by auto
  with dial_trusted [OF run(3) hop] show ?thesis by simp
qed

lemma remote_tunnel_trusted:
  assumes joins: "back_dial p (local_host, local_port) = io_bind (dial_up p) (\<lambda>_. io_ok ())"
    and started: "start_remote_forward back_dial listen fid p remote_port local_host local_port t = (Ok lf, t')"
    and hop: "q \<in> set (hops p)"
  shows "trusted (trust (tn_world t)) q"
proof -
  from started obtain s w' where "dial_up p (tn_world t) = (Ok s, w')"
    by (auto simp: start_remote_forward_def joins io_bind_eq_Ok on_tunnel_world_eq_Ok)
  then show ?thesis using hop by (rule dial_trusted)
qed

end

text \<open>
  The connection of \<^verbatim>\<open>ssh_client.rs\<close> as the managers use it: what they see of an exchange that is
  still going on is a call that has not returned, here the error \<open>waiting\<close>.
\<close>

definition dial ::
  "('k, 'd, 'f) keys_lib \<Rightarrow> ('n, 'k, 's, 'pk) ssh_lib \<Rightarrow> nat \<Rightarrow> portix_error \<Rightarrow> ssh_profile \<Rightarrow>
   (('n, 'k, 'f) ssh_world, portix_error, 's) io" where
  "dial kl lib fuel waiting p = io_map_err (unwrap_or waiting) (connect_and_authenticate_profile kl lib fuel p)"

definition dial_back ::
  "('k, 'd, 'f) keys_lib \<Rightarrow> ('n, 'k, 's, 'pk) ssh_lib \<Rightarrow> nat \<Rightarrow> portix_error \<Rightarrow> string \<times> u16 \<Rightarrow> ssh_profile \<Rightarrow>
   (('n, 'k, 'f) ssh_world, portix_error, 's) io" where
  "dial_back kl lib fuel waiting target p = io_map_err (unwrap_or waiting) (connect_for_remote_forward kl lib fuel p target)"

text \<open>A server presented a key that the \<^verbatim>\<open>known_hosts\<close> file \<open>f\<close> records for it.\<close>

definition presented_recorded_key ::
  "('k, 'd, 'f) keys_lib \<Rightarrow> ('n, 'k, 's, 'pk) ssh_lib \<Rightarrow> 'f \<Rightarrow> ssh_profile \<Rightarrow> bool" where
  "presented_recorded_key kl lib f q \<longleftrightarrow>
     (\<exists>via k n n'. key_exchange lib via (socket_addr q) n = (Done k, n') \<and> recorded_key kl f q k)"

interpretation verified: verified_dial "dial kl lib fuel waiting" sw_known_hosts "presented_recorded_key kl lib"
  for kl lib fuel waiting
proof unfold_locales
  fix p w s w' q
  assume "dial kl lib fuel waiting p w = (Ok s, w')" and q: "q \<in> set (hops p)"
  then have "connect_forwarding_to kl lib fuel None p w = (Ok s, w')"
    by (auto simp: dial_def connect_and_authenticate_profile_def with_default_known_hosts_def
        connect_with_known_hosts_def io_bind_eq_Ok)
  from hops_recorded [OF this q] show "presented_recorded_key kl lib (sw_known_hosts w) q"
    by (simp add: presented_recorded_key_def)
qed

interpretation verified_back: verified_dial "dial_back kl lib fuel waiting target" sw_known_hosts "presented_recorded_key kl lib"
  for kl lib fuel waiting target
proof unfold_locales
  fix p w s w' q
  assume "dial_back kl lib fuel waiting target p w = (Ok s, w')" and q: "q \<in> set (hops p)"
  then have "connect_forwarding_to kl lib fuel (Some target) p w = (Ok s, w')"
    by (auto simp: dial_back_def connect_for_remote_forward_def with_default_known_hosts_def io_bind_eq_Ok)
  from hops_recorded [OF this q] show "presented_recorded_key kl lib (sw_known_hosts w) q"
    by (simp add: presented_recorded_key_def)
qed

text \<open>
  C2: file access and tunnels rest on verified connections: an SFTP connection that comes up, a local
  or SOCKS tunnel that starts (given that binding a local port leaves \<^verbatim>\<open>known_hosts\<close> alone), and a
  remote forward that starts, have found for every server on the way, jump hosts included, a key
  that \<^verbatim>\<open>known_hosts\<close> recorded for that server before the call.
\<close>

theorem files_and_tunnels_use_verified_connections:
  assumes "q \<in> set (hops p)"
  shows "(sftp_manager_connect ops (dial kl lib fuel waiting) cid p st = (Ok c, st') \<longrightarrow>
      presented_recorded_key kl lib (sw_known_hosts (sa_world st)) q) \<and>
    ((\<forall>f. keeps (\<lambda>w. sw_known_hosts w = f) (bind port) \<and> keeps (\<lambda>w. sw_known_hosts w = f) addr) \<longrightarrow>
      start bind addr (\<lambda>p. io_bind (dial kl lib fuel waiting p) (\<lambda>_. io_ok ())) fid p port dest t = (Ok lf, t') \<longrightarrow>
      presented_recorded_key kl lib (sw_known_hosts (tn_world t)) q) \<and>
    (start_remote_forward (\<lambda>p target. io_bind (dial_back kl lib fuel waiting target p) (\<lambda>_. io_ok ())) tcpip_forward
        fid p remote_port local_host port t = (Ok lf, t') \<longrightarrow>
      presented_recorded_key kl lib (sw_known_hosts (tn_world t)) q)"
proof (intro conjI impI)
  assume "sftp_manager_connect ops (dial kl lib fuel waiting) cid p st = (Ok c, st')"
  then show "presented_recorded_key kl lib (sw_known_hosts (sa_world st)) q"
    using assms by (rule verified.sftp_trusted)
next
  assume bound: "\<forall>f. keeps (\<lambda>w. sw_known_hosts w = f) (bind port) \<and> keeps (\<lambda>w. sw_known_hosts w = f) addr"
    and started: "start bind addr (\<lambda>p. io_bind (dial kl lib fuel waiting p) (\<lambda>_. io_ok ())) fid p port dest t = (Ok lf, t')"
  show "presented_recorded_key kl lib (sw_known_hosts (tn_world t)) q"
    by (rule verified.tunnel_trusted [OF bound started assms])
next
  assume "start_remote_forward (\<lambda>p target. io_bind (dial_back kl lib fuel waiting target p) (\<lambda>_. io_ok ())) tcpip_forward
        fid p remote_port local_host port t = (Ok lf, t')"
  then show "presented_recorded_key kl lib (sw_known_hosts (tn_world t)) q"
    using assms by (rule verified_back.remote_tunnel_trusted [rotated])  simp
qed

text \<open>
  The profile the crate makes of the file of a CyberArk PSM connection never connects without NLA,
  whatever the file says: what holds before a connection and is kept by the library calls made with CredSSP on is
  kept by the connection of the imported profile, retries included.
\<close>

theorem imported_psm_profile_connects_with_nla:
  assumes "parse_rdp_file uni content pid name = Ok p" "is_cyberark_psm uni p"
    and "\<And>st msg w. I w \<Longrightarrow> I (emit st msg w)"
    and "\<And>config w. rc_enable_credssp config \<Longrightarrow> I w \<Longrightarrow> I (snd (rl_connect_begin lib config w))"
    and "\<And>config w. rc_enable_credssp config \<Longrightarrow> I w \<Longrightarrow> I (snd (rl_connect_finalize lib config w))"
    and "\<And>addr w. I w \<Longrightarrow> I (snd (rl_tcp_connect lib addr w))" "keeps I (rl_tcp_setup lib)"
    and "\<And>dir w. I w \<Longrightarrow> I (rl_create_dir lib dir w)" "\<And>host w. I w \<Longrightarrow> I (snd (rl_tls_upgrade lib host w))"
  shows "keeps I (connect_policy (try_connect lib fuel p) emit uni p)"
  by (rule keeps_credssp_policy [OF imported_psm_has_credssp [OF assms(1,2)] assms(3-9)])

text \<open>
  C10: both session managers implement one specification of sessions. Whatever their calls and tasks
  interleave, the reports they put on the status stream are those of a run of the specification that ends in
  the abstraction of the state they are in; so a listener sees of every session nothing before it
  starts, only progress while it lives, and after its end exactly one final report.
\<close>

theorem session_managers_refine_one_specification:
  assumes "steps (sm_step ops net0) new_machine ls m" "steps rdp_mstep (Map.empty, rdp_new) ls' w"
  shows "(\<exists>es. steps life_step (\<lambda>_. Unstarted) es (session_life (fst m)) \<and> session_reports (fst m) = concat (map visible es)) \<and>
    (\<exists>es. steps life_step (\<lambda>_. Unstarted) es (rdp_life w) \<and> rdp_reports w = concat (map visible es)) \<and>
    seen (session_life (fst m) s) (reports_of s (session_reports (fst m))) \<and>
    seen (rdp_life w s) (reports_of s (rdp_reports w))"
proof (intro conjI)
  have ssh: "session_life (fst new_machine) = (\<lambda>_. Unstarted)" "session_reports (fst new_machine) = []"
    by (auto simp: session_life_def session_reports_def new_machine_def new_manager_def)
  have rdp: "rdp_life (Map.empty, rdp_new) = (\<lambda>_. Unstarted)" "rdp_reports (Map.empty, rdp_new) = []"
    by (auto simp: rdp_life_def rdp_reports_def info_of_def rdp_new_def)
  show "\<exists>es. steps life_step (\<lambda>_. Unstarted) es (session_life (fst m)) \<and> session_reports (fst m) = concat (map visible es)"
    using ssh_sessions.refines [OF assms(1)] by (simp add: ssh)
  show "\<exists>es. steps life_step (\<lambda>_. Unstarted) es (rdp_life w) \<and> rdp_reports w = concat (map visible es)"
    using rdp_sessions.refines [OF assms(2)] by (simp add: rdp)
  show "seen (session_life (fst m) s) (reports_of s (session_reports (fst m)))"
    by (rule ssh_sessions.reports_seen [OF assms(1)]) (simp_all add: ssh)
  show "seen (rdp_life w s) (reports_of s (rdp_reports w))"
    by (rule rdp_sessions.reports_seen [OF assms(2)]) (simp_all add: rdp)
qed

text \<open>
  C36: only well-formed calls reach the API. Whatever function number and bytes arrive, and however
  the cursor reads them, a dispatcher either panics before any API function runs, or runs one
  function of its crate on well-formed arguments: every string valid UTF-8, also those of the jump
  hosts of a profile, every sequence of a length the format can express; a number that names no
  function always panics.
\<close>

theorem only_well_formed_calls_reach_the_api:
  "(case Ssh_Bridge.pde_ffi_dispatcher_primary_impl c run_ssh func_id message of
      None \<Rightarrow> True
    | Some x \<Rightarrow> 1 \<le> func_id \<and> func_id \<le> 35 \<and> (\<exists>call. ssh_call_ok call \<and> x = run_ssh call)) \<and>
   (case Rdp_Bridge.pde_ffi_dispatcher_primary_impl c run_rdp func_id message of
      None \<Rightarrow> True
    | Some x \<Rightarrow> 1 \<le> func_id \<and> func_id \<le> 11 \<and> (\<exists>call. rdp_call_ok call \<and> x = run_rdp call))"
proof (rule conjI)
  show "case Ssh_Bridge.pde_ffi_dispatcher_primary_impl c run_ssh func_id message of
      None \<Rightarrow> True
    | Some x \<Rightarrow> 1 \<le> func_id \<and> func_id \<le> 35 \<and> (\<exists>call. ssh_call_ok call \<and> x = run_ssh call)"
    using ssh_dispatch_typed [of c func_id message] ssh_dispatch_known [of c id func_id message]
    by (subst ssh_dispatch_run) (auto split: option.splits)
  show "case Rdp_Bridge.pde_ffi_dispatcher_primary_impl c run_rdp func_id message of
      None \<Rightarrow> True
    | Some x \<Rightarrow> 1 \<le> func_id \<and> func_id \<le> 11 \<and> (\<exists>call. rdp_call_ok call \<and> x = run_rdp call)"
    using rdp_dispatch_typed [of c func_id message] rdp_dispatch_known [of c id func_id message]
    by (subst rdp_dispatch_run) (auto split: option.splits)
qed

section \<open>Witnesses\<close>

theorem imported_psm_profile_connects_with_nla_witness:
  "\<exists>p. parse_rdp_file id (unlines (map print_setting demo_settings)) ''i'' None = Ok p \<and>
     fst (snd (connect_policy (try_connect demo_rdp_lib 0 p) (\<lambda>_ _ w. w) id p (True, 0)))"
proof -
  obtain p where p: "parse_rdp_file id (unlines (map print_setting demo_settings)) ''i'' None = Ok p"
    and shell: "rp_alternate_shell p = parse_rdp_lines id (unlines (map print_setting demo_settings)) ''alternate shell''"
    by (simp add: parse_rdp_file_def Let_def case_prod_beta)
  have "names_psm id (Some ''PSM@abc'')" by code_simp
  then have psm: "is_cyberark_psm id p"
    using shell parse_rdp_lines_print [OF demo_settings_ok] by (simp add: is_cyberark_psm_def demo_settings_def)
  have "keeps fst (connect_policy (try_connect demo_rdp_lib 0 p) (\<lambda>_ _ w. w) id p)"
    by (rule imported_psm_profile_connects_with_nla [OF p psm]) (auto simp: demo_rdp_lib_def split: prod.splits)
  from keepsD [OF this, of "(True, 0)"] p show ?thesis by auto
qed

theorem session_managers_refine_one_specification_witness:
  "\<exists>es. steps life_step (\<lambda>_. Unstarted) es (session_life demo_ended) \<and> session_life demo_ended ''s'' = Over \<and>
     [(''s'', Working), (''s'', Working), (''s'', Ended_well)] = concat (map visible es)"
proof -
  have "session_reports demo_ended = [(''s'', Working), (''s'', Working), (''s'', Ended_well)]"
    "session_life demo_ended ''s'' = Over"
    by (simp_all add: session_reports_def session_life_def demo_ended_def session_demo_defs)
  with session_managers_refine_one_specification [OF demo_run demo_connected] show ?thesis by auto
qed

text \<open>A file server that only opens, over the connection of the demonstration profile.\<close>

definition opening_ops :: "unit \<Rightarrow> ((nat, string, (string \<times> u16 \<times> string) list) ssh_world, unit) sftp_ops" where
  "opening_ops _ =
     \<lparr>so_channel_open_session = io_ok (), so_request_subsystem = (\<lambda>_. io_ok ()), so_session_new = io_ok (),
      so_is_closed = (\<lambda>_. False), so_close = io_ok (), so_disconnect = io_ok (), so_canonicalize = io_ok,
      so_read_dir = (\<lambda>_. io_ok []), so_metadata = (\<lambda>_. io_err []), so_symlink_metadata = (\<lambda>_. io_err []),
      so_read = (\<lambda>_. io_err []), so_create_dir = (\<lambda>_. io_err []), so_set_permissions = (\<lambda>_ _. io_err []),
      so_rename = (\<lambda>_ _. io_err []), so_remove_file = (\<lambda>_. io_err []), so_remove_dir = (\<lambda>_. io_err []),
      so_open = (\<lambda>_ _. io_err []), so_seek = (\<lambda>_ _. io_err []), so_reads = (\<lambda>_ _. []),
      so_write_all = (\<lambda>_ _. io_err []), so_flush = (\<lambda>_. io_err []), so_shutdown = (\<lambda>_. io_err [])\<rparr>"

definition demo_dial :: "ssh_profile \<Rightarrow> ((nat, string, (string \<times> u16 \<times> string) list) ssh_world, portix_error, unit) io" where
  "demo_dial = dial list_lib demo_lib 1 TransferCancelled"

definition demo_dial_back ::
  "ssh_profile \<Rightarrow> string \<times> u16 \<Rightarrow> ((nat, string, (string \<times> u16 \<times> string) list) ssh_world, portix_error, unit) io" where
  "demo_dial_back = (\<lambda>p target. io_bind (dial_back list_lib demo_lib 1 TransferCancelled target p) (\<lambda>_. io_ok ()))"

lemma demo_dial_up:
  "demo_dial inner_profile demo_world = (Ok (), demo_world\<lparr>sw_net := 2, sw_pending := Map.empty\<rparr>)"
  "demo_dial_back inner_profile target demo_world = (Ok (), demo_world\<lparr>sw_net := 2, sw_pending := Map.empty\<rparr>)"
proof -
  have "connect_forwarding_to list_lib demo_lib 1 (Some target) inner_profile demo_world =
      (Ok (), demo_world\<lparr>sw_net := 2, sw_pending := Map.empty\<rparr>)"
    by (simp add: connect_forwarding_to.simps demo_defs inner_profile_def gate_profile_def demo_world_def numeral_2_eq_2)
  then show "demo_dial inner_profile demo_world = (Ok (), demo_world\<lparr>sw_net := 2, sw_pending := Map.empty\<rparr>)"
    "demo_dial_back inner_profile target demo_world = (Ok (), demo_world\<lparr>sw_net := 2, sw_pending := Map.empty\<rparr>)"
    using demo_connect
    by (simp_all add: demo_dial_def demo_dial_back_def dial_def dial_back_def connect_and_authenticate_profile_def
        connect_for_remote_forward_def with_default_known_hosts_def connect_with_known_hosts_def io_bind_def home_dir_def
        default_known_hosts_path_def demo_lib_def io_map_err_def)
qed

text \<open>
  Through the gate to the inner host: files and both kinds of tunnel come up, so the gate presented
  its recorded key; without its record no remote forward starts.
\<close>

theorem files_and_tunnels_use_verified_connections_witness:
  "let st = \<lparr>sa_world = demo_world, sa_connections = Map.empty, sa_local = Map.empty\<rparr>;
       tunnels = \<lambda>w. \<lparr>tn_world = w, tn_active = Map.empty, tn_tasks = Map.empty\<rparr>;
       remote = \<lambda>w. start_remote_forward demo_dial_back (\<lambda>_ _. io_ok 8080) ''f'' inner_profile 0 ''localhost'' 80 (tunnels w)
   in (\<exists>c st'. sftp_manager_connect opening_ops demo_dial ''c'' inner_profile st = (Ok c, st')) \<and>
     (\<exists>lf t'. start (\<lambda>_. io_ok ()) (io_ok 5000) (\<lambda>p. io_bind (demo_dial p) (\<lambda>_. io_ok ())) ''f'' inner_profile 0 Socks
        (tunnels demo_world) = (Ok lf, t')) \<and>
     (\<exists>lf t'. remote demo_world = (Ok lf, t') \<and> lf_remote_port lf = 8080) \<and>
     presented_recorded_key list_lib demo_lib (sw_known_hosts demo_world) gate_profile \<and>
     (\<nexists>lf t'. remote (demo_world\<lparr>sw_known_hosts := [(''inner'', 22, ''K'')]\<rparr>) = (Ok lf, t'))"
proof -
  let ?st = "\<lparr>sa_world = demo_world, sa_connections = Map.empty, sa_local = Map.empty\<rparr>"
  let ?t = "\<lambda>w. \<lparr>tn_world = w, tn_active = Map.empty, tn_tasks = Map.empty\<rparr>"
  let ?remote = "\<lambda>w. start_remote_forward demo_dial_back (\<lambda>_ _. io_ok 8080) ''f'' inner_profile 0 ''localhost'' 80 (?t w)"
  let ?old = "demo_world\<lparr>sw_known_hosts := [(''inner'', 22, ''K'')]\<rparr>"
  have gate: "gate_profile \<in> set (hops inner_profile)" by (simp add: inner_profile_def gate_profile_def)
  note verified = files_and_tunnels_use_verified_connections [OF gate]
  have "validate inner_profile = Ok ()" by code_simp
  then have files: "\<exists>c st'. sftp_manager_connect opening_ops demo_dial ''c'' inner_profile ?st = (Ok c, st')"
    by (simp add: sftp_manager_connect_def sftp_open_def over_def opening_ops_def io_bind_def io_map_err_def on_world_def
        demo_dial_up)
  have socks: "\<exists>lf t'. start (\<lambda>_. io_ok ()) (io_ok 5000) (\<lambda>p. io_bind (demo_dial p) (\<lambda>_. io_ok ())) ''f'' inner_profile 0 Socks
      (?t demo_world) = (Ok lf, t')"
    by (simp add: start_def io_bind_def io_map_err_def on_tunnel_world_def register_def demo_dial_up)
  have remote: "\<exists>lf t'. ?remote demo_world = (Ok lf, t') \<and> lf_remote_port lf = 8080"
    by (simp add: start_remote_forward_def io_bind_def io_map_err_def on_tunnel_world_def register_def demo_dial_up)
  then have gate_key: "presented_recorded_key list_lib demo_lib (sw_known_hosts demo_world) gate_profile"
    using verified [THEN conjunct2, THEN conjunct2] unfolding demo_dial_back_def by fastforce
  have "\<not> presented_recorded_key list_lib demo_lib (sw_known_hosts ?old) gate_profile"
    by (simp add: presented_recorded_key_def recorded_key_def list_lib_def gate_profile_def)
  then have "\<nexists>lf t'. ?remote ?old = (Ok lf, t')"
    using verified [THEN conjunct2, THEN conjunct2] unfolding demo_dial_back_def by fastforce
  with files socks remote gate_key show ?thesis unfolding Let_def by blast
qed

end
